(* ===== verification/DM_Prelude.thy ===== *)
theory DM_Prelude
  imports Main "HOL-Library.Word"
begin

text \<open>
  Shared vocabulary of the development: the machine integers of the Rust sources with their
  saturating and checked operations, the three-way result of a fallible Rust function (a value,
  an \<^verbatim>\<open>Err\<close> or a panic), list operations that model \<^verbatim>\<open>VecDeque\<close> traversals, and the generic
  locale of a guarded transition system, interpreted by every stateful component.
\<close>

section \<open>Machine integers\<close>

type_synonym u8 = "8 word"
type_synonym u16 = "16 word"
type_synonym u32 = "32 word"
type_synonym u64 = "64 word"
type_synonym u128 = "128 word"

named_theorems int_arith_defs \<open>definitions of the saturating and checked integer operations\<close>

text \<open>\<^verbatim>\<open>uN::saturating_add\<close>, \<^verbatim>\<open>saturating_sub\<close>, \<^verbatim>\<open>checked_add\<close> and \<^verbatim>\<open>checked_sub\<close> of the standard library.\<close>

definition saturating_add :: "'a::len word \<Rightarrow> 'a word \<Rightarrow> 'a word" where
  [int_arith_defs]: "saturating_add a b = (if unat a + unat b < 2 ^ LENGTH('a) then a + b else - 1)"

definition saturating_sub :: "'a::len word \<Rightarrow> 'a word \<Rightarrow> 'a word" where
  [int_arith_defs]: "saturating_sub a b = (if b \<le> a then a - b else 0)"

definition checked_add :: "'a::len word \<Rightarrow> 'a word \<Rightarrow> 'a word option" where
  [int_arith_defs]: "checked_add a b = (if unat a + unat b < 2 ^ LENGTH('a) then Some (a + b) else None)"

definition checked_sub :: "'a::len word \<Rightarrow> 'a word \<Rightarrow> 'a word option" where
  [int_arith_defs]: "checked_sub a b = (if b \<le> a then Some (a - b) else None)"

lemma unat_max_word: "unat (- 1 :: 'a::len word) = 2 ^ LENGTH('a) - 1"
  by (simp add: unsigned_minus_1_eq_mask mask_eq_exp_minus_1)

lemma unat_saturating_add:
  "unat (saturating_add a b) = min (unat a + unat b) (2 ^ LENGTH('a) - 1)" for a b :: "'a::len word"
proof (cases "unat a + unat b < 2 ^ LENGTH('a)")
  case True
  then show ?thesis by (simp add: saturating_add_def unat_word_ariths)
next
  case False
  then show ?thesis by (simp add: saturating_add_def unat_max_word)
qed

lemma saturating_add_ge [simp]: "a \<le> saturating_add a b"
proof -
  have "unat a \<le> 2 ^ LENGTH('a) - 1" for a :: "'a word"
    using unsigned_less [of a, where ?'a = nat] by linarith
  then show ?thesis
    by (simp add: word_le_nat_alt unat_saturating_add)
qed

lemma saturating_add_gt: "0 < b \<Longrightarrow> a < - 1 \<Longrightarrow> a < saturating_add a b"
proof -
  assume b: "0 < b" and a: "a < - 1"
  have "unat a < 2 ^ LENGTH('a) - 1"
    using a by (simp add: word_less_nat_alt unat_max_word)
  moreover have "0 < unat b" using b by (simp add: word_less_nat_alt)
  ultimately show ?thesis
    by (simp add: word_less_nat_alt unat_saturating_add)
qed

lemma checked_add_SomeD: "checked_add a b = Some c \<Longrightarrow> unat c = unat a + unat b"
  by (auto simp: checked_add_def unat_word_ariths split: if_splits)

lemma checked_add_one_less: "checked_add a 1 = Some b \<Longrightarrow> a < b" for a b :: "'a::len word"
  by (drule checked_add_SomeD) (simp add: word_less_nat_alt)

lemma checked_sub_SomeD: "checked_sub a b = Some c \<Longrightarrow> unat c = unat a - unat b \<and> b \<le> a"
  by (auto simp: checked_sub_def unat_sub split: if_splits)

section \<open>Time\<close>

text \<open>
  \<^verbatim>\<open>Instant\<close> and \<^verbatim>\<open>Duration\<close> of the standard library in nanoseconds; an instant has a signed 64-bit
  number of seconds, beyond which \<^verbatim>\<open>checked_add\<close> is \<^const>\<open>None\<close>.
\<close>

type_synonym Instant = nat
type_synonym Duration = nat

definition Instant_checked_add :: "Instant \<Rightarrow> Duration \<Rightarrow> Instant option" where
  "Instant_checked_add now d = (if now + d < 2 ^ 63 * 10 ^ 9 then Some (now + d) else None)"

section \<open>Fallible computations\<close>

text \<open>
  A Rust function returning \<^verbatim>\<open>Result<T, E>\<close> ends with a value, with an error, or it panics
  (\<^verbatim>\<open>expect\<close> on a missing value, a failed assertion). A panic is a value of its own so that its
  absence can be proved.
\<close>

datatype ('e, 'a) outcome = Ok 'a | Err 'e | Panic

definition expecting :: "'b option \<Rightarrow> ('b \<Rightarrow> ('e, 'a) outcome) \<Rightarrow> ('e, 'a) outcome" where
  "expecting v k = (case v of None \<Rightarrow> Panic | Some x \<Rightarrow> k x)"

lemma expecting_simps [simp]:
  "expecting None k = Panic"
  "expecting (Some x) k = k x"
  by (simp_all add: expecting_def)

lemma expecting_eq_Ok: "expecting v k = Ok y \<longleftrightarrow> (\<exists>x. v = Some x \<and> k x = Ok y)"
  by (cases v) auto

lemma expecting_not_Panic: "expecting v k \<noteq> Panic \<longleftrightarrow> (\<exists>x. v = Some x \<and> k x \<noteq> Panic)"
  by (cases v) auto

text \<open>The operator \<^verbatim>\<open>?\<close>: the rest of the function runs on the value only.\<close>

definition and_then :: "('e, 'b) outcome \<Rightarrow> ('b \<Rightarrow> ('e, 'a) outcome) \<Rightarrow> ('e, 'a) outcome" where
  "and_then r k = (case r of Ok x \<Rightarrow> k x | Err e \<Rightarrow> Err e | Panic \<Rightarrow> Panic)"

lemma and_then_simps [simp]:
  "and_then (Ok x) k = k x"
  "and_then (Err e) k = Err e"
  "and_then Panic k = Panic"
  by (simp_all add: and_then_def)

lemma and_then_eq_Ok: "and_then r k = Ok y \<longleftrightarrow> (\<exists>x. r = Ok x \<and> k x = Ok y)"
  by (cases r) auto

lemma and_then_eq_Err: "and_then r k = Err e \<longleftrightarrow> r = Err e \<or> (\<exists>x. r = Ok x \<and> k x = Err e)"
  by (cases r) auto

lemma and_then_eq_Panic: "and_then r k = Panic \<longleftrightarrow> r = Panic \<or> (\<exists>x. r = Ok x \<and> k x = Panic)"
  by (cases r) auto

section \<open>Deque traversals\<close>

text \<open>\<^verbatim>\<open>iter().rev().find(p)\<close>: the last element with the property.\<close>

definition find_last :: "('a \<Rightarrow> bool) \<Rightarrow> 'a list \<Rightarrow> 'a option" where
  "find_last p xs = find p (rev xs)"

text \<open>An assignment through \<^verbatim>\<open>iter_mut().rev().find(p)\<close>: the last such element is replaced.\<close>

fun update_last :: "('a \<Rightarrow> bool) \<Rightarrow> ('a \<Rightarrow> 'a) \<Rightarrow> 'a list \<Rightarrow> 'a list" where
  "update_last p f [] = []"
| "update_last p f (x # xs) =
     (if list_ex p xs then x # update_last p f xs
      else if p x then f x # xs else x # xs)"

text \<open>\<^verbatim>\<open>position(p)\<close> followed by \<^verbatim>\<open>remove(position)\<close>: the first such element is removed.\<close>

fun remove_first :: "('a \<Rightarrow> bool) \<Rightarrow> 'a list \<Rightarrow> 'a list" where
  "remove_first p [] = []"
| "remove_first p (x # xs) = (if p x then xs else x # remove_first p xs)"

lemma find_last_simps [simp]:
  "find_last p [] = None"
  "find_last p (xs @ [x]) = (if p x then Some x else find_last p xs)"
  by (simp_all add: find_last_def)

lemma find_append: "find p (xs @ ys) = (case find p xs of None \<Rightarrow> find p ys | Some x \<Rightarrow> Some x)"
  by (induction xs) auto

lemma find_last_Cons:
  "find_last p (x # xs) = (case find_last p xs of None \<Rightarrow> if p x then Some x else None | Some y \<Rightarrow> Some y)"
  by (simp add: find_last_def find_append split: option.splits)

lemma find_last_SomeD: "find_last p xs = Some x \<Longrightarrow> x \<in> set xs \<and> p x"
  unfolding find_last_def by (metis find_Some_iff nth_mem set_rev)

lemma find_last_None_iff: "find_last p xs = None \<longleftrightarrow> (\<forall>x\<in>set xs. \<not> p x)"
  by (auto simp: find_last_def find_None_iff)

lemma find_last_not_None: "x \<in> set xs \<Longrightarrow> p x \<Longrightarrow> \<exists>y. find_last p xs = Some y"
  by (metis find_last_None_iff not_None_eq)

lemma length_update_last [simp]: "length (update_last p f xs) = length xs"
  by (induction xs) auto

lemma map_update_last: "(\<And>x. g (f x) = g x) \<Longrightarrow> map g (update_last p f xs) = map g xs"
  by (induction xs) auto

lemma set_update_last_subset: "set (update_last p f xs) \<subseteq> set xs \<union> f ` set xs"
  by (induction xs) auto

lemma find_last_update_last:
  assumes "\<And>x. p x \<Longrightarrow> p (f x)"
  shows "find_last p (update_last p f xs) = map_option f (find_last p xs)"
  using assms
proof (induction xs)
  case Nil
  then show ?case by simp
next
  case (Cons x xs)
  have none: "find_last p xs = None \<longleftrightarrow> \<not> list_ex p xs"
    by (auto simp: find_last_None_iff list_ex_iff)
  show ?case
    using Cons none by (cases "find_last p xs") (simp_all add: find_last_Cons)
qed

lemma set_remove_first_subset: "set (remove_first p xs) \<subseteq> set xs"
  by (induction xs) auto

lemma length_remove_first_le: "length (remove_first p xs) \<le> length xs"
  by (induction xs) auto

lemma distinct_map_remove_first: "distinct (map g xs) \<Longrightarrow> distinct (map g (remove_first p xs))"
proof (induction xs)
  case (Cons x xs)
  then show ?case using set_remove_first_subset [of p xs] by auto
qed simp

lemma remove_first_key_gone:
  "distinct (map g xs) \<Longrightarrow> k \<notin> g ` set (remove_first (\<lambda>x. g x = k) xs)"
  by (induction xs) auto

section \<open>Guarded transition systems\<close>

text \<open>
  The contract between a stateful component and its clients: an initial-state predicate, a step
  function that may reject an input, and an invariant that holds at the start and that every
  accepted step keeps. The clients' fact is that the invariant holds in every reachable state
  and after every accepted run.
\<close>

locale guarded_system =
  fixes initial :: "'s \<Rightarrow> bool"
    and step :: "'s \<Rightarrow> 'i \<Rightarrow> 's option"
    and inv :: "'s \<Rightarrow> bool"
  assumes inv_initial: "initial s \<Longrightarrow> inv s"
    and inv_step: "inv s \<Longrightarrow> step s i = Some s' \<Longrightarrow> inv s'"
begin

inductive reachable :: "'s \<Rightarrow> bool" where
  start: "initial s \<Longrightarrow> reachable s"
| step: "reachable s \<Longrightarrow> step s i = Some s' \<Longrightarrow> reachable s'"

primrec run :: "'s \<Rightarrow> 'i list \<Rightarrow> 's" where
  "run s [] = s"
| "run s (i # is) = run (case step s i of None \<Rightarrow> s | Some s' \<Rightarrow> s') is"

lemma reachable_inv: "reachable s \<Longrightarrow> inv s"
  by (induction rule: reachable.induct) (auto intro: inv_initial inv_step)

lemma run_inv: "inv s \<Longrightarrow> inv (run s is)"
  by (induction "is" arbitrary: s) (auto split: option.splits intro: inv_step)

lemma run_reachable: "reachable s \<Longrightarrow> reachable (run s is)"
  by (induction "is" arbitrary: s) (auto split: option.splits intro: reachable.step)

lemma run_append: "run s (is @ js) = run (run s is) js"
  by (induction "is" arbitrary: s) auto

end

end
