(* ===== verification/Domain.thy ===== *)
theory Domain
  imports DM_Prelude
begin

text \<open>
  The data model of the display controller, \<^verbatim>\<open>tv-multiview/src/domain.rs\<close>: hosts, display and
  transport states, leases, grants, requests and sessions, the whole controller state with its
  queries, the bounded request history, and the run-time consistency check \<^verbatim>\<open>validate\<close>.

  Field names carry a short prefix of their struct where two structs share a name
  (\<open>req_\<close> for \<^verbatim>\<open>EnterRequest\<close>, \<open>ses_\<close> for \<^verbatim>\<open>ActiveSession\<close>, \<open>grant_\<close> for \<^verbatim>\<open>GrantIdentity\<close>,
  \<open>sig_\<close> for \<^verbatim>\<open>SignalObservation\<close>, \<open>peer_\<close> for \<^verbatim>\<open>PeerReadiness\<close>). A \<^verbatim>\<open>BTreeMap\<close> is a map, a
  \<^verbatim>\<open>BTreeSet\<close> a set, a \<^verbatim>\<open>VecDeque\<close> a list whose head is the front. \<^verbatim>\<open>u64\<close> stays a 64-bit word;
  the one \<^verbatim>\<open>usize\<close> field is a capacity that is only compared with lengths and is a \<^typ>\<open>nat\<close>.
\<close>

section \<open>Hosts\<close>

datatype Host = Controller | Right | Left

definition Host_ALL :: "Host list" where
  "Host_ALL = [Controller, Left, Right]"

fun Host_as_str :: "Host \<Rightarrow> string" where
  "Host_as_str Controller = ''controller''"
| "Host_as_str Right = ''right''"
| "Host_as_str Left = ''left''"

datatype HostParseError = HostParseError string

definition Host_from_str :: "string \<Rightarrow> (HostParseError, Host) outcome" where
  "Host_from_str value =
     (if value = ''controller'' then Ok Controller
      else if value = ''right'' then Ok Right
      else if value = ''left'' then Ok Left
      else Err (HostParseError value))"

lemma Host_ALL_UNIV [simp]: "set Host_ALL = UNIV"
proof -
  have "h \<in> set Host_ALL" for h by (cases h) (auto simp: Host_ALL_def)
  then show ?thesis by blast
qed

lemma Host_from_as_str [simp]: "Host_from_str (Host_as_str h) = Ok h"
  by (cases h) (simp_all add: Host_from_str_def)

text \<open>The derived \<^verbatim>\<open>Ord\<close>: constructors in declaration order.\<close>

fun Host_index :: "Host \<Rightarrow> nat" where
  "Host_index Controller = 0"
| "Host_index Right = 1"
| "Host_index Left = 2"

lemma Host_index_inj: "Host_index a = Host_index b \<Longrightarrow> a = b"
  by (cases a; cases b) simp_all

instantiation Host :: linorder
begin

definition less_eq_Host :: "Host \<Rightarrow> Host \<Rightarrow> bool" where
  "less_eq_Host a b = (Host_index a \<le> Host_index b)"

definition less_Host :: "Host \<Rightarrow> Host \<Rightarrow> bool" where
  "less_Host a b = (Host_index a < Host_index b)"

instance
  by standard (auto simp: less_eq_Host_def less_Host_def intro: Host_index_inj)

end

section \<open>States of the display, the transport and the protocol\<close>

datatype TvMode = Unknown | Fullscreen | Multiview

datatype WsState = Disconnected | Connecting | Registering | Synchronizing | Connected

datatype ProtocolPhase =
    Starting | Idle | Waking | Switching | Verifying | GrantPending | RemoteOwned
  | FallbackCommandPending | FallbackVerifying | FallbackDeferred | MultiviewChanging

record PeerReadiness =
  peer_online :: bool
  peer_keyboard_ready :: bool
  peer_pointer_ready :: bool
  peer_session :: u64
  peer_observed_at_ms :: u64

definition PeerReadiness_default :: PeerReadiness where
  "PeerReadiness_default =
     \<lparr>peer_online = False, peer_keyboard_ready = False, peer_pointer_ready = False,
      peer_session = 0, peer_observed_at_ms = 0\<rparr>"

definition bundle_ready :: "PeerReadiness \<Rightarrow> u64 \<Rightarrow> bool" where
  "bundle_ready r session_epoch \<longleftrightarrow>
     peer_online r \<and> peer_keyboard_ready r \<and> peer_pointer_ready r \<and> peer_session r = session_epoch"

record LeaseIdentity =
  lease_id :: string
  lease_epoch :: u64
  peer_session_epoch :: u64
  lease_expires_at_ms :: u64

record GrantIdentity =
  grant_grant_epoch :: u64
  grant_switch_epoch :: u64
  grant_expires_at_ms :: u64

datatype RequestStatus =
  Waking | Switching | Grant | Committed | Denied | Cancelled | Fallback | Expired

record EnterRequest =
  req_request_id :: string
  req_client_id :: string
  req_target :: Host
  req_request_epoch :: u64
  req_lease :: LeaseIdentity
  req_status :: RequestStatus
  req_switch_epoch :: "u64 option"
  req_grant :: "GrantIdentity option"
  req_deadline_ms :: u64
  req_reason :: "string option"

record ActiveSession =
  ses_request_id :: string
  ses_target :: Host
  ses_request_epoch :: u64
  ses_switch_epoch :: u64
  ses_lease :: LeaseIdentity
  ses_renewed_until_ms :: u64

record SignalObservation =
  sig_present :: bool
  sig_switch_epoch :: u64
  sig_observed_at_ms :: u64

definition SignalObservation_default :: SignalObservation where
  "SignalObservation_default = \<lparr>sig_present = False, sig_switch_epoch = 0, sig_observed_at_ms = 0\<rparr>"

section \<open>The controller state\<close>

record ProtocolState =
  server_host :: Host
  display_hosts :: "Host set"
  ws_state :: WsState
  subscribe_active :: bool
  synchronized :: bool
  phase :: ProtocolPhase
  tv_mode :: TvMode
  commanded_input :: "Host option"
  observed_input :: "Host option"
  input_signal :: "Host \<rightharpoonup> SignalObservation"
  peers :: "Host \<rightharpoonup> PeerReadiness"
  request_epoch :: u64
  switch_epoch :: u64
  verified_epoch :: "u64 option"
  grant_epoch :: u64
  keyboard_owner :: Host
  pointer_owner :: Host
  active_request :: "EnterRequest option"
  request_history :: "EnterRequest list"
  retained_request_limit :: nat
  active_session :: "ActiveSession option"
  pending_multiview :: "bool option"
  observation_in_flight :: "u64 option"
  phase_deadline_ms :: "u64 option"
  next_signal_poll_ms :: "u64 option"
  fallback_required :: bool
  fallback_reason :: "string option"
  manual_recovery_target :: "Host option"
  reconnect_total :: u64
  switch_count :: "Host \<rightharpoonup> u64"
  last_error :: "string option"
  dropped_logs :: u64

text \<open>
  \<^verbatim>\<open>with_display_hosts\<close> asserts that the history bound is positive and that the server host has a
  display route: the result is \<^const>\<open>None\<close> where an assertion panics.
\<close>

definition with_display_hosts :: "Host \<Rightarrow> nat \<Rightarrow> Host list \<Rightarrow> ProtocolState option" where
  "with_display_hosts server limit hosts =
     (if limit = 0 then None
      else if server \<notin> set hosts then None
      else Some
        \<lparr>server_host = server,
         display_hosts = set hosts,
         ws_state = Disconnected,
         subscribe_active = False,
         synchronized = False,
         phase = FallbackDeferred,
         tv_mode = Unknown,
         commanded_input = None,
         observed_input = None,
         input_signal = map_of (map (\<lambda>h. (h, SignalObservation_default)) Host_ALL),
         peers = map_of (map (\<lambda>h. (h, PeerReadiness_default)) Host_ALL),
         request_epoch = 0,
         switch_epoch = 0,
         verified_epoch = None,
         grant_epoch = 0,
         keyboard_owner = server,
         pointer_owner = server,
         active_request = None,
         request_history = [],
         retained_request_limit = limit,
         active_session = None,
         pending_multiview = None,
         observation_in_flight = None,
         phase_deadline_ms = None,
         next_signal_poll_ms = None,
         fallback_required = True,
         fallback_reason = Some ''startup_unsynchronized'',
         manual_recovery_target = None,
         reconnect_total = 0,
         switch_count = map_of (map (\<lambda>h. (h, 0)) Host_ALL),
         last_error = None,
         dropped_logs = 0\<rparr>)"

definition has_display_route :: "ProtocolState \<Rightarrow> Host \<Rightarrow> bool" where
  "has_display_route s h \<longleftrightarrow> h \<in> display_hosts s"

definition daemon_healthy :: "ProtocolState \<Rightarrow> bool" where
  "daemon_healthy s \<longleftrightarrow> ws_state s = Connected \<and> subscribe_active s \<and> synchronized s"

definition ready :: "ProtocolState \<Rightarrow> bool" where
  "ready s \<longleftrightarrow> daemon_healthy s \<and> \<not> fallback_required s \<and> phase s \<noteq> FallbackDeferred"

text \<open>\<^verbatim>\<open>Option::filter\<close>.\<close>

definition option_filter :: "('a \<Rightarrow> bool) \<Rightarrow> 'a option \<Rightarrow> 'a option" where
  "option_filter p v = (case v of None \<Rightarrow> None | Some x \<Rightarrow> if p x then Some x else None)"

definition request :: "ProtocolState \<Rightarrow> string \<Rightarrow> EnterRequest option" where
  "request s rid =
     (case option_filter (\<lambda>r. req_request_id r = rid) (active_request s) of
        Some r \<Rightarrow> Some r
      | None \<Rightarrow> find_last (\<lambda>r. req_request_id r = rid) (request_history s))"

text \<open>
  \<^verbatim>\<open>archived_request_mut\<close> returns a mutable reference; the model is the lookup it performs and
  the assignment made through it.
\<close>

definition archived_request :: "ProtocolState \<Rightarrow> string \<Rightarrow> EnterRequest option" where
  "archived_request s rid = find_last (\<lambda>r. req_request_id r = rid) (request_history s)"

definition archived_request_mut ::
  "ProtocolState \<Rightarrow> string \<Rightarrow> (EnterRequest \<Rightarrow> EnterRequest) \<Rightarrow> ProtocolState" where
  "archived_request_mut s rid f =
     s\<lparr>request_history := update_last (\<lambda>r. req_request_id r = rid) f (request_history s)\<rparr>"

text \<open>
  \<^verbatim>\<open>while len >= limit { pop_front }\<close>. The bound is positive in every constructed state
  (\<^const>\<open>with_display_hosts\<close> asserts it and nothing assigns the field), so the loop ends with a
  non-full history; on the empty history the guard is then false.
\<close>

fun pop_front_until_below :: "nat \<Rightarrow> 'a list \<Rightarrow> 'a list" where
  "pop_front_until_below limit [] = []"
| "pop_front_until_below limit (x # xs) =
     (if length (x # xs) \<ge> limit then pop_front_until_below limit xs else x # xs)"

definition archive_request :: "ProtocolState \<Rightarrow> EnterRequest \<Rightarrow> ProtocolState" where
  "archive_request s r =
     (let h = remove_first (\<lambda>e. req_request_id e = req_request_id r) (request_history s);
          h = pop_front_until_below (retained_request_limit s) h
      in s\<lparr>request_history := h @ [r]\<rparr>)"

text \<open>\<^verbatim>\<open>into_iter().flatten().min()\<close> over an array of optional deadlines.\<close>

definition flatten_min :: "u64 option list \<Rightarrow> u64 option" where
  "flatten_min ds =
     (case List.map_filter id ds of [] \<Rightarrow> None | d # ds' \<Rightarrow> Some (fold min ds' d))"

definition next_deadline_ms :: "ProtocolState \<Rightarrow> u64 option" where
  "next_deadline_ms s =
     flatten_min
       [phase_deadline_ms s,
        next_signal_poll_ms s,
        map_option req_deadline_ms (active_request s),
        map_option (\<lambda>ses. min (ses_renewed_until_ms ses) (lease_expires_at_ms (ses_lease ses)))
          (active_session s)]"

section \<open>The run-time check\<close>

datatype InvariantViolation =
    SplitInputOwnership
  | FallbackOwnsRemoteInput
  | ManualRecoveryTargetsServer
  | ManualRecoveryWhileInputActive
  | RemoteOwnerWithoutSession
  | RemoteOwnerSessionMismatch
  | RemoteOwnerLeaseExpired
  | RemoteOwnerNotReady
  | RemoteOwnerWithoutVerifiedDisplay
  | GrantStateWithoutGrant
  | GrantEpochMismatch

fun InvariantViolation_to_string :: "InvariantViolation \<Rightarrow> string" where
  "InvariantViolation_to_string SplitInputOwnership = ''keyboard and pointer ownership split''"
| "InvariantViolation_to_string FallbackOwnsRemoteInput =
     ''fallback required while remote input remains owned''"
| "InvariantViolation_to_string ManualRecoveryTargetsServer =
     ''manual recovery target must be a remote host''"
| "InvariantViolation_to_string ManualRecoveryWhileInputActive =
     ''manual recovery cannot be armed while an input transaction is active''"
| "InvariantViolation_to_string RemoteOwnerWithoutSession =
     ''remote owner has no active bundle session''"
| "InvariantViolation_to_string RemoteOwnerSessionMismatch =
     ''remote owner does not match active bundle session''"
| "InvariantViolation_to_string RemoteOwnerLeaseExpired = ''remote owner bundle lease expired''"
| "InvariantViolation_to_string RemoteOwnerNotReady =
     ''remote owner peer is not ready for both input paths''"
| "InvariantViolation_to_string RemoteOwnerWithoutVerifiedDisplay =
     ''remote owner lacks a fresh verified display observation''"
| "InvariantViolation_to_string GrantStateWithoutGrant = ''grant state has no grant identity''"
| "InvariantViolation_to_string GrantEpochMismatch =
     ''grant and verified switch epochs differ''"

text \<open>The part of \<^verbatim>\<open>validate\<close> that a remote owner has to pass, in the order of the source.\<close>

definition validate_remote_owner :: "ProtocolState \<Rightarrow> u64 \<Rightarrow> InvariantViolation option" where
  "validate_remote_owner s now_ms =
     (case active_session s of
        None \<Rightarrow> Some RemoteOwnerWithoutSession
      | Some session \<Rightarrow>
          if ses_target session \<noteq> keyboard_owner s then Some RemoteOwnerSessionMismatch
          else if ses_renewed_until_ms session \<le> now_ms
                \<or> lease_expires_at_ms (ses_lease session) \<le> now_ms
          then Some RemoteOwnerLeaseExpired
          else if \<not> (case peers s (ses_target session) of
                      None \<Rightarrow> False
                    | Some peer \<Rightarrow> bundle_ready peer (peer_session_epoch (ses_lease session)))
          then Some RemoteOwnerNotReady
          else if has_display_route s (ses_target session)
                \<and> (observed_input s \<noteq> Some (ses_target session)
                   \<or> verified_epoch s \<noteq> Some (ses_switch_epoch session)
                   \<or> tv_mode s \<noteq> Fullscreen
                   \<or> \<not> (case input_signal s (ses_target session) of
                          None \<Rightarrow> False
                        | Some signal \<Rightarrow>
                            sig_present signal \<and> sig_switch_epoch signal = ses_switch_epoch session))
          then Some RemoteOwnerWithoutVerifiedDisplay
          else None)"

definition validate_grant :: "ProtocolState \<Rightarrow> InvariantViolation option" where
  "validate_grant s =
     (case active_request s of
        None \<Rightarrow> None
      | Some r \<Rightarrow>
          if req_status r = Grant then
            (case req_grant r of
               None \<Rightarrow> Some GrantStateWithoutGrant
             | Some g \<Rightarrow>
                 if req_switch_epoch r \<noteq> Some (grant_switch_epoch g)
                    \<or> verified_epoch s \<noteq> Some (grant_switch_epoch g)
                 then Some GrantEpochMismatch
                 else None)
          else None)"

text \<open>\<^verbatim>\<open>validate\<close> returns the first violation, \<^const>\<open>None\<close> standing for \<^verbatim>\<open>Ok(())\<close>.\<close>

definition validate :: "ProtocolState \<Rightarrow> u64 \<Rightarrow> InvariantViolation option" where
  "validate s now_ms =
     (if keyboard_owner s \<noteq> pointer_owner s then Some SplitInputOwnership
      else if fallback_required s \<and> keyboard_owner s \<noteq> server_host s
      then Some FallbackOwnsRemoteInput
      else if manual_recovery_target s = Some (server_host s) then Some ManualRecoveryTargetsServer
      else if manual_recovery_target s \<noteq> None
            \<and> (active_request s \<noteq> None \<or> active_session s \<noteq> None
               \<or> keyboard_owner s \<noteq> server_host s)
      then Some ManualRecoveryWhileInputActive
      else
        (case (if keyboard_owner s \<noteq> server_host s then validate_remote_owner s now_ms else None) of
           Some v \<Rightarrow> Some v
         | None \<Rightarrow> validate_grant s))"

section \<open>Lemmas on the request history\<close>

lemma pop_front_suffix: "\<exists>ys. xs = ys @ pop_front_until_below n xs"
proof (induction xs)
  case (Cons x xs)
  then obtain ys where "xs = ys @ pop_front_until_below n xs" by blast
  then have "x # xs = (x # ys) @ pop_front_until_below n xs" by simp
  moreover have "x # xs = [] @ (x # xs)" by simp
  ultimately show ?case by (metis pop_front_until_below.simps(2))
qed simp

lemma set_pop_front: "set (pop_front_until_below n xs) \<subseteq> set xs"
  using pop_front_suffix [of xs n] by (metis Un_upper2 set_append)

lemma distinct_map_pop_front:
  "distinct (map g xs) \<Longrightarrow> distinct (map g (pop_front_until_below n xs))"
  using pop_front_suffix [of xs n] by (metis distinct_append map_append)

lemma length_pop_front: "0 < n \<Longrightarrow> length (pop_front_until_below n xs) < n"
  by (induction xs) auto

lemma archive_request_length:
  "0 < retained_request_limit s \<Longrightarrow>
   length (request_history (archive_request s r)) \<le> retained_request_limit s"
  using length_pop_front
  by (simp add: archive_request_def Let_def Suc_le_eq)

lemma archive_request_distinct:
  assumes "distinct (map req_request_id (request_history s))"
  shows "distinct (map req_request_id (request_history (archive_request s r)))"
proof -
  let ?h = "remove_first (\<lambda>e. req_request_id e = req_request_id r) (request_history s)"
  have "req_request_id r \<notin> req_request_id ` set ?h"
    using assms by (rule remove_first_key_gone)
  then have "req_request_id r \<notin> req_request_id ` set (pop_front_until_below (retained_request_limit s) ?h)"
    using set_pop_front by fastforce
  moreover have "distinct (map req_request_id (pop_front_until_below (retained_request_limit s) ?h))"
    using assms by (intro distinct_map_pop_front distinct_map_remove_first)
  ultimately show ?thesis
    by (simp add: archive_request_def Let_def)
qed

lemma archive_request_set:
  "set (request_history (archive_request s r)) \<subseteq> insert r (set (request_history s))"
  using set_pop_front set_remove_first_subset
  by (fastforce simp: archive_request_def Let_def)

lemma archived_after_archive [simp]:
  "archived_request (archive_request s r) (req_request_id r) = Some r"
  by (simp add: archived_request_def archive_request_def Let_def)

lemma flatten_min_None [simp]: "flatten_min ds = None \<longleftrightarrow> (\<forall>d\<in>set ds. d = None)"
  by (induction ds) (auto simp: flatten_min_def map_filter_simps split: option.splits list.splits)

lemma fold_min_le: "fold min ds (d::u64) \<le> d"
  by (induction ds arbitrary: d) (simp, metis fold_simps(2) min.bounded_iff)

lemma fold_min_le_mem: "x \<in> set ds \<Longrightarrow> fold min ds (d::u64) \<le> x"
  by (induction ds arbitrary: d) (auto, metis fold_min_le min.bounded_iff)

lemma fold_min_in: "fold min ds (d::u64) \<in> insert d (set ds)"
proof (induction ds arbitrary: d)
  case (Cons a ds)
  have "min a d \<in> {a, d}" by (simp add: min_def)
  with Cons.IH [of "min a d"] show ?case by auto
qed simp

lemma flatten_min_SomeD:
  assumes "flatten_min ds = Some m"
  shows "Some m \<in> set ds" and "\<And>d. Some d \<in> set ds \<Longrightarrow> m \<le> d"
proof -
  have mem: "d \<in> set (List.map_filter id ds) \<longleftrightarrow> Some d \<in> set ds" for d
    by (induction ds) (auto simp: map_filter_simps split: option.splits)
  from assms obtain x xs where xs: "List.map_filter id ds = x # xs" and m: "m = fold min xs x"
    by (auto simp: flatten_min_def split: list.splits)
  have "m \<in> insert x (set xs)" unfolding m by (rule fold_min_in)
  then show "Some m \<in> set ds" using mem [of m] xs by simp
  show "m \<le> d" if "Some d \<in> set ds" for d
    using mem [of d] that xs m fold_min_le [of xs x] fold_min_le_mem [of d xs x] by auto
qed

end
