(* ===== verification/Protocol.thy ===== *)
theory Protocol
  imports Domain
begin

text \<open>
  The two-phase switch protocol of the display controller, \<^verbatim>\<open>tv-multiview/src/protocol.rs\<close>: the
  events and effects, the helper functions in the order of the file, one handler per event, and
  the transition function \<open>apply\<close>. The Rust code mutates a clone \<^verbatim>\<open>next\<close> of the state and a vector
  of effects; the model passes both. \<^const>\<open>Panic\<close> marks an \<^verbatim>\<open>expect\<close> that fails.
\<close>

section \<open>Events, effects and errors\<close>

record ProtocolTiming =
  command_ms :: u64
  observation_ms :: u64
  grant_ms :: u64
  wake_ms :: u64
  lease_ms :: u64
  signal_poll_ms :: u64

datatype Event =
    TransportConnecting
  | TransportRegistering
  | TransportSubscribed
  | TransportSynchronized TvMode "Host option" "Host \<rightharpoonup> bool"
  | TransportDisconnected string
  | PeerReadinessUpdated Host PeerReadiness
  | ArmManualRecovery Host
  | CreateEnter string string Host LeaseIdentity
  | CommandAcknowledged u64 Host
  | CommandFailed u64 string
  | Observation u64 TvMode "Host option" "Host \<rightharpoonup> bool"
  | Commit string u64 u64 string u64
  | Cancel string string
  | Renew string string u64 u64
  | MultiViewRequested bool
  | MultiViewAcknowledged u64 bool
  | SubscriptionObserved TvMode "Host option"
  | Tick
  | Shutdown

fun Event_name :: "Event \<Rightarrow> string" where
  "Event_name TransportConnecting = ''transport_connecting''"
| "Event_name TransportRegistering = ''transport_registering''"
| "Event_name TransportSubscribed = ''transport_subscribed''"
| "Event_name (TransportSynchronized _ _ _) = ''transport_synchronized''"
| "Event_name (TransportDisconnected _) = ''transport_disconnected''"
| "Event_name (PeerReadinessUpdated _ _) = ''peer_readiness_updated''"
| "Event_name (ArmManualRecovery _) = ''arm_manual_recovery''"
| "Event_name (CreateEnter _ _ _ _) = ''create_enter''"
| "Event_name (CommandAcknowledged _ _) = ''command_acknowledged''"
| "Event_name (CommandFailed _ _) = ''command_failed''"
| "Event_name (Observation _ _ _ _) = ''observation''"
| "Event_name (Commit _ _ _ _ _) = ''commit''"
| "Event_name (Cancel _ _) = ''cancel''"
| "Event_name (Renew _ _ _ _) = ''renew''"
| "Event_name (MultiViewRequested _) = ''multiview_requested''"
| "Event_name (MultiViewAcknowledged _ _) = ''multiview_acknowledged''"
| "Event_name (SubscriptionObserved _ _) = ''subscription_observed''"
| "Event_name Tick = ''tick''"
| "Event_name Shutdown = ''shutdown''"

datatype Effect =
    SetInput Host u64 bool
  | Observe u64
  | Wake Host u64
  | SetMultiView bool u64

record Transition =
  t_next :: ProtocolState
  t_effects :: "Effect list"

datatype ProtocolError =
    Unavailable
  | Busy string
  | RequestIdentityConflict
  | InvalidLease
  | RequestNotFound
  | StaleIdentity
  | InputNotLocal
  | InvalidManualRecoveryTarget
  | Invariant string

type_synonym applied = "(ProtocolError, Transition) outcome"
type_synonym staged = "ProtocolState \<times> Effect list"

named_theorems protocol_defs \<open>definitions of the protocol's helper functions\<close>
named_theorems handler_defs \<open>definitions of the event handlers\<close>

section \<open>Observations\<close>

definition store_observation ::
  "ProtocolState \<Rightarrow> u64 \<Rightarrow> u64 \<Rightarrow> TvMode \<Rightarrow> Host option \<Rightarrow> (Host \<rightharpoonup> bool) \<Rightarrow> ProtocolState" where
  "store_observation s epoch now_ms mode inp signals =
     foldl (\<lambda>st h.
         case signals h of
           None \<Rightarrow> st
         | Some present \<Rightarrow>
             st\<lparr>input_signal := (input_signal st)
                 (h \<mapsto> \<lparr>sig_present = present, sig_switch_epoch = epoch, sig_observed_at_ms = now_ms\<rparr>)\<rparr>)
       (s\<lparr>tv_mode := mode, observed_input := inp\<rparr>) Host_ALL"

definition target_display_verified :: "ProtocolState \<Rightarrow> Host \<Rightarrow> u64 \<Rightarrow> bool" where
  "target_display_verified s target epoch \<longleftrightarrow>
     tv_mode s = Fullscreen \<and> observed_input s = Some target
     \<and> (case input_signal s target of
          None \<Rightarrow> False
        | Some signal \<Rightarrow> sig_present signal \<and> sig_switch_epoch signal = epoch)"

definition server_display_verified :: "ProtocolState \<Rightarrow> u64 \<Rightarrow> bool" where
  "server_display_verified s epoch = target_display_verified s (server_host s) epoch"

definition target_verification_failure_reason :: "ProtocolState \<Rightarrow> Host \<Rightarrow> u64 \<Rightarrow> string" where
  "target_verification_failure_reason s target epoch =
     (if tv_mode s \<noteq> Fullscreen then ''target_not_fullscreen''
      else if observed_input s \<noteq> Some target then ''target_input_not_observed''
      else
        (case input_signal s target of
           Some signal \<Rightarrow>
             if sig_switch_epoch signal = epoch \<and> \<not> sig_present signal
             then ''target_signal_absent''
             else if sig_switch_epoch signal \<noteq> epoch then ''target_signal_stale''
             else ''target_signal_not_observed''
         | None \<Rightarrow> ''target_signal_not_observed''))"

definition verification_timeout_reason :: "ProtocolState \<Rightarrow> string" where
  "verification_timeout_reason s =
     (if phase s \<noteq> ProtocolPhase.Verifying then ''observation_timeout''
      else
        (case active_request s of
           Some r \<Rightarrow>
             target_verification_failure_reason s (req_target r)
               (case req_switch_epoch r of None \<Rightarrow> switch_epoch s | Some e \<Rightarrow> e)
         | None \<Rightarrow> ''target_verification_timeout''))"

section \<open>Ownership and counters\<close>

definition release_to_server :: "ProtocolState \<Rightarrow> ProtocolState" where
  [protocol_defs]: "release_to_server s =
     s\<lparr>keyboard_owner := server_host s, pointer_owner := server_host s, active_session := None\<rparr>"

definition record_verified_switch :: "ProtocolState \<Rightarrow> Host \<Rightarrow> ProtocolState option" where
  [protocol_defs]: "record_verified_switch s target =
     (if switch_epoch s = 0 then Some s
      else
        (case switch_count s target of
           None \<Rightarrow> None
         | Some count \<Rightarrow>
             Some (s\<lparr>switch_count := (switch_count s)(target \<mapsto> saturating_add count 1)\<rparr>)))"

definition display_restore_required :: "ProtocolState \<Rightarrow> bool" where
  [protocol_defs]: "display_restore_required s \<longleftrightarrow>
     fallback_required s
     \<or> pending_multiview s \<noteq> None
     \<or> (case active_request s of
          None \<Rightarrow> False
        | Some r \<Rightarrow> req_switch_epoch r \<noteq> None \<and> has_display_route s (req_target r))
     \<or> (case active_session s of
          None \<Rightarrow> False
        | Some ses \<Rightarrow> has_display_route s (ses_target ses))"

definition manual_display_observed :: "ProtocolState \<Rightarrow> bool" where
  [protocol_defs]: "manual_display_observed s \<longleftrightarrow>
     (tv_mode s \<noteq> Fullscreen \<or> observed_input s \<noteq> Some (server_host s))
     \<and> keyboard_owner s = server_host s
     \<and> pointer_owner s = server_host s
     \<and> active_request s = None
     \<and> active_session s = None"

definition accept_manual_display :: "ProtocolState \<Rightarrow> ProtocolState" where
  [protocol_defs]: "accept_manual_display s =
     (release_to_server s)
       \<lparr>commanded_input := None,
        manual_recovery_target := None,
        fallback_required := False,
        fallback_reason := None,
        pending_multiview := None,
        phase := Idle,
        phase_deadline_ms := None,
        observation_in_flight := None,
        next_signal_poll_ms := None\<rparr>"

section \<open>Switching, observing, granting\<close>

definition issue_grant :: "ProtocolState \<Rightarrow> u64 \<Rightarrow> ProtocolTiming \<Rightarrow> ProtocolState option" where
  "issue_grant s now_ms timing =
     (let s = s\<lparr>grant_epoch := saturating_add (grant_epoch s) 1\<rparr> in
      case active_request s of
        None \<Rightarrow> None
      | Some r \<Rightarrow>
          (case req_switch_epoch r of
             None \<Rightarrow> None
           | Some epoch \<Rightarrow>
               let expires = min (saturating_add now_ms (grant_ms timing))
                                 (lease_expires_at_ms (req_lease r));
                   r' = r\<lparr>req_status := RequestStatus.Grant,
                          req_deadline_ms := expires,
                          req_grant := Some \<lparr>grant_grant_epoch = grant_epoch s,
                                             grant_switch_epoch = epoch,
                                             grant_expires_at_ms = expires\<rparr>\<rparr>
               in record_verified_switch
                    (s\<lparr>active_request := Some r',
                       verified_epoch := Some epoch,
                       phase := GrantPending,
                       phase_deadline_ms := Some expires\<rparr>)
                    (req_target r)))"

definition begin_switch ::
  "ProtocolState \<Rightarrow> Effect list \<Rightarrow> u64 \<Rightarrow> ProtocolTiming \<Rightarrow> staged option" where
  "begin_switch s effects now_ms timing =
     (let s = s\<lparr>switch_epoch := saturating_add (switch_epoch s) 1\<rparr>;
          epoch = switch_epoch s
      in case active_request s of
           None \<Rightarrow> None
         | Some r \<Rightarrow>
             let r' = r\<lparr>req_status := RequestStatus.Switching,
                        req_switch_epoch := Some epoch,
                        req_deadline_ms :=
                          saturating_add (saturating_add now_ms (command_ms timing))
                                         (observation_ms timing)\<rparr>;
                 target = req_target r;
                 s = s\<lparr>active_request := Some r'\<rparr>
             in if \<not> has_display_route s target
                then map_option (\<lambda>s'. (s', effects))
                       (issue_grant (s\<lparr>commanded_input := None, phase_deadline_ms := None\<rparr>)
                          now_ms timing)
                else Some (s\<lparr>commanded_input := Some target,
                             phase := ProtocolPhase.Switching,
                             phase_deadline_ms := Some (saturating_add now_ms (command_ms timing))\<rparr>,
                           effects @ [SetInput target epoch False]))"

definition request_observation ::
  "ProtocolState \<Rightarrow> Effect list \<Rightarrow> u64 \<Rightarrow> ProtocolTiming \<Rightarrow> u64 \<Rightarrow> staged" where
  [protocol_defs]: "request_observation s effects now_ms timing epoch =
     (s\<lparr>observation_in_flight := Some epoch,
        next_signal_poll_ms := None,
        phase_deadline_ms := Some (saturating_add now_ms (observation_ms timing))\<rparr>,
      effects @ [Observe epoch])"

definition request_observation_preserving_deadline ::
  "ProtocolState \<Rightarrow> Effect list \<Rightarrow> u64 \<Rightarrow> ProtocolTiming \<Rightarrow> u64 \<Rightarrow> staged" where
  [protocol_defs]: "request_observation_preserving_deadline s effects now_ms timing epoch =
     (let deadline = phase_deadline_ms s;
          (s', effects') = request_observation s effects now_ms timing epoch
      in (s'\<lparr>phase_deadline_ms := deadline\<rparr>, effects'))"

section \<open>Fallback to the server\<close>

definition issue_fallback_command ::
  "ProtocolState \<Rightarrow> Effect list \<Rightarrow> u64 \<Rightarrow> ProtocolTiming \<Rightarrow> staged" where
  [protocol_defs]: "issue_fallback_command s effects now_ms timing =
     (let s = s\<lparr>switch_epoch := saturating_add (switch_epoch s) 1,
                commanded_input := Some (server_host s),
                phase := FallbackCommandPending,
                phase_deadline_ms := Some (saturating_add now_ms (command_ms timing))\<rparr>
      in (s, effects @ [SetInput (server_host s) (switch_epoch s) True]))"

text \<open>The filter both fallback entry points apply before they remember a recovery target.\<close>

definition recovery_candidate :: "ProtocolState \<Rightarrow> Host option \<Rightarrow> Host option" where
  [protocol_defs]: "recovery_candidate s t =
     option_filter (\<lambda>target. target \<noteq> server_host s \<and> has_display_route s target) t"

definition begin_fallback_with_restore ::
  "ProtocolState \<Rightarrow> Effect list \<Rightarrow> u64 \<Rightarrow> ProtocolTiming \<Rightarrow> string \<Rightarrow> bool \<Rightarrow> staged" where
  "begin_fallback_with_restore s effects now_ms timing reason restore_display =
     (let s = (case recovery_candidate s (map_option req_target (active_request s)) of
                 None \<Rightarrow> s
               | Some target \<Rightarrow> s\<lparr>manual_recovery_target := Some target\<rparr>);
          s = (case map_option ses_request_id (active_session s) of
                 None \<Rightarrow> s
               | Some rid \<Rightarrow>
                   archived_request_mut s rid
                     (\<lambda>r. if req_status r = Committed
                          then r\<lparr>req_status := Fallback, req_reason := Some reason\<rparr> else r));
          s = (release_to_server s)
                \<lparr>fallback_required := restore_display,
                 fallback_reason := Some reason,
                 verified_epoch := None,
                 pending_multiview := None,
                 observation_in_flight := None,
                 next_signal_poll_ms := None\<rparr>;
          s = (case active_request s of
                 None \<Rightarrow> s
               | Some r \<Rightarrow>
                   archive_request (s\<lparr>active_request := None\<rparr>)
                     (r\<lparr>req_status := Fallback, req_reason := Some reason\<rparr>))
      in if restore_display \<and> daemon_healthy s then issue_fallback_command s effects now_ms timing
         else if restore_display \<or> \<not> daemon_healthy s
         then (s\<lparr>phase := FallbackDeferred, phase_deadline_ms := None\<rparr>, effects)
         else (s\<lparr>fallback_reason := None, phase := Idle, phase_deadline_ms := None\<rparr>, effects))"

definition begin_fallback ::
  "ProtocolState \<Rightarrow> Effect list \<Rightarrow> u64 \<Rightarrow> ProtocolTiming \<Rightarrow> string \<Rightarrow> staged" where
  [protocol_defs]: "begin_fallback s effects now_ms timing reason =
     (let restore_display = display_restore_required s
      in begin_fallback_with_restore s effects now_ms timing reason restore_display)"

definition begin_active_session_failure_fallback ::
  "ProtocolState \<Rightarrow> Effect list \<Rightarrow> u64 \<Rightarrow> ProtocolTiming \<Rightarrow> string \<Rightarrow> staged" where
  [protocol_defs]: "begin_active_session_failure_fallback s effects now_ms timing reason =
     (let s = (case recovery_candidate s (map_option ses_target (active_session s)) of
                 None \<Rightarrow> s
               | Some target \<Rightarrow> s\<lparr>manual_recovery_target := Some target\<rparr>)
      in begin_fallback s effects now_ms timing reason)"

definition finish_fallback :: "ProtocolState \<Rightarrow> ProtocolState option" where
  [protocol_defs]: "finish_fallback s =
     (let s = (release_to_server s)
                \<lparr>fallback_required := False,
                 fallback_reason := None,
                 phase := Idle,
                 phase_deadline_ms := None,
                 observation_in_flight := None,
                 next_signal_poll_ms := None\<rparr>;
          s = s\<lparr>verified_epoch := Some (switch_epoch s)\<rparr>
      in record_verified_switch s (server_host s))"

definition complete_multiview_observation ::
  "ProtocolState \<Rightarrow> Effect list \<Rightarrow> u64 \<Rightarrow> ProtocolTiming \<Rightarrow> staged" where
  [protocol_defs]: "complete_multiview_observation s effects now_ms timing =
     (case pending_multiview s of
        None \<Rightarrow> (s, effects)
      | Some enabled \<Rightarrow>
          let expected = (if enabled then Multiview else Fullscreen) in
          if tv_mode s \<noteq> expected
          then begin_fallback s effects now_ms timing ''multiview_observation_mismatch''
          else if enabled
          then (s\<lparr>pending_multiview := None, phase := Idle, phase_deadline_ms := None\<rparr>, effects)
          else begin_fallback s effects now_ms timing ''multiview_exit_server_verify'')"

definition validated :: "ProtocolState \<Rightarrow> Effect list \<Rightarrow> u64 \<Rightarrow> applied" where
  "validated s effects now_ms =
     (case validate s now_ms of
        Some v \<Rightarrow> Err (Invariant (InvariantViolation_to_string v))
      | None \<Rightarrow> Ok \<lparr>t_next = s, t_effects = effects\<rparr>)"

section \<open>Event handlers\<close>

definition validated_staged :: "staged \<Rightarrow> u64 \<Rightarrow> applied" where
  "validated_staged st now_ms = validated (fst st) (snd st) now_ms"

definition apply_transport_connecting :: "ProtocolState \<Rightarrow> u64 \<Rightarrow> applied" where
  [handler_defs]: "apply_transport_connecting s now_ms =
     validated (s\<lparr>ws_state := Connecting, subscribe_active := False, synchronized := False\<rparr>) [] now_ms"

definition apply_transport_registering :: "ProtocolState \<Rightarrow> u64 \<Rightarrow> applied" where
  [handler_defs]: "apply_transport_registering s now_ms =
     validated (s\<lparr>ws_state := Registering, subscribe_active := False, synchronized := False\<rparr>) [] now_ms"

definition apply_transport_subscribed :: "ProtocolState \<Rightarrow> u64 \<Rightarrow> applied" where
  [handler_defs]: "apply_transport_subscribed s now_ms =
     validated (s\<lparr>ws_state := Synchronizing, subscribe_active := True, synchronized := False\<rparr>) [] now_ms"

definition apply_transport_synchronized ::
  "ProtocolState \<Rightarrow> TvMode \<Rightarrow> Host option \<Rightarrow> (Host \<rightharpoonup> bool) \<Rightarrow> u64 \<Rightarrow> ProtocolTiming \<Rightarrow> applied" where
  [handler_defs]: "apply_transport_synchronized s mode inp signals now_ms timing =
     (let s = s\<lparr>ws_state := Connected, subscribe_active := True, synchronized := True\<rparr>;
          epoch = switch_epoch s;
          s = store_observation s epoch now_ms mode inp signals
      in if server_display_verified s epoch
         then expecting (finish_fallback s) (\<lambda>s. validated s [] now_ms)
         else if manual_display_observed s then validated (accept_manual_display s) [] now_ms
         else validated_staged
                (begin_fallback s [] now_ms timing ''startup_or_reconnect_resync'') now_ms)"

definition apply_transport_disconnected ::
  "ProtocolState \<Rightarrow> string \<Rightarrow> u64 \<Rightarrow> ProtocolTiming \<Rightarrow> applied" where
  [handler_defs]: "apply_transport_disconnected s reason now_ms timing =
     (let s = s\<lparr>ws_state := Disconnected, subscribe_active := False, synchronized := False,
                reconnect_total := saturating_add (reconnect_total s) 1,
                last_error := Some reason\<rparr>
      in validated_staged (begin_fallback s [] now_ms timing reason) now_ms)"

text \<open>The readiness update first concerns the active request, then the active session.\<close>

definition readiness_for_request ::
  "ProtocolState \<Rightarrow> Host \<Rightarrow> PeerReadiness \<Rightarrow> u64 \<Rightarrow> ProtocolTiming \<Rightarrow> staged option" where
  "readiness_for_request s host readiness now_ms timing =
     (if map_option req_target (active_request s) = Some host then
        (let lease_session = (case active_request s of
                                None \<Rightarrow> 0
                              | Some r \<Rightarrow> peer_session_epoch (req_lease r))
         in if phase s = ProtocolPhase.Waking \<and> bundle_ready readiness lease_session
            then begin_switch s [] now_ms timing
            else if (phase s = ProtocolPhase.Switching \<or> phase s = ProtocolPhase.Verifying
                      \<or> phase s = GrantPending)
                    \<and> \<not> bundle_ready readiness lease_session
            then Some (begin_fallback s [] now_ms timing ''target_readiness_lost'')
            else Some (s, []))
      else Some (s, []))"

definition readiness_for_session ::
  "ProtocolState \<Rightarrow> Effect list \<Rightarrow> Host \<Rightarrow> PeerReadiness \<Rightarrow> u64 \<Rightarrow> ProtocolTiming \<Rightarrow> staged" where
  "readiness_for_session s effects host readiness now_ms timing =
     (if keyboard_owner s = host \<and> host \<noteq> server_host s then
        (let session_epoch = (case active_session s of
                                None \<Rightarrow> 0
                              | Some ses \<Rightarrow> peer_session_epoch (ses_lease ses))
         in if \<not> bundle_ready readiness session_epoch
            then begin_active_session_failure_fallback s effects now_ms timing
                   ''active_peer_readiness_lost''
            else (s, effects))
      else (s, effects))"

definition apply_peer_readiness_updated ::
  "ProtocolState \<Rightarrow> Host \<Rightarrow> PeerReadiness \<Rightarrow> u64 \<Rightarrow> ProtocolTiming \<Rightarrow> applied" where
  [handler_defs]: "apply_peer_readiness_updated s host readiness now_ms timing =
     (let s = s\<lparr>peers := (peers s)(host \<mapsto> readiness)\<rparr>
      in expecting (readiness_for_request s host readiness now_ms timing)
           (\<lambda>(s, effects).
              validated_staged (readiness_for_session s effects host readiness now_ms timing) now_ms))"

definition apply_arm_manual_recovery :: "ProtocolState \<Rightarrow> Host \<Rightarrow> u64 \<Rightarrow> applied" where
  [handler_defs]: "apply_arm_manual_recovery s target now_ms =
     (if target = server_host s then Err InvalidManualRecoveryTarget
      else if \<not> ready s
            \<or> phase s \<noteq> Idle
            \<or> keyboard_owner s \<noteq> server_host s
            \<or> pointer_owner s \<noteq> server_host s
            \<or> active_request s \<noteq> None
            \<or> active_session s \<noteq> None
            \<or> \<not> server_display_verified s (switch_epoch s)
      then Err Unavailable
      else validated (s\<lparr>manual_recovery_target := Some target\<rparr>) [] now_ms)"

text \<open>
  \<^verbatim>\<open>CreateEnter\<close> from the point where the request is new and acceptable: the request is built,
  then the target is the server, an offline peer (wake it), a peer that is not ready (deny), or a
  ready peer (switch).
\<close>

definition new_enter_request ::
  "string \<Rightarrow> string \<Rightarrow> Host \<Rightarrow> u64 \<Rightarrow> LeaseIdentity \<Rightarrow> u64 \<Rightarrow> ProtocolTiming \<Rightarrow> EnterRequest" where
  "new_enter_request rid cid target epoch lease now_ms timing =
     \<lparr>req_request_id = rid, req_client_id = cid, req_target = target,
      req_request_epoch = epoch, req_lease = lease,
      req_status = RequestStatus.Switching, req_switch_epoch = None, req_grant = None,
      req_deadline_ms = saturating_add now_ms (command_ms timing), req_reason = None\<rparr>"

definition admit_enter ::
  "ProtocolState \<Rightarrow> string \<Rightarrow> string \<Rightarrow> Host \<Rightarrow> LeaseIdentity \<Rightarrow> u64 \<Rightarrow> ProtocolTiming \<Rightarrow> applied" where
  "admit_enter s rid cid target lease now_ms timing =
     (let s = s\<lparr>manual_recovery_target := None, request_epoch := saturating_add (request_epoch s) 1\<rparr>;
          epoch = request_epoch s;
          r = new_enter_request rid cid target epoch lease now_ms timing
      in if target = server_host s then
           expecting (begin_switch ((release_to_server s)\<lparr>active_request := Some r\<rparr>) [] now_ms timing)
             (\<lambda>st. validated_staged st now_ms)
         else
           (let readiness = (case peers s target of None \<Rightarrow> PeerReadiness_default | Some p \<Rightarrow> p)
            in if \<not> peer_online readiness then
                 (let r = r\<lparr>req_status := RequestStatus.Waking,
                            req_deadline_ms := saturating_add now_ms (wake_ms timing)\<rparr>
                  in validated
                       (s\<lparr>phase := ProtocolPhase.Waking,
                          phase_deadline_ms := Some (req_deadline_ms r),
                          active_request := Some r\<rparr>)
                       [Wake target epoch] now_ms)
               else if \<not> bundle_ready readiness (peer_session_epoch (req_lease r)) then
                 (let r = r\<lparr>req_status := Denied, req_reason := Some ''target_input_not_ready''\<rparr>
                  in validated (archive_request (s\<lparr>manual_recovery_target := Some target\<rparr>) r) [] now_ms)
               else
                 expecting (begin_switch (s\<lparr>active_request := Some r\<rparr>) [] now_ms timing)
                   (\<lambda>st. validated_staged st now_ms)))"

definition apply_create_enter ::
  "ProtocolState \<Rightarrow> string \<Rightarrow> string \<Rightarrow> Host \<Rightarrow> LeaseIdentity \<Rightarrow> u64 \<Rightarrow> ProtocolTiming \<Rightarrow> applied" where
  [handler_defs]: "apply_create_enter s rid cid target lease now_ms timing =
     (case request s rid of
        Some existing \<Rightarrow>
          if req_client_id existing = cid
             \<and> req_target existing = target
             \<and> lease_id (req_lease existing) = lease_id lease
             \<and> lease_epoch (req_lease existing) = lease_epoch lease
          then Ok \<lparr>t_next = s, t_effects = []\<rparr>
          else Err RequestIdentityConflict
      | None \<Rightarrow>
          (case active_request s of
             Some active \<Rightarrow> Err (Busy (req_request_id active))
           | None \<Rightarrow>
               if \<not> ready s then Err Unavailable
               else if lease_id lease = [] \<or> lease_expires_at_ms lease \<le> now_ms then Err InvalidLease
               else admit_enter s rid cid target lease now_ms timing))"

definition apply_command_acknowledged ::
  "ProtocolState \<Rightarrow> u64 \<Rightarrow> Host \<Rightarrow> u64 \<Rightarrow> ProtocolTiming \<Rightarrow> applied" where
  [handler_defs]: "apply_command_acknowledged s epoch target now_ms timing =
     (if switch_epoch s \<noteq> epoch \<or> commanded_input s \<noteq> Some target
      then Ok \<lparr>t_next = s, t_effects = []\<rparr>
      else if observation_in_flight s = None
            \<and> (phase s = ProtocolPhase.Switching \<or> phase s = FallbackCommandPending)
      then validated_staged
             (request_observation
                (s\<lparr>phase := (if fallback_required s then FallbackVerifying
                             else ProtocolPhase.Verifying)\<rparr>)
                [] now_ms timing epoch)
             now_ms
      else validated s [] now_ms)"

definition apply_command_failed ::
  "ProtocolState \<Rightarrow> u64 \<Rightarrow> string \<Rightarrow> u64 \<Rightarrow> ProtocolTiming \<Rightarrow> applied" where
  [handler_defs]: "apply_command_failed s epoch reason now_ms timing =
     (if switch_epoch s = epoch
      then validated_staged
             (begin_fallback (s\<lparr>last_error := Some reason\<rparr>) [] now_ms timing reason) now_ms
      else validated s [] now_ms)"

text \<open>The three places an observation is used: by the pending request, by the active session, by neither.\<close>

definition observe_for_request ::
  "ProtocolState \<Rightarrow> EnterRequest \<Rightarrow> u64 \<Rightarrow> u64 \<Rightarrow> ProtocolTiming \<Rightarrow> applied" where
  "observe_for_request s r epoch now_ms timing =
     (if req_switch_epoch r \<noteq> Some epoch then validated s [] now_ms
      else
        (let target = req_target r;
             verified = target_display_verified s target epoch
         in if phase s = ProtocolPhase.Verifying \<and> verified then
              (if target \<noteq> server_host s then
                 (let peer_ready = (case peers s target of
                                      None \<Rightarrow> False
                                    | Some peer \<Rightarrow> bundle_ready peer (peer_session_epoch (req_lease r)))
                  in if \<not> peer_ready \<or> lease_expires_at_ms (req_lease r) \<le> now_ms
                     then validated_staged
                            (begin_fallback s [] now_ms timing ''lease_or_readiness_lost_before_grant'')
                            now_ms
                     else expecting (issue_grant s now_ms timing) (\<lambda>s. validated s [] now_ms))
               else expecting (issue_grant s now_ms timing) (\<lambda>s. validated s [] now_ms))
            else if phase s = GrantPending \<and> \<not> verified
            then validated_staged (begin_fallback s [] now_ms timing ''target_observation_failed'') now_ms
            else validated s [] now_ms))"

definition observe_for_session ::
  "ProtocolState \<Rightarrow> u64 \<Rightarrow> u64 \<Rightarrow> ProtocolTiming \<Rightarrow> applied" where
  "observe_for_session s epoch now_ms timing =
     (case active_session s of
        None \<Rightarrow> validated s [] now_ms
      | Some ses \<Rightarrow>
          if ses_switch_epoch ses = epoch \<and> \<not> target_display_verified s (ses_target ses) epoch
          then validated_staged
                 (begin_active_session_failure_fallback s [] now_ms timing ''active_signal_lost'') now_ms
          else validated
                 (s\<lparr>phase_deadline_ms := None,
                    next_signal_poll_ms := Some (saturating_add now_ms (signal_poll_ms timing))\<rparr>)
                 [] now_ms)"

definition apply_observation ::
  "ProtocolState \<Rightarrow> u64 \<Rightarrow> TvMode \<Rightarrow> Host option \<Rightarrow> (Host \<rightharpoonup> bool) \<Rightarrow> u64 \<Rightarrow> ProtocolTiming \<Rightarrow> applied" where
  [handler_defs]: "apply_observation s epoch mode inp signals now_ms timing =
     (let s = store_observation s epoch now_ms mode inp signals;
          s = (if observation_in_flight s = Some epoch then s\<lparr>observation_in_flight := None\<rparr> else s)
      in if fallback_required s \<and> switch_epoch s = epoch then
           (if server_display_verified s epoch
            then expecting (finish_fallback s) (\<lambda>s. validated s [] now_ms)
            else validated (s\<lparr>phase := FallbackVerifying\<rparr>) [] now_ms)
         else
           (case active_request s of
              Some r \<Rightarrow> observe_for_request s r epoch now_ms timing
            | None \<Rightarrow>
                if phase s = RemoteOwned then observe_for_session s epoch now_ms timing
                else if phase s = MultiviewChanging
                then validated_staged (complete_multiview_observation s [] now_ms timing) now_ms
                else validated s [] now_ms))"

text \<open>\<^verbatim>\<open>Commit\<close> on an accepted grant: ownership of both input paths moves in one step.\<close>

definition commit_granted ::
  "ProtocolState \<Rightarrow> EnterRequest \<Rightarrow> u64 \<Rightarrow> u64 \<Rightarrow> u64 \<Rightarrow> ProtocolTiming \<Rightarrow> applied" where
  "commit_granted s r switch_ep req_ep now_ms timing =
     (let renewed = saturating_add now_ms (lease_ms timing);
          r = r\<lparr>req_status := Committed, req_reason := None,
                req_lease := (req_lease r)\<lparr>lease_expires_at_ms := renewed\<rparr>\<rparr>;
          target = req_target r;
          s = s\<lparr>active_request := None,
                keyboard_owner := target,
                pointer_owner := target,
                fallback_required := False,
                fallback_reason := None,
                manual_recovery_target := None,
                phase_deadline_ms := None,
                observation_in_flight := None\<rparr>;
          s = (if target = server_host s
               then s\<lparr>active_session := None, phase := Idle, next_signal_poll_ms := None\<rparr>
               else s\<lparr>active_session := Some
                        \<lparr>ses_request_id = req_request_id r, ses_target = target,
                         ses_request_epoch = req_ep, ses_switch_epoch = switch_ep,
                         ses_lease = req_lease r, ses_renewed_until_ms = renewed\<rparr>,
                      phase := RemoteOwned,
                      next_signal_poll_ms :=
                        (if has_display_route s target
                         then Some (saturating_add now_ms (signal_poll_ms timing)) else None)\<rparr>)
      in validated (archive_request s r) [] now_ms)"

definition apply_commit ::
  "ProtocolState \<Rightarrow> string \<Rightarrow> u64 \<Rightarrow> u64 \<Rightarrow> string \<Rightarrow> u64 \<Rightarrow> u64 \<Rightarrow> ProtocolTiming \<Rightarrow> applied" where
  [handler_defs]: "apply_commit s rid req_ep grant_ep lid lease_ep now_ms timing =
     (case find_last (\<lambda>r. req_request_id r = rid \<and> req_status r = Committed) (request_history s) of
        Some committed \<Rightarrow>
          if req_request_epoch committed = req_ep
             \<and> lease_id (req_lease committed) = lid
             \<and> lease_epoch (req_lease committed) = lease_ep
             \<and> map_option grant_grant_epoch (req_grant committed) = Some grant_ep
          then validated s [] now_ms
          else Err StaleIdentity
      | None \<Rightarrow>
          (case active_request s of
             None \<Rightarrow> Err RequestNotFound
           | Some r \<Rightarrow>
               (case req_grant r of
                  None \<Rightarrow> Err StaleIdentity
                | Some grant \<Rightarrow>
                    if req_request_id r \<noteq> rid
                       \<or> req_request_epoch r \<noteq> req_ep
                       \<or> req_status r \<noteq> RequestStatus.Grant
                       \<or> lease_id (req_lease r) \<noteq> lid
                       \<or> lease_epoch (req_lease r) \<noteq> lease_ep
                       \<or> grant_grant_epoch grant \<noteq> grant_ep
                       \<or> grant_expires_at_ms grant \<le> now_ms
                       \<or> lease_expires_at_ms (req_lease r) \<le> now_ms
                    then Err StaleIdentity
                    else if req_target r \<noteq> server_host s
                          \<and> \<not> (case peers s (req_target r) of
                                 None \<Rightarrow> False
                               | Some peer \<Rightarrow> bundle_ready peer (peer_session_epoch (req_lease r)))
                    then validated_staged
                           (begin_fallback s [] now_ms timing ''readiness_lost_before_commit'') now_ms
                    else expecting (req_switch_epoch r)
                           (\<lambda>switch_ep. commit_granted s r switch_ep req_ep now_ms timing))))"

definition apply_cancel ::
  "ProtocolState \<Rightarrow> string \<Rightarrow> string \<Rightarrow> u64 \<Rightarrow> ProtocolTiming \<Rightarrow> applied" where
  [handler_defs]: "apply_cancel s rid reason now_ms timing =
     (if list_ex (\<lambda>r. req_request_id r = rid \<and> (req_status r = Cancelled \<or> req_status r = Fallback))
           (request_history s)
      then validated s [] now_ms
      else if (case active_session s of None \<Rightarrow> False | Some ses \<Rightarrow> ses_request_id ses = rid) then
        (case archived_request s rid of
           None \<Rightarrow> Err RequestNotFound
         | Some _ \<Rightarrow>
             validated_staged
               (begin_fallback
                  (archived_request_mut s rid
                     (\<lambda>r. r\<lparr>req_status := Cancelled, req_reason := Some reason\<rparr>))
                  [] now_ms timing reason)
               now_ms)
      else
        (case active_request s of
           None \<Rightarrow> Err RequestNotFound
         | Some r \<Rightarrow>
             if req_request_id r \<noteq> rid then Err RequestNotFound
             else
               (let tv_may_have_changed = (req_switch_epoch r \<noteq> None);
                    s = s\<lparr>active_request := None\<rparr>;
                    s = (if req_target r \<noteq> server_host s
                         then s\<lparr>manual_recovery_target := Some (req_target r)\<rparr> else s);
                    s = archive_request s (r\<lparr>req_status := Cancelled, req_reason := Some reason\<rparr>)
                in if tv_may_have_changed
                   then validated_staged (begin_fallback s [] now_ms timing reason) now_ms
                   else validated (s\<lparr>phase := Idle, phase_deadline_ms := None\<rparr>) [] now_ms)))"

definition apply_renew ::
  "ProtocolState \<Rightarrow> string \<Rightarrow> string \<Rightarrow> u64 \<Rightarrow> u64 \<Rightarrow> u64 \<Rightarrow> ProtocolTiming \<Rightarrow> applied" where
  [handler_defs]: "apply_renew s rid lid lease_ep peer_ep now_ms timing =
     (let valid = (case active_session s of
                     None \<Rightarrow> False
                   | Some ses \<Rightarrow>
                       ses_request_id ses = rid
                       \<and> lease_id (ses_lease ses) = lid
                       \<and> lease_epoch (ses_lease ses) = lease_ep
                       \<and> peer_session_epoch (ses_lease ses) = peer_ep
                       \<and> (case peers s (ses_target ses) of
                            None \<Rightarrow> False
                          | Some peer \<Rightarrow> bundle_ready peer peer_ep))
      in if \<not> valid
         then validated_staged
                (begin_active_session_failure_fallback s [] now_ms timing ''lease_renewal_rejected'') now_ms
         else
           expecting (active_session s)
             (\<lambda>ses.
                let expires = saturating_add now_ms (lease_ms timing)
                in validated
                     (s\<lparr>active_session := Some
                         (ses\<lparr>ses_renewed_until_ms := expires,
                              ses_lease := (ses_lease ses)\<lparr>lease_expires_at_ms := expires\<rparr>\<rparr>)\<rparr>)
                     [] now_ms))"

definition apply_multiview_requested ::
  "ProtocolState \<Rightarrow> bool \<Rightarrow> u64 \<Rightarrow> ProtocolTiming \<Rightarrow> applied" where
  [handler_defs]: "apply_multiview_requested s enabled now_ms timing =
     (if \<not> ready s then Err Unavailable
      else if keyboard_owner s \<noteq> server_host s \<or> pointer_owner s \<noteq> server_host s then Err InputNotLocal
      else if active_request s \<noteq> None \<or> pending_multiview s \<noteq> None
      then Err (Busy (case active_request s of
                        None \<Rightarrow> ''multiview''
                      | Some r \<Rightarrow> req_request_id r))
      else
        (let s = s\<lparr>switch_epoch := saturating_add (switch_epoch s) 1,
                   pending_multiview := Some enabled,
                   phase := MultiviewChanging,
                   phase_deadline_ms := Some (saturating_add now_ms (command_ms timing))\<rparr>
         in validated s [SetMultiView enabled (switch_epoch s)] now_ms))"

definition apply_multiview_acknowledged ::
  "ProtocolState \<Rightarrow> u64 \<Rightarrow> bool \<Rightarrow> u64 \<Rightarrow> ProtocolTiming \<Rightarrow> applied" where
  [handler_defs]: "apply_multiview_acknowledged s epoch enabled now_ms timing =
     (if switch_epoch s = epoch \<and> pending_multiview s = Some enabled
      then (let (s, effects) = request_observation s [] now_ms timing epoch
            in validated (s\<lparr>phase := MultiviewChanging\<rparr>) effects now_ms)
      else validated s [] now_ms)"

definition apply_subscription_observed ::
  "ProtocolState \<Rightarrow> TvMode \<Rightarrow> Host option \<Rightarrow> u64 \<Rightarrow> ProtocolTiming \<Rightarrow> applied" where
  [handler_defs]: "apply_subscription_observed s mode inp now_ms timing =
     (let s = s\<lparr>tv_mode := mode, observed_input := inp\<rparr>;
          active_target = map_option req_target (active_request s);
          session_target = map_option ses_target (active_session s);
          target_mismatch = (\<lambda>target. mode \<noteq> Fullscreen \<or> inp \<noteq> Some target)
      in if fallback_required s \<and> phase s = FallbackVerifying \<and> mode = Fullscreen
            \<and> inp = Some (server_host s) \<and> observation_in_flight s = None
         then validated_staged
                (request_observation_preserving_deadline s [] now_ms timing (switch_epoch s)) now_ms
         else if phase s = ProtocolPhase.Verifying
               \<and> (case active_target of None \<Rightarrow> False
                   | Some target \<Rightarrow> mode = Fullscreen \<and> inp = Some target)
               \<and> observation_in_flight s = None
         then validated_staged
                (request_observation_preserving_deadline s [] now_ms timing (switch_epoch s)) now_ms
         else if phase s = GrantPending
               \<and> (case active_target of None \<Rightarrow> False
                   | Some target \<Rightarrow> has_display_route s target \<and> target_mismatch target)
         then validated_staged (begin_fallback s [] now_ms timing ''unexpected_tv_subscription'') now_ms
         else if (case session_target of None \<Rightarrow> False
                   | Some target \<Rightarrow> has_display_route s target \<and> target_mismatch target)
         then validated_staged (begin_fallback s [] now_ms timing ''unexpected_tv_subscription'') now_ms
         else if manual_display_observed s then validated (accept_manual_display s) [] now_ms
         else if phase s = Idle \<and> mode = Fullscreen \<and> inp = Some (server_host s)
         then validated (s\<lparr>manual_recovery_target := None\<rparr>) [] now_ms
         else if phase s = Idle
               \<and> (mode \<noteq> Fullscreen
                  \<or> (case inp of None \<Rightarrow> False | Some observed \<Rightarrow> observed \<noteq> server_host s))
         then validated_staged (begin_fallback s [] now_ms timing ''manual_tv_override'') now_ms
         else validated s [] now_ms)"

text \<open>\<^verbatim>\<open>Tick\<close>: first the deadline of the pending request, then one of the timers of the phase.\<close>

definition due :: "u64 option \<Rightarrow> u64 \<Rightarrow> bool" where
  "due d now_ms = (case d of None \<Rightarrow> False | Some t \<Rightarrow> t \<le> now_ms)"

definition tick_request :: "ProtocolState \<Rightarrow> u64 \<Rightarrow> ProtocolTiming \<Rightarrow> staged" where
  "tick_request s now_ms timing =
     (case active_request s of
        None \<Rightarrow> (s, [])
      | Some r \<Rightarrow>
          if req_deadline_ms r \<le> now_ms then
            (let waking = (req_status r = RequestStatus.Waking);
                 restore_display = display_restore_required s;
                 s = s\<lparr>active_request := None\<rparr>;
                 s = (if req_target r \<noteq> server_host s
                      then s\<lparr>manual_recovery_target := Some (req_target r)\<rparr> else s);
                 s = archive_request s
                       (r\<lparr>req_status := Expired, req_reason := Some ''request_deadline''\<rparr>)
             in if waking then (s\<lparr>phase := Idle, phase_deadline_ms := None\<rparr>, [])
                else begin_fallback_with_restore s [] now_ms timing ''request_deadline'' restore_display)
          else (s, []))"

definition session_expired :: "ActiveSession \<Rightarrow> u64 \<Rightarrow> bool" where
  "session_expired ses now_ms \<longleftrightarrow>
     ses_renewed_until_ms ses \<le> now_ms \<or> lease_expires_at_ms (ses_lease ses) \<le> now_ms"

definition tick_phase ::
  "ProtocolState \<Rightarrow> Effect list \<Rightarrow> u64 \<Rightarrow> ProtocolTiming \<Rightarrow> staged option" where
  "tick_phase s effects now_ms timing =
     (if (case active_session s of None \<Rightarrow> False | Some ses \<Rightarrow> session_expired ses now_ms)
      then Some (begin_active_session_failure_fallback s effects now_ms timing ''active_lease_expired'')
      else if phase s = RemoteOwned \<and> observation_in_flight s = None
            \<and> due (next_signal_poll_ms s) now_ms
      then map_option
             (\<lambda>ses. request_observation s effects now_ms timing (ses_switch_epoch ses))
             (active_session s)
      else if observation_in_flight s \<noteq> None \<and> due (phase_deadline_ms s) now_ms
      then (let reason = verification_timeout_reason s
            in Some (if active_session s \<noteq> None
                     then begin_active_session_failure_fallback s effects now_ms timing reason
                     else begin_fallback s effects now_ms timing reason))
      else if phase s = ProtocolPhase.Verifying \<and> due (phase_deadline_ms s) now_ms
      then Some (begin_fallback s effects now_ms timing (verification_timeout_reason s))
      else if ((phase s = FallbackCommandPending \<or> phase s = FallbackVerifying)
                 \<and> due (phase_deadline_ms s) now_ms)
              \<or> (phase s = FallbackDeferred \<and> daemon_healthy s)
      then Some (issue_fallback_command s effects now_ms timing)
      else if phase s = MultiviewChanging \<and> due (phase_deadline_ms s) now_ms
      then Some (begin_fallback s effects now_ms timing ''multiview_timeout'')
      else Some (s, effects))"

definition apply_tick :: "ProtocolState \<Rightarrow> u64 \<Rightarrow> ProtocolTiming \<Rightarrow> applied" where
  [handler_defs]: "apply_tick s now_ms timing =
     (let (s, effects) = tick_request s now_ms timing
      in expecting (tick_phase s effects now_ms timing) (\<lambda>st. validated_staged st now_ms))"

definition apply_shutdown :: "ProtocolState \<Rightarrow> u64 \<Rightarrow> applied" where
  [handler_defs]: "apply_shutdown s now_ms =
     validated
       ((release_to_server
          (s\<lparr>ws_state := Disconnected, subscribe_active := False, synchronized := False\<rparr>))
         \<lparr>fallback_required := True,
          fallback_reason := Some ''shutdown'',
          phase := FallbackDeferred,
          active_request := None,
          pending_multiview := None,
          phase_deadline_ms := None\<rparr>)
       [] now_ms"

fun apply_event :: "ProtocolState \<Rightarrow> Event \<Rightarrow> u64 \<Rightarrow> ProtocolTiming \<Rightarrow> applied" where
  "apply_event s TransportConnecting now_ms timing = apply_transport_connecting s now_ms"
| "apply_event s TransportRegistering now_ms timing = apply_transport_registering s now_ms"
| "apply_event s TransportSubscribed now_ms timing = apply_transport_subscribed s now_ms"
| "apply_event s (TransportSynchronized mode inp signals) now_ms timing =
     apply_transport_synchronized s mode inp signals now_ms timing"
| "apply_event s (TransportDisconnected reason) now_ms timing =
     apply_transport_disconnected s reason now_ms timing"
| "apply_event s (PeerReadinessUpdated host readiness) now_ms timing =
     apply_peer_readiness_updated s host readiness now_ms timing"
| "apply_event s (ArmManualRecovery target) now_ms timing = apply_arm_manual_recovery s target now_ms"
| "apply_event s (CreateEnter rid cid target lease) now_ms timing =
     apply_create_enter s rid cid target lease now_ms timing"
| "apply_event s (CommandAcknowledged epoch target) now_ms timing =
     apply_command_acknowledged s epoch target now_ms timing"
| "apply_event s (CommandFailed epoch reason) now_ms timing =
     apply_command_failed s epoch reason now_ms timing"
| "apply_event s (Observation epoch mode inp signals) now_ms timing =
     apply_observation s epoch mode inp signals now_ms timing"
| "apply_event s (Commit rid req_ep grant_ep lid lease_ep) now_ms timing =
     apply_commit s rid req_ep grant_ep lid lease_ep now_ms timing"
| "apply_event s (Cancel rid reason) now_ms timing = apply_cancel s rid reason now_ms timing"
| "apply_event s (Renew rid lid lease_ep peer_ep) now_ms timing =
     apply_renew s rid lid lease_ep peer_ep now_ms timing"
| "apply_event s (MultiViewRequested enabled) now_ms timing =
     apply_multiview_requested s enabled now_ms timing"
| "apply_event s (MultiViewAcknowledged epoch enabled) now_ms timing =
     apply_multiview_acknowledged s epoch enabled now_ms timing"
| "apply_event s (SubscriptionObserved mode inp) now_ms timing =
     apply_subscription_observed s mode inp now_ms timing"
| "apply_event s Tick now_ms timing = apply_tick s now_ms timing"
| "apply_event s Shutdown now_ms timing = apply_shutdown s now_ms"

end
