(* ===== verification/Protocol_Inv.thy ===== *)
theory Protocol_Inv
  imports Protocol
begin

text \<open>
  The inductive invariant of the switch protocol and the proof that every handler of
  \<^verbatim>\<open>protocol.rs\<close> keeps it and never panics. The invariant has five parts: who owns the input
  paths, which shape a pending request has, which phases need a session or a fallback, the
  bounded request history, and the totality of the switch counters.
\<close>

section \<open>The invariant\<close>

named_theorems inv_defs \<open>the parts of the protocol invariant\<close>

definition owner_inv :: "ProtocolState \<Rightarrow> bool" where
  [inv_defs]: "owner_inv s \<longleftrightarrow>
     keyboard_owner s = pointer_owner s
     \<and> (fallback_required s \<longrightarrow> keyboard_owner s = server_host s)
     \<and> (active_session s = None \<longrightarrow> keyboard_owner s = server_host s)
     \<and> (\<forall>ses. active_session s = Some ses \<longrightarrow>
          ses_target ses = keyboard_owner s \<and> keyboard_owner s \<noteq> server_host s)"

text \<open>A pending request is waking, switching or granted, and its epochs say which.\<close>

definition pending_ok :: "EnterRequest \<Rightarrow> bool" where
  [inv_defs]: "pending_ok r \<longleftrightarrow>
     (req_status r = RequestStatus.Waking \<and> req_switch_epoch r = None \<and> req_grant r = None)
     \<or> (req_status r = RequestStatus.Switching \<and> req_switch_epoch r \<noteq> None \<and> req_grant r = None)
     \<or> (req_status r = RequestStatus.Grant
        \<and> (\<exists>g. req_grant r = Some g \<and> req_switch_epoch r = Some (grant_switch_epoch g)
               \<and> grant_expires_at_ms g \<le> lease_expires_at_ms (req_lease r)
               \<and> req_deadline_ms r = grant_expires_at_ms g))"

definition request_inv :: "ProtocolState \<Rightarrow> bool" where
  [inv_defs]: "request_inv s \<longleftrightarrow>
     (\<forall>r. active_request s = Some r \<longrightarrow>
        pending_ok r \<and> \<not> fallback_required s
        \<and> (phase s = ProtocolPhase.Waking \<longrightarrow> req_status r = RequestStatus.Waking))"

definition phase_inv :: "ProtocolState \<Rightarrow> bool" where
  [inv_defs]: "phase_inv s \<longleftrightarrow>
     (phase s = RemoteOwned \<longrightarrow> active_session s \<noteq> None)
     \<and> (phase s = FallbackCommandPending \<or> phase s = FallbackVerifying \<longrightarrow> fallback_required s)"

definition history_ok :: "nat \<Rightarrow> EnterRequest list \<Rightarrow> bool" where
  [inv_defs]: "history_ok limit h \<longleftrightarrow>
     0 < limit \<and> length h \<le> limit \<and> distinct (map req_request_id h)"

definition history_inv :: "ProtocolState \<Rightarrow> bool" where
  [inv_defs]: "history_inv s \<longleftrightarrow>
     history_ok (retained_request_limit s) (request_history s)
     \<and> (\<forall>r. active_request s = Some r \<longrightarrow> req_request_id r \<notin> req_request_id ` set (request_history s))"

definition counter_inv :: "ProtocolState \<Rightarrow> bool" where
  [inv_defs]: "counter_inv s \<longleftrightarrow> (\<forall>h. switch_count s h \<noteq> None)"

definition struct_inv :: "ProtocolState \<Rightarrow> bool" where
  "struct_inv s \<longleftrightarrow> owner_inv s \<and> request_inv s \<and> phase_inv s \<and> history_inv s \<and> counter_inv s"

section \<open>Frame lemmas of the helper functions\<close>

lemma archive_request_update: "archive_request s r = s\<lparr>request_history := request_history (archive_request s r)\<rparr>"
  by (simp add: archive_request_def Let_def)

lemma archive_request_history_cong:
  "request_history s = request_history s' \<Longrightarrow> retained_request_limit s = retained_request_limit s' \<Longrightarrow>
   request_history (archive_request s r) = request_history (archive_request s' r)"
  by (simp add: archive_request_def Let_def)

lemma archive_request_fields [simp]:
  "keyboard_owner (archive_request s r) = keyboard_owner s"
  "pointer_owner (archive_request s r) = pointer_owner s"
  "server_host (archive_request s r) = server_host s"
  "display_hosts (archive_request s r) = display_hosts s"
  "active_session (archive_request s r) = active_session s"
  "active_request (archive_request s r) = active_request s"
  "switch_count (archive_request s r) = switch_count s"
  "fallback_required (archive_request s r) = fallback_required s"
  "retained_request_limit (archive_request s r) = retained_request_limit s"
  "phase (archive_request s r) = phase s"
  "pending_multiview (archive_request s r) = pending_multiview s"
  "ws_state (archive_request s r) = ws_state s"
  "subscribe_active (archive_request s r) = subscribe_active s"
  "synchronized (archive_request s r) = synchronized s"
  by (simp_all add: archive_request_def Let_def)

lemma archive_history_ok:
  "history_ok (retained_request_limit s) (request_history s) \<Longrightarrow>
   history_ok (retained_request_limit s) (request_history (archive_request s r))"
  by (simp add: history_ok_def archive_request_length archive_request_distinct)

lemma update_last_history_ok:
  "(\<And>r. req_request_id (f r) = req_request_id r) \<Longrightarrow>
   history_ok n (update_last p f h) = history_ok n h"
  by (simp add: history_ok_def map_update_last)

lemma image_update_last:
  "(\<And>x. g (f x) = g x) \<Longrightarrow> g ` set (update_last p f xs) = g ` set xs"
  by (metis list.set_map map_update_last)

text \<open>The history a fallback leaves behind.\<close>

definition fallback_history :: "ProtocolState \<Rightarrow> string \<Rightarrow> EnterRequest list" where
  "fallback_history s reason =
     (let h = (case active_session s of
                 None \<Rightarrow> request_history s
               | Some ses \<Rightarrow>
                   update_last (\<lambda>r. req_request_id r = ses_request_id ses)
                     (\<lambda>r. if req_status r = Committed
                          then r\<lparr>req_status := Fallback, req_reason := Some reason\<rparr> else r)
                     (request_history s))
      in case active_request s of
           None \<Rightarrow> h
         | Some r \<Rightarrow>
             request_history (archive_request (s\<lparr>request_history := h\<rparr>)
               (r\<lparr>req_status := Fallback, req_reason := Some reason\<rparr>)))"

lemma fallback_history_ok:
  assumes "history_ok (retained_request_limit s) (request_history s)"
  shows "history_ok (retained_request_limit s) (fallback_history s reason)"
proof -
  let ?f = "\<lambda>r. if req_status r = Committed
                then r\<lparr>req_status := Fallback, req_reason := Some reason\<rparr> else r"
  let ?h = "case active_session s of None \<Rightarrow> request_history s
     | Some ses \<Rightarrow> update_last (\<lambda>r. req_request_id r = ses_request_id ses) ?f (request_history s)"
  have h: "history_ok (retained_request_limit s) ?h"
    using assms by (simp add: update_last_history_ok split: option.splits)
  show ?thesis
    using h archive_history_ok [of "s\<lparr>request_history := ?h\<rparr>"]
    by (simp add: fallback_history_def Let_def split: option.splits)
qed

lemma begin_fallback_with_restore_fields [simp]:
  "keyboard_owner (fst (begin_fallback_with_restore s eff now tm reason restore)) = server_host s"
  "pointer_owner (fst (begin_fallback_with_restore s eff now tm reason restore)) = server_host s"
  "server_host (fst (begin_fallback_with_restore s eff now tm reason restore)) = server_host s"
  "display_hosts (fst (begin_fallback_with_restore s eff now tm reason restore)) = display_hosts s"
  "active_session (fst (begin_fallback_with_restore s eff now tm reason restore)) = None"
  "active_request (fst (begin_fallback_with_restore s eff now tm reason restore)) = None"
  "switch_count (fst (begin_fallback_with_restore s eff now tm reason restore)) = switch_count s"
  "retained_request_limit (fst (begin_fallback_with_restore s eff now tm reason restore)) =
     retained_request_limit s"
  "fallback_required (fst (begin_fallback_with_restore s eff now tm reason restore)) = restore"
  "request_history (fst (begin_fallback_with_restore s eff now tm reason restore)) =
     fallback_history s reason"
  by (simp_all add: begin_fallback_with_restore_def archive_request_def archived_request_mut_def
      fallback_history_def Let_def protocol_defs split: option.splits)

lemma begin_fallback_with_restore_phase:
  "phase (fst (begin_fallback_with_restore s eff now tm reason restore)) =
     (if restore \<and> daemon_healthy s then FallbackCommandPending
      else if restore \<or> \<not> daemon_healthy s then FallbackDeferred else Idle)"
  by (simp add: begin_fallback_with_restore_def archive_request_def archived_request_mut_def
      daemon_healthy_def Let_def protocol_defs split: option.splits)

lemma begin_fallback_with_restore_effects:
  "snd (begin_fallback_with_restore s eff now tm reason restore) =
     (if restore \<and> daemon_healthy s
      then eff @ [SetInput (server_host s) (saturating_add (switch_epoch s) 1) True] else eff)"
  by (simp add: begin_fallback_with_restore_def archive_request_def archived_request_mut_def
      daemon_healthy_def Let_def protocol_defs split: option.splits)

text \<open>What a fallback needs of the state it starts in, and what it establishes.\<close>

definition fallback_pre :: "ProtocolState \<Rightarrow> bool" where
  "fallback_pre s \<longleftrightarrow> counter_inv s \<and> history_ok (retained_request_limit s) (request_history s)"

lemma struct_inv_fallback_pre [intro]: "struct_inv s \<Longrightarrow> fallback_pre s"
  by (simp add: struct_inv_def fallback_pre_def history_inv_def)

lemma begin_fallback_with_restore_inv [intro]:
  "fallback_pre s \<Longrightarrow> struct_inv (fst (begin_fallback_with_restore s eff now tm reason restore))"
  by (simp add: struct_inv_def fallback_pre_def owner_inv_def request_inv_def phase_inv_def
      history_inv_def counter_inv_def begin_fallback_with_restore_phase fallback_history_ok)

lemma begin_fallback_inv [intro]:
  "fallback_pre s \<Longrightarrow> struct_inv (fst (begin_fallback s eff now tm reason))"
  by (auto simp: begin_fallback_def Let_def)

lemma fallback_pre_manual [simp]:
  "fallback_pre (s\<lparr>manual_recovery_target := x\<rparr>) = fallback_pre s"
  by (simp add: fallback_pre_def counter_inv_def)

lemma begin_active_session_failure_fallback_inv [intro]:
  "fallback_pre s \<Longrightarrow> struct_inv (fst (begin_active_session_failure_fallback s eff now tm reason))"
  by (auto simp: begin_active_session_failure_fallback_def Let_def split: option.splits)


section \<open>Grants and switches\<close>

definition bump_count :: "ProtocolState \<Rightarrow> Host \<Rightarrow> (Host \<rightharpoonup> u64)" where
  "bump_count s target =
     (if switch_epoch s = 0 then switch_count s
      else (switch_count s)(target \<mapsto> saturating_add (the (switch_count s target)) 1))"

lemma record_verified_switch_Some:
  "counter_inv s \<Longrightarrow> record_verified_switch s target = Some (s\<lparr>switch_count := bump_count s target\<rparr>)"
proof -
  assume "counter_inv s"
  then obtain c where "switch_count s target = Some c" unfolding counter_inv_def by blast
  then show ?thesis by (simp add: record_verified_switch_def bump_count_def)
qed

definition grant_deadline :: "EnterRequest \<Rightarrow> u64 \<Rightarrow> ProtocolTiming \<Rightarrow> u64" where
  "grant_deadline r now_ms timing =
     min (saturating_add now_ms (grant_ms timing)) (lease_expires_at_ms (req_lease r))"

definition granted :: "EnterRequest \<Rightarrow> u64 \<Rightarrow> u64 \<Rightarrow> u64 \<Rightarrow> ProtocolTiming \<Rightarrow> EnterRequest" where
  "granted r gepoch epoch now_ms timing =
     r\<lparr>req_status := RequestStatus.Grant,
       req_deadline_ms := grant_deadline r now_ms timing,
       req_grant := Some \<lparr>grant_grant_epoch = gepoch, grant_switch_epoch = epoch,
                         grant_expires_at_ms = grant_deadline r now_ms timing\<rparr>\<rparr>"

lemma issue_grant_Some:
  assumes "active_request s = Some r" and "req_switch_epoch r = Some epoch" and "counter_inv s"
  shows "issue_grant s now tm = Some
     (s\<lparr>grant_epoch := saturating_add (grant_epoch s) 1,
        active_request := Some (granted r (saturating_add (grant_epoch s) 1) epoch now tm),
        verified_epoch := Some epoch,
        phase := GrantPending,
        phase_deadline_ms := Some (grant_deadline r now tm),
        switch_count := bump_count s (req_target r)\<rparr>)"
proof -
  have "counter_inv (s\<lparr>grant_epoch := a, active_request := b, verified_epoch := c, phase := d,
          phase_deadline_ms := e\<rparr>)" for a b c d e
    using assms(3) by (simp add: counter_inv_def)
  then show ?thesis
    using assms(1,2)
    by (simp add: issue_grant_def Let_def record_verified_switch_Some granted_def grant_deadline_def
        bump_count_def)
qed

text \<open>The state of a request that \<open>begin_switch\<close> puts under way.\<close>

definition switching :: "EnterRequest \<Rightarrow> u64 \<Rightarrow> u64 \<Rightarrow> ProtocolTiming \<Rightarrow> EnterRequest" where
  "switching r epoch now_ms timing =
     r\<lparr>req_status := RequestStatus.Switching,
       req_switch_epoch := Some epoch,
       req_deadline_ms :=
         saturating_add (saturating_add now_ms (command_ms timing)) (observation_ms timing)\<rparr>"

lemma begin_switch_routed:
  assumes "active_request s = Some r" and "has_display_route s (req_target r)"
  shows "begin_switch s eff now tm = Some
     (s\<lparr>switch_epoch := saturating_add (switch_epoch s) 1,
        active_request := Some (switching r (saturating_add (switch_epoch s) 1) now tm),
        commanded_input := Some (req_target r),
        phase := ProtocolPhase.Switching,
        phase_deadline_ms := Some (saturating_add now (command_ms tm))\<rparr>,
      eff @ [SetInput (req_target r) (saturating_add (switch_epoch s) 1) False])"
  using assms by (simp add: begin_switch_def Let_def switching_def has_display_route_def)

lemma begin_switch_route_free:
  assumes "active_request s = Some r" and "\<not> has_display_route s (req_target r)" and "counter_inv s"
  shows "begin_switch s eff now tm =
     (let epoch = saturating_add (switch_epoch s) 1;
          s' = s\<lparr>switch_epoch := epoch,
                 active_request := Some (switching r epoch now tm),
                 commanded_input := None,
                 phase_deadline_ms := None\<rparr>
      in map_option (\<lambda>t. (t, eff)) (issue_grant s' now tm))"
  using assms by (simp add: begin_switch_def Let_def switching_def has_display_route_def)

lemma pending_ok_switching: "req_grant r = None \<Longrightarrow> pending_ok (switching r epoch now tm)"
  by (simp add: pending_ok_def switching_def)

lemma pending_ok_granted:
  "req_switch_epoch r = Some epoch \<Longrightarrow> pending_ok (granted r gepoch epoch now tm)"
  by (simp add: pending_ok_def granted_def grant_deadline_def)

lemma switching_fields [simp]:
  "req_request_id (switching r e n t) = req_request_id r"
  "req_target (switching r e n t) = req_target r"
  "req_switch_epoch (switching r e n t) = Some e"
  "req_status (switching r e n t) = RequestStatus.Switching"
  "req_lease (switching r e n t) = req_lease r"
  "req_grant (switching r e n t) = req_grant r"
  "req_client_id (switching r e n t) = req_client_id r"
  "req_request_epoch (switching r e n t) = req_request_epoch r"
  by (simp_all add: switching_def)

lemma granted_fields [simp]:
  "req_request_id (granted r g e n t) = req_request_id r"
  "req_target (granted r g e n t) = req_target r"
  "req_switch_epoch (granted r g e n t) = req_switch_epoch r"
  "req_status (granted r g e n t) = RequestStatus.Grant"
  "req_lease (granted r g e n t) = req_lease r"
  "req_client_id (granted r g e n t) = req_client_id r"
  "req_request_epoch (granted r g e n t) = req_request_epoch r"
  by (simp_all add: granted_def)

lemma counter_inv_bump: "counter_inv s \<Longrightarrow> bump_count s t h \<noteq> None"
  by (simp add: counter_inv_def bump_count_def)

lemma issue_grant_inv:
  assumes "owner_inv s" and "history_inv s" and "counter_inv s" and "\<not> fallback_required s"
    and "active_request s = Some r" and "req_switch_epoch r = Some epoch"
  obtains s' where "issue_grant s now tm = Some s'" and "struct_inv s'"
proof
  show "issue_grant s now tm = Some
     (s\<lparr>grant_epoch := saturating_add (grant_epoch s) 1,
        active_request := Some (granted r (saturating_add (grant_epoch s) 1) epoch now tm),
        verified_epoch := Some epoch,
        phase := GrantPending,
        phase_deadline_ms := Some (grant_deadline r now tm),
        switch_count := bump_count s (req_target r)\<rparr>)" (is "_ = Some ?s'")
    using assms by (intro issue_grant_Some)
  show "struct_inv ?s'"
    using assms counter_inv_bump [of s "req_target r"]
    by (auto simp: struct_inv_def owner_inv_def request_inv_def phase_inv_def history_inv_def
        counter_inv_def pending_ok_granted)
qed

lemma begin_switch_inv:
  assumes "owner_inv s" and "history_inv s" and "counter_inv s" and "\<not> fallback_required s"
    and "active_request s = Some r" and "req_grant r = None"
  obtains s' eff' where "begin_switch s eff now tm = Some (s', eff')" and "struct_inv s'"
proof (cases "has_display_route s (req_target r)")
  case True
  note eq = begin_switch_routed [OF assms(5) True, of eff now tm]
  show ?thesis
    by (rule that, rule eq)
      (use assms in \<open>auto simp: struct_inv_def owner_inv_def request_inv_def phase_inv_def
         history_inv_def counter_inv_def pending_ok_switching\<close>)
next
  case False
  let ?e = "saturating_add (switch_epoch s) 1"
  let ?s = "s\<lparr>switch_epoch := ?e, active_request := Some (switching r ?e now tm),
              commanded_input := None, phase_deadline_ms := None\<rparr>"
  have "owner_inv ?s" "history_inv ?s" "counter_inv ?s" "\<not> fallback_required ?s"
    using assms by (auto simp: owner_inv_def history_inv_def counter_inv_def)
  then obtain s' where "issue_grant ?s now tm = Some s'" "struct_inv s'"
    by (rule issue_grant_inv [where r = "switching r ?e now tm" and epoch = ?e]) simp_all
  then show ?thesis
    using that begin_switch_route_free [OF assms(5) False assms(3), of eff now tm]
    by (simp add: Let_def)
qed

lemma finish_fallback_Some:
  assumes "counter_inv s"
  shows "finish_fallback s = Some
     (s\<lparr>keyboard_owner := server_host s, pointer_owner := server_host s, active_session := None,
        fallback_required := False, fallback_reason := None, phase := Idle,
        phase_deadline_ms := None, observation_in_flight := None, next_signal_poll_ms := None,
        verified_epoch := Some (switch_epoch s), switch_count := bump_count s (server_host s)\<rparr>)"
proof -
  have "counter_inv (s\<lparr>keyboard_owner := a, pointer_owner := b, active_session := c,
        fallback_required := d, fallback_reason := e, phase := f, phase_deadline_ms := g,
        observation_in_flight := h, next_signal_poll_ms := i, verified_epoch := j\<rparr>)"
    for a b c d e f g h i j
    using assms by (simp add: counter_inv_def)
  then show ?thesis
    by (simp add: finish_fallback_def Let_def record_verified_switch_Some release_to_server_def
        bump_count_def)
qed

lemma finish_fallback_inv:
  assumes "request_inv s" and "history_inv s" and "counter_inv s"
  obtains s' where "finish_fallback s = Some s'" and "struct_inv s'"
proof
  show "finish_fallback s = Some
     (s\<lparr>keyboard_owner := server_host s, pointer_owner := server_host s, active_session := None,
        fallback_required := False, fallback_reason := None, phase := Idle,
        phase_deadline_ms := None, observation_in_flight := None, next_signal_poll_ms := None,
        verified_epoch := Some (switch_epoch s), switch_count := bump_count s (server_host s)\<rparr>)"
    (is "_ = Some ?s'")
    using assms(3) by (rule finish_fallback_Some)
  show "struct_inv ?s'"
    using assms counter_inv_bump [of s "server_host s"]
    by (auto simp: struct_inv_def owner_inv_def request_inv_def phase_inv_def history_inv_def
        counter_inv_def)
qed

lemma accept_manual_display_inv:
  "request_inv s \<Longrightarrow> history_inv s \<Longrightarrow> counter_inv s \<Longrightarrow> struct_inv (accept_manual_display s)"
  by (auto simp: struct_inv_def owner_inv_def request_inv_def phase_inv_def history_inv_def
      counter_inv_def accept_manual_display_def release_to_server_def)

section \<open>Observations touch no part of the invariant\<close>

definition observed_signals ::
  "ProtocolState \<Rightarrow> u64 \<Rightarrow> u64 \<Rightarrow> (Host \<rightharpoonup> bool) \<Rightarrow> (Host \<rightharpoonup> SignalObservation)" where
  "observed_signals s epoch now_ms signals =
     (\<lambda>h. case signals h of
           None \<Rightarrow> input_signal s h
         | Some present \<Rightarrow>
             Some \<lparr>sig_present = present, sig_switch_epoch = epoch, sig_observed_at_ms = now_ms\<rparr>)"

lemma foldl_signals:
  "foldl (\<lambda>st h. case signals h of None \<Rightarrow> st
            | Some present \<Rightarrow> st\<lparr>input_signal := (input_signal st)(h \<mapsto> obs present)\<rparr>) s hs =
     s\<lparr>input_signal :=
        (\<lambda>h. if h \<in> set hs \<and> signals h \<noteq> None then Some (obs (the (signals h)))
             else input_signal s h)\<rparr>"
proof (induction hs arbitrary: s)
  case (Cons x hs)
  show ?case
  proof (cases "signals x")
    case None
    have "(\<lambda>h. if h \<in> set (x # hs) \<and> signals h \<noteq> None then Some (obs (the (signals h)))
               else input_signal s h) =
          (\<lambda>h. if h \<in> set hs \<and> signals h \<noteq> None then Some (obs (the (signals h)))
               else input_signal s h)"
      using None by (auto simp: fun_eq_iff)
    with None show ?thesis by (simp only: foldl_Cons Cons.IH option.case)
  next
    case (Some p)
    let ?s = "s\<lparr>input_signal := (input_signal s)(x \<mapsto> obs p)\<rparr>"
    have "(\<lambda>h. if h \<in> set (x # hs) \<and> signals h \<noteq> None then Some (obs (the (signals h)))
               else input_signal s h) =
          (\<lambda>h. if h \<in> set hs \<and> signals h \<noteq> None then Some (obs (the (signals h)))
               else input_signal ?s h)"
      using Some by (auto simp: fun_eq_iff)
    with Some show ?thesis by (simp only: foldl_Cons Cons.IH option.case) simp
  qed
qed simp

lemma store_observation_eq:
  "store_observation s epoch now mode inp signals =
     s\<lparr>tv_mode := mode, observed_input := inp, input_signal := observed_signals s epoch now signals\<rparr>"
proof -
  have "(\<lambda>h. if h \<in> set Host_ALL \<and> signals h \<noteq> None
             then Some \<lparr>sig_present = the (signals h), sig_switch_epoch = epoch, sig_observed_at_ms = now\<rparr>
             else input_signal (s\<lparr>tv_mode := mode, observed_input := inp\<rparr>) h) =
        observed_signals s epoch now signals"
    by (auto simp: observed_signals_def fun_eq_iff split: option.splits)
  then show ?thesis
    unfolding store_observation_def
    by (simp add: foldl_signals
        [where obs = "\<lambda>p. \<lparr>sig_present = p, sig_switch_epoch = epoch, sig_observed_at_ms = now\<rparr>"])
qed

text \<open>The fields no part of the invariant reads.\<close>

lemma struct_inv_irrelevant [simp]:
  "struct_inv (s\<lparr>tv_mode := x_tv_mode\<rparr>) = struct_inv s"
  "struct_inv (s\<lparr>observed_input := x_observed_input\<rparr>) = struct_inv s"
  "struct_inv (s\<lparr>input_signal := x_input_signal\<rparr>) = struct_inv s"
  "struct_inv (s\<lparr>observation_in_flight := x_observation_in_flight\<rparr>) = struct_inv s"
  "struct_inv (s\<lparr>peers := x_peers\<rparr>) = struct_inv s"
  "struct_inv (s\<lparr>ws_state := x_ws_state\<rparr>) = struct_inv s"
  "struct_inv (s\<lparr>subscribe_active := x_subscribe_active\<rparr>) = struct_inv s"
  "struct_inv (s\<lparr>synchronized := x_synchronized\<rparr>) = struct_inv s"
  "struct_inv (s\<lparr>last_error := x_last_error\<rparr>) = struct_inv s"
  "struct_inv (s\<lparr>reconnect_total := x_reconnect_total\<rparr>) = struct_inv s"
  "struct_inv (s\<lparr>manual_recovery_target := x_manual_recovery_target\<rparr>) = struct_inv s"
  "struct_inv (s\<lparr>phase_deadline_ms := x_phase_deadline_ms\<rparr>) = struct_inv s"
  "struct_inv (s\<lparr>next_signal_poll_ms := x_next_signal_poll_ms\<rparr>) = struct_inv s"
  "struct_inv (s\<lparr>verified_epoch := x_verified_epoch\<rparr>) = struct_inv s"
  "struct_inv (s\<lparr>grant_epoch := x_grant_epoch\<rparr>) = struct_inv s"
  "struct_inv (s\<lparr>switch_epoch := x_switch_epoch\<rparr>) = struct_inv s"
  "struct_inv (s\<lparr>request_epoch := x_request_epoch\<rparr>) = struct_inv s"
  "struct_inv (s\<lparr>commanded_input := x_commanded_input\<rparr>) = struct_inv s"
  "struct_inv (s\<lparr>fallback_reason := x_fallback_reason\<rparr>) = struct_inv s"
  "struct_inv (s\<lparr>pending_multiview := x_pending_multiview\<rparr>) = struct_inv s"
  "struct_inv (s\<lparr>dropped_logs := x_dropped_logs\<rparr>) = struct_inv s"
  by (simp_all add: struct_inv_def owner_inv_def request_inv_def phase_inv_def history_inv_def
      counter_inv_def)

section \<open>Every handler keeps the invariant and does not panic\<close>

definition keeps_inv :: "applied \<Rightarrow> bool" where
  "keeps_inv r = (case r of Ok t \<Rightarrow> struct_inv (t_next t) | Err _ \<Rightarrow> True | Panic \<Rightarrow> False)"

lemma keeps_inv_simps [simp]:
  "keeps_inv (Ok t) = struct_inv (t_next t)"
  "keeps_inv (Err e)"
  "\<not> keeps_inv Panic"
  by (simp_all add: keeps_inv_def)

lemma keeps_validated [intro]: "struct_inv s \<Longrightarrow> keeps_inv (validated s eff now)"
  by (simp add: validated_def split: option.splits)

lemma keeps_validated_staged [intro]: "struct_inv (fst st) \<Longrightarrow> keeps_inv (validated_staged st now)"
  by (simp add: validated_staged_def keeps_validated)

lemma keeps_expecting:
  "v = Some x \<Longrightarrow> keeps_inv (k x) \<Longrightarrow> keeps_inv (expecting v k)"
  by simp

lemma struct_invD:
  assumes "struct_inv s"
  shows "owner_inv s" and "request_inv s" and "phase_inv s" and "history_inv s" and "counter_inv s"
    and "fallback_pre s"
  using assms by (auto simp: struct_inv_def)

lemma keeps_finish_fallback:
  assumes "struct_inv s"
  shows "keeps_inv (expecting (finish_fallback s) (\<lambda>s. validated s eff now))"
proof -
  obtain s' where "finish_fallback s = Some s'" "struct_inv s'"
    using struct_invD [OF assms] by (blast intro: finish_fallback_inv)
  then show ?thesis by auto
qed

lemma keeps_begin_switch:
  assumes "owner_inv s" "history_inv s" "counter_inv s" "\<not> fallback_required s"
    "active_request s = Some r" "req_grant r = None"
  shows "keeps_inv (expecting (begin_switch s eff now tm) (\<lambda>st. validated_staged st now'))"
proof -
  obtain s' eff' where "begin_switch s eff now tm = Some (s', eff')" "struct_inv s'"
    using begin_switch_inv [OF assms] by blast
  then show ?thesis by auto
qed

lemma keeps_issue_grant:
  assumes "struct_inv s" "active_request s = Some r" "req_switch_epoch r = Some epoch"
  shows "keeps_inv (expecting (issue_grant s now tm) (\<lambda>s. validated s eff now'))"
proof -
  have "\<not> fallback_required s"
    using assms by (simp add: struct_inv_def request_inv_def)
  then obtain s' where "issue_grant s now tm = Some s'" "struct_inv s'"
    using issue_grant_inv [of s r epoch now tm] struct_invD [OF assms(1)] assms(2,3) by blast
  then show ?thesis by auto
qed

lemma keeps_fallback:
  "struct_inv s \<Longrightarrow> keeps_inv (validated_staged (begin_fallback s eff now tm reason) now')"
  by auto

lemma keeps_session_fallback:
  "struct_inv s \<Longrightarrow>
   keeps_inv (validated_staged (begin_active_session_failure_fallback s eff now tm reason) now')"
  by auto

lemma keeps_accept_manual:
  "struct_inv s \<Longrightarrow> keeps_inv (validated (accept_manual_display s) eff now)"
  by (auto intro: accept_manual_display_inv dest: struct_invD)

lemmas keeps_intros =
  keeps_validated keeps_validated_staged keeps_finish_fallback keeps_fallback
  keeps_session_fallback keeps_accept_manual

lemma keeps_transport_connecting: "struct_inv s \<Longrightarrow> keeps_inv (apply_transport_connecting s now)"
  by (auto simp: apply_transport_connecting_def)

lemma keeps_transport_registering: "struct_inv s \<Longrightarrow> keeps_inv (apply_transport_registering s now)"
  by (auto simp: apply_transport_registering_def)

lemma keeps_transport_subscribed: "struct_inv s \<Longrightarrow> keeps_inv (apply_transport_subscribed s now)"
  by (auto simp: apply_transport_subscribed_def)

lemma struct_inv_store_observation [simp]:
  "struct_inv (store_observation s epoch now mode inp signals) = struct_inv s"
  by (simp add: store_observation_eq struct_inv_def owner_inv_def request_inv_def phase_inv_def
      history_inv_def counter_inv_def)

lemma keeps_transport_synchronized:
  assumes "struct_inv s"
  shows "keeps_inv (apply_transport_synchronized s mode inp signals now tm)"
proof -
  let ?s = "store_observation (s\<lparr>ws_state := Connected, subscribe_active := True, synchronized := True\<rparr>)
    (switch_epoch s) now mode inp signals"
  have "struct_inv ?s" using assms by simp
  then show ?thesis
    by (simp add: apply_transport_synchronized_def Let_def keeps_intros)
qed

lemma keeps_transport_disconnected:
  "struct_inv s \<Longrightarrow> keeps_inv (apply_transport_disconnected s reason now tm)"
  by (simp add: apply_transport_disconnected_def Let_def keeps_intros)

lemma keeps_arm_manual_recovery: "struct_inv s \<Longrightarrow> keeps_inv (apply_arm_manual_recovery s t now)"
  by (auto simp: apply_arm_manual_recovery_def)

lemma keeps_peer_readiness_updated:
  assumes "struct_inv s"
  shows "keeps_inv (apply_peer_readiness_updated s host readiness now tm)"
proof -
  let ?s = "s\<lparr>peers := (peers s)(host \<mapsto> readiness)\<rparr>"
  have inv: "struct_inv ?s" using assms by simp
  have "\<exists>s' eff. readiness_for_request ?s host readiness now tm = Some (s', eff) \<and> struct_inv s'"
  proof (cases "map_option req_target (active_request ?s) = Some host
      \<and> phase ?s = ProtocolPhase.Waking
      \<and> bundle_ready readiness (peer_session_epoch (req_lease (the (active_request ?s))))")
    case True
    then obtain r where r: "active_request ?s = Some r" by auto
    with inv True have "req_grant r = None" "\<not> fallback_required ?s"
      by (auto simp: struct_inv_def request_inv_def pending_ok_def)
    with r struct_invD [OF inv] obtain s' eff where
      "begin_switch ?s [] now tm = Some (s', eff)" "struct_inv s'"
      using begin_switch_inv [of ?s r "[]" now tm] by blast
    with True r show ?thesis by (auto simp: readiness_for_request_def Let_def)
  next
    case False
    have "struct_inv (fst (begin_fallback ?s [] now tm ''target_readiness_lost''))"
      by (rule begin_fallback_inv [OF struct_inv_fallback_pre [OF inv]])
    with False inv show ?thesis
      by (auto simp: readiness_for_request_def Let_def prod_eq_iff split: option.splits)
  qed
  then obtain s' eff where s': "readiness_for_request ?s host readiness now tm = Some (s', eff)"
      "struct_inv s'" by blast
  have "struct_inv (fst (readiness_for_session s' eff host readiness now tm))"
    using s'(2) by (auto simp: readiness_for_session_def Let_def)
  with s'(1) show ?thesis
    by (auto simp: apply_peer_readiness_updated_def Let_def)
qed

lemma ready_not_fallback: "ready s \<Longrightarrow> \<not> fallback_required s"
  by (simp add: ready_def)

lemma new_enter_request_fields [simp]:
  "req_request_id (new_enter_request rid cid t e l n tm) = rid"
  "req_client_id (new_enter_request rid cid t e l n tm) = cid"
  "req_target (new_enter_request rid cid t e l n tm) = t"
  "req_request_epoch (new_enter_request rid cid t e l n tm) = e"
  "req_lease (new_enter_request rid cid t e l n tm) = l"
  "req_grant (new_enter_request rid cid t e l n tm) = None"
  "req_switch_epoch (new_enter_request rid cid t e l n tm) = None"
  by (simp_all add: new_enter_request_def)

lemma keeps_admit_enter:
  assumes inv: "struct_inv s" and rdy: "ready s" and none: "active_request s = None"
    and fresh: "rid \<notin> req_request_id ` set (request_history s)"
  shows "keeps_inv (admit_enter s rid cid target lease now tm)"
proof -
  note parts = struct_invD [OF inv] ready_not_fallback [OF rdy]
  let ?s = "s\<lparr>manual_recovery_target := None, request_epoch := saturating_add (request_epoch s) 1\<rparr>"
  let ?r = "\<lambda>t. new_enter_request rid cid t (saturating_add (request_epoch s) 1) lease now tm"
  have a: "keeps_inv (expecting (begin_switch ((release_to_server ?s)\<lparr>active_request := Some (?r t)\<rparr>) [] now tm)
             (\<lambda>st. validated_staged st now))" for t
    by (rule keeps_begin_switch [where r = "?r t"])
      (use parts fresh in \<open>simp_all add: release_to_server_def owner_inv_def history_inv_def counter_inv_def\<close>)
  have b: "keeps_inv (expecting (begin_switch (?s\<lparr>active_request := Some (?r t)\<rparr>) [] now tm)
             (\<lambda>st. validated_staged st now))" for t
    by (rule keeps_begin_switch [where r = "?r t"])
      (use parts fresh in \<open>auto simp: owner_inv_def history_inv_def counter_inv_def\<close>)
  have c: "struct_inv (?s\<lparr>phase := ProtocolPhase.Waking, phase_deadline_ms := d,
              active_request := Some ((?r t)\<lparr>req_status := RequestStatus.Waking, req_deadline_ms := e\<rparr>)\<rparr>)"
    for d e t
    using parts fresh
    by (auto simp: struct_inv_def owner_inv_def history_inv_def request_inv_def phase_inv_def
        counter_inv_def pending_ok_def)
  have d: "struct_inv (archive_request (?s\<lparr>manual_recovery_target := m\<rparr>) r')" for m r'
    using parts none archive_history_ok [of "?s\<lparr>manual_recovery_target := m\<rparr>" r']
    by (auto simp: struct_inv_def owner_inv_def history_inv_def request_inv_def phase_inv_def
        counter_inv_def)
  show ?thesis
    using a b c d
    by (simp add: admit_enter_def Let_def keeps_validated)
qed

lemma request_None_fresh:
  "request s rid = None \<Longrightarrow> rid \<notin> req_request_id ` set (request_history s)"
  by (auto simp: request_def find_last_None_iff split: option.splits)

lemma keeps_create_enter:
  "struct_inv s \<Longrightarrow> keeps_inv (apply_create_enter s rid cid target lease now tm)"
  by (auto simp: apply_create_enter_def keeps_admit_enter request_None_fresh split: option.splits)

lemma keeps_command_acknowledged:
  assumes "struct_inv s"
  shows "keeps_inv (apply_command_acknowledged s epoch target now tm)"
proof -
  have "struct_inv (s\<lparr>phase := (if fallback_required s then FallbackVerifying
           else ProtocolPhase.Verifying)\<rparr>)"
    using assms
    by (auto simp: struct_inv_def owner_inv_def request_inv_def phase_inv_def history_inv_def
        counter_inv_def)
  with assms show ?thesis
    by (auto simp: apply_command_acknowledged_def request_observation_def)
qed

lemma keeps_command_failed:
  "struct_inv s \<Longrightarrow> keeps_inv (apply_command_failed s epoch reason now tm)"
  by (simp add: apply_command_failed_def keeps_intros)

lemma keeps_observe_for_request:
  assumes "struct_inv s" and "active_request s = Some r"
  shows "keeps_inv (observe_for_request s r epoch now tm)"
  using assms
  by (auto simp: observe_for_request_def Let_def keeps_intros intro: keeps_issue_grant)

lemma keeps_observe_for_session:
  "struct_inv s \<Longrightarrow> keeps_inv (observe_for_session s epoch now tm)"
  by (simp add: observe_for_session_def keeps_intros split: option.splits)

lemma struct_inv_phase_idle: "struct_inv s \<Longrightarrow> struct_inv (s\<lparr>phase := Idle\<rparr>)"
  by (auto simp: struct_inv_def owner_inv_def request_inv_def phase_inv_def history_inv_def
      counter_inv_def)

lemma complete_multiview_observation_inv:
  assumes "struct_inv s"
  shows "struct_inv (fst (complete_multiview_observation s eff now tm))"
proof -
  have "struct_inv (s\<lparr>pending_multiview := None, phase := Idle, phase_deadline_ms := None\<rparr>)"
    using struct_inv_phase_idle [of "s\<lparr>pending_multiview := None\<rparr>"] assms by simp
  with assms show ?thesis
    by (auto simp: complete_multiview_observation_def Let_def split: option.splits)
qed

lemma struct_inv_phase_fallback_verifying:
  "struct_inv s \<Longrightarrow> fallback_required s \<Longrightarrow> struct_inv (s\<lparr>phase := FallbackVerifying\<rparr>)"
  by (auto simp: struct_inv_def owner_inv_def request_inv_def phase_inv_def history_inv_def
      counter_inv_def)

lemma keeps_observation:
  assumes "struct_inv s"
  shows "keeps_inv (apply_observation s epoch mode inp signals now tm)"
proof -
  let ?t = "store_observation s epoch now mode inp signals"
  define t where
    "t = (if observation_in_flight ?t = Some epoch then ?t\<lparr>observation_in_flight := None\<rparr> else ?t)"
  have inv: "struct_inv t" using assms by (simp add: t_def)
  show ?thesis
    unfolding apply_observation_def Let_def t_def [symmetric]
    using inv
    by (auto intro!: keeps_finish_fallback keeps_validated keeps_validated_staged
        complete_multiview_observation_inv keeps_observe_for_session keeps_observe_for_request
        struct_inv_phase_fallback_verifying split: option.split)
qed

lemma keeps_commit_granted:
  assumes inv: "struct_inv s" and act: "active_request s = Some r"
  shows "keeps_inv (commit_granted s r switch_ep req_ep now tm)"
proof -
  note parts = struct_invD [OF inv]
  have arch: "history_ok (retained_request_limit s) (request_history (archive_request s' r'))"
    if "request_history s' = request_history s" "retained_request_limit s' = retained_request_limit s"
    for s' r'
    using archive_history_ok [of s' r'] parts(4) that by (simp add: history_inv_def)
  show ?thesis
    unfolding commit_granted_def Let_def
    by (rule keeps_validated)
      (use parts arch in \<open>simp add: struct_inv_def owner_inv_def history_inv_def request_inv_def
         phase_inv_def counter_inv_def\<close>)
qed

lemma keeps_commit:
  assumes "struct_inv s"
  shows "keeps_inv (apply_commit s rid req_ep grant_ep lid lease_ep now tm)"
proof -
  have "keeps_inv (expecting (req_switch_epoch r) (\<lambda>e. commit_granted s r e req_ep now tm))"
    if "active_request s = Some r" "req_grant r = Some g" for r g
    using assms that keeps_commit_granted [OF assms that(1)]
    by (auto simp: struct_inv_def request_inv_def pending_ok_def)
  with assms show ?thesis
    by (auto simp: apply_commit_def keeps_intros split: option.splits)
qed

lemma struct_inv_archived_request_mut:
  assumes "struct_inv s" and "\<And>r. req_request_id (f r) = req_request_id r"
  shows "struct_inv (archived_request_mut s rid f)"
  using assms
  by (auto simp: archived_request_mut_def struct_inv_def owner_inv_def request_inv_def phase_inv_def
      history_inv_def counter_inv_def update_last_history_ok image_update_last)

lemma struct_inv_archive_active:
  assumes "struct_inv s"
  shows "struct_inv (archive_request (s\<lparr>active_request := None\<rparr>) r)"
    and "struct_inv (archive_request (s\<lparr>active_request := None, manual_recovery_target := m\<rparr>) r)"
  using struct_invD [OF assms] archive_history_ok [of "s\<lparr>active_request := None\<rparr>" r]
    archive_history_ok [of "s\<lparr>active_request := None, manual_recovery_target := m\<rparr>" r]
  by (auto simp: struct_inv_def owner_inv_def history_inv_def request_inv_def phase_inv_def
      counter_inv_def)

lemma keeps_cancel:
  assumes "struct_inv s"
  shows "keeps_inv (apply_cancel s rid reason now tm)"
  using assms
  by (auto simp: apply_cancel_def Let_def keeps_intros struct_inv_archived_request_mut
      struct_inv_archive_active struct_inv_phase_idle split: option.splits)

lemma keeps_renew:
  assumes "struct_inv s"
  shows "keeps_inv (apply_renew s rid lid lease_ep peer_ep now tm)"
proof -
  have "struct_inv (s\<lparr>active_session := Some (ses\<lparr>ses_renewed_until_ms := x, ses_lease := y\<rparr>)\<rparr>)"
    if "active_session s = Some ses" for ses x y
    using assms that
    by (auto simp: struct_inv_def owner_inv_def request_inv_def phase_inv_def history_inv_def
        counter_inv_def)
  with assms show ?thesis
    by (auto simp: apply_renew_def Let_def keeps_intros split: option.splits)
qed

lemma keeps_multiview_requested:
  assumes "struct_inv s"
  shows "keeps_inv (apply_multiview_requested s enabled now tm)"
proof -
  have "struct_inv (s\<lparr>switch_epoch := a, pending_multiview := b, phase := MultiviewChanging,
          phase_deadline_ms := c\<rparr>)" for a b c
    using assms
    by (auto simp: struct_inv_def owner_inv_def request_inv_def phase_inv_def history_inv_def
        counter_inv_def)
  then show ?thesis
    by (simp add: apply_multiview_requested_def Let_def keeps_validated)
qed

lemma keeps_multiview_acknowledged:
  assumes "struct_inv s"
  shows "keeps_inv (apply_multiview_acknowledged s epoch enabled now tm)"
proof -
  have "struct_inv (s\<lparr>observation_in_flight := a, next_signal_poll_ms := b, phase_deadline_ms := c,
          phase := MultiviewChanging\<rparr>)" for a b c
    using assms
    by (auto simp: struct_inv_def owner_inv_def request_inv_def phase_inv_def history_inv_def
        counter_inv_def)
  with assms show ?thesis
    by (simp add: apply_multiview_acknowledged_def request_observation_def Let_def keeps_validated)
qed

lemma keeps_subscription_observed:
  assumes "struct_inv s"
  shows "keeps_inv (apply_subscription_observed s mode inp now tm)"
proof -
  define t where "t = s\<lparr>tv_mode := mode, observed_input := inp\<rparr>"
  have inv: "struct_inv t" using assms by (simp add: t_def)
  then have obs: "struct_inv (fst (request_observation_preserving_deadline t eff now tm e))" for eff e
    by (simp add: request_observation_preserving_deadline_def request_observation_def Let_def)
  show ?thesis
    unfolding apply_subscription_observed_def Let_def t_def [symmetric]
    using inv obs by (simp add: keeps_intros)
qed

lemma tick_request_inv:
  assumes "struct_inv s"
  shows "struct_inv (fst (tick_request s now tm))"
  using assms
  by (auto simp: tick_request_def Let_def struct_inv_archive_active struct_inv_phase_idle
      struct_inv_fallback_pre begin_fallback_with_restore_inv split: option.splits)

lemma issue_fallback_command_inv:
  assumes "struct_inv s" and "fallback_required s"
  shows "struct_inv (fst (issue_fallback_command s eff now tm))"
  using assms
  by (auto simp: issue_fallback_command_def Let_def struct_inv_def owner_inv_def request_inv_def
      phase_inv_def history_inv_def counter_inv_def)

section \<open>A deferred fallback waits for the transport\<close>

text \<open>
  The phase \<open>FallbackDeferred\<close> is only left behind while the transport is not healthy; the tick
  branch that would resume it on a healthy transport is never taken in a reachable state.
\<close>

definition deferred_inv :: "ProtocolState \<Rightarrow> bool" where
  "deferred_inv s \<longleftrightarrow> (phase s = FallbackDeferred \<longrightarrow> \<not> daemon_healthy s)"

definition keeps_deferred :: "applied \<Rightarrow> bool" where
  "keeps_deferred r = (case r of Ok t \<Rightarrow> deferred_inv (t_next t) | _ \<Rightarrow> True)"

lemma keeps_deferred_simps [simp]:
  "keeps_deferred (Ok t) = deferred_inv (t_next t)"
  "keeps_deferred (Err e)"
  "keeps_deferred Panic"
  by (simp_all add: keeps_deferred_def)

lemma keeps_deferred_validated: "deferred_inv s \<Longrightarrow> keeps_deferred (validated s eff now)"
  by (simp add: validated_def split: option.splits)

lemma keeps_deferred_staged: "deferred_inv (fst st) \<Longrightarrow> keeps_deferred (validated_staged st now)"
  by (simp add: validated_staged_def keeps_deferred_validated)

lemma begin_fallback_with_restore_healthy [simp]:
  "daemon_healthy (fst (begin_fallback_with_restore s eff now tm reason restore)) = daemon_healthy s"
  by (simp add: begin_fallback_with_restore_def archive_request_def archived_request_mut_def
      daemon_healthy_def Let_def protocol_defs split: option.splits)

lemma deferred_begin_fallback_with_restore:
  "deferred_inv (fst (begin_fallback_with_restore s eff now tm reason restore))"
  by (simp add: deferred_inv_def begin_fallback_with_restore_phase)

lemma deferred_begin_fallback: "deferred_inv (fst (begin_fallback s eff now tm reason))"
  by (simp add: begin_fallback_def Let_def deferred_begin_fallback_with_restore)

lemma deferred_session_fallback:
  "deferred_inv (fst (begin_active_session_failure_fallback s eff now tm reason))"
  by (simp add: begin_active_session_failure_fallback_def Let_def deferred_begin_fallback)

lemma deferred_idle: "phase s \<noteq> FallbackDeferred \<Longrightarrow> deferred_inv s"
  by (simp add: deferred_inv_def)

lemma deferred_record_verified_switch:
  "record_verified_switch s t = Some s' \<Longrightarrow> phase s \<noteq> FallbackDeferred \<Longrightarrow> deferred_inv s'"
  by (auto simp: record_verified_switch_def deferred_inv_def split: if_splits option.splits)

lemma deferred_finish_fallback: "finish_fallback s = Some s' \<Longrightarrow> deferred_inv s'"
  by (auto simp: finish_fallback_def Let_def release_to_server_def
      elim!: deferred_record_verified_switch)

lemma deferred_issue_grant: "issue_grant s now tm = Some s' \<Longrightarrow> deferred_inv s'"
  by (auto simp: issue_grant_def Let_def split: option.splits
      elim!: deferred_record_verified_switch)

lemma deferred_begin_switch: "begin_switch s eff now tm = Some st \<Longrightarrow> deferred_inv (fst st)"
  by (auto simp: begin_switch_def Let_def deferred_inv_def [of "_\<lparr>phase := _, phase_deadline_ms := _\<rparr>"]
      split: option.splits if_splits dest: deferred_issue_grant)

lemma keeps_deferred_expecting:
  "(\<And>x. v = Some x \<Longrightarrow> keeps_deferred (k x)) \<Longrightarrow> keeps_deferred (expecting v k)"
  by (cases v) auto

lemmas deferred_intros =
  keeps_deferred_validated keeps_deferred_staged deferred_begin_fallback
  deferred_begin_fallback_with_restore deferred_session_fallback keeps_deferred_expecting

lemmas deferred_dests = deferred_finish_fallback deferred_issue_grant deferred_begin_switch

lemma deferred_accept_manual: "deferred_inv (accept_manual_display s)"
  by (simp add: deferred_inv_def accept_manual_display_def)

lemma deferred_frame [simp]:
  "deferred_inv (s\<lparr>tv_mode := a\<rparr>) = deferred_inv s"
  "deferred_inv (s\<lparr>observed_input := b\<rparr>) = deferred_inv s"
  "deferred_inv (s\<lparr>input_signal := c\<rparr>) = deferred_inv s"
  "deferred_inv (s\<lparr>observation_in_flight := d\<rparr>) = deferred_inv s"
  "deferred_inv (s\<lparr>peers := e\<rparr>) = deferred_inv s"
  "deferred_inv (s\<lparr>manual_recovery_target := f\<rparr>) = deferred_inv s"
  "deferred_inv (s\<lparr>phase_deadline_ms := g\<rparr>) = deferred_inv s"
  "deferred_inv (s\<lparr>next_signal_poll_ms := h\<rparr>) = deferred_inv s"
  "deferred_inv (s\<lparr>active_session := i\<rparr>) = deferred_inv s"
  "deferred_inv (s\<lparr>active_request := i'\<rparr>) = deferred_inv s"
  "deferred_inv (s\<lparr>last_error := j\<rparr>) = deferred_inv s"
  "deferred_inv (s\<lparr>request_epoch := k\<rparr>) = deferred_inv s"
  "deferred_inv (store_observation s n1 n2 m inp sg) = deferred_inv s"
  "deferred_inv (archive_request s r) = deferred_inv s"
  by (simp_all add: deferred_inv_def daemon_healthy_def store_observation_eq)

lemma keeps_deferred_observation:
  assumes "deferred_inv s"
  shows "keeps_deferred (apply_observation s epoch mode inp signals now tm)"
proof -
  let ?t = "store_observation s epoch now mode inp signals"
  define t where
    "t = (if observation_in_flight ?t = Some epoch then ?t\<lparr>observation_in_flight := None\<rparr> else ?t)"
  have t: "deferred_inv t" using assms by (simp add: t_def)
  have mv: "deferred_inv (fst (complete_multiview_observation t eff now tm))" for eff
    using t by (auto simp: complete_multiview_observation_def Let_def deferred_intros
        intro: deferred_idle split: option.splits)
  show ?thesis
    unfolding apply_observation_def Let_def t_def [symmetric]
    using t mv
    by (simp add: observe_for_request_def observe_for_session_def Let_def deferred_idle
        deferred_intros deferred_finish_fallback deferred_issue_grant split: option.split)
qed

lemma deferred_request_observation:
  "deferred_inv (fst (request_observation s eff now tm e)) = deferred_inv s"
  "deferred_inv (fst (request_observation_preserving_deadline s eff now tm e)) = deferred_inv s"
  by (simp_all add: request_observation_def request_observation_preserving_deadline_def Let_def)

lemma keeps_deferred_subscription_observed:
  assumes "deferred_inv s"
  shows "keeps_deferred (apply_subscription_observed s mode inp now tm)"
proof -
  define t where "t = s\<lparr>tv_mode := mode, observed_input := inp\<rparr>"
  have t: "deferred_inv t" using assms by (simp add: t_def)
  show ?thesis
    unfolding apply_subscription_observed_def Let_def t_def [symmetric]
    using t by (simp add: deferred_intros deferred_request_observation deferred_accept_manual)
qed

lemma keeps_deferred_commit:
  assumes "deferred_inv s"
  shows "keeps_deferred (apply_commit s rid req_ep grant_ep lid lease_ep now tm)"
proof -
  have "keeps_deferred (commit_granted s r e req_ep now tm)" for r e
    by (simp add: commit_granted_def Let_def keeps_deferred_validated deferred_idle)
  with assms show ?thesis
    by (simp add: apply_commit_def deferred_intros split: option.split)
qed

lemma keeps_deferred_admit_enter:
  assumes "deferred_inv s"
  shows "keeps_deferred (admit_enter s rid cid target lease now tm)"
proof -
  have "keeps_deferred (expecting (begin_switch t eff now tm) (\<lambda>st. validated_staged st now))" for t eff
    by (auto intro!: deferred_intros dest: deferred_dests)
  moreover have "deferred_inv (s\<lparr>manual_recovery_target := m, request_epoch := e,
       phase := ProtocolPhase.Waking, phase_deadline_ms := d, active_request := r\<rparr>)" for m e d r
    by (rule deferred_idle) simp
  ultimately show ?thesis
    using assms by (simp add: admit_enter_def Let_def keeps_deferred_validated)
qed

lemma keeps_deferred_create_enter:
  assumes "deferred_inv s"
  shows "keeps_deferred (apply_create_enter s rid cid target lease now tm)"
  using assms by (auto simp: apply_create_enter_def keeps_deferred_admit_enter split: option.splits)

lemma keeps_deferred_peer_readiness_updated:
  assumes "deferred_inv s"
  shows "keeps_deferred (apply_peer_readiness_updated s host readiness now tm)"
proof -
  let ?s = "s\<lparr>peers := (peers s)(host \<mapsto> readiness)\<rparr>"
  have "deferred_inv (fst st)" if "readiness_for_request ?s host readiness now tm = Some st" for st
    using that assms deferred_begin_switch [of ?s "[]" now tm st]
      deferred_begin_fallback [of ?s "[]" now tm "''target_readiness_lost''"]
    by (auto simp: readiness_for_request_def Let_def split: if_splits option.splits)
  then have "deferred_inv (fst (readiness_for_session s' eff host readiness now tm))"
    if "readiness_for_request ?s host readiness now tm = Some (s', eff)" for s' eff
    using that by (auto simp: readiness_for_session_def Let_def deferred_intros)
  then show ?thesis
    by (auto simp: apply_peer_readiness_updated_def Let_def intro!: keeps_deferred_expecting
        keeps_deferred_staged split: prod.splits)
qed

lemma deferred_tick_request: "deferred_inv s \<Longrightarrow> deferred_inv (fst (tick_request s now tm))"
  by (auto simp: tick_request_def Let_def deferred_intros intro!: deferred_idle split: option.splits)

lemma deferred_disconnected: "ws_state s \<noteq> Connected \<Longrightarrow> deferred_inv s"
  by (simp add: deferred_inv_def daemon_healthy_def)

lemma keeps_deferred_transport:
  "keeps_deferred (apply_transport_connecting s now)"
  "keeps_deferred (apply_transport_registering s now)"
  "keeps_deferred (apply_transport_subscribed s now)"
  "keeps_deferred (apply_transport_disconnected s reason now tm)"
  "keeps_deferred (apply_shutdown s now)"
  by (simp_all add: handler_defs Let_def deferred_intros deferred_disconnected release_to_server_def)

lemma keeps_deferred_transport_synchronized:
  "keeps_deferred (apply_transport_synchronized s mode inp signals now tm)"
  by (simp add: apply_transport_synchronized_def Let_def deferred_intros deferred_accept_manual
      deferred_finish_fallback)

lemma keeps_deferred_command_acknowledged:
  assumes "deferred_inv s"
  shows "keeps_deferred (apply_command_acknowledged s epoch target now tm)"
  using assms
  by (simp add: apply_command_acknowledged_def request_observation_def Let_def deferred_intros
      deferred_idle split: option.split)

lemma keeps_deferred_command_failed:
  assumes "deferred_inv s"
  shows "keeps_deferred (apply_command_failed s epoch reason now tm)"
  using assms by (simp add: apply_command_failed_def Let_def deferred_intros)

lemma keeps_deferred_arm_manual_recovery:
  assumes "deferred_inv s"
  shows "keeps_deferred (apply_arm_manual_recovery s target now)"
  using assms by (simp add: apply_arm_manual_recovery_def keeps_deferred_validated)

lemma keeps_deferred_cancel:
  assumes "deferred_inv s"
  shows "keeps_deferred (apply_cancel s rid reason now tm)"
  using assms
  by (simp add: apply_cancel_def Let_def deferred_intros deferred_idle split: option.split)

lemma keeps_deferred_renew:
  assumes "deferred_inv s"
  shows "keeps_deferred (apply_renew s rid lid lease_ep peer_ep now tm)"
  using assms by (simp add: apply_renew_def Let_def deferred_intros)

lemma keeps_deferred_multiview:
  assumes "deferred_inv s"
  shows "keeps_deferred (apply_multiview_requested s enabled now tm)"
    and "keeps_deferred (apply_multiview_acknowledged s epoch enabled now tm)"
  using assms
  by (simp_all add: apply_multiview_requested_def apply_multiview_acknowledged_def
      request_observation_def Let_def deferred_intros deferred_idle)

end
