(* ===== verification/Protocol_Reach.thy ===== *)
theory Protocol_Reach
  imports Protocol_Inv
begin

text \<open>
  The protocol as a guarded transition system: the invariant of \<^verbatim>\<open>Protocol_Inv\<close> holds in every
  state that the events of \<^verbatim>\<open>protocol.rs\<close> reach from \<^verbatim>\<open>with_display_hosts\<close>, at any times and
  with any timing, and every accepted transition passes the run-time check \<^const>\<open>validate\<close>.
\<close>

section \<open>Every event keeps the invariant\<close>

definition proto_inv :: "ProtocolState \<Rightarrow> bool" where
  "proto_inv s \<longleftrightarrow> struct_inv s \<and> deferred_inv s"

definition staged_inv :: "staged option \<Rightarrow> bool" where
  "staged_inv r = (case r of None \<Rightarrow> False | Some st \<Rightarrow> proto_inv (fst st))"

lemma staged_inv_Some [simp]: "staged_inv (Some st) = proto_inv (fst st)"
  by (simp add: staged_inv_def)

lemma staged_fallback:
  assumes "proto_inv s"
  shows "proto_inv (fst (begin_fallback s eff now tm reason))"
    and "proto_inv (fst (begin_active_session_failure_fallback s eff now tm reason))"
  using assms by (auto simp: proto_inv_def deferred_intros)

lemma staged_request_observation:
  "proto_inv s \<Longrightarrow> proto_inv (fst (request_observation s eff now tm e))"
  by (simp add: proto_inv_def deferred_request_observation)
    (simp add: request_observation_def Let_def)

lemma staged_fallback_command:
  assumes "proto_inv s" and "phase s = FallbackCommandPending \<or> phase s = FallbackVerifying"
  shows "proto_inv (fst (issue_fallback_command s eff now tm))"
proof -
  have "fallback_required s"
    using assms by (auto simp: proto_inv_def struct_inv_def phase_inv_def)
  then show ?thesis
    using assms issue_fallback_command_inv [of s eff now tm]
    by (simp add: proto_inv_def issue_fallback_command_def Let_def deferred_idle)
qed

lemma tick_phase_inv:
  assumes "proto_inv s"
  shows "staged_inv (tick_phase s eff now tm)"
proof -
  have ses: "phase s = RemoteOwned \<Longrightarrow> \<exists>x. active_session s = Some x"
    using assms by (auto simp: proto_inv_def struct_inv_def phase_inv_def)
  have nd: "\<not> (phase s = FallbackDeferred \<and> daemon_healthy s)"
    using assms by (auto simp: proto_inv_def deferred_inv_def)
  have tmo: "proto_inv (fst (if b then begin_active_session_failure_fallback s eff now tm reason
                             else begin_fallback s eff now tm reason))" for b reason
    using staged_fallback [OF assms] by simp
  show ?thesis
    unfolding tick_phase_def Let_def
    using assms ses tmo nd staged_fallback [OF assms] staged_request_observation [OF assms]
      staged_fallback_command [OF assms]
    by (auto split del: if_split intro!: if_split [where P = staged_inv, THEN iffD2])
qed

lemma tick_request_proto_inv: "proto_inv s \<Longrightarrow> proto_inv (fst (tick_request s now tm))"
  by (simp add: proto_inv_def tick_request_inv deferred_tick_request)

lemma keeps_tick:
  assumes "proto_inv s"
  shows "keeps_inv (apply_tick s now tm)" and "keeps_deferred (apply_tick s now tm)"
proof -
  obtain t eff where t: "tick_request s now tm = (t, eff)" by fastforce
  have "proto_inv t" using tick_request_proto_inv [OF assms, of now tm] t by simp
  then have "staged_inv (tick_phase t eff now tm)" by (rule tick_phase_inv)
  then obtain st where "tick_phase t eff now tm = Some st" "proto_inv (fst st)"
    by (cases "tick_phase t eff now tm") (auto simp: staged_inv_def)
  then show "keeps_inv (apply_tick s now tm)" "keeps_deferred (apply_tick s now tm)"
    using t by (simp_all add: apply_tick_def proto_inv_def keeps_validated_staged keeps_deferred_staged)
qed

lemma keeps_shutdown: "struct_inv s \<Longrightarrow> keeps_inv (apply_shutdown s now)"
  by (auto simp: apply_shutdown_def release_to_server_def struct_inv_def owner_inv_def
      request_inv_def phase_inv_def history_inv_def counter_inv_def intro!: keeps_validated)

lemmas keeps_handlers =
  keeps_transport_connecting keeps_transport_registering keeps_transport_subscribed
  keeps_transport_synchronized keeps_transport_disconnected keeps_peer_readiness_updated
  keeps_arm_manual_recovery keeps_create_enter keeps_command_acknowledged keeps_command_failed
  keeps_observation keeps_commit keeps_cancel keeps_renew keeps_multiview_requested
  keeps_multiview_acknowledged keeps_subscription_observed keeps_tick keeps_shutdown

lemmas keeps_deferred_handlers =
  keeps_deferred_transport keeps_deferred_transport_synchronized
  keeps_deferred_peer_readiness_updated keeps_deferred_arm_manual_recovery
  keeps_deferred_create_enter keeps_deferred_command_acknowledged keeps_deferred_command_failed
  keeps_deferred_observation keeps_deferred_commit keeps_deferred_cancel keeps_deferred_renew
  keeps_deferred_multiview keeps_deferred_subscription_observed keeps_tick

lemma apply_event_keeps_inv: "proto_inv s \<Longrightarrow> keeps_inv (apply_event s e now tm)"
  by (cases e; simp add: keeps_handlers proto_inv_def)

lemma apply_event_keeps_deferred: "proto_inv s \<Longrightarrow> keeps_deferred (apply_event s e now tm)"
  by (cases e; simp add: keeps_deferred_handlers proto_inv_def)

lemma apply_event_inv:
  assumes "proto_inv s" and "apply_event s e now tm = Ok t"
  shows "proto_inv (t_next t)"
  using apply_event_keeps_inv [OF assms(1), of e now tm]
    apply_event_keeps_deferred [OF assms(1), of e now tm] assms(2)
  by (simp add: proto_inv_def)

lemma apply_event_no_panic: "proto_inv s \<Longrightarrow> apply_event s e now tm \<noteq> Panic"
  using apply_event_keeps_inv [of s e now tm] by (auto simp: keeps_inv_def)

section \<open>Every accepted transition passes the run-time check\<close>

text \<open>The early returns of the source that skip the check leave the state as it was.\<close>

definition checked :: "ProtocolState \<Rightarrow> u64 \<Rightarrow> applied \<Rightarrow> bool" where
  "checked s now r =
     (case r of Ok t \<Rightarrow> validate (t_next t) now = None \<or> (t_next t = s \<and> t_effects t = [])
      | _ \<Rightarrow> True)"

lemma checked_simps [simp]:
  "checked s now (Err e)"
  "checked s now Panic"
  "checked s now (Ok \<lparr>t_next = s, t_effects = []\<rparr>)"
  "checked s now (validated s' eff now)"
  "checked s now (validated_staged st now)"
  by (simp_all add: checked_def validated_def validated_staged_def split: option.split)

lemma checked_expecting [simp]:
  "(\<And>x. v = Some x \<Longrightarrow> checked s now (k x)) \<Longrightarrow> checked s now (expecting v k)"
  by (cases v) auto

lemma checked_observe [simp]:
  "checked s now (observe_for_request t r epoch now tm)"
  "checked s now (observe_for_session t epoch now tm)"
  by (simp_all add: observe_for_request_def observe_for_session_def Let_def split: option.split)

lemma apply_event_checked: "checked s now (apply_event s e now tm)"
  by (cases e)
    (simp_all add: handler_defs Let_def commit_granted_def admit_enter_def split_def
      split: option.split)

section \<open>Reachable states\<close>

definition proto_initial :: "ProtocolState \<Rightarrow> bool" where
  "proto_initial s \<longleftrightarrow> (\<exists>server limit hosts. with_display_hosts server limit hosts = Some s)"

fun proto_step :: "ProtocolState \<Rightarrow> Event \<times> u64 \<times> ProtocolTiming \<Rightarrow> ProtocolState option" where
  "proto_step s (e, now, tm) =
     (case apply_event s e now tm of Ok t \<Rightarrow> Some (t_next t) | _ \<Rightarrow> None)"

definition valid_inv :: "ProtocolState \<Rightarrow> bool" where
  "valid_inv s \<longleftrightarrow> proto_inv s \<and> (\<exists>now. validate s now = None)"

lemma map_of_Host_ALL: "map_of (map (\<lambda>h. (h, c h)) Host_ALL) h = Some (c h)"
  by (cases h) (simp_all add: Host_ALL_def)

lemma proto_initial_inv: "proto_initial s \<Longrightarrow> valid_inv s"
  by (auto simp: proto_initial_def with_display_hosts_def valid_inv_def proto_inv_def
      struct_inv_def owner_inv_def request_inv_def phase_inv_def history_inv_def history_ok_def
      counter_inv_def deferred_inv_def daemon_healthy_def validate_def validate_grant_def
      map_of_Host_ALL split: if_splits)

lemma proto_step_SomeD:
  assumes "proto_step s i = Some s'"
  obtains e now tm t where "i = (e, now, tm)" "apply_event s e now tm = Ok t" "s' = t_next t"
  using assms by (cases "(s, i)" rule: proto_step.cases) (auto split: outcome.splits)

lemma proto_step_inv: "valid_inv s \<Longrightarrow> proto_step s i = Some s' \<Longrightarrow> valid_inv s'"
proof (erule proto_step_SomeD)
  fix e now tm t
  assume "valid_inv s" and ap: "apply_event s e now tm = Ok t" and "s' = t_next t"
  moreover have "validate (t_next t) now = None \<or> t_next t = s"
    using apply_event_checked [of s now e tm] ap by (auto simp: checked_def)
  ultimately show "valid_inv s'"
    using apply_event_inv [of s e now tm t] by (auto simp: valid_inv_def)
qed

interpretation proto: guarded_system proto_initial proto_step valid_inv
  by unfold_locales (auto intro: proto_initial_inv proto_step_inv)

lemma reachable_valid_inv: "proto.reachable s \<Longrightarrow> valid_inv s"
  by (rule proto.reachable_inv)

end
