(* ===== verification/Protocol_Demo.thy ===== *)
theory Protocol_Demo
  imports Protocol_Reach
begin

text \<open>
  A concrete scenario of the display protocol, from the start of the coordinator to a remote
  session, which the properties of the protocol are instantiated with.
\<close>

definition demo_timing :: ProtocolTiming where
  "demo_timing = \<lparr>command_ms = 100, observation_ms = 200, grant_ms = 300, wake_ms = 5000,
                  lease_ms = 1000, signal_poll_ms = 50\<rparr>"

definition demo_lease :: LeaseIdentity where
  "demo_lease = \<lparr>lease_id = ''lease'', lease_epoch = 1, peer_session_epoch = 7,
                 lease_expires_at_ms = 5000\<rparr>"

definition demo_ready :: PeerReadiness where
  "demo_ready = \<lparr>peer_online = True, peer_keyboard_ready = True, peer_pointer_ready = True,
                 peer_session = 7, peer_observed_at_ms = 0\<rparr>"

definition only :: "Host \<Rightarrow> Host \<rightharpoonup> bool" where
  "only h = [h \<mapsto> True]"

definition demo_start :: ProtocolState where
  "demo_start = the (with_display_hosts Controller 4 [Controller, Host.Left])"

definition demo_idle :: ProtocolState where
  "demo_idle = demo_start
     \<lparr>ws_state := Connected, subscribe_active := True, synchronized := True,
      tv_mode := Fullscreen, observed_input := Some Controller,
      input_signal := observed_signals demo_start 0 10 (only Controller),
      fallback_required := False, fallback_reason := None, phase := Idle,
      verified_epoch := Some 0\<rparr>"

definition demo_peer :: ProtocolState where
  "demo_peer = demo_idle\<lparr>peers := (peers demo_idle)(Host.Left \<mapsto> demo_ready)\<rparr>"

definition demo_request :: EnterRequest where
  "demo_request =
     \<lparr>req_request_id = ''r1'', req_client_id = ''client'', req_target = Host.Left,
      req_request_epoch = 1, req_lease = demo_lease, req_status = RequestStatus.Switching,
      req_switch_epoch = Some 1, req_grant = None, req_deadline_ms = 330, req_reason = None\<rparr>"

definition demo_switching :: ProtocolState where
  "demo_switching = demo_peer
     \<lparr>request_epoch := 1, switch_epoch := 1, active_request := Some demo_request,
      commanded_input := Some Host.Left, phase := ProtocolPhase.Switching,
      phase_deadline_ms := Some 130\<rparr>"

definition demo_verifying :: ProtocolState where
  "demo_verifying = demo_switching
     \<lparr>phase := ProtocolPhase.Verifying, observation_in_flight := Some 1,
      next_signal_poll_ms := None, phase_deadline_ms := Some 240\<rparr>"

definition demo_granted :: ProtocolState where
  "demo_granted = demo_verifying
     \<lparr>tv_mode := Fullscreen, observed_input := Some Host.Left,
      input_signal := observed_signals demo_verifying 1 50 (only Host.Left),
      observation_in_flight := None, grant_epoch := 1,
      active_request := Some (granted demo_request 1 1 50 demo_timing),
      verified_epoch := Some 1, phase := GrantPending, phase_deadline_ms := Some 350,
      switch_count := (switch_count demo_start)(Host.Left \<mapsto> 1)\<rparr>"

definition demo_session :: ActiveSession where
  "demo_session = \<lparr>ses_request_id = ''r1'', ses_target = Host.Left, ses_request_epoch = 1,
     ses_switch_epoch = 1, ses_lease = demo_lease\<lparr>lease_expires_at_ms := 1060\<rparr>,
     ses_renewed_until_ms = 1060\<rparr>"

definition demo_remote :: ProtocolState where
  "demo_remote = demo_granted
     \<lparr>keyboard_owner := Host.Left, pointer_owner := Host.Left, active_request := None,
      active_session := Some demo_session, phase := RemoteOwned, phase_deadline_ms := None,
      next_signal_poll_ms := Some 110,
      request_history := [(granted demo_request 1 1 50 demo_timing)
        \<lparr>req_status := Committed, req_lease := demo_lease\<lparr>lease_expires_at_ms := 1060\<rparr>\<rparr>]\<rparr>"

lemmas demo_params = demo_timing_def demo_lease_def demo_ready_def demo_request_def
  demo_session_def

lemma demo_start_record: "demo_start =
   \<lparr>server_host = Controller, display_hosts = {Controller, Host.Left},
    ws_state = Disconnected, subscribe_active = False, synchronized = False,
    phase = FallbackDeferred, tv_mode = Unknown, commanded_input = None, observed_input = None,
    input_signal = (\<lambda>_. Some SignalObservation_default), peers = (\<lambda>_. Some PeerReadiness_default),
    request_epoch = 0, switch_epoch = 0, verified_epoch = None, grant_epoch = 0,
    keyboard_owner = Controller, pointer_owner = Controller, active_request = None,
    request_history = [], retained_request_limit = 4, active_session = None,
    pending_multiview = None, observation_in_flight = None, phase_deadline_ms = None,
    next_signal_poll_ms = None, fallback_required = True,
    fallback_reason = Some ''startup_unsynchronized'', manual_recovery_target = None,
    reconnect_total = 0, switch_count = (\<lambda>_. Some 0), last_error = None, dropped_logs = 0\<rparr>"
  by (simp add: demo_start_def with_display_hosts_def fun_eq_iff map_of_Host_ALL)

lemmas demo_states = demo_remote_def demo_granted_def demo_verifying_def demo_switching_def demo_peer_def
  demo_idle_def demo_start_record demo_params

lemma observed_only: "observed_signals s e t (only h) =
   (input_signal s)(h \<mapsto> \<lparr>sig_present = True, sig_switch_epoch = e, sig_observed_at_ms = t\<rparr>)"
  by (auto simp: observed_signals_def only_def fun_eq_iff)

lemmas demo_eval = demo_states Let_def observed_only saturating_add_def min_def option_filter_def
  find_last_simps granted_def grant_deadline_def bundle_ready_def has_display_route_def
  daemon_healthy_def ready_def request_def archived_request_def target_display_verified_def
  server_display_verified_def release_to_server_def record_verified_switch_def
  validated_staged_def validated_def validate_def validate_grant_def

lemma demo_step1: "apply_event demo_start
    (TransportSynchronized Fullscreen (Some Controller) (only Controller)) 10 demo_timing =
  Ok \<lparr>t_next = demo_idle, t_effects = []\<rparr>"
  by (simp add: apply_transport_synchronized_def store_observation_eq finish_fallback_def demo_eval)

lemma demo_step2: "apply_event demo_idle (PeerReadinessUpdated Host.Left demo_ready) 20 demo_timing =
  Ok \<lparr>t_next = demo_peer, t_effects = []\<rparr>"
  by (simp add: apply_peer_readiness_updated_def readiness_for_request_def
      readiness_for_session_def demo_eval)

lemma demo_step3: "apply_event demo_peer
    (CreateEnter ''r1'' ''client'' Host.Left demo_lease) 30 demo_timing =
  Ok \<lparr>t_next = demo_switching, t_effects = [SetInput Host.Left 1 False]\<rparr>"
  by (simp add: apply_create_enter_def admit_enter_def new_enter_request_def begin_switch_def demo_eval)

lemma demo_step4: "apply_event demo_switching (CommandAcknowledged 1 Host.Left) 40 demo_timing =
  Ok \<lparr>t_next = demo_verifying, t_effects = [Observe 1]\<rparr>"
  by (simp add: apply_command_acknowledged_def request_observation_def demo_eval)

lemma demo_step5: "apply_event demo_verifying
    (Observation 1 Fullscreen (Some Host.Left) (only Host.Left)) 50 demo_timing =
  Ok \<lparr>t_next = demo_granted, t_effects = []\<rparr>"
  by (simp add: apply_observation_def store_observation_eq observe_for_request_def
      issue_grant_def demo_eval)

lemma demo_step6: "apply_event demo_granted (Commit ''r1'' 1 1 ''lease'' 1) 60 demo_timing =
  Ok \<lparr>t_next = demo_remote, t_effects = []\<rparr>"
  by (simp add: apply_commit_def commit_granted_def archive_request_def validate_remote_owner_def demo_eval)

lemma demo_reachable_start: "proto.reachable demo_start"
proof (rule proto.reachable.start)
  have "with_display_hosts Controller 4 [Controller, Host.Left] = Some demo_start"
    by (simp add: demo_start_def with_display_hosts_def)
  then show "proto_initial demo_start" unfolding proto_initial_def by blast
qed

lemma reachable_apply:
  "proto.reachable s \<Longrightarrow> apply_event s e now tm = Ok t \<Longrightarrow> proto.reachable (t_next t)"
  by (erule proto.reachable.step [where i = "(e, now, tm)"]) simp

lemma demo_reachable:
  "proto.reachable demo_idle" "proto.reachable demo_peer" "proto.reachable demo_switching"
  "proto.reachable demo_verifying" "proto.reachable demo_granted" "proto.reachable demo_remote"
proof -
  note r1 = reachable_apply [OF demo_reachable_start demo_step1, simplified]
  note r2 = reachable_apply [OF r1 demo_step2, simplified]
  note r3 = reachable_apply [OF r2 demo_step3, simplified]
  note r4 = reachable_apply [OF r3 demo_step4, simplified]
  note r5 = reachable_apply [OF r4 demo_step5, simplified]
  note r6 = reachable_apply [OF r5 demo_step6, simplified]
  show "proto.reachable demo_idle" "proto.reachable demo_peer" "proto.reachable demo_switching"
    "proto.reachable demo_verifying" "proto.reachable demo_granted" "proto.reachable demo_remote"
    by (fact r1 r2 r3 r4 r5 r6)+
qed

end
