(* ===== verification/Protocol_Evolve.thy ===== *)
theory Protocol_Evolve
  imports Protocol_Reach
begin

text \<open>
  How a transition may change the state: the configuration is constant, the request, switch and
  grant epochs never decrease, and the input owner either stays, or becomes the server, or is the
  target that an accepted \<^verbatim>\<open>Commit\<close> names.
\<close>

section \<open>The evolution relation\<close>

definition evolves :: "ProtocolState \<Rightarrow> ProtocolState \<Rightarrow> bool" where
  "evolves s0 s \<longleftrightarrow>
     server_host s = server_host s0 \<and> display_hosts s = display_hosts s0
     \<and> retained_request_limit s = retained_request_limit s0
     \<and> request_epoch s0 \<le> request_epoch s \<and> switch_epoch s0 \<le> switch_epoch s
     \<and> grant_epoch s0 \<le> grant_epoch s"

definition owner_stays :: "ProtocolState \<Rightarrow> ProtocolState \<Rightarrow> bool" where
  "owner_stays s0 s \<longleftrightarrow>
     server_host s = server_host s0
     \<and> (keyboard_owner s = keyboard_owner s0 \<or> keyboard_owner s = server_host s0)"

definition tame :: "ProtocolState \<Rightarrow> ProtocolState \<Rightarrow> bool" where
  "tame s0 s \<longleftrightarrow> evolves s0 s \<and> owner_stays s0 s"

lemma tame_refl [simp]: "tame s s"
  by (simp add: tame_def evolves_def owner_stays_def)

lemma tame_frame [simp]:
  "tame s0 (s\<lparr>ws_state := a1\<rparr>) = tame s0 s"
  "tame s0 (s\<lparr>subscribe_active := a2\<rparr>) = tame s0 s"
  "tame s0 (s\<lparr>synchronized := a3\<rparr>) = tame s0 s"
  "tame s0 (s\<lparr>phase := a4\<rparr>) = tame s0 s"
  "tame s0 (s\<lparr>tv_mode := a5\<rparr>) = tame s0 s"
  "tame s0 (s\<lparr>commanded_input := a6\<rparr>) = tame s0 s"
  "tame s0 (s\<lparr>observed_input := a7\<rparr>) = tame s0 s"
  "tame s0 (s\<lparr>input_signal := a8\<rparr>) = tame s0 s"
  "tame s0 (s\<lparr>peers := a9\<rparr>) = tame s0 s"
  "tame s0 (s\<lparr>verified_epoch := a10\<rparr>) = tame s0 s"
  "tame s0 (s\<lparr>pointer_owner := a11\<rparr>) = tame s0 s"
  "tame s0 (s\<lparr>active_request := a12\<rparr>) = tame s0 s"
  "tame s0 (s\<lparr>request_history := a13\<rparr>) = tame s0 s"
  "tame s0 (s\<lparr>active_session := a14\<rparr>) = tame s0 s"
  "tame s0 (s\<lparr>pending_multiview := a15\<rparr>) = tame s0 s"
  "tame s0 (s\<lparr>observation_in_flight := a16\<rparr>) = tame s0 s"
  "tame s0 (s\<lparr>phase_deadline_ms := a17\<rparr>) = tame s0 s"
  "tame s0 (s\<lparr>next_signal_poll_ms := a18\<rparr>) = tame s0 s"
  "tame s0 (s\<lparr>fallback_required := a19\<rparr>) = tame s0 s"
  "tame s0 (s\<lparr>fallback_reason := a20\<rparr>) = tame s0 s"
  "tame s0 (s\<lparr>manual_recovery_target := a21\<rparr>) = tame s0 s"
  "tame s0 (s\<lparr>reconnect_total := a22\<rparr>) = tame s0 s"
  "tame s0 (s\<lparr>switch_count := a23\<rparr>) = tame s0 s"
  "tame s0 (s\<lparr>last_error := a24\<rparr>) = tame s0 s"
  by (simp_all add: tame_def evolves_def owner_stays_def)

lemma tame_bump [simp]:
  "tame s0 s \<Longrightarrow> switch_epoch s \<le> e \<Longrightarrow> tame s0 (s\<lparr>switch_epoch := e\<rparr>)"
  "tame s0 s \<Longrightarrow> request_epoch s \<le> e \<Longrightarrow> tame s0 (s\<lparr>request_epoch := e\<rparr>)"
  "tame s0 s \<Longrightarrow> grant_epoch s \<le> e \<Longrightarrow> tame s0 (s\<lparr>grant_epoch := e\<rparr>)"
  "tame s0 s \<Longrightarrow> h = server_host s \<Longrightarrow> tame s0 (s\<lparr>keyboard_owner := h\<rparr>)"
  by (auto simp: tame_def evolves_def owner_stays_def)

lemma tame_archive [simp]:
  "tame s0 (archive_request s r) = tame s0 s"
  "tame s0 (archived_request_mut s rid f) = tame s0 s"
  by (simp_all add: archive_request_def archived_request_mut_def Let_def)

lemma tame_release: "tame s0 s \<Longrightarrow> tame s0 (release_to_server s)"
  by (simp add: release_to_server_def)

lemma tame_issue_fallback: "tame s0 s \<Longrightarrow> tame s0 (fst (issue_fallback_command s eff now tm))"
  by (simp add: issue_fallback_command_def Let_def)

lemma tame_fallback_with_restore:
  "tame s0 s \<Longrightarrow> tame s0 (fst (begin_fallback_with_restore s eff now tm reason restore))"
  by (simp add: begin_fallback_with_restore_def Let_def tame_release tame_issue_fallback
      split: option.split)

lemma tame_fallback:
  "tame s0 s \<Longrightarrow> tame s0 (fst (begin_fallback s eff now tm reason))"
  "tame s0 s \<Longrightarrow> tame s0 (fst (begin_active_session_failure_fallback s eff now tm reason))"
  by (simp_all add: begin_fallback_def begin_active_session_failure_fallback_def Let_def
      tame_fallback_with_restore split: option.split)

lemma tame_record: "tame s0 s \<Longrightarrow> record_verified_switch s h = Some s' \<Longrightarrow> tame s0 s'"
  by (auto simp: record_verified_switch_def split: if_splits option.splits)

lemma tame_finish: "tame s0 s \<Longrightarrow> finish_fallback s = Some s' \<Longrightarrow> tame s0 s'"
  by (auto simp: finish_fallback_def Let_def tame_release elim!: tame_record [rotated])

lemma tame_grant: "tame s0 s \<Longrightarrow> issue_grant s now tm = Some s' \<Longrightarrow> tame s0 s'"
  by (auto simp: issue_grant_def Let_def split: option.splits elim!: tame_record [rotated])

lemma tame_switch: "tame s0 s \<Longrightarrow> begin_switch s eff now tm = Some st \<Longrightarrow> tame s0 (fst st)"
  by (auto simp: begin_switch_def Let_def split: option.splits if_splits
      elim!: tame_grant [rotated])

lemma tame_manual: "tame s0 s \<Longrightarrow> tame s0 (accept_manual_display s)"
  by (simp add: accept_manual_display_def tame_release)

lemma tame_observation:
  "tame s0 s \<Longrightarrow> tame s0 (fst (request_observation s eff now tm e))"
  "tame s0 s \<Longrightarrow> tame s0 (fst (request_observation_preserving_deadline s eff now tm e))"
  by (simp_all add: request_observation_def request_observation_preserving_deadline_def Let_def)

lemma tame_store: "tame s0 (store_observation s e now mode inp sg) = tame s0 s"
  by (simp add: store_observation_eq)

lemma tame_multiview:
  "tame s0 s \<Longrightarrow> tame s0 (fst (complete_multiview_observation s eff now tm))"
  by (simp add: complete_multiview_observation_def Let_def tame_fallback split: option.split)

lemmas tame_intros = tame_release tame_issue_fallback tame_fallback_with_restore tame_fallback
  tame_manual tame_observation tame_multiview

section \<open>Handlers\<close>

definition keeps_tame :: "ProtocolState \<Rightarrow> applied \<Rightarrow> bool" where
  "keeps_tame s0 r = (case r of Ok t \<Rightarrow> tame s0 (t_next t) | _ \<Rightarrow> True)"

lemma keeps_tame_simps [simp]:
  "keeps_tame s0 (Ok t) = tame s0 (t_next t)"
  "keeps_tame s0 (Err e)"
  "keeps_tame s0 Panic"
  by (simp_all add: keeps_tame_def)

lemma keeps_tame_validated [simp]:
  "tame s0 s \<Longrightarrow> keeps_tame s0 (validated s eff now)"
  "tame s0 (fst st) \<Longrightarrow> keeps_tame s0 (validated_staged st now)"
  by (simp_all add: validated_def validated_staged_def split: option.split)

lemma keeps_tame_expecting:
  "(\<And>x. v = Some x \<Longrightarrow> keeps_tame s0 (k x)) \<Longrightarrow> keeps_tame s0 (expecting v k)"
  by (cases v) auto

lemma keeps_tame_steps:
  "tame s0 s \<Longrightarrow> keeps_tame s0 (expecting (finish_fallback s) (\<lambda>s. validated s eff now))"
  "tame s0 s \<Longrightarrow> keeps_tame s0 (expecting (issue_grant s now tm) (\<lambda>s. validated s eff now'))"
  "tame s0 s \<Longrightarrow> keeps_tame s0 (expecting (begin_switch s eff now tm) (\<lambda>st. validated_staged st now'))"
  by (auto intro!: keeps_tame_expecting keeps_tame_validated elim: tame_finish tame_grant tame_switch)

lemma keeps_tame_observation: "keeps_tame s (apply_observation s epoch mode inp signals now tm)"
proof -
  let ?t = "store_observation s epoch now mode inp signals"
  define t where
    "t = (if observation_in_flight ?t = Some epoch then ?t\<lparr>observation_in_flight := None\<rparr> else ?t)"
  have t: "tame s t" by (simp add: t_def tame_store)
  show ?thesis
    unfolding apply_observation_def Let_def t_def [symmetric]
    using t by (simp add: observe_for_request_def observe_for_session_def Let_def tame_intros
        keeps_tame_steps split: option.split)
qed

lemma keeps_tame_subscription: "keeps_tame s (apply_subscription_observed s mode inp now tm)"
proof -
  define t where "t = s\<lparr>tv_mode := mode, observed_input := inp\<rparr>"
  have t: "tame s t" by (simp add: t_def)
  show ?thesis
    unfolding apply_subscription_observed_def Let_def t_def [symmetric]
    using t by (simp add: tame_intros)
qed

lemma keeps_tame_create_enter: "keeps_tame s (apply_create_enter s rid cid target lease now tm)"
  by (simp add: apply_create_enter_def admit_enter_def Let_def tame_intros keeps_tame_steps
      split: option.split)

lemma keeps_tame_peer_readiness: "keeps_tame s (apply_peer_readiness_updated s host readiness now tm)"
proof -
  let ?s = "s\<lparr>peers := (peers s)(host \<mapsto> readiness)\<rparr>"
  have req: "tame s (fst st)" if "readiness_for_request ?s host readiness now tm = Some st" for st
    using that tame_switch [of s ?s "[]" now tm st]
    by (auto simp: readiness_for_request_def Let_def tame_intros split: if_splits option.splits)
  have "tame s (fst (readiness_for_session s' eff host readiness now tm))"
    if "readiness_for_request ?s host readiness now tm = Some (s', eff)" for s' eff
    using req [OF that] by (simp add: readiness_for_session_def Let_def tame_intros)
  then show ?thesis
    by (auto simp: apply_peer_readiness_updated_def Let_def intro!: keeps_tame_expecting
        split: prod.splits)
qed

lemma tame_tick_request: "tame s (fst (tick_request s now tm))"
  by (simp add: tick_request_def Let_def tame_intros split: option.split)

lemma keeps_tame_tick: "keeps_tame s (apply_tick s now tm)"
proof -
  have "tame s0 (fst st)" if "tame s0 s'" "tick_phase s' eff now tm = Some st" for s0 s' eff st
    using that by (auto simp: tick_phase_def Let_def tame_intros split: if_splits)
  then show ?thesis
    using tame_tick_request [of s now tm]
    by (auto simp: apply_tick_def Let_def split_def intro!: keeps_tame_expecting)
qed

definition is_commit :: "Event \<Rightarrow> bool" where
  "is_commit e = (case e of Commit _ _ _ _ _ \<Rightarrow> True | _ \<Rightarrow> False)"

lemma apply_event_tame: "\<not> is_commit e \<Longrightarrow> keeps_tame s (apply_event s e now tm)"
  by (cases e)
    (simp_all add: is_commit_def keeps_tame_observation keeps_tame_subscription
      keeps_tame_create_enter keeps_tame_peer_readiness keeps_tame_tick,
     simp_all add: handler_defs Let_def split_def tame_intros tame_store keeps_tame_steps
      keeps_tame_expecting split: option.split)

text \<open>What an accepted commit has checked.\<close>

definition commit_accepted ::
  "ProtocolState \<Rightarrow> string \<Rightarrow> u64 \<Rightarrow> u64 \<Rightarrow> string \<Rightarrow> u64 \<Rightarrow> u64 \<Rightarrow> EnterRequest \<Rightarrow> bool" where
  "commit_accepted s rid req_ep grant_ep lid lease_ep now r \<longleftrightarrow>
     active_request s = Some r \<and> req_request_id r = rid \<and> req_request_epoch r = req_ep
     \<and> req_status r = RequestStatus.Grant
     \<and> lease_id (req_lease r) = lid \<and> lease_epoch (req_lease r) = lease_ep
     \<and> now < lease_expires_at_ms (req_lease r)
     \<and> (\<exists>g. req_grant r = Some g \<and> grant_grant_epoch g = grant_ep \<and> now < grant_expires_at_ms g)
     \<and> (req_target r \<noteq> server_host s \<longrightarrow>
          (\<exists>peer. peers s (req_target r) = Some peer
                 \<and> bundle_ready peer (peer_session_epoch (req_lease r))))"

lemma commit_granted_next:
  assumes "commit_granted s r e req_ep now tm = Ok t"
  shows "evolves s (t_next t)" and "keyboard_owner (t_next t) = req_target r"
  using assms
  by (auto simp: commit_granted_def Let_def validated_def evolves_def archive_request_def
      split: option.splits if_splits)

lemma apply_commit_cases:
  assumes "apply_commit s rid req_ep grant_ep lid lease_ep now tm = Ok t"
  obtains (stay) "tame s (t_next t)"
  | (granted) r e where "commit_accepted s rid req_ep grant_ep lid lease_ep now r"
      "req_switch_epoch r = Some e" "commit_granted s r e req_ep now tm = Ok t"
proof (cases "find_last (\<lambda>r. req_request_id r = rid \<and> req_status r = Committed) (request_history s)")
  case None
  then obtain r g where r: "active_request s = Some r" "req_grant r = Some g"
    using assms by (auto simp: apply_commit_def split: option.splits)
  let ?peer = "case peers s (req_target r) of None \<Rightarrow> False
                | Some peer \<Rightarrow> bundle_ready peer (peer_session_epoch (req_lease r))"
  show ?thesis
  proof (cases "req_target r \<noteq> server_host s \<and> \<not> ?peer")
    case True
    then have "keeps_tame s (apply_commit s rid req_ep grant_ep lid lease_ep now tm)"
      using None r by (simp add: apply_commit_def tame_intros)
    with assms show ?thesis by (auto intro: stay)
  next
    case False
    then show ?thesis
      using assms None r granted [of r "the (req_switch_epoch r)"]
      by (cases "req_switch_epoch r")
        (auto simp: apply_commit_def commit_accepted_def not_le split: if_splits option.splits)
  qed
next
  case (Some c)
  then have "keeps_tame s (apply_commit s rid req_ep grant_ep lid lease_ep now tm)"
    by (simp add: apply_commit_def)
  with assms show ?thesis by (auto intro: stay)
qed

lemma apply_event_evolves:
  assumes "apply_event s e now tm = Ok t"
  shows "evolves s (t_next t)"
proof (cases "is_commit e")
  case False
  then show ?thesis using apply_event_tame [of e s now tm] assms by (simp add: tame_def)
next
  case True
  then obtain rid a b lid c where "e = Commit rid a b lid c"
    by (auto simp: is_commit_def split: Event.splits)
  with assms have "apply_commit s rid a b lid c now tm = Ok t" by simp
  then show ?thesis
    by (cases rule: apply_commit_cases) (auto simp: tame_def dest: commit_granted_next)
qed

end
