(* ===== verification/Protocol_Grant.thy ===== *)
theory Protocol_Grant
  imports Protocol_Evolve
begin

text \<open>
  When a pending request becomes a grant: for a target with a display route, only on an
  observation of the switch epoch that shows the television full screen on that target.
\<close>

section \<open>No grant for a routed target\<close>

definition quiet :: "ProtocolState \<Rightarrow> bool" where
  "quiet s \<longleftrightarrow>
     (\<forall>r. active_request s = Some r \<and> has_display_route s (req_target r) \<longrightarrow>
          req_status r \<noteq> RequestStatus.Grant)"

lemma quiet_None: "active_request s = None \<Longrightarrow> quiet s"
  by (simp add: quiet_def)

lemma quiet_frame [simp]:
  "quiet (s\<lparr>ws_state := a1\<rparr>) = quiet s"
  "quiet (s\<lparr>subscribe_active := a2\<rparr>) = quiet s"
  "quiet (s\<lparr>synchronized := a3\<rparr>) = quiet s"
  "quiet (s\<lparr>phase := a4\<rparr>) = quiet s"
  "quiet (s\<lparr>tv_mode := a5\<rparr>) = quiet s"
  "quiet (s\<lparr>observed_input := a7\<rparr>) = quiet s"
  "quiet (s\<lparr>peers := a9\<rparr>) = quiet s"
  "quiet (s\<lparr>active_session := a14\<rparr>) = quiet s"
  "quiet (s\<lparr>observation_in_flight := a16\<rparr>) = quiet s"
  "quiet (s\<lparr>phase_deadline_ms := a17\<rparr>) = quiet s"
  "quiet (s\<lparr>next_signal_poll_ms := a18\<rparr>) = quiet s"
  "quiet (s\<lparr>manual_recovery_target := a21\<rparr>) = quiet s"
  "quiet (s\<lparr>last_error := a24\<rparr>) = quiet s"
  "quiet (s\<lparr>pending_multiview := a25\<rparr>) = quiet s"
  "quiet (s\<lparr>switch_epoch := a26\<rparr>) = quiet s"
  "quiet (s\<lparr>commanded_input := a27\<rparr>) = quiet s"
  "quiet (s\<lparr>reconnect_total := a28\<rparr>) = quiet s"
  "quiet (s\<lparr>verified_epoch := a29\<rparr>) = quiet s"
  "quiet (s\<lparr>keyboard_owner := a30\<rparr>) = quiet s"
  "quiet (s\<lparr>pointer_owner := a31\<rparr>) = quiet s"
  "quiet (s\<lparr>fallback_required := a32\<rparr>) = quiet s"
  "quiet (s\<lparr>fallback_reason := a33\<rparr>) = quiet s"
  "quiet (s\<lparr>input_signal := a34\<rparr>) = quiet s"
  "quiet (archive_request s r) = quiet s"
  "quiet (archived_request_mut s rid f) = quiet s"
  "quiet (store_observation s e now mode inp sg) = quiet s"
  by (simp_all add: quiet_def has_display_route_def archived_request_mut_def store_observation_eq)

lemma quiet_fallback:
  "quiet (fst (begin_fallback_with_restore s eff now tm reason restore))"
  "quiet (fst (begin_fallback s eff now tm reason))"
  "quiet (fst (begin_active_session_failure_fallback s eff now tm reason))"
  by (simp_all add: quiet_def begin_fallback_def begin_active_session_failure_fallback_def Let_def)

lemma quiet_record: "record_verified_switch s h = Some s' \<Longrightarrow> quiet s' = quiet s"
  by (auto simp: record_verified_switch_def quiet_def has_display_route_def
      split: if_splits option.splits)

lemma quiet_finish: "finish_fallback s = Some s' \<Longrightarrow> quiet s' = quiet s"
  by (auto simp: finish_fallback_def Let_def release_to_server_def dest: quiet_record)

lemma quiet_manual: "quiet s \<Longrightarrow> quiet (accept_manual_display s)"
  by (simp add: accept_manual_display_def release_to_server_def)

lemma quiet_issue_grant:
  assumes "issue_grant s now tm = Some s'" and "active_request s = Some r"
    and "\<not> has_display_route s (req_target r)"
  shows "quiet s'"
  using assms
  by (auto simp: issue_grant_def Let_def quiet_def has_display_route_def record_verified_switch_def
      split: option.splits if_splits)

lemma quiet_switch: "begin_switch s eff now tm = Some st \<Longrightarrow> quiet (fst st)"
  by (auto simp: begin_switch_def Let_def has_display_route_def split: option.splits if_splits
      elim!: quiet_issue_grant) (auto simp: quiet_def)

definition keeps_quiet :: "applied \<Rightarrow> bool" where
  "keeps_quiet r = (case r of Ok t \<Rightarrow> quiet (t_next t) | _ \<Rightarrow> True)"

lemma keeps_quiet_simps [simp]:
  "keeps_quiet (Ok t) = quiet (t_next t)"
  "keeps_quiet (Err e)"
  "keeps_quiet Panic"
  by (simp_all add: keeps_quiet_def)

lemma keeps_quiet_validated [simp]:
  "quiet s \<Longrightarrow> keeps_quiet (validated s eff now)"
  "quiet (fst st) \<Longrightarrow> keeps_quiet (validated_staged st now)"
  by (simp_all add: validated_def validated_staged_def split: option.split)

lemma keeps_quiet_expecting:
  "(\<And>x. v = Some x \<Longrightarrow> keeps_quiet (k x)) \<Longrightarrow> keeps_quiet (expecting v k)"
  by (cases v) auto

lemma keeps_quiet_steps:
  "quiet s \<Longrightarrow> keeps_quiet (expecting (finish_fallback s) (\<lambda>s. validated s eff now))"
  "keeps_quiet (expecting (begin_switch s eff now tm) (\<lambda>st. validated_staged st now'))"
  by (auto intro!: keeps_quiet_expecting keeps_quiet_validated dest: quiet_finish quiet_switch)

lemma quiet_observation:
  "quiet s \<Longrightarrow> quiet (fst (request_observation s eff now tm e))"
  "quiet s \<Longrightarrow> quiet (fst (request_observation_preserving_deadline s eff now tm e))"
  by (simp_all add: request_observation_def request_observation_preserving_deadline_def Let_def)

lemma quiet_issue_fallback: "quiet s \<Longrightarrow> quiet (fst (issue_fallback_command s eff now tm))"
  by (simp add: issue_fallback_command_def Let_def)

lemmas quiet_intros = quiet_fallback quiet_manual quiet_observation quiet_issue_fallback
  quiet_None

section \<open>Handlers\<close>

lemma keeps_quiet_create_enter:
  assumes "quiet s"
  shows "keeps_quiet (apply_create_enter s rid cid target lease now tm)"
proof -
  have "quiet (s\<lparr>manual_recovery_target := m, request_epoch := e, phase := p,
       phase_deadline_ms := d,
       active_request := Some (new_enter_request rid cid target e' lease now tm
          \<lparr>req_status := RequestStatus.Waking, req_deadline_ms := dl\<rparr>)\<rparr>)" for m e p d e' dl
    by (simp add: quiet_def)
  moreover have "quiet (s\<lparr>request_epoch := e\<rparr>)" for e
    using assms by (simp add: quiet_def has_display_route_def)
  ultimately show ?thesis
    using assms
    by (simp add: apply_create_enter_def admit_enter_def Let_def keeps_quiet_steps split: option.split)
qed

lemma keeps_quiet_peer_readiness:
  assumes "quiet s"
  shows "keeps_quiet (apply_peer_readiness_updated s host readiness now tm)"
proof -
  let ?s = "s\<lparr>peers := (peers s)(host \<mapsto> readiness)\<rparr>"
  have req: "quiet (fst st)" if "readiness_for_request ?s host readiness now tm = Some st" for st
    using that assms quiet_switch [of ?s "[]" now tm st]
    by (auto simp: readiness_for_request_def Let_def quiet_intros split: if_splits option.splits)
  have "quiet (fst (readiness_for_session s' eff host readiness now tm))"
    if "readiness_for_request ?s host readiness now tm = Some (s', eff)" for s' eff
    using req [OF that] by (simp add: readiness_for_session_def Let_def quiet_intros)
  then show ?thesis
    by (auto simp: apply_peer_readiness_updated_def Let_def intro!: keeps_quiet_expecting
        split: prod.splits)
qed

lemma keeps_quiet_subscription:
  assumes "quiet s"
  shows "keeps_quiet (apply_subscription_observed s mode inp now tm)"
proof -
  define t where "t = s\<lparr>tv_mode := mode, observed_input := inp\<rparr>"
  have t: "quiet t" using assms by (simp add: t_def)
  show ?thesis
    unfolding apply_subscription_observed_def Let_def t_def [symmetric]
    using t by (simp add: quiet_intros)
qed

lemma keeps_quiet_commit:
  assumes "quiet s"
  shows "keeps_quiet (apply_commit s rid req_ep grant_ep lid lease_ep now tm)"
proof -
  have "keeps_quiet (commit_granted s r e req_ep now tm)" for r e
    by (simp add: commit_granted_def Let_def quiet_None)
  with assms show ?thesis
    by (simp add: apply_commit_def quiet_intros keeps_quiet_expecting split: option.split)
qed

lemma keeps_quiet_tick:
  assumes "quiet s"
  shows "keeps_quiet (apply_tick s now tm)"
proof -
  have "quiet (fst (tick_request s now tm))"
    using assms by (simp add: tick_request_def Let_def quiet_intros split: option.split)
  moreover have "quiet (fst st)" if "quiet s'" "tick_phase s' eff now tm = Some st" for s' eff st
    using that by (auto simp: tick_phase_def Let_def quiet_intros split: if_splits)
  ultimately show ?thesis
    by (auto simp: apply_tick_def Let_def split_def intro!: keeps_quiet_expecting)
qed

definition is_observation :: "Event \<Rightarrow> bool" where
  "is_observation e = (case e of Observation _ _ _ _ \<Rightarrow> True | _ \<Rightarrow> False)"

lemma apply_event_quiet:
  assumes "quiet s" and "\<not> is_observation e"
  shows "keeps_quiet (apply_event s e now tm)"
  using assms
  by (cases e)
    (simp_all add: is_observation_def keeps_quiet_create_enter keeps_quiet_peer_readiness
      keeps_quiet_subscription keeps_quiet_commit keeps_quiet_tick,
     simp_all add: handler_defs Let_def split_def quiet_intros keeps_quiet_steps
      keeps_quiet_expecting release_to_server_def split: option.split)

section \<open>Observations\<close>

lemma issue_grant_display:
  assumes "issue_grant s now tm = Some s'" and "active_request s = Some r"
  shows "active_request s' = Some (granted r (saturating_add (grant_epoch s) 1)
           (the (req_switch_epoch r)) now tm)"
    and "target_display_verified s' h e = target_display_verified s h e"
  using assms
  by (auto simp: issue_grant_def Let_def record_verified_switch_def target_display_verified_def
      granted_def grant_deadline_def split: option.splits if_splits)

lemma observe_for_request_loud:
  assumes "observe_for_request s r epoch now tm = Ok t" and "quiet s" and "active_request s = Some r"
    and "\<not> quiet (t_next t)"
  obtains r' where "active_request (t_next t) = Some r'" "req_target r' = req_target r"
    "req_request_id r' = req_request_id r" "req_switch_epoch r = Some epoch"
    "target_display_verified (t_next t) (req_target r) epoch"
proof -
  have ep: "req_switch_epoch r = Some epoch"
    and v: "target_display_verified s (req_target r) epoch"
    and g: "expecting (issue_grant s now tm) (\<lambda>s. validated s [] now) = Ok t"
    using assms quiet_intros
    by (auto simp: observe_for_request_def Let_def validated_def validated_staged_def
        split: if_splits option.splits)
  from g obtain s' where "issue_grant s now tm = Some s'" "t_next t = s'"
    by (cases "issue_grant s now tm") (auto simp: validated_def split: option.splits)
  then show ?thesis
    using that issue_grant_display [of s now tm s' r] assms(3) ep v by auto
qed

lemma apply_observation_loud:
  assumes "apply_observation s epoch mode inp signals now tm = Ok t" and "quiet s"
    and "\<not> quiet (t_next t)"
  obtains r r' where "active_request s = Some r" "active_request (t_next t) = Some r'"
    "req_target r' = req_target r" "req_request_id r' = req_request_id r"
    "req_switch_epoch r = Some epoch" "target_display_verified (t_next t) (req_target r) epoch"
proof -
  let ?t = "store_observation s epoch now mode inp signals"
  define u where
    "u = (if observation_in_flight ?t = Some epoch then ?t\<lparr>observation_in_flight := None\<rparr> else ?t)"
  have u: "quiet u" "active_request u = active_request s"
    using assms(2) by (auto simp: u_def store_observation_eq)
  have sess: "keeps_quiet (observe_for_session u epoch now tm)"
    using u by (simp add: observe_for_session_def Let_def quiet_intros split: option.split)
  have mv: "keeps_quiet (validated_staged (complete_multiview_observation u [] now tm) now)"
    using u by (simp add: complete_multiview_observation_def Let_def quiet_intros split: option.split)
  have other: "keeps_quiet (expecting (finish_fallback u) (\<lambda>s. validated s [] now))"
    "keeps_quiet (validated (u\<lparr>phase := FallbackVerifying\<rparr>) [] now)" "keeps_quiet (validated u [] now)"
    using u by (simp_all add: keeps_quiet_steps)
  have ap: "keeps_quiet (Ok t) \<or>
      (\<exists>r. active_request u = Some r \<and> observe_for_request u r epoch now tm = Ok t)"
    using assms(1) sess mv other unfolding apply_observation_def Let_def u_def [symmetric]
    by (auto split: if_splits option.splits)
  then obtain r where r: "active_request u = Some r" "observe_for_request u r epoch now tm = Ok t"
    using assms(3) by auto
  show ?thesis
    by (rule observe_for_request_loud [OF r(2) u(1) r(1) assms(3)]) (use that r(1) u(2) in auto)
qed

end
