(* ===== verification/Protocol_Switch.thy ===== *)
theory Protocol_Switch
  imports Protocol_Demo Protocol_Grant
begin

text \<open>
  The course of a successful switch, one lemma per event: the request is admitted and the
  television commanded, the acknowledgement asks for an observation, the verified observation
  issues the grant, the commit moves the input.
\<close>

section \<open>States the server owns\<close>

definition server_local :: "ProtocolState \<Rightarrow> bool" where
  "server_local s \<longleftrightarrow> keyboard_owner s = server_host s \<and> pointer_owner s = server_host s"

lemma server_local_valid:
  assumes "server_local s" and "manual_recovery_target s = None" and "validate_grant s = None"
  shows "validated s eff now = Ok \<lparr>t_next = s, t_effects = eff\<rparr>"
  using assms by (simp add: server_local_def validated_def validate_def)

definition switch_admitted ::
  "ProtocolState \<Rightarrow> string \<Rightarrow> string \<Rightarrow> Host \<Rightarrow> LeaseIdentity \<Rightarrow> u64 \<Rightarrow> ProtocolTiming \<Rightarrow> ProtocolState" where
  "switch_admitted s rid cid target lease now tm =
     s\<lparr>manual_recovery_target := None,
       request_epoch := saturating_add (request_epoch s) 1,
       switch_epoch := saturating_add (switch_epoch s) 1,
       active_request := Some (switching
          (new_enter_request rid cid target (saturating_add (request_epoch s) 1) lease now tm)
          (saturating_add (switch_epoch s) 1) now tm),
       commanded_input := Some target,
       phase := ProtocolPhase.Switching,
       phase_deadline_ms := Some (saturating_add now (command_ms tm))\<rparr>"

lemma create_enter_admits:
  assumes "request s rid = None" and "active_request s = None" and "ready s"
    and "lease_id lease \<noteq> []" and "now < lease_expires_at_ms lease"
    and "target \<noteq> server_host s" and "has_display_route s target"
    and "peers s target = Some p" and "bundle_ready p (peer_session_epoch lease)"
    and "server_local s"
  shows "apply_event s (CreateEnter rid cid target lease) now tm =
    Ok \<lparr>t_next = switch_admitted s rid cid target lease now tm,
        t_effects = [SetInput target (saturating_add (switch_epoch s) 1) False]\<rparr>"
proof -
  let ?r = "new_enter_request rid cid target (saturating_add (request_epoch s) 1) lease now tm"
  let ?s = "s\<lparr>manual_recovery_target := None, request_epoch := saturating_add (request_epoch s) 1,
              active_request := Some ?r\<rparr>"
  have r: "req_target ?r = target" "req_lease ?r = lease" by (simp_all add: new_enter_request_def)
  have sw: "begin_switch ?s [] now tm =
     Some (switch_admitted s rid cid target lease now tm,
           [SetInput target (saturating_add (switch_epoch s) 1) False])"
    using assms(7) r
    by (subst begin_switch_routed [where r = ?r]) (simp_all add: has_display_route_def switch_admitted_def)
  have "validated (switch_admitted s rid cid target lease now tm) eff now =
      Ok \<lparr>t_next = switch_admitted s rid cid target lease now tm, t_effects = eff\<rparr>" for eff
    using assms(10)
    by (intro server_local_valid) (simp_all add: switch_admitted_def server_local_def validate_grant_def)
  then show ?thesis
    using assms r sw
    by (simp add: apply_create_enter_def admit_enter_def Let_def validated_staged_def not_le
        bundle_ready_def)
qed

lemma acknowledged_observes:
  assumes "switch_epoch s = e" and "commanded_input s = Some target" and "observation_in_flight s = None"
    and "phase s = ProtocolPhase.Switching" and "\<not> fallback_required s" and "server_local s"
    and "manual_recovery_target s = None"
    and "\<And>r. active_request s = Some r \<Longrightarrow> req_status r \<noteq> RequestStatus.Grant"
  shows "apply_event s (CommandAcknowledged e target) now tm =
    Ok \<lparr>t_next = s\<lparr>phase := ProtocolPhase.Verifying, observation_in_flight := Some e,
           next_signal_poll_ms := None,
           phase_deadline_ms := Some (saturating_add now (observation_ms tm))\<rparr>,
        t_effects = [Observe e]\<rparr>"
proof -
  have "validate_grant (s\<lparr>phase := a, observation_in_flight := b, next_signal_poll_ms := c,
     phase_deadline_ms := d\<rparr>) = None" for a b c d
    using assms(8) by (simp add: validate_grant_def split: option.split)
  then show ?thesis
    using assms(1-7)
    by (simp add: apply_command_acknowledged_def request_observation_def validated_staged_def
        validated_def validate_def server_local_def)
qed

definition switch_granted ::
  "ProtocolState \<Rightarrow> EnterRequest \<Rightarrow> u64 \<Rightarrow> (Host \<rightharpoonup> bool) \<Rightarrow> u64 \<Rightarrow> ProtocolTiming \<Rightarrow> ProtocolState" where
  "switch_granted s r e signals now tm =
     s\<lparr>tv_mode := Fullscreen, observed_input := Some (req_target r),
       input_signal := observed_signals s e now signals,
       observation_in_flight := None,
       grant_epoch := saturating_add (grant_epoch s) 1,
       active_request := Some (granted r (saturating_add (grant_epoch s) 1) e now tm),
       verified_epoch := Some e,
       phase := GrantPending,
       phase_deadline_ms := Some (grant_deadline r now tm),
       switch_count := bump_count s (req_target r)\<rparr>"

lemma observation_grants:
  assumes "observation_in_flight s = Some e" and "\<not> fallback_required s"
    and "active_request s = Some r" and "req_switch_epoch r = Some e"
    and "phase s = ProtocolPhase.Verifying" and "signals (req_target r) = Some True"
    and "peers s (req_target r) = Some p" and "bundle_ready p (peer_session_epoch (req_lease r))"
    and "now < lease_expires_at_ms (req_lease r)" and "req_target r \<noteq> server_host s"
    and "counter_inv s" and "server_local s" and "manual_recovery_target s = None"
  shows "apply_event s (Observation e Fullscreen (Some (req_target r)) signals) now tm =
    Ok \<lparr>t_next = switch_granted s r e signals now tm, t_effects = []\<rparr>"
proof -
  let ?u = "s\<lparr>tv_mode := Fullscreen, observed_input := Some (req_target r),
              input_signal := observed_signals s e now signals, observation_in_flight := None\<rparr>"
  have ver: "target_display_verified ?u (req_target r) e"
    using assms(6) by (simp add: target_display_verified_def observed_signals_def)
  have c: "counter_inv ?u" and b: "bump_count ?u h = bump_count s h" for h
    using assms(11) by (simp_all add: counter_inv_def bump_count_def)
  have g: "issue_grant ?u now tm = Some (switch_granted s r e signals now tm)"
    using assms(3,4) b by (subst issue_grant_Some [OF _ _ c]) (simp_all add: switch_granted_def)
  have v: "validated (switch_granted s r e signals now tm) [] now =
      Ok \<lparr>t_next = switch_granted s r e signals now tm, t_effects = []\<rparr>"
    using assms(4,12,13)
    by (intro server_local_valid)
      (simp_all add: switch_granted_def server_local_def validate_grant_def granted_def)
  have "\<not> lease_expires_at_ms (req_lease r) \<le> now" using assms(9) by (simp add: not_le)
  then show ?thesis
    using assms ver g v
    by (simp add: apply_observation_def store_observation_eq Let_def observe_for_request_def)
qed

lemma commit_takes:
  assumes "find_last (\<lambda>q. req_request_id q = rid \<and> req_status q = Committed) (request_history s) = None"
    and "active_request s = Some r" and "req_grant r = Some g"
    and "req_request_id r = rid" and "req_request_epoch r = re"
    and "req_status r = RequestStatus.Grant" and "lease_id (req_lease r) = lid"
    and "lease_epoch (req_lease r) = le" and "grant_grant_epoch g = ge"
    and "now < grant_expires_at_ms g" and "now < lease_expires_at_ms (req_lease r)"
    and "peers s (req_target r) = Some p" and "bundle_ready p (peer_session_epoch (req_lease r))"
    and "req_target r \<noteq> server_host s" and "req_switch_epoch r = Some e"
    and "now < saturating_add now (lease_ms tm)"
    and "has_display_route s (req_target r) \<longrightarrow>
           target_display_verified s (req_target r) e \<and> verified_epoch s = Some e"
  shows "\<exists>t ses. apply_event s (Commit rid re ge lid le) now tm = Ok t \<and> t_effects t = []
     \<and> keyboard_owner (t_next t) = req_target r \<and> pointer_owner (t_next t) = req_target r
     \<and> phase (t_next t) = RemoteOwned \<and> active_request (t_next t) = None
     \<and> active_session (t_next t) = Some ses \<and> ses_request_id ses = rid \<and> ses_target ses = req_target r
     \<and> ses_renewed_until_ms ses = saturating_add now (lease_ms tm)
     \<and> archived_request (t_next t) rid =
         Some (r\<lparr>req_status := Committed, req_reason := None,
                req_lease := (req_lease r)\<lparr>lease_expires_at_ms := saturating_add now (lease_ms tm)\<rparr>\<rparr>)"
  using assms
  by (simp add: apply_commit_def not_le commit_granted_def Let_def validated_def validate_def
      validate_remote_owner_def validate_grant_def archive_request_def archived_request_def
      has_display_route_def target_display_verified_def bundle_ready_def split: option.splits)

end
