(* ===== verification/Protocol_Props.thy ===== *)
theory Protocol_Props
  imports Protocol_Switch
begin

text \<open>
  The properties of the display switch protocol: who may own the input paths and how ownership
  moves, what fails local and when, idempotence of the client operations, monotonicity of the
  epochs, and how far deadlines are honoured.
\<close>

section \<open>Ownership of the input paths\<close>

lemma validate_NoneD:
  assumes "validate s now = None"
  shows "keyboard_owner s = pointer_owner s"
    and "fallback_required s \<longrightarrow> keyboard_owner s = server_host s"
    and "manual_recovery_target s \<noteq> Some (server_host s)"
    and "manual_recovery_target s \<noteq> None \<longrightarrow>
           active_request s = None \<and> active_session s = None \<and> keyboard_owner s = server_host s"
    and "keyboard_owner s \<noteq> server_host s \<longrightarrow> validate_remote_owner s now = None"
    and "validate_grant s = None"
  using assms by (auto simp: validate_def split: if_splits option.splits)

lemma validate_remote_owner_NoneD:
  assumes "validate_remote_owner s now = None"
  obtains ses peer where "active_session s = Some ses" "ses_target ses = keyboard_owner s"
    "now < ses_renewed_until_ms ses" "now < lease_expires_at_ms (ses_lease ses)"
    "peers s (ses_target ses) = Some peer" "bundle_ready peer (peer_session_epoch (ses_lease ses))"
    "has_display_route s (ses_target ses) \<longrightarrow>
       target_display_verified s (ses_target ses) (ses_switch_epoch ses)
       \<and> verified_epoch s = Some (ses_switch_epoch ses)"
  using assms
  by (auto simp: validate_remote_owner_def target_display_verified_def not_le
      split: if_splits option.splits)

text \<open>
  C1. Remote input is only owned on proof: in every reachable state in which a host other than
  the server owns the keyboard, the same host owns the pointer, it is the target of the active
  session, no fallback is pending, its peer is online with both input paths ready in the peer
  session that the lease names, and, when the target has a display route, the television was
  observed full screen on the target's input with a signal, in the switch epoch of that session.
\<close>
theorem remote_owner_verified:
  assumes "proto.reachable s" and "keyboard_owner s \<noteq> server_host s"
  shows "pointer_owner s = keyboard_owner s \<and> \<not> fallback_required s
    \<and> (\<exists>ses peer. active_session s = Some ses \<and> ses_target ses = keyboard_owner s
         \<and> peers s (keyboard_owner s) = Some peer
         \<and> peer_online peer \<and> peer_keyboard_ready peer \<and> peer_pointer_ready peer
         \<and> peer_session peer = peer_session_epoch (ses_lease ses)
         \<and> (has_display_route s (keyboard_owner s) \<longrightarrow>
              tv_mode s = Fullscreen \<and> observed_input s = Some (keyboard_owner s)
              \<and> verified_epoch s = Some (ses_switch_epoch ses)
              \<and> (\<exists>sg. input_signal s (keyboard_owner s) = Some sg \<and> sig_present sg
                     \<and> sig_switch_epoch sg = ses_switch_epoch ses)))"
proof -
  obtain now where v: "validate s now = None"
    using reachable_valid_inv [OF assms(1)] by (auto simp: valid_inv_def)
  then have r: "validate_remote_owner s now = None" using assms(2) by (auto dest: validate_NoneD)
  show ?thesis
    by (rule validate_remote_owner_NoneD [OF r])
      (use validate_NoneD [OF v] assms(2) in
        \<open>auto simp: bundle_ready_def target_display_verified_def split: option.splits\<close>)
qed

theorem remote_owner_verified_witness:
  "keyboard_owner demo_remote = Host.Left \<and> pointer_owner demo_remote = Host.Left
   \<and> observed_input demo_remote = Some Host.Left"
  using remote_owner_verified [OF demo_reachable(6)]
  by (simp add: demo_states has_display_route_def)

text \<open>
  C10. The coordinator never panics: from a reachable state, every event at every time and with
  every timing configuration either yields a transition or one of the protocol errors; none of
  the \<^verbatim>\<open>expect\<close> calls of \<^verbatim>\<open>protocol.rs\<close> fails.
\<close>
theorem apply_never_panics:
  assumes "proto.reachable s"
  shows "apply_event s e now tm \<noteq> Panic"
  using apply_event_no_panic reachable_valid_inv [OF assms] by (auto simp: valid_inv_def)

theorem apply_never_panics_witness: "apply_event demo_remote Tick 70 demo_timing \<noteq> Panic"
  by (rule apply_never_panics [OF demo_reachable(6)])

text \<open>
  C2. Ownership moves to another host only by \<^verbatim>\<open>Commit\<close>: if a transition gives the keyboard to a
  host that is neither the previous owner nor the server, then the event is a commit whose request
  id, request epoch, grant epoch, lease id and lease epoch are those of the pending grant, neither
  the grant nor the lease has expired, the target's input paths are ready, and the new owner is
  exactly the granted target.
\<close>
theorem ownership_moves_by_commit:
  assumes "apply_event s e now tm = Ok t"
    and "keyboard_owner (t_next t) \<noteq> keyboard_owner s"
    and "keyboard_owner (t_next t) \<noteq> server_host s"
  shows "\<exists>rid req_ep grant_ep lid lease_ep r.
     e = Commit rid req_ep grant_ep lid lease_ep
     \<and> commit_accepted s rid req_ep grant_ep lid lease_ep now r
     \<and> keyboard_owner (t_next t) = req_target r"
proof (cases "is_commit e")
  case False
  then show ?thesis
    using apply_event_tame [of e s now tm] assms by (auto simp: tame_def owner_stays_def)
next
  case True
  then obtain rid a b lid c where e: "e = Commit rid a b lid c"
    by (auto simp: is_commit_def split: Event.splits)
  with assms have "apply_commit s rid a b lid c now tm = Ok t" by simp
  then show ?thesis
    by (cases rule: apply_commit_cases)
      (use assms e in \<open>auto simp: tame_def owner_stays_def dest: commit_granted_next\<close>)
qed

theorem ownership_moves_by_commit_witness:
  "\<exists>r. commit_accepted demo_granted ''r1'' 1 1 ''lease'' 1 60 r \<and> req_target r = Host.Left"
  using ownership_moves_by_commit [OF demo_step6] by (auto simp: demo_states)

text \<open>
  C3. A grant for a target with a display route is only issued on evidence: if no grant for a
  routed target was pending and one is pending after the transition, the event was an observation
  of exactly the pending request's switch epoch, for the same request, and it left the television
  observed full screen, on the target's input, with a signal in that epoch.
\<close>
theorem grant_needs_verified_display:
  assumes "apply_event s e now tm = Ok t"
    and "\<And>r. active_request s = Some r \<Longrightarrow> req_status r \<noteq> RequestStatus.Grant"
    and "active_request (t_next t) = Some r'" and "req_status r' = RequestStatus.Grant"
    and "has_display_route (t_next t) (req_target r')"
  shows "\<exists>epoch mode inp signals r. e = Observation epoch mode inp signals
     \<and> active_request s = Some r \<and> req_request_id r = req_request_id r'
     \<and> req_switch_epoch r = Some epoch
     \<and> target_display_verified (t_next t) (req_target r') epoch"
proof -
  have q: "quiet s" "\<not> quiet (t_next t)"
    using assms by (auto simp: quiet_def)
  then have "is_observation e"
    using apply_event_quiet [of s e now tm] assms(1) by auto
  then obtain epoch mode inp signals where e: "e = Observation epoch mode inp signals"
    by (auto simp: is_observation_def split: Event.splits)
  with assms(1) have "apply_observation s epoch mode inp signals now tm = Ok t" by simp
  then show ?thesis
    by (rule apply_observation_loud [OF _ q]) (use e assms(3) in auto)
qed

theorem grant_needs_verified_display_witness:
  "target_display_verified demo_granted Host.Left 1"
proof -
  have "active_request demo_granted = Some (granted demo_request 1 1 50 demo_timing)"
    by (simp add: demo_granted_def)
  then show ?thesis
    using grant_needs_verified_display [OF demo_step5, of "granted demo_request 1 1 50 demo_timing"]
    by (auto simp: demo_verifying_def demo_switching_def demo_request_def demo_granted_def
        demo_peer_def demo_idle_def demo_start_record has_display_route_def)
qed

section \<open>What a fallback leaves behind\<close>

lemma fallback_more_fields:
  "verified_epoch (fst (begin_fallback_with_restore s eff now tm reason restore)) = None"
  "manual_recovery_target (fst (begin_fallback_with_restore s eff now tm reason restore)) =
     (case recovery_candidate s (map_option req_target (active_request s)) of
        None \<Rightarrow> manual_recovery_target s | Some target \<Rightarrow> Some target)"
  by (simp_all add: begin_fallback_with_restore_def archive_request_def archived_request_mut_def
      Let_def protocol_defs split: option.split)

lemma recovery_candidate_SomeD:
  "recovery_candidate s t = Some h \<Longrightarrow> t = Some h \<and> h \<noteq> server_host s \<and> has_display_route s h"
  by (auto simp: recovery_candidate_def option_filter_def split: option.splits if_splits)

lemma fallback_with_restore_valid:
  assumes "manual_recovery_target s \<noteq> Some (server_host s)"
  shows "validate (fst (begin_fallback_with_restore s eff now tm reason restore)) now' = None"
  using assms
  by (auto simp: validate_def validate_grant_def fallback_more_fields split: option.splits
      dest: recovery_candidate_SomeD)

lemma fallback_valid:
  assumes "manual_recovery_target s \<noteq> Some (server_host s)"
  shows "validate (fst (begin_fallback s eff now tm reason)) now' = None"
    and "validate (fst (begin_active_session_failure_fallback s eff now tm reason)) now' = None"
  using assms recovery_candidate_SomeD [of s "map_option ses_target (active_session s)"]
  by (auto simp: begin_fallback_def begin_active_session_failure_fallback_def Let_def
      fallback_with_restore_valid split: option.split)

lemma validated_Ok: "validate s now = None \<Longrightarrow> validated s eff now = Ok \<lparr>t_next = s, t_effects = eff\<rparr>"
  by (simp add: validated_def)

lemma reachable_no_server_recovery:
  "proto.reachable s \<Longrightarrow> manual_recovery_target s \<noteq> Some (server_host s)"
  using reachable_valid_inv [of s] validate_NoneD(3) by (auto simp: valid_inv_def)

lemma fallback_archives_request:
  assumes "active_request s = Some r"
  shows "archived_request (fst (begin_fallback_with_restore s eff now tm reason restore))
     (req_request_id r) = Some (r\<lparr>req_status := Fallback, req_reason := Some reason\<rparr>)"
  using assms by (simp add: archived_request_def fallback_history_def Let_def archive_request_def
      find_last_def)

text \<open>
  C9. Losing the television fails local, always: in a reachable state the disconnection of the
  transport is accepted, and afterwards the server owns keyboard and pointer, no request and no
  session is pending, no display epoch counts as verified, no command is sent, new requests are
  not accepted, and the interrupted request is retained as fallen back.
\<close>
theorem disconnect_fails_local:
  assumes "proto.reachable s"
  shows "\<exists>t. apply_event s (TransportDisconnected reason) now tm = Ok t
    \<and> keyboard_owner (t_next t) = server_host s \<and> pointer_owner (t_next t) = server_host s
    \<and> active_session (t_next t) = None \<and> active_request (t_next t) = None
    \<and> verified_epoch (t_next t) = None \<and> phase (t_next t) = FallbackDeferred
    \<and> \<not> ready (t_next t) \<and> t_effects t = []
    \<and> (\<forall>r. active_request s = Some r \<longrightarrow>
         archived_request (t_next t) (req_request_id r) =
           Some (r\<lparr>req_status := Fallback, req_reason := Some reason\<rparr>))"
proof -
  define u where "u = s\<lparr>ws_state := Disconnected, subscribe_active := False, synchronized := False,
    reconnect_total := saturating_add (reconnect_total s) 1, last_error := Some reason\<rparr>"
  define v where "v = fst (begin_fallback u [] now tm reason)"
  have u: "server_host u = server_host s" "active_request u = active_request s" "\<not> daemon_healthy u"
    "manual_recovery_target u \<noteq> Some (server_host u)"
    using reachable_no_server_recovery [OF assms] by (simp_all add: u_def daemon_healthy_def)
  have eff: "snd (begin_fallback u [] now tm reason) = []"
    using u by (simp add: begin_fallback_def Let_def begin_fallback_with_restore_effects)
  have "apply_event s (TransportDisconnected reason) now tm = Ok \<lparr>t_next = v, t_effects = []\<rparr>"
    using fallback_valid(1) [OF u(4)] eff
    by (simp add: apply_transport_disconnected_def Let_def validated_staged_def validated_Ok
        u_def v_def)
  moreover have "phase v = FallbackDeferred"
    using u by (simp add: v_def begin_fallback_def Let_def begin_fallback_with_restore_phase)
  moreover have "archived_request v (req_request_id r) =
      Some (r\<lparr>req_status := Fallback, req_reason := Some reason\<rparr>)" if "active_request s = Some r" for r
    using that u fallback_archives_request by (simp add: v_def begin_fallback_def Let_def)
  ultimately show ?thesis
    using u by (simp add: v_def begin_fallback_def Let_def fallback_more_fields ready_def)
qed

theorem disconnect_fails_local_witness:
  "\<exists>t. apply_event demo_remote (TransportDisconnected ''gone'') 70 demo_timing = Ok t
     \<and> keyboard_owner (t_next t) = Controller \<and> active_session (t_next t) = None"
  using disconnect_fails_local [OF demo_reachable(6), of "''gone''" 70 demo_timing]
  by (auto simp: demo_states)

section \<open>A switch that succeeds\<close>

lemma reachable_server_local:
  assumes "proto.reachable s" and "keyboard_owner s = server_host s"
  shows "server_local s" and "counter_inv s" and "active_session s = None"
  using reachable_valid_inv [OF assms(1)] assms(2)
  by (auto simp: server_local_def valid_inv_def proto_inv_def struct_inv_def owner_inv_def)

lemma no_committed_request:
  assumes "request s rid = None"
  shows "find_last (\<lambda>q. req_request_id q = rid \<and> req_status q = Committed) (request_history s) = None"
  using assms by (auto simp: request_def find_last_None_iff split: option.splits)

lemma switch_granted_commit:
  assumes "find_last (\<lambda>q. req_request_id q = req_request_id r \<and> req_status q = Committed)
      (request_history s) = None"
    and "req_switch_epoch r = Some e" and "peers s (req_target r) = Some p"
    and "bundle_ready p (peer_session_epoch (req_lease r))" and "req_target r \<noteq> server_host s"
    and "signals (req_target r) = Some True" and "now < lease_expires_at_ms (req_lease r)"
    and "now < saturating_add n3 (grant_ms tm)" and "now < saturating_add now (lease_ms tm)"
  shows "\<exists>t. apply_event (switch_granted s r e signals n3 tm)
       (Commit (req_request_id r) (req_request_epoch r) (saturating_add (grant_epoch s) 1)
          (lease_id (req_lease r)) (lease_epoch (req_lease r))) now tm = Ok t
     \<and> keyboard_owner (t_next t) = req_target r \<and> pointer_owner (t_next t) = req_target r
     \<and> phase (t_next t) = RemoteOwned"
proof -
  let ?s = "switch_granted s r e signals n3 tm"
  let ?g = "saturating_add (grant_epoch s) 1"
  have f: "active_request ?s = Some (granted r ?g e n3 tm)" "request_history ?s = request_history s"
    "peers ?s = peers s" "server_host ?s = server_host s" "verified_epoch ?s = Some e"
    "target_display_verified ?s (req_target r) e"
    using assms(6) by (simp_all add: switch_granted_def target_display_verified_def observed_signals_def)
  have g: "req_grant (granted r ?g e n3 tm) = Some
     \<lparr>grant_grant_epoch = ?g, grant_switch_epoch = e, grant_expires_at_ms = grant_deadline r n3 tm\<rparr>"
    by (simp add: granted_def)
  have d: "now < grant_deadline r n3 tm" using assms(7,8) by (simp add: grant_deadline_def)
  show ?thesis
    using commit_takes [OF _ f(1) g, of "req_request_id r" "req_request_epoch r"
        "lease_id (req_lease r)" "lease_epoch (req_lease r)" ?g now p e tm] assms f d
    by auto
qed

text \<open>
  C8. A requested switch completes: in a reachable state that is ready, locally owned and free of
  pending work, a request for a routed, ready target with a live lease commands the television
  exactly once with the next switch epoch, its acknowledgement asks for one observation, the
  observation that shows the target issues the grant, and the matching commit before the grant
  and the lease expire hands both input paths to the target. Nothing else is needed.
\<close>
theorem switch_completes:
  assumes "proto.reachable s" and "ready s" and "keyboard_owner s = server_host s"
    and "active_request s = None" and "observation_in_flight s = None" and "request s rid = None"
    and "target \<noteq> server_host s" and "has_display_route s target"
    and "peers s target = Some p" and "bundle_ready p (peer_session_epoch lease)"
    and "lease_id lease \<noteq> []" and "signals target = Some True"
    and "n1 < lease_expires_at_ms lease" and "n3 < lease_expires_at_ms lease"
    and "n4 < lease_expires_at_ms lease" and "n4 < saturating_add n3 (grant_ms tm)"
    and "n4 < saturating_add n4 (lease_ms tm)"
  shows "\<exists>t1 t2 t3 t4.
     apply_event s (CreateEnter rid cid target lease) n1 tm = Ok t1
     \<and> t_effects t1 = [SetInput target (saturating_add (switch_epoch s) 1) False]
     \<and> apply_event (t_next t1) (CommandAcknowledged (saturating_add (switch_epoch s) 1) target) n2 tm = Ok t2
     \<and> t_effects t2 = [Observe (saturating_add (switch_epoch s) 1)]
     \<and> apply_event (t_next t2)
          (Observation (saturating_add (switch_epoch s) 1) Fullscreen (Some target) signals) n3 tm = Ok t3
     \<and> keyboard_owner (t_next t3) = server_host s
     \<and> apply_event (t_next t3)
          (Commit rid (saturating_add (request_epoch s) 1) (saturating_add (grant_epoch s) 1)
             (lease_id lease) (lease_epoch lease)) n4 tm = Ok t4
     \<and> keyboard_owner (t_next t4) = target \<and> pointer_owner (t_next t4) = target
     \<and> phase (t_next t4) = RemoteOwned"
proof -
  let ?e = "saturating_add (switch_epoch s) 1"
  let ?r = "switching (new_enter_request rid cid target (saturating_add (request_epoch s) 1) lease n1 tm)
              ?e n1 tm"
  define s1 where "s1 = switch_admitted s rid cid target lease n1 tm"
  define s2 where "s2 = s1\<lparr>phase := ProtocolPhase.Verifying, observation_in_flight := Some ?e,
    next_signal_poll_ms := None, phase_deadline_ms := Some (saturating_add n2 (observation_ms tm))\<rparr>"
  define s3 where "s3 = switch_granted s2 ?r ?e signals n3 tm"
  note loc = reachable_server_local [OF assms(1,3)]
  have r: "req_target ?r = target" "req_lease ?r = lease" "req_request_id ?r = rid"
    "req_request_epoch ?r = saturating_add (request_epoch s) 1"
    by (simp_all add: new_enter_request_def)
  have s1: "active_request s1 = Some ?r" "server_local s1" "\<not> fallback_required s1"
    "manual_recovery_target s1 = None" "counter_inv s1"
    using loc assms(2) by (simp_all add: s1_def switch_admitted_def server_local_def ready_def counter_inv_def)
  have s2: "active_request s2 = Some ?r" "server_local s2" "\<not> fallback_required s2"
    "manual_recovery_target s2 = None" "counter_inv s2" "peers s2 = peers s"
    "server_host s2 = server_host s" "grant_epoch s2 = grant_epoch s" "request_history s2 = request_history s"
    using s1 by (simp_all add: s2_def s1_def switch_admitted_def server_local_def counter_inv_def)
  have 1: "apply_event s (CreateEnter rid cid target lease) n1 tm =
     Ok \<lparr>t_next = s1, t_effects = [SetInput target ?e False]\<rparr>"
    using assms loc(1) unfolding s1_def by (intro create_enter_admits)
  have 2: "apply_event s1 (CommandAcknowledged ?e target) n2 tm = Ok \<lparr>t_next = s2, t_effects = [Observe ?e]\<rparr>"
    using assms(5) s1 unfolding s2_def
    by (intro acknowledged_observes) (auto simp: s1_def switch_admitted_def)
  have 3: "apply_event s2 (Observation ?e Fullscreen (Some target) signals) n3 tm =
     Ok \<lparr>t_next = s3, t_effects = []\<rparr>"
    using observation_grants [of s2 ?e ?r signals p n3 tm] assms s2 r unfolding s3_def
    by (simp add: s2_def)
  have 4: "\<exists>t. apply_event s3 (Commit rid (saturating_add (request_epoch s) 1)
       (saturating_add (grant_epoch s) 1) (lease_id lease) (lease_epoch lease)) n4 tm = Ok t
     \<and> keyboard_owner (t_next t) = target \<and> pointer_owner (t_next t) = target
     \<and> phase (t_next t) = RemoteOwned"
    using switch_granted_commit [of ?r s2 ?e p signals n4 n3 tm] assms s2 r
      no_committed_request [OF assms(6)]
    unfolding s3_def by simp
  have "keyboard_owner s3 = server_host s"
    using s2 by (simp add: s3_def switch_granted_def server_local_def)
  with 1 2 3 4 show ?thesis by fastforce
qed

theorem switch_completes_witness:
  "\<exists>t1 t2 t3 t4.
     apply_event demo_peer (CreateEnter ''r1'' ''client'' Host.Left demo_lease) 30 demo_timing = Ok t1
     \<and> apply_event (t_next t1) (CommandAcknowledged 1 Host.Left) 40 demo_timing = Ok t2
     \<and> apply_event (t_next t2) (Observation 1 Fullscreen (Some Host.Left) (only Host.Left)) 50 demo_timing = Ok t3
     \<and> apply_event (t_next t3) (Commit ''r1'' 1 1 ''lease'' 1) 60 demo_timing = Ok t4
     \<and> keyboard_owner (t_next t4) = Host.Left"
proof -
  have "ready demo_peer" "request demo_peer ''r1'' = None" "has_display_route demo_peer Host.Left"
    "bundle_ready demo_ready (peer_session_epoch demo_lease)"
    by (simp_all add: demo_eval)
  then show ?thesis
    using switch_completes [OF demo_reachable(2), of "''r1''" Host.Left demo_ready demo_lease "only Host.Left"
        30 50 60 demo_timing "''client''" 40]
    by (auto simp: demo_states saturating_add_def only_def)
qed

end
