(* ===== verification/Protocol_Time.thy ===== *)
theory Protocol_Time
  imports Protocol_Props
begin

text \<open>
  Time in the display protocol: what an accepted tick guarantees, how an unverified fallback is
  retried, and the situations in which a passed deadline is not acted upon.
\<close>

section \<open>Ticks\<close>

lemma tick_request_expires:
  assumes "tick_request s now tm = (u, eff)"
  shows "\<forall>r. active_request u = Some r \<longrightarrow> now < req_deadline_ms r"
proof (cases "active_request s")
  case (Some r)
  have "active_request (fst (tick_request s now tm)) = None" if "req_deadline_ms r \<le> now"
    using that Some by (simp add: tick_request_def Let_def)
  then show ?thesis
    using Some assms by (cases "req_deadline_ms r \<le> now") (auto simp: tick_request_def not_le)
qed (use assms in \<open>auto simp: tick_request_def\<close>)

lemma fallback_ends_request_and_session [simp]:
  "active_request (fst (begin_fallback s eff now tm reason)) = None"
  "active_session (fst (begin_fallback s eff now tm reason)) = None"
  "active_request (fst (begin_active_session_failure_fallback s eff now tm reason)) = None"
  "active_session (fst (begin_active_session_failure_fallback s eff now tm reason)) = None"
  by (simp_all add: begin_fallback_def begin_active_session_failure_fallback_def Let_def)

lemma commands_keep_request_and_session [simp]:
  "active_request (fst (request_observation s eff now tm e)) = active_request s"
  "active_session (fst (request_observation s eff now tm e)) = active_session s"
  "active_request (fst (issue_fallback_command s eff now tm)) = active_request s"
  "active_session (fst (issue_fallback_command s eff now tm)) = active_session s"
  by (simp_all add: request_observation_def issue_fallback_command_def Let_def)

lemma if_eqE: "(if b then x else y) = z \<Longrightarrow> (x = z \<Longrightarrow> R) \<Longrightarrow> (y = z \<Longrightarrow> R) \<Longrightarrow> R"
  by (cases b) simp_all

lemma option_map_SomeE: "map_option f x = Some z \<Longrightarrow> (\<And>y. x = Some y \<Longrightarrow> z = f y \<Longrightarrow> R) \<Longrightarrow> R"
  by (cases x) simp_all

lemma tick_phase_expires:
  assumes "tick_phase s eff now tm = Some st"
    and "\<forall>r. active_request s = Some r \<longrightarrow> now < req_deadline_ms r"
  shows "(\<forall>r. active_request (fst st) = Some r \<longrightarrow> now < req_deadline_ms r)
    \<and> (\<forall>ses. active_session (fst st) = Some ses \<longrightarrow> \<not> session_expired ses now)"
proof (cases "case active_session s of None \<Rightarrow> False | Some ses \<Rightarrow> session_expired ses now")
  case True
  then show ?thesis using assms(1) by (auto simp: tick_phase_def)
next
  case False
  have "(active_request (fst st), active_session (fst st)) \<in> {(active_request s, active_session s), (None, None)}"
    using assms(1) unfolding tick_phase_def if_not_P [OF False] Let_def
    by (elim if_eqE option_map_SomeE) (auto split: if_split_asm)
  then show ?thesis using assms(2) False by (auto split: option.splits)
qed

text \<open>
  C29. Nothing expired survives a tick: after an accepted \<^verbatim>\<open>Tick\<close> the deadline of the pending request,
  if there is one, lies in the future, and so do the renewal and the lease of the active session.
\<close>
theorem tick_expires:
  assumes "apply_event s Tick now tm = Ok t"
  shows "(\<forall>r. active_request (t_next t) = Some r \<longrightarrow> now < req_deadline_ms r)
    \<and> (\<forall>ses. active_session (t_next t) = Some ses \<longrightarrow>
         now < ses_renewed_until_ms ses \<and> now < lease_expires_at_ms (ses_lease ses))"
proof -
  obtain u eff where u: "tick_request s now tm = (u, eff)" by fastforce
  with assms obtain st where "tick_phase u eff now tm = Some st" "t_next t = fst st"
    by (auto simp: apply_tick_def expecting_eq_Ok validated_staged_def validated_def
        split: option.splits)
  then show ?thesis
    using tick_phase_expires [of u eff now tm st] tick_request_expires [OF u]
    by (auto simp: session_expired_def not_le)
qed

theorem tick_expires_witness:
  "\<exists>t. apply_event demo_remote Tick 2000 demo_timing = Ok t \<and>
     (\<forall>ses. active_session (t_next t) = Some ses \<longrightarrow> 2000 < ses_renewed_until_ms ses)"
proof -
  have "manual_recovery_target demo_remote \<noteq> Some (server_host demo_remote)"
    by (simp add: demo_states)
  note v = fallback_valid(2) [OF this]
  have "session_expired demo_session 2000" by (simp add: session_expired_def demo_params)
  then have "\<exists>t. apply_event demo_remote Tick 2000 demo_timing = Ok t"
    using v [of "[]" 2000 demo_timing "''active_lease_expired''" 2000]
    by (simp add: apply_tick_def tick_request_def tick_phase_def demo_remote_def validated_staged_def
        validated_def)
  then show ?thesis using tick_expires [of demo_remote 2000 demo_timing] by blast
qed

text \<open>
  C33. An unverified fallback is retried: in a reachable state that waits for the television to
  return to the server, a tick after the deadline commands the server input again under a fresh
  switch epoch, with a new deadline, while the server keeps the input.
\<close>
theorem fallback_is_retried:
  assumes "proto.reachable s" and "phase s = FallbackCommandPending \<or> phase s = FallbackVerifying"
    and "daemon_healthy s" and "due (phase_deadline_ms s) now"
  shows "\<exists>t. apply_event s Tick now tm = Ok t
    \<and> t_effects t = [SetInput (server_host s) (saturating_add (switch_epoch s) 1) True]
    \<and> phase (t_next t) = FallbackCommandPending
    \<and> phase_deadline_ms (t_next t) = Some (saturating_add now (command_ms tm))
    \<and> keyboard_owner (t_next t) = server_host s \<and> fallback_required (t_next t)"
proof -
  have inv: "fallback_required s" "active_request s = None" "active_session s = None" "server_local s"
    using reachable_valid_inv [OF assms(1)] assms(2)
    by (cases "active_request s"; cases "active_session s";
        auto simp: valid_inv_def proto_inv_def struct_inv_def phase_inv_def owner_inv_def
          request_inv_def server_local_def)+
  note m = reachable_no_server_recovery [OF assms(1)]
  have "validated (fst (issue_fallback_command s [] now tm)) eff now =
      Ok \<lparr>t_next = fst (issue_fallback_command s [] now tm), t_effects = eff\<rparr>" for eff
    using inv m by (simp add: issue_fallback_command_def Let_def validated_def validate_def
        validate_grant_def server_local_def)
  moreover have "phase_deadline_ms (fst (begin_fallback_with_restore s [] now tm reason True)) =
      Some (saturating_add now (command_ms tm))" for reason
    using assms(3) inv by (simp add: begin_fallback_with_restore_def issue_fallback_command_def
        Let_def release_to_server_def daemon_healthy_def recovery_candidate_def option_filter_def)
  ultimately show ?thesis
    using assms inv fallback_valid(1) [OF m]
    by (auto simp: apply_tick_def tick_request_def tick_phase_def Let_def validated_staged_def
        validated_Ok begin_fallback_def display_restore_required_def
        begin_fallback_with_restore_effects begin_fallback_with_restore_phase
        issue_fallback_command_def server_local_def)
qed

definition demo_failed :: ProtocolState where
  "demo_failed = fst (begin_fallback (demo_remote\<lparr>last_error := Some ''ssap''\<rparr>) [] 70 demo_timing ''ssap'')"

lemma demo_step7: "\<exists>eff. apply_event demo_remote (CommandFailed 1 ''ssap'') 70 demo_timing =
   Ok \<lparr>t_next = demo_failed, t_effects = eff\<rparr>"
proof -
  have "switch_epoch demo_remote = 1"
    "manual_recovery_target (demo_remote\<lparr>last_error := Some ''ssap''\<rparr>) \<noteq>
     Some (server_host (demo_remote\<lparr>last_error := Some ''ssap''\<rparr>))"
    by (simp_all add: demo_states)
  then show ?thesis
    using fallback_valid(1) [of "demo_remote\<lparr>last_error := Some ''ssap''\<rparr>" "[]" 70 demo_timing "''ssap''" 70]
    by (simp add: apply_command_failed_def demo_failed_def validated_staged_def validated_def)
qed

lemma demo_failed_reachable: "proto.reachable demo_failed"
proof -
  obtain eff where e: "apply_event demo_remote (CommandFailed 1 ''ssap'') 70 demo_timing =
     Ok \<lparr>t_next = demo_failed, t_effects = eff\<rparr>" using demo_step7 by blast
  show ?thesis using reachable_apply [OF demo_reachable(6) e] by simp
qed

lemma demo_failed_fields:
  "phase demo_failed = FallbackCommandPending" "daemon_healthy demo_failed"
  "phase_deadline_ms demo_failed = Some 170" "server_host demo_failed = Controller"
  "switch_epoch demo_failed = 2"
  by (simp_all add: demo_failed_def begin_fallback_def begin_fallback_with_restore_def
      display_restore_required_def archived_request_mut_def recovery_candidate_def
      issue_fallback_command_def demo_eval)

theorem fallback_is_retried_witness:
  "\<exists>t. apply_event demo_failed Tick 200 demo_timing = Ok t
     \<and> t_effects t = [SetInput Controller 3 True]"
  using fallback_is_retried [OF demo_failed_reachable, of 200 demo_timing]
  by (auto simp: demo_failed_fields due_def saturating_add_def)

section \<open>Deadlines that are not acted upon\<close>

text \<open>
  A switch command that is not acknowledged in time: the phase deadline is due, the request deadline
  is not, and the tick has nothing to do.
\<close>

lemma tick_stalls_while_switching:
  assumes "proto.reachable s" and "phase s = ProtocolPhase.Switching"
    and "keyboard_owner s = server_host s" and "observation_in_flight s = None"
    and "active_request s = Some r" and "now < req_deadline_ms r"
    and "phase_deadline_ms s = Some d" and "d \<le> now"
  shows "apply_event s Tick now tm = Ok \<lparr>t_next = s, t_effects = []\<rparr>
    \<and> (\<exists>d'. next_deadline_ms s = Some d' \<and> d' \<le> now)"
proof -
  note loc = reachable_server_local [OF assms(1,3)]
  obtain v where v: "validate s v = None"
    using reachable_valid_inv [OF assms(1)] by (auto simp: valid_inv_def)
  have "validate s now = None"
    using v assms(3) by (simp add: validate_def split: if_splits)
  moreover have "\<not> req_deadline_ms r \<le> now" using assms(6) by (simp add: not_le)
  ultimately have "apply_event s Tick now tm = Ok \<lparr>t_next = s, t_effects = []\<rparr>"
    using assms loc
    by (simp add: apply_tick_def tick_request_def tick_phase_def validated_staged_def validated_Ok)
  moreover obtain d' where "next_deadline_ms s = Some d'"
    using assms(7) by (cases "next_deadline_ms s") (auto simp: next_deadline_ms_def)
  moreover from this have "d' \<le> d"
    using assms(7) flatten_min_SomeD [of _ d'] by (force simp: next_deadline_ms_def)
  ultimately show ?thesis using assms(8) by auto
qed

text \<open>
  A wake that times out while another host owns the input makes the tick fail: in a reachable
  state with a live session and a waking request for a further host whose deadline has passed, the
  tick is rejected by the run-time check, because it arms manual recovery without ending the
  session. The state is not changed, so the deadline stays due and every further tick fails too
  until the session itself expires.
\<close>
theorem wake_timeout_during_session_rejected:
  assumes "proto.reachable s" and "active_session s = Some ses" and "\<not> session_expired ses now"
    and "active_request s = Some r" and "req_status r = RequestStatus.Waking"
    and "req_deadline_ms r \<le> now" and "req_target r \<noteq> server_host s"
  shows "apply_event s Tick now tm =
     Err (Invariant ''manual recovery cannot be armed while an input transaction is active'')"
proof -
  have own: "keyboard_owner s = pointer_owner s" "fallback_required s \<longrightarrow> keyboard_owner s = server_host s"
    using reachable_valid_inv [OF assms(1)]
    by (auto simp: valid_inv_def proto_inv_def struct_inv_def owner_inv_def)
  define u where "u = archive_request (s\<lparr>active_request := None, manual_recovery_target := Some (req_target r)\<rparr>)
      (r\<lparr>req_status := Expired, req_reason := Some ''request_deadline''\<rparr>)\<lparr>phase := Idle, phase_deadline_ms := None\<rparr>"
  have req: "tick_request s now tm = (u, [])"
    using assms by (simp add: tick_request_def Let_def u_def)
  have "tick_phase u [] now tm = Some (u, [])"
    using assms by (simp add: tick_phase_def u_def due_def)
  moreover have "validate u now = Some ManualRecoveryWhileInputActive"
    using assms own by (simp add: validate_def u_def archive_request_def Let_def)
  ultimately show ?thesis
    using req by (simp add: apply_tick_def validated_staged_def validated_def)
qed

definition demo_wake_request :: EnterRequest where
  "demo_wake_request =
     \<lparr>req_request_id = ''r2'', req_client_id = ''client'', req_target = Host.Right,
      req_request_epoch = 2, req_lease = demo_lease, req_status = RequestStatus.Waking,
      req_switch_epoch = None, req_grant = None, req_deadline_ms = 170, req_reason = None\<rparr>"

definition demo_waking :: ProtocolState where
  "demo_waking = demo_remote\<lparr>request_epoch := 2, phase := ProtocolPhase.Waking,
     phase_deadline_ms := Some 170, active_request := Some demo_wake_request\<rparr>"

lemma demo_step_wake: "apply_event demo_remote (CreateEnter ''r2'' ''client'' Host.Right demo_lease) 70
    (demo_timing\<lparr>wake_ms := 100\<rparr>) =
  Ok \<lparr>t_next = demo_waking, t_effects = [Wake Host.Right 2]\<rparr>"
  by (simp add: apply_create_enter_def admit_enter_def new_enter_request_def demo_waking_def
      demo_wake_request_def validate_remote_owner_def PeerReadiness_default_def find_last_def demo_eval)

theorem wake_timeout_during_session_rejected_witness:
  "apply_event demo_waking Tick 180 demo_timing =
     Err (Invariant ''manual recovery cannot be armed while an input transaction is active'')"
proof -
  have "proto.reachable demo_waking"
    using reachable_apply [OF demo_reachable(6) demo_step_wake] by simp
  moreover have "active_session demo_waking = Some demo_session" "\<not> session_expired demo_session 180"
    "active_request demo_waking = Some demo_wake_request" "server_host demo_waking = Controller"
    by (simp_all add: demo_waking_def demo_states session_expired_def)
  ultimately show ?thesis
    using wake_timeout_during_session_rejected [of demo_waking demo_session 180 demo_wake_request demo_timing]
    by (simp add: demo_wake_request_def)
qed

end
