(* ===== verification/Protocol_Ops.thy ===== *)
theory Protocol_Ops
  imports Protocol_Props
begin

text \<open>
  Properties of the client operations and of time: repeated requests and commits, stale and lost
  acknowledgements, the bounded history, the epochs, and what a tick does with deadlines that
  have passed.
\<close>

section \<open>Repeated requests\<close>

definition request_matches :: "EnterRequest \<Rightarrow> string \<Rightarrow> Host \<Rightarrow> LeaseIdentity \<Rightarrow> bool" where
  "request_matches r cid target lease \<longleftrightarrow>
     req_client_id r = cid \<and> req_target r = target
     \<and> lease_id (req_lease r) = lease_id lease \<and> lease_epoch (req_lease r) = lease_epoch lease"

lemma request_active: "active_request s = Some r \<Longrightarrow> request s (req_request_id r) = Some r"
  by (simp add: request_def option_filter_def)

lemma request_pending: "request (s\<lparr>active_request := Some r\<rparr>) (req_request_id r) = Some r"
  by (simp add: request_def option_filter_def)

lemma request_archived:
  "active_request s = None \<Longrightarrow> request (archive_request s r) (req_request_id r) = Some r"
  by (simp add: request_def option_filter_def archive_request_def Let_def)

lemma validated_OkD: "validated s eff now = Ok t \<Longrightarrow> t_next t = s \<and> t_effects t = eff"
  by (auto simp: validated_def split: option.splits)

lemma begin_switch_request:
  assumes "begin_switch s eff now tm = Some st" and "active_request s = Some r"
  obtains r' where "active_request (fst st) = Some r'" "req_request_id r' = req_request_id r"
    "req_client_id r' = req_client_id r" "req_target r' = req_target r" "req_lease r' = req_lease r"
proof (cases "has_display_route s (req_target r)")
  case True
  then show ?thesis
    using assms that [of "switching r (saturating_add (switch_epoch s) 1) now tm"]
    by (auto simp: begin_switch_routed)
next
  case False
  let ?r = "switching r (saturating_add (switch_epoch s) 1) now tm"
  obtain s' u where "issue_grant u now tm = Some s'" "active_request u = Some ?r" "fst st = s'"
    using assms False by (auto simp: begin_switch_def Let_def switching_def has_display_route_def)
  then show ?thesis
    using that issue_grant_display(1) [of u now tm s' ?r] by auto
qed

lemma admit_enter_request:
  assumes "admit_enter s rid cid target lease now tm = Ok t" and "active_request s = None"
  shows "\<exists>r. request (t_next t) rid = Some r \<and> request_matches r cid target lease"
proof -
  have switch: "\<exists>r'. request (t_next t) rid = Some r' \<and> request_matches r' cid target lease"
    if a: "expecting (begin_switch u eff now tm) (\<lambda>st. validated_staged st now) = Ok t"
      and b: "active_request u = Some (new_enter_request rid cid target e lease now tm)" for u eff e
  proof (cases "begin_switch u eff now tm")
    case (Some st)
    then obtain r' where "active_request (fst st) = Some r'" "req_request_id r' = rid"
      "req_client_id r' = cid" "req_target r' = target" "req_lease r' = lease"
      using begin_switch_request [OF Some b] by auto
    then show ?thesis
      using a Some request_active [of "fst st" r']
      by (auto simp: validated_staged_def validated_def request_matches_def split: option.splits)
  qed (use a in simp)
  let ?r = "new_enter_request rid cid target (saturating_add (request_epoch s) 1) lease now tm"
  let ?w = "?r\<lparr>req_status := RequestStatus.Waking, req_deadline_ms := saturating_add now (wake_ms tm)\<rparr>"
  let ?d = "?r\<lparr>req_status := Denied, req_reason := Some ''target_input_not_ready''\<rparr>"
  have wake: "request (u\<lparr>active_request := Some ?w\<rparr>) rid = Some ?w" for u
    using request_pending [of ?w u] by simp
  have deny: "request (archive_request u ?d) rid = Some ?d" if "active_request u = None" for u
    using request_archived [OF that, of ?d] by simp
  have "request_matches ?w cid target lease" "request_matches ?d cid target lease"
    by (simp_all add: request_matches_def)
  then show ?thesis
    using assms wake deny
    by (auto simp: admit_enter_def Let_def split: if_splits dest!: switch validated_OkD)
qed

text \<open>
  Creating a request is idempotent: after an accepted \<^verbatim>\<open>CreateEnter\<close>, whatever it did (wake,
  switch, grant or deny), the same request again changes nothing and emits no second wake or
  television command, at any later time; the same request id with another client, target or
  lease is a conflict.
\<close>
theorem create_enter_idempotent:
  assumes "apply_event s (CreateEnter rid cid target lease) now tm = Ok t"
  shows "apply_event (t_next t) (CreateEnter rid cid' target' lease') now' tm' =
     (if cid' = cid \<and> target' = target \<and> lease_id lease' = lease_id lease
         \<and> lease_epoch lease' = lease_epoch lease
      then Ok \<lparr>t_next = t_next t, t_effects = []\<rparr> else Err RequestIdentityConflict)"
proof -
  have "\<exists>r. request (t_next t) rid = Some r \<and> request_matches r cid target lease"
    using assms admit_enter_request [of s rid cid target lease now tm t]
    by (auto simp: apply_create_enter_def request_matches_def split: option.splits if_splits)
  then show ?thesis
    by (auto simp: apply_create_enter_def request_matches_def)
qed

theorem create_enter_idempotent_witness:
  "apply_event demo_switching (CreateEnter ''r1'' ''client'' Host.Left demo_lease) 35 demo_timing =
     Ok \<lparr>t_next = demo_switching, t_effects = []\<rparr>"
  using create_enter_idempotent [OF demo_step3, of "''client''" Host.Left demo_lease 35 demo_timing]
  by simp

lemma apply_commit_remote:
  assumes "apply_commit s rid req_ep grant_ep lid lease_ep now tm = Ok t"
    and "proto.reachable s" and "keyboard_owner (t_next t) \<noteq> server_host s"
  shows "\<exists>r g. find_last (\<lambda>r. req_request_id r = rid \<and> req_status r = Committed)
            (request_history (t_next t)) = Some r
     \<and> req_request_epoch r = req_ep \<and> lease_id (req_lease r) = lid \<and> lease_epoch (req_lease r) = lease_ep
     \<and> req_grant r = Some g \<and> grant_grant_epoch g = grant_ep"
proof (cases "find_last (\<lambda>r. req_request_id r = rid \<and> req_status r = Committed) (request_history s)")
  case None
  have fb: "\<not> (validated_staged (begin_fallback s [] now tm reason) now = Ok t)" for reason
    using assms(3) by (auto simp: validated_staged_def validated_def begin_fallback_def Let_def
        split: option.splits)
  obtain r g e where "active_request s = Some r" "req_grant r = Some g" "req_request_id r = rid"
    "req_request_epoch r = req_ep" "lease_id (req_lease r) = lid" "lease_epoch (req_lease r) = lease_ep"
    "grant_grant_epoch g = grant_ep" and c: "commit_granted s r e req_ep now tm = Ok t"
    using assms(1) None fb
    by (auto simp: apply_commit_def expecting_eq_Ok split: option.splits if_splits)
  moreover have "\<exists>h. request_history (t_next t) = h @ [r\<lparr>req_status := Committed, req_reason := None,
      req_lease := (req_lease r)\<lparr>lease_expires_at_ms := saturating_add now (lease_ms tm)\<rparr>\<rparr>]"
    using c by (auto simp: commit_granted_def Let_def validated_def archive_request_def
        split: option.splits if_splits)
  ultimately show ?thesis by auto
next
  case (Some c)
  then show ?thesis
    using assms by (auto simp: apply_commit_def validated_def split: option.splits if_splits)
qed

text \<open>
  A commit takes effect exactly once: when a commit has given the input to a remote host,
  repeating it while the session is valid succeeds without changing the state or emitting an
  effect, and any other identity for the same request id is rejected as stale.
\<close>
theorem commit_idempotent:
  assumes "proto.reachable s"
    and "apply_event s (Commit rid req_ep grant_ep lid lease_ep) now tm = Ok t"
    and "keyboard_owner (t_next t) \<noteq> server_host s"
    and "validate (t_next t) now' = None"
  shows "apply_event (t_next t) (Commit rid req_ep' grant_ep' lid' lease_ep') now' tm' =
     (if req_ep' = req_ep \<and> grant_ep' = grant_ep \<and> lid' = lid \<and> lease_ep' = lease_ep
      then Ok \<lparr>t_next = t_next t, t_effects = []\<rparr> else Err StaleIdentity)"
  using apply_commit_remote [of s rid req_ep grant_ep lid lease_ep now tm t] assms
  by (auto simp: apply_commit_def validated_def)

theorem commit_idempotent_witness:
  "apply_event demo_remote (Commit ''r1'' 1 1 ''lease'' 1) 65 demo_timing =
     Ok \<lparr>t_next = demo_remote, t_effects = []\<rparr>"
  using commit_idempotent [OF demo_reachable(5) demo_step6, of 65 1 1 "''lease''" 1 demo_timing]
  by (simp add: validate_remote_owner_def demo_eval)

section \<open>Stale and lost acknowledgements\<close>

text \<open>
  Results of superseded commands are ignored: an acknowledgement for another switch epoch than
  the current one leaves the state as it is and emits nothing, and a failure report for another
  epoch, if it is accepted at all, neither changes the state nor starts a fallback.
\<close>
theorem stale_results_ignored:
  assumes "epoch \<noteq> switch_epoch s"
  shows "apply_event s (CommandAcknowledged epoch h) now tm = Ok \<lparr>t_next = s, t_effects = []\<rparr>
    \<and> (\<forall>t. apply_event s (CommandFailed epoch reason) now tm = Ok t \<longrightarrow>
          t_next t = s \<and> t_effects t = [])"
  using assms
  by (auto simp: apply_command_acknowledged_def apply_command_failed_def dest: validated_OkD)

theorem stale_results_ignored_witness:
  "apply_event demo_switching (CommandAcknowledged 7 Host.Left) 40 demo_timing =
     Ok \<lparr>t_next = demo_switching, t_effects = []\<rparr>"
  using stale_results_ignored [of 7 demo_switching Host.Left 40 demo_timing] by (simp add: demo_states)

section \<open>Cancellation\<close>

lemma reachable_active_not_archived:
  assumes "proto.reachable s" and "active_request s = Some r"
  shows "q \<in> set (request_history s) \<Longrightarrow> req_request_id q \<noteq> req_request_id r"
proof -
  have "req_request_id r \<notin> req_request_id ` set (request_history s)"
    using reachable_valid_inv [OF assms(1)] assms(2)
    by (auto simp: valid_inv_def proto_inv_def struct_inv_def history_inv_def)
  then show "q \<in> set (request_history s) \<Longrightarrow> req_request_id q \<noteq> req_request_id r"
    by (metis imageI)
qed

text \<open>
  C36. Cancelling a switch that is under way does not bring the television back: in a reachable,
  healthy, locally owned state with a pending request whose switch has been commanded, \<^verbatim>\<open>Cancel\<close>
  is accepted, emits no command at all and leaves the protocol idle and ready, with the commanded
  input still set to the cancelled target. The same request reaching its deadline would have
  commanded the server input.
\<close>
theorem cancel_does_not_restore_display:
  assumes "proto.reachable s" and "daemon_healthy s" and "keyboard_owner s = server_host s"
    and "active_request s = Some r" and "req_switch_epoch r = Some e"
    and "has_display_route s (req_target r)" and "pending_multiview s = None"
  shows "(\<exists>t. apply_event s (Cancel (req_request_id r) reason) now tm = Ok t \<and> t_effects t = []
      \<and> phase (t_next t) = Idle \<and> ready (t_next t)
      \<and> commanded_input (t_next t) = commanded_input s)
    \<and> (req_deadline_ms r \<le> now' \<longrightarrow> snd (tick_request s now' tm) =
         [SetInput (server_host s) (saturating_add (switch_epoch s) 1) True])"
proof -
  note loc = reachable_server_local [OF assms(1,3)]
  have st: "\<not> fallback_required s" "req_status r \<noteq> RequestStatus.Waking"
    using reachable_valid_inv [OF assms(1)] assms(4,5)
    by (auto simp: valid_inv_def proto_inv_def struct_inv_def request_inv_def pending_ok_def)
  define u where "u = archive_request
     (if req_target r \<noteq> server_host s
      then s\<lparr>active_request := None, manual_recovery_target := Some (req_target r)\<rparr>
      else s\<lparr>active_request := None\<rparr>) (r\<lparr>req_status := Cancelled, req_reason := Some reason\<rparr>)"
  have u: "active_request u = None" "active_session u = None" "\<not> fallback_required u"
    "pending_multiview u = None" "daemon_healthy u" "commanded_input u = commanded_input s"
    "manual_recovery_target u \<noteq> Some (server_host u)"
    using loc st assms(2,7) reachable_no_server_recovery [OF assms(1)]
    by (auto simp: u_def daemon_healthy_def archive_request_def Let_def)
  have nr: "\<not> display_restore_required u" using u by (simp add: display_restore_required_def)
  have "\<not> list_ex (\<lambda>q. req_request_id q = req_request_id r \<and> (req_status q = Cancelled \<or> req_status q = Fallback))
     (request_history s)"
    using reachable_active_not_archived [OF assms(1,4)] by (auto simp: list_ex_iff)
  then have "apply_event s (Cancel (req_request_id r) reason) now tm =
     validated_staged (begin_fallback u [] now tm reason) now"
    using assms loc by (simp add: apply_cancel_def Let_def u_def)
  moreover have "validate (fst (begin_fallback u [] now tm reason)) now = None"
    using fallback_valid(1) [OF u(7)] .
  moreover have "snd (begin_fallback u [] now tm reason) = []" "phase (fst (begin_fallback u [] now tm reason)) = Idle"
    "daemon_healthy (fst (begin_fallback u [] now tm reason))"
    "\<not> fallback_required (fst (begin_fallback u [] now tm reason))"
    using nr u by (simp_all add: begin_fallback_def Let_def begin_fallback_with_restore_effects
        begin_fallback_with_restore_phase)
  moreover have "commanded_input (fst (begin_fallback u [] now tm reason)) = commanded_input s"
    using nr u by (simp add: begin_fallback_def begin_fallback_with_restore_def Let_def
        release_to_server_def recovery_candidate_def option_filter_def)
  ultimately have "\<exists>t. apply_event s (Cancel (req_request_id r) reason) now tm = Ok t \<and> t_effects t = []
      \<and> phase (t_next t) = Idle \<and> ready (t_next t) \<and> commanded_input (t_next t) = commanded_input s"
    by (simp add: validated_staged_def validated_def ready_def)
  then show ?thesis
    using assms st
    by (simp add: tick_request_def Let_def begin_fallback_with_restore_effects
        display_restore_required_def daemon_healthy_def archive_request_def)
qed

theorem cancel_does_not_restore_display_witness:
  "\<exists>t. apply_event demo_verifying (Cancel ''r1'' ''user'') 45 demo_timing = Ok t \<and> t_effects t = []
     \<and> phase (t_next t) = Idle \<and> commanded_input (t_next t) = Some Host.Left"
  using cancel_does_not_restore_display [OF demo_reachable(4), of demo_request 1 "''user''" 45 demo_timing]
  by (auto simp: demo_states daemon_healthy_def has_display_route_def)

section \<open>History and epochs\<close>

text \<open>
  The request history stays bounded and unambiguous: in every reachable state it has at most
  \<^verbatim>\<open>retained_request_limit\<close> entries, no request id occurs twice in it, and the pending request is
  not among them, so \<^verbatim>\<open>request\<close> has at most one candidate.
\<close>
theorem history_bounded_distinct:
  assumes "proto.reachable s"
  shows "length (request_history s) \<le> retained_request_limit s
    \<and> distinct (map req_request_id (request_history s))
    \<and> (\<forall>r. active_request s = Some r \<longrightarrow>
          req_request_id r \<notin> req_request_id ` set (request_history s))"
  using reachable_valid_inv [OF assms]
  by (auto simp: valid_inv_def proto_inv_def struct_inv_def history_inv_def history_ok_def)

theorem history_bounded_distinct_witness:
  "length (request_history demo_remote) \<le> retained_request_limit demo_remote"
  using history_bounded_distinct [OF demo_reachable(6)] by blast

text \<open>
  Epochs only grow: no transition, from any state, decreases the request, switch or grant
  epoch or changes the configured server, display routes or history bound.
\<close>
theorem epochs_monotone:
  assumes "apply_event s e now tm = Ok t"
  shows "request_epoch s \<le> request_epoch (t_next t) \<and> switch_epoch s \<le> switch_epoch (t_next t)
    \<and> grant_epoch s \<le> grant_epoch (t_next t) \<and> server_host (t_next t) = server_host s
    \<and> display_hosts (t_next t) = display_hosts s
    \<and> retained_request_limit (t_next t) = retained_request_limit s"
  using apply_event_evolves [OF assms] by (simp add: evolves_def)

theorem epochs_monotone_witness: "switch_epoch demo_peer \<le> switch_epoch demo_switching"
  using epochs_monotone [OF demo_step3] by simp

text \<open>
  A grant never outlives its evidence or its lease: in every reachable state with a pending
  grant, the request's deadline is the grant's expiry, which is not after the lease's expiry, and
  the verified display epoch, the request's switch epoch and the grant's switch epoch are the same.
\<close>
theorem grant_bounded_by_lease:
  assumes "proto.reachable s" and "active_request s = Some r" and "req_status r = RequestStatus.Grant"
  shows "\<exists>g. req_grant r = Some g \<and> req_deadline_ms r = grant_expires_at_ms g
    \<and> grant_expires_at_ms g \<le> lease_expires_at_ms (req_lease r)
    \<and> req_switch_epoch r = Some (grant_switch_epoch g)
    \<and> verified_epoch s = Some (grant_switch_epoch g)"
proof -
  obtain now where "validate s now = None"
    using reachable_valid_inv [OF assms(1)] by (auto simp: valid_inv_def)
  then have "validate_grant s = None" by (rule validate_NoneD)
  moreover have "pending_ok r"
    using reachable_valid_inv [OF assms(1)] assms(2)
    by (auto simp: valid_inv_def proto_inv_def struct_inv_def request_inv_def)
  ultimately show ?thesis
    using assms(2,3) by (auto simp: pending_ok_def validate_grant_def split: if_splits)
qed

theorem grant_bounded_by_lease_witness:
  "req_deadline_ms (granted demo_request 1 1 50 demo_timing) \<le> lease_expires_at_ms demo_lease"
  using grant_bounded_by_lease [OF demo_reachable(5), of "granted demo_request 1 1 50 demo_timing"]
  by (auto simp: demo_granted_def demo_request_def)

end
