(* ===== verification/Display_Coordinator.thy ===== *)
theory Display_Coordinator
  imports Protocol_Time Protocol_Ops
begin

text \<open>
  The coordinator task of \<^verbatim>\<open>tv-multiview/src/coordinator.rs\<close>: the request handle, the loop that
  feeds events and ticks to the protocol, the dispatch of effects to the two bounded effect
  queues, the queue gauges, and what a transition logs.

  The bounded channels of the asynchronous runtime are not part of the program: a channel is a
  value of an arbitrary type \<open>'c\<close> with a parameter \<open>try_send\<close> that returns the channel after the
  attempt and the error, if any, and a parameter \<open>describe\<close> for the text of an error. Nothing is
  assumed of either.
\<close>

section \<open>Requests and the handle\<close>

datatype TrySendError = Full | Closed

datatype CoordinatorError = CoordinatorBusy | CoordinatorClosed | CoordinatorProtocol ProtocolError

text \<open>
  \<^verbatim>\<open>CoordinatorHandle::request\<close>: \<open>sent\<close> is the result of the send, \<open>response\<close> what the response
  channel yields, with \<^const>\<open>None\<close> for a dropped sender.
\<close>

definition handle_request ::
  "TrySendError option \<Rightarrow> (ProtocolError + ProtocolState) option \<Rightarrow> CoordinatorError + ProtocolState" where
  "handle_request sent response =
     (case sent of
        Some Full \<Rightarrow> Inl CoordinatorBusy
      | Some Closed \<Rightarrow> Inl CoordinatorClosed
      | None \<Rightarrow>
          (case response of
             None \<Rightarrow> Inl CoordinatorClosed
           | Some (Inl e) \<Rightarrow> Inl (CoordinatorProtocol e)
           | Some (Inr s) \<Rightarrow> Inr s))"

section \<open>Queue gauges\<close>

record QueueGauge =
  gauge_depth :: u64
  gauge_capacity :: u64

record QueueSnapshot =
  snapshot_depth :: u64
  snapshot_capacity :: u64

definition QueueGauge_new :: "u64 \<Rightarrow> QueueGauge" where
  "QueueGauge_new capacity = \<lparr>gauge_depth = 0, gauge_capacity = capacity\<rparr>"

definition begin_send :: "QueueGauge \<Rightarrow> QueueGauge" where
  "begin_send q = q\<lparr>gauge_depth := gauge_depth q + 1\<rparr>"

definition cancel_send :: "QueueGauge \<Rightarrow> QueueGauge" where
  "cancel_send q = q\<lparr>gauge_depth := gauge_depth q - 1\<rparr>"

definition received :: "QueueGauge \<Rightarrow> QueueGauge" where
  "received q = q\<lparr>gauge_depth := gauge_depth q - 1\<rparr>"

definition gauge_snapshot :: "QueueGauge \<Rightarrow> QueueSnapshot" where
  "gauge_snapshot q = \<lparr>snapshot_depth = gauge_depth q, snapshot_capacity = gauge_capacity q\<rparr>"

definition sender_queue_snapshot :: "u64 \<Rightarrow> u64 \<Rightarrow> QueueSnapshot" where
  "sender_queue_snapshot max_capacity capacity =
     \<lparr>snapshot_depth = saturating_sub max_capacity capacity, snapshot_capacity = max_capacity\<rparr>"

section \<open>Sending effects\<close>

record 'c TrackedEffectSender =
  tx_sender :: 'c
  tx_queue :: QueueGauge

definition tracked_try_send ::
  "('c \<Rightarrow> Effect \<Rightarrow> 'c \<times> TrySendError option) \<Rightarrow> 'c TrackedEffectSender \<Rightarrow> Effect
   \<Rightarrow> 'c TrackedEffectSender \<times> TrySendError option" where
  "tracked_try_send try_send tx effect =
     (let tx = tx\<lparr>tx_queue := begin_send (tx_queue tx)\<rparr>;
          (sender, result) = try_send (tx_sender tx) effect;
          tx = tx\<lparr>tx_sender := sender\<rparr>
      in case result of
           Some error \<Rightarrow> (tx\<lparr>tx_queue := cancel_send (tx_queue tx)\<rparr>, Some error)
         | None \<Rightarrow> (tx, None))"

text \<open>\<^verbatim>\<open>TrackedEffectReceiver::recv\<close> on the value the channel yields.\<close>

definition tracked_recv :: "QueueGauge \<Rightarrow> Effect option \<Rightarrow> QueueGauge" where
  "tracked_recv q effect = (if effect \<noteq> None then received q else q)"

record 'c EffectSenders =
  tx_ordinary :: "'c TrackedEffectSender"
  tx_safety :: "'c TrackedEffectSender"

fun is_safety :: "Effect \<Rightarrow> bool" where
  "is_safety (SetInput _ _ fallback) = fallback"
| "is_safety _ = False"

fun effect_switch_epoch :: "Effect \<Rightarrow> u64 option" where
  "effect_switch_epoch (SetInput _ epoch _) = Some epoch"
| "effect_switch_epoch (Observe epoch) = Some epoch"
| "effect_switch_epoch (SetMultiView _ epoch) = Some epoch"
| "effect_switch_epoch (Wake _ _) = None"

text \<open>The text of a send error comes from the channel library: it is the parameter \<open>describe\<close>.\<close>

definition queue_failure :: "(TrySendError \<Rightarrow> string) \<Rightarrow> u64 \<Rightarrow> TrySendError \<Rightarrow> Event" where
  "queue_failure describe epoch error =
     CommandFailed epoch (''effect queue unavailable: '' @ describe error)"

text \<open>
  One round of the dispatch loop, on the effect that was popped: the senders, the state and the
  effects that the round adds to the pending ones. The protocol does not panic on a reachable
  state; a panic of the handler would end the task and is kept as \<^const>\<open>None\<close>.
\<close>

definition dispatch_one ::
  "(TrySendError \<Rightarrow> string) \<Rightarrow> ('c \<Rightarrow> Effect \<Rightarrow> 'c \<times> TrySendError option) \<Rightarrow> u64 \<Rightarrow> ProtocolTiming \<Rightarrow> Effect
   \<Rightarrow> ProtocolState \<times> 'c EffectSenders \<Rightarrow> (ProtocolState \<times> 'c EffectSenders \<times> Effect list) option" where
  "dispatch_one describe try_send now_ms timing effect st =
     (let (state, txs) = st;
          safety = is_safety effect;
          (tx, result) = tracked_try_send try_send
                           (if safety then tx_safety txs else tx_ordinary txs) effect;
          txs = (if safety then txs\<lparr>tx_safety := tx\<rparr> else txs\<lparr>tx_ordinary := tx\<rparr>)
      in case result of
           None \<Rightarrow> Some (state, txs, [])
         | Some error \<Rightarrow>
             if safety then Some (state, txs, [])
             else
               (case effect_switch_epoch effect of
                  None \<Rightarrow> Some (state, txs, [])
                | Some epoch \<Rightarrow>
                    (case apply_event state (queue_failure describe epoch error) now_ms timing of
                       Ok t \<Rightarrow> Some (t_next t, txs, t_effects t)
                     | Err _ \<Rightarrow> Some (state, txs, [])
                     | Panic \<Rightarrow> None)))"

lemma command_failed_effects:
  assumes "apply_event s (CommandFailed epoch reason) now tm = Ok t"
  shows "t_effects t = [] \<or> t_effects t = [SetInput (server_host s) (saturating_add (switch_epoch s) 1) True]"
  using assms
  by (auto simp: apply_command_failed_def begin_fallback_def Let_def
      begin_fallback_with_restore_effects validated_staged_def validated_def split: option.splits if_splits)

lemma queue_failure_effects:
  assumes "apply_event s (queue_failure describe epoch error) now tm = Ok t"
  shows "list_all is_safety (t_effects t) \<and> length (t_effects t) \<le> 1"
  using command_failed_effects assms unfolding queue_failure_def by fastforce

lemma dispatch_one_added:
  assumes "dispatch_one describe try_send now tm effect st = Some (s', txs', added)"
  shows "list_all is_safety added \<and> length added \<le> 1 \<and> (is_safety effect \<longrightarrow> added = [])"
  using assms
  by (auto simp: dispatch_one_def Let_def split: prod.splits option.splits if_splits
      outcome.splits dest!: queue_failure_effects)

definition dispatch_weight :: "Effect list \<Rightarrow> nat" where
  "dispatch_weight effects = (\<Sum>e\<leftarrow>effects. if is_safety e then 1 else 2)"

text \<open>
  \<^verbatim>\<open>dispatch_effects\<close>: the pending effects are taken from the end of the vector and new ones are
  appended. The loop ends because a failed ordinary effect is replaced by at most one safety
  effect and a failed safety effect by none.
\<close>

function dispatch_effects ::
  "(TrySendError \<Rightarrow> string) \<Rightarrow> ('c \<Rightarrow> Effect \<Rightarrow> 'c \<times> TrySendError option) \<Rightarrow> u64 \<Rightarrow> ProtocolTiming \<Rightarrow> Effect list
   \<Rightarrow> ProtocolState \<times> 'c EffectSenders \<Rightarrow> (ProtocolState \<times> 'c EffectSenders) option" where
  "dispatch_effects describe try_send now_ms timing pending st =
     (if pending = [] then Some st
      else
        (case dispatch_one describe try_send now_ms timing (last pending) st of
           None \<Rightarrow> None
         | Some (state, txs, added) \<Rightarrow>
             dispatch_effects describe try_send now_ms timing (butlast pending @ added) (state, txs)))"
  by pat_completeness auto

lemma dispatch_weight_append [simp]:
  "dispatch_weight (xs @ ys) = dispatch_weight xs + dispatch_weight ys"
  by (simp add: dispatch_weight_def)

lemma dispatch_weight_round:
  assumes "pending \<noteq> []" and "dispatch_one describe try_send now tm (last pending) st = Some (s', txs', added)"
  shows "dispatch_weight (butlast pending @ added) < dispatch_weight pending"
proof -
  have p: "dispatch_weight pending = dispatch_weight (butlast pending) + dispatch_weight [last pending]"
    using assms(1) by (metis append_butlast_last_id dispatch_weight_append)
  have "added = [] \<or> (\<exists>e. added = [e] \<and> is_safety e \<and> \<not> is_safety (last pending))"
    using dispatch_one_added [OF assms(2)] by (cases added) auto
  then show ?thesis
    unfolding p by (auto simp: dispatch_weight_def)
qed

termination dispatch_effects
  by (relation "measure (\<lambda>(_, _, _, _, pending, _). dispatch_weight pending)")
    (auto simp del: dispatch_weight_append intro: dispatch_weight_round)

declare dispatch_effects.simps [simp del]

section \<open>The loop\<close>

text \<open>A request carries its event; the reply goes to whoever waits for it.\<close>

type_synonym Request = "Event \<times> bool"

definition tick_request_msg :: Request where
  "tick_request_msg = (Tick, False)"

datatype 'a poll = Pending | Ready 'a

text \<open>
  The biased \<^verbatim>\<open>select!\<close>: the timer first, then the safety queue, then the ordinary queue. A queue
  yields \<^term>\<open>None\<close> once all its senders are gone.
\<close>

definition select_biased :: "bool \<Rightarrow> Request option poll \<Rightarrow> Request option poll \<Rightarrow> Request option poll" where
  "select_biased timer safety ordinary =
     (if timer then Ready (Some tick_request_msg)
      else case safety of Ready r \<Rightarrow> Ready r | Pending \<Rightarrow> ordinary)"

definition deadline_due :: "ProtocolState \<Rightarrow> u64 \<Rightarrow> bool" where
  "deadline_due s now_ms = (case next_deadline_ms s of None \<Rightarrow> False | Some d \<Rightarrow> d \<le> now_ms)"

definition next_request ::
  "ProtocolState \<Rightarrow> u64 \<Rightarrow> bool \<Rightarrow> Request option poll \<Rightarrow> Request option poll \<Rightarrow> Request option poll" where
  "next_request s now_ms timer safety ordinary =
     (if deadline_due s now_ms then Ready (Some tick_request_msg)
      else select_biased timer safety ordinary)"

definition event_latency_ms :: "ProtocolState \<Rightarrow> Event \<Rightarrow> u64 \<Rightarrow> ProtocolTiming \<Rightarrow> u64 option" where
  "event_latency_ms s event now_ms timing =
     (let latency = (\<lambda>expected.
            map_option (\<lambda>d. saturating_sub now_ms (saturating_sub d expected)) (phase_deadline_ms s))
      in case event of
           CommandAcknowledged _ _ \<Rightarrow> latency (command_ms timing)
         | CommandFailed _ _ \<Rightarrow> latency (command_ms timing)
         | MultiViewAcknowledged _ _ \<Rightarrow> latency (command_ms timing)
         | Observation _ _ _ _ \<Rightarrow> latency (observation_ms timing)
         | _ \<Rightarrow> None)"

datatype 'c run_result =
    Stopped
  | Crashed
  | Continued ProtocolState "'c EffectSenders" "(ProtocolError + ProtocolState) option"

text \<open>
  One iteration of \<^verbatim>\<open>run\<close> on a request: the new state, the senders after the dispatch and the
  reply, which a request with a response channel gets.
\<close>

definition run_request ::
  "(TrySendError \<Rightarrow> string) \<Rightarrow> ('c \<Rightarrow> Effect \<Rightarrow> 'c \<times> TrySendError option) \<Rightarrow> ProtocolTiming
   \<Rightarrow> ProtocolState \<Rightarrow> 'c EffectSenders \<Rightarrow> Request option \<Rightarrow> u64 \<Rightarrow> 'c run_result" where
  "run_request describe try_send timing state txs msg now_ms =
     (case msg of
        None \<Rightarrow> Stopped
      | Some (event, wants_reply) \<Rightarrow>
          (case apply_event state event now_ms timing of
             Ok t \<Rightarrow>
               (case dispatch_effects describe try_send now_ms timing (t_effects t) (t_next t, txs) of
                  None \<Rightarrow> Crashed
                | Some (state, txs) \<Rightarrow>
                    Continued state txs (if wants_reply then Some (Inr state) else None))
           | Err e \<Rightarrow> Continued state txs (if wants_reply then Some (Inl e) else None)
           | Panic \<Rightarrow> Crashed))"

section \<open>What a transition logs\<close>

record TransitionLog =
  log_trigger :: string
  log_previous_phase :: ProtocolPhase
  log_next_phase :: ProtocolPhase
  log_request_id :: string
  log_request_epoch :: u64
  log_switch_epoch :: u64
  log_commanded_input :: string
  log_observed_input :: string
  log_keyboard_owner :: string
  log_pointer_owner :: string
  log_lease_id :: string
  log_lease_epoch :: u64
  log_grant_epoch :: u64
  log_observation_age_ms :: u64
  log_latency_ms :: u64
  log_deadline_remaining_ms :: u64
  log_fallback_required :: bool
  log_fallback_reason :: string
  log_manual_recovery_target :: string

definition unwrap_or :: "'a \<Rightarrow> 'a option \<Rightarrow> 'a" where
  "unwrap_or d v = (case v of None \<Rightarrow> d | Some x \<Rightarrow> x)"

definition log_transition ::
  "string \<Rightarrow> ProtocolPhase \<Rightarrow> ProtocolState \<Rightarrow> u64 \<Rightarrow> u64 option \<Rightarrow> TransitionLog" where
  "log_transition trigger previous s now_ms latency_ms =
     (let req = (case active_request s of
                       Some r \<Rightarrow> Some r
                     | None \<Rightarrow> if request_history s = [] then None else Some (last (request_history s)));
          lease = (case req of
                     Some r \<Rightarrow> Some (req_lease r)
                   | None \<Rightarrow> map_option ses_lease (active_session s));
          grant = Option.bind req req_grant;
          observation_age_ms =
            Option.bind (observed_input s)
              (\<lambda>host. map_option (\<lambda>sg. saturating_sub now_ms (sig_observed_at_ms sg))
                 (option_filter (\<lambda>sg. 0 < sig_observed_at_ms sg) (input_signal s host)));
          deadline_remaining_ms = map_option (\<lambda>d. saturating_sub d now_ms) (next_deadline_ms s)
      in \<lparr>log_trigger = trigger, log_previous_phase = previous, log_next_phase = phase s,
          log_request_id = unwrap_or [] (map_option req_request_id req),
          log_request_epoch = request_epoch s, log_switch_epoch = switch_epoch s,
          log_commanded_input = unwrap_or ''unknown'' (map_option Host_as_str (commanded_input s)),
          log_observed_input = unwrap_or ''unknown'' (map_option Host_as_str (observed_input s)),
          log_keyboard_owner = Host_as_str (keyboard_owner s),
          log_pointer_owner = Host_as_str (pointer_owner s),
          log_lease_id = unwrap_or [] (map_option lease_id lease),
          log_lease_epoch = unwrap_or 0 (map_option lease_epoch lease),
          log_grant_epoch = unwrap_or 0 (map_option grant_grant_epoch grant),
          log_observation_age_ms = unwrap_or 0 observation_age_ms,
          log_latency_ms = unwrap_or 0 latency_ms,
          log_deadline_remaining_ms = unwrap_or 0 deadline_remaining_ms,
          log_fallback_required = fallback_required s,
          log_fallback_reason = unwrap_or [] (fallback_reason s),
          log_manual_recovery_target = unwrap_or [] (map_option Host_as_str (manual_recovery_target s))\<rparr>)"

section \<open>The coordinator stays within the protocol\<close>

lemma dispatch_one_reachable:
  assumes "proto.reachable s"
  shows "\<exists>s' txs' added. dispatch_one describe try_send now tm effect (s, txs) = Some (s', txs', added)
    \<and> proto.reachable s'"
proof -
  have np: "apply_event s (queue_failure describe epoch error) now tm \<noteq> Panic" for epoch error
    using apply_event_no_panic reachable_valid_inv [OF assms] by (auto simp: valid_inv_def)
  show ?thesis
    using assms np
    by (auto simp: dispatch_one_def Let_def split: prod.splits option.splits outcome.splits
        intro: reachable_apply)
qed

lemma dispatch_effects_reachable:
  assumes "proto.reachable s"
  shows "\<exists>s' txs'. dispatch_effects describe try_send now tm pending (s, txs) = Some (s', txs')
    \<and> proto.reachable s'"
  using assms
proof (induction "dispatch_weight pending" arbitrary: pending s txs rule: less_induct)
  case less
  show ?case
  proof (cases "pending = []")
    case True
    with less.prems show ?thesis by (simp add: dispatch_effects.simps)
  next
    case False
    obtain s' txs' added where one:
      "dispatch_one describe try_send now tm (last pending) (s, txs) = Some (s', txs', added)"
      "proto.reachable s'" using dispatch_one_reachable [OF less.prems] by metis
    have "dispatch_weight (butlast pending @ added) < dispatch_weight pending"
      using dispatch_weight_round [OF False one(1)] .
    from less.hyps [OF this one(2), of txs'] show ?thesis
      by (subst dispatch_effects.simps) (simp add: False one(1))
  qed
qed

lemma run_request_reachable:
  assumes "proto.reachable s"
  shows "run_request describe try_send tm s txs (Some (e, w)) now \<noteq> Crashed"
    and "run_request describe try_send tm s txs (Some (e, w)) now = Continued s' txs' reply \<Longrightarrow>
         proto.reachable s'"
proof -
  have np: "apply_event s e now tm \<noteq> Panic"
    using apply_event_no_panic reachable_valid_inv [OF assms] by (auto simp: valid_inv_def)
  have ok: "\<exists>u v. dispatch_effects describe try_send now tm (t_effects t) (t_next t, txs) = Some (u, v)
      \<and> proto.reachable u" if "apply_event s e now tm = Ok t" for t
    using dispatch_effects_reachable [OF reachable_apply [OF assms that]] .
  show "run_request describe try_send tm s txs (Some (e, w)) now \<noteq> Crashed"
    using np ok by (fastforce simp: run_request_def split: outcome.splits option.splits)
  show "proto.reachable s'"
    if "run_request describe try_send tm s txs (Some (e, w)) now = Continued s' txs' reply"
    using that ok assms by (fastforce simp: run_request_def split: outcome.splits option.splits)
qed

end
