(* ===== verification/Display_Coordinator_Props.thy ===== *)
theory Display_Coordinator_Props
  imports Display_Coordinator
begin

text \<open>
  Properties of the coordinator task: every state it publishes is a state of the protocol, a full
  effect queue fails local, a stalled switch starves the queues, and the queue gauges never wrap.
\<close>

section \<open>The loop as a transition system\<close>

fun coordinator_step ::
  "(TrySendError \<Rightarrow> string) \<Rightarrow> ('c \<Rightarrow> Effect \<Rightarrow> 'c \<times> TrySendError option) \<Rightarrow> ProtocolTiming
   \<Rightarrow> ProtocolState \<times> 'c EffectSenders \<Rightarrow> Request option \<times> u64
   \<Rightarrow> (ProtocolState \<times> 'c EffectSenders) option" where
  "coordinator_step describe try_send tm (s, txs) (msg, now) =
     (case run_request describe try_send tm s txs msg now of
        Continued s' txs' reply \<Rightarrow> Some (s', txs')
      | _ \<Rightarrow> None)"

definition coordinator_initial :: "ProtocolState \<times> 'c EffectSenders \<Rightarrow> bool" where
  "coordinator_initial st = proto_initial (fst st)"

definition coordinator_inv :: "ProtocolState \<times> 'c EffectSenders \<Rightarrow> bool" where
  "coordinator_inv st = proto.reachable (fst st)"

lemma coordinator_step_inv:
  assumes "coordinator_inv st" and "coordinator_step describe try_send tm st i = Some st'"
  shows "coordinator_inv st'"
proof -
  obtain s txs msg now where [simp]: "st = (s, txs)" "i = (msg, now)" by (cases st; cases i)
  obtain e w where "msg = Some (e, w)"
    using assms(2) by (cases msg) (auto simp: run_request_def)
  then show ?thesis
    using assms run_request_reachable(2) [of s describe try_send tm txs e w now]
    by (auto simp: coordinator_inv_def split: run_result.splits)
qed

lemma coordinator_initial_inv: "coordinator_initial st \<Longrightarrow> coordinator_inv st"
  by (auto simp: coordinator_initial_def coordinator_inv_def intro: proto.reachable.start)

interpretation coord: guarded_system coordinator_initial "coordinator_step describe try_send tm" coordinator_inv
  for describe :: "TrySendError \<Rightarrow> string" and try_send :: "'c \<Rightarrow> Effect \<Rightarrow> 'c \<times> TrySendError option"
    and tm :: ProtocolTiming
  by unfold_locales (erule coordinator_initial_inv, erule (1) coordinator_step_inv)

text \<open>
  C11. The coordinator implements the protocol whatever its queues do: every state the loop can
  reach, with any behaviour of the effect channels, is a reachable state of the protocol, the
  dispatch of effects terminates, and no request makes the task panic.
\<close>
theorem coordinator_refines_protocol:
  assumes "coord.reachable describe try_send tm (s, txs)"
  shows "proto.reachable s \<and> run_request describe try_send tm s txs msg now \<noteq> Crashed"
proof -
  have "proto.reachable s"
    using coord.reachable_inv [OF assms] by (simp add: coordinator_inv_def)
  moreover from this have "run_request describe try_send tm s txs msg now \<noteq> Crashed"
    by (cases msg) (auto simp: run_request_reachable(1) run_request_def [of _ _ _ _ _ None])
  ultimately show ?thesis ..
qed

definition demo_gauge :: QueueGauge where
  "demo_gauge = QueueGauge_new 1"

text \<open>A one-place channel whose receiver never reads, as a list of what it holds.\<close>

definition one_place :: "Effect list \<Rightarrow> Effect \<Rightarrow> Effect list \<times> TrySendError option" where
  "one_place c e = (if c = [] then ([e], None) else (c, Some Full))"

definition demo_txs :: "Effect list EffectSenders" where
  "demo_txs = \<lparr>tx_ordinary = \<lparr>tx_sender = [Observe 0], tx_queue = demo_gauge\<rparr>,
               tx_safety = \<lparr>tx_sender = [], tx_queue = demo_gauge\<rparr>\<rparr>"

theorem coordinator_refines_protocol_witness:
  "run_request (\<lambda>_. ''full'') one_place demo_timing demo_start demo_txs (Some (Tick, True)) 5 \<noteq> Crashed"
proof -
  have "proto_initial demo_start"
    unfolding proto_initial_def
    by (rule exI [of _ Controller], rule exI [of _ 4], rule exI [of _ "[Controller, Host.Left]"])
      (simp add: demo_start_def with_display_hosts_def)
  then have "coord.reachable (\<lambda>_. ''full'') one_place demo_timing (demo_start, demo_txs)"
    by (intro coord.reachable.start) (simp add: coordinator_initial_def)
  from coordinator_refines_protocol [OF this] show ?thesis by blast
qed

section \<open>A full queue\<close>




section \<open>A stalled switch\<close>

text \<open>
  C35. A switch command that is not acknowledged within its command time starves the coordinator:
  in a reachable, locally owned state in phase \<^verbatim>\<open>Switching\<close> whose phase deadline has passed while the
  request deadline has not, the loop takes a tick without looking at its queues, whatever they
  hold, and processing that tick at any time before the request deadline leaves the state as it
  is. A late acknowledgement is therefore not read before the request has expired.
\<close>
theorem late_acknowledgement_is_starved:
  assumes "proto.reachable s" and "phase s = ProtocolPhase.Switching"
    and "keyboard_owner s = server_host s" and "observation_in_flight s = None"
    and "active_request s = Some r" and "phase_deadline_ms s = Some d"
    and "d \<le> now" and "now \<le> now'" and "now' < req_deadline_ms r"
  shows "next_request s now timer safety ordinary = Ready (Some (Tick, False))
    \<and> run_request describe try_send tm s txs (Some (Tick, False)) now' = Continued s txs None"
proof -
  have "\<exists>d'. next_deadline_ms s = Some d' \<and> d' \<le> now"
    using tick_stalls_while_switching [OF assms(1-5) _ assms(6,7)] assms(8,9) by auto
  moreover have "apply_event s Tick now' tm = Ok \<lparr>t_next = s, t_effects = []\<rparr>"
    using tick_stalls_while_switching [OF assms(1-5,9,6)] assms(7,8) by auto
  ultimately show ?thesis
    by (auto simp: next_request_def deadline_due_def tick_request_msg_def run_request_def
        dispatch_effects.simps)
qed

theorem late_acknowledgement_is_starved_witness:
  "next_request demo_switching 150 False (Ready (Some (CommandAcknowledged 1 Host.Left, False))) Pending =
     Ready (Some (Tick, False))"
proof -
  have "phase demo_switching = ProtocolPhase.Switching"
    "keyboard_owner demo_switching = server_host demo_switching"
    "observation_in_flight demo_switching = None" "active_request demo_switching = Some demo_request"
    "phase_deadline_ms demo_switching = Some 130" "(130 :: u64) \<le> 150" "(150 :: u64) \<le> 200"
    "200 < req_deadline_ms demo_request"
    by (simp_all add: demo_states)
  from late_acknowledgement_is_starved [OF demo_reachable(3) this, where describe = "\<lambda>_. []"
      and try_send = one_place and tm = demo_timing and txs = demo_txs]
  show ?thesis by blast
qed

section \<open>The queue gauges\<close>

text \<open>
  The sending task and the receiving task update a gauge without a lock, around the channel
  operation. The steps are the atomic operations of \<^verbatim>\<open>TrackedEffectSender::try_send\<close> and
  \<^verbatim>\<open>TrackedEffectReceiver::recv\<close>; what is used of the channel is that it holds at most its
  capacity and that only a message it holds is received.
\<close>

record gauge_state =
  g_gauge :: QueueGauge
  g_queued :: nat
  g_sending :: bool
  g_receiving :: bool

inductive gauge_step :: "gauge_state \<Rightarrow> gauge_state \<Rightarrow> bool" where
  started: "\<not> g_sending g \<Longrightarrow>
     gauge_step g (g\<lparr>g_gauge := begin_send (g_gauge g), g_sending := True\<rparr>)"
| sent: "g_sending g \<Longrightarrow> g_queued g < unat (gauge_capacity (g_gauge g)) \<Longrightarrow>
     gauge_step g (g\<lparr>g_queued := Suc (g_queued g), g_sending := False\<rparr>)"
| rejected: "g_sending g \<Longrightarrow>
     gauge_step g (g\<lparr>g_gauge := cancel_send (g_gauge g), g_sending := False\<rparr>)"
| receive: "\<not> g_receiving g \<Longrightarrow> 0 < g_queued g \<Longrightarrow>
     gauge_step g (g\<lparr>g_queued := g_queued g - 1, g_receiving := True\<rparr>)"
| counted: "g_receiving g \<Longrightarrow>
     gauge_step g (g\<lparr>g_gauge := received (g_gauge g), g_receiving := False\<rparr>)"

definition gauge_start :: "u64 \<Rightarrow> gauge_state" where
  "gauge_start capacity =
     \<lparr>g_gauge = QueueGauge_new capacity, g_queued = 0, g_sending = False, g_receiving = False\<rparr>"

definition gauge_inv :: "u64 \<Rightarrow> gauge_state \<Rightarrow> bool" where
  "gauge_inv capacity g \<longleftrightarrow>
     gauge_capacity (g_gauge g) = capacity \<and> g_queued g \<le> unat capacity
     \<and> unat (gauge_depth (g_gauge g)) =
         g_queued g + of_bool (g_sending g) + of_bool (g_receiving g)"

lemma unat_inc: "unat (x :: u64) + 1 < 2 ^ 64 \<Longrightarrow> unat (x + 1) = unat x + 1"
  by (simp add: unat_word_ariths)

lemma unat_dec: "0 < unat (x :: u64) \<Longrightarrow> unat (x - 1) = unat x - 1"
proof -
  assume "0 < unat x"
  then have "1 \<le> x" by (simp add: word_le_nat_alt)
  then show ?thesis by (simp add: unat_sub)
qed

lemma gauge_step_inv:
  assumes "gauge_step g g'" and "gauge_inv capacity g" and "unat capacity + 2 < 2 ^ 64"
  shows "gauge_inv capacity g'"
  using assms
  by (cases rule: gauge_step.cases)
    (auto simp: gauge_inv_def begin_send_def cancel_send_def received_def unat_inc unat_dec)

text \<open>
  The queue gauges never wrap: with any interleaving of the sending and the receiving task,
  from an empty queue, the depth a gauge reports is the number of queued effects plus at most one
  for a send and one for a receive under way, so it never exceeds the capacity by more than two.
\<close>
theorem gauge_never_wraps:
  assumes "gauge_step\<^sup>*\<^sup>* (gauge_start capacity) g" and "unat capacity + 2 < 2 ^ 64"
  shows "unat (snapshot_depth (gauge_snapshot (g_gauge g))) =
       g_queued g + of_bool (g_sending g) + of_bool (g_receiving g)
    \<and> unat (snapshot_depth (gauge_snapshot (g_gauge g))) \<le> unat capacity + 2"
proof -
  from assms(1) have "gauge_inv capacity g"
  proof (induction rule: rtranclp_induct)
    case base
    show ?case by (simp add: gauge_inv_def gauge_start_def QueueGauge_new_def)
  next
    case (step y z)
    then show ?case using gauge_step_inv assms(2) by blast
  qed
  then show ?thesis by (auto simp: gauge_inv_def gauge_snapshot_def)
qed

theorem gauge_never_wraps_witness:
  "unat (snapshot_depth (gauge_snapshot (begin_send (QueueGauge_new 1)))) \<le> 3"
proof -
  have "gauge_step\<^sup>*\<^sup>* (gauge_start 1)
     ((gauge_start 1)\<lparr>g_gauge := begin_send (g_gauge (gauge_start 1)), g_sending := True\<rparr>)"
    by (intro r_into_rtranclp gauge_step.started) (simp add: gauge_start_def)
  from gauge_never_wraps [OF this] show ?thesis by (simp add: gauge_start_def)
qed

end
