(* ===== verification/Switch_Gate.thy ===== *)
theory Switch_Gate
  imports DM_Prelude
begin

text \<open>
  The input side of a switch, \<^verbatim>\<open>lan-mouse/src/switch.rs\<close>: the double-tap gate on the screen edge,
  the lease manager that guards the keyboard and pointer bundle, and the client of the television
  controller as far as it decides what to believe of a response. The HTTP client, the JSON parser
  and the clock are not part of the program; their results are arguments.
\<close>

section \<open>Hosts and identities\<close>

type_synonym ClientHandle = u64

datatype SwitchHost = Controller | Right | Left

fun SwitchHost_to_string :: "SwitchHost \<Rightarrow> string" where
  "SwitchHost_to_string Controller = ''controller''"
| "SwitchHost_to_string Right = ''right''"
| "SwitchHost_to_string Left = ''left''"

definition SwitchHost_from_str :: "string \<Rightarrow> string + SwitchHost" where
  "SwitchHost_from_str v =
     (if v = ''controller'' then Inr Controller
      else if v = ''right'' then Inr Right
      else if v = ''left'' then Inr Left
      else Inl (''unknown switch host: '' @ v))"

record GateLeaseIdentity =
  gl_request_id :: string
  gl_lease_id :: string
  gl_lease_epoch :: u64
  gl_peer_session_epoch :: u64
  gl_expires_at_ms :: u64

record GateGrantIdentity =
  gg_request_epoch :: u64
  gg_grant_epoch :: u64
  gg_expires_at_ms :: u64

record GateContext =
  gc_handle :: ClientHandle
  gc_target :: SwitchHost
  gc_lease :: GateLeaseIdentity

definition same_identity :: "GateContext \<Rightarrow> GateContext \<Rightarrow> bool" where
  "same_identity a b \<longleftrightarrow>
     gc_handle a = gc_handle b \<and> gc_target a = gc_target b
     \<and> gl_request_id (gc_lease a) = gl_request_id (gc_lease b)
     \<and> gl_lease_id (gc_lease a) = gl_lease_id (gc_lease b)
     \<and> gl_lease_epoch (gc_lease a) = gl_lease_epoch (gc_lease b)
     \<and> gl_peer_session_epoch (gc_lease a) = gl_peer_session_epoch (gc_lease b)"

section \<open>The edge gate\<close>

record EdgeIntentKey =
  ek_handle :: ClientHandle
  ek_target :: SwitchHost
  ek_peer_session_epoch :: u64

datatype EdgeIntentDecision = Primed | AwaitingRetreat | Confirmed

record EdgeIntent =
  ei_key :: EdgeIntentKey
  ei_rearmed :: bool
  ei_expires_at :: Instant

record EdgeIntentGate =
  eg_valid_for :: Duration
  eg_intent :: "EdgeIntent option"

definition EdgeIntentGate_new :: "Duration \<Rightarrow> EdgeIntentGate" where
  "EdgeIntentGate_new valid_for = \<lparr>eg_valid_for = valid_for, eg_intent = None\<rparr>"

definition edge_expire :: "EdgeIntentGate \<Rightarrow> Instant \<Rightarrow> EdgeIntentGate" where
  "edge_expire g now =
     (if (case eg_intent g of None \<Rightarrow> False | Some i \<Rightarrow> ei_expires_at i \<le> now)
      then g\<lparr>eg_intent := None\<rparr> else g)"

definition edge_prime :: "EdgeIntentGate \<Rightarrow> EdgeIntentKey \<Rightarrow> Instant \<Rightarrow> EdgeIntentGate" where
  "edge_prime g key now =
     g\<lparr>eg_intent := map_option (\<lambda>e. \<lparr>ei_key = key, ei_rearmed = False, ei_expires_at = e\<rparr>)
         (Instant_checked_add now (eg_valid_for g))\<rparr>"

definition edge_candidate ::
  "EdgeIntentGate \<Rightarrow> EdgeIntentKey \<Rightarrow> Instant \<Rightarrow> EdgeIntentGate \<times> EdgeIntentDecision" where
  "edge_candidate g key now =
     (let g = edge_expire g now
      in case eg_intent g of
           Some i \<Rightarrow>
             if ei_key i = key then
               (if ei_rearmed i then (g\<lparr>eg_intent := None\<rparr>, Confirmed) else (g, AwaitingRetreat))
             else (edge_prime g key now, Primed)
         | None \<Rightarrow> (edge_prime g key now, Primed))"

definition edge_retreat :: "EdgeIntentGate \<Rightarrow> ClientHandle \<Rightarrow> Instant \<Rightarrow> EdgeIntentGate \<times> bool" where
  "edge_retreat g handle now =
     (let g = edge_expire g now
      in case Instant_checked_add now (eg_valid_for g) of
           None \<Rightarrow> (g\<lparr>eg_intent := None\<rparr>, False)
         | Some expires_at \<Rightarrow>
             (case eg_intent g of
                None \<Rightarrow> (g, False)
              | Some i \<Rightarrow>
                  if ek_handle (ei_key i) \<noteq> handle then (g, False)
                  else (g\<lparr>eg_intent := Some (i\<lparr>ei_rearmed := True, ei_expires_at := expires_at\<rparr>)\<rparr>, True)))"

definition edge_remove :: "EdgeIntentGate \<Rightarrow> ClientHandle \<Rightarrow> EdgeIntentGate" where
  "edge_remove g handle =
     (if (case eg_intent g of None \<Rightarrow> False | Some i \<Rightarrow> ek_handle (ei_key i) = handle)
      then g\<lparr>eg_intent := None\<rparr> else g)"

definition edge_clear :: "EdgeIntentGate \<Rightarrow> EdgeIntentGate" where
  "edge_clear g = g\<lparr>eg_intent := None\<rparr>"

section \<open>The lease manager\<close>

datatype BundleGateState =
    Local
  | Preparing GateContext
  | GrantArmed GateContext GateGrantIdentity
  | RemoteOwned GateContext GateGrantIdentity u64

datatype GateError = Busy | PeerNotReady | InvalidIdentity | StaleIdentity | Expired | InvalidState

record BundleLeaseManager =
  gate_state :: BundleGateState
  next_lease_epoch :: u64

definition BundleLeaseManager_default :: BundleLeaseManager where
  "BundleLeaseManager_default = \<lparr>gate_state = Local, next_lease_epoch = 0\<rparr>"

fun state_context :: "BundleGateState \<Rightarrow> GateContext option" where
  "state_context Local = None"
| "state_context (Preparing c) = Some c"
| "state_context (GrantArmed c _) = Some c"
| "state_context (RemoteOwned c _ _) = Some c"

definition gate_context :: "BundleLeaseManager \<Rightarrow> GateContext option" where
  "gate_context m = state_context (gate_state m)"

definition gate_reserve ::
  "BundleLeaseManager \<Rightarrow> ClientHandle \<Rightarrow> SwitchHost \<Rightarrow> string \<Rightarrow> string \<Rightarrow> u64 \<Rightarrow> bool \<Rightarrow> u64 \<Rightarrow> u64
   \<Rightarrow> BundleLeaseManager \<times> (GateError + GateContext)" where
  "gate_reserve m handle target request_id lease_id peer_session peer_ready now_ms ttl =
     (if gate_state m \<noteq> Local then (m, Inl Busy)
      else if \<not> peer_ready \<or> peer_session = 0 then (m, Inl PeerNotReady)
      else if request_id = [] \<or> lease_id = [] \<or> ttl = 0 then (m, Inl InvalidIdentity)
      else
        (case checked_add now_ms ttl of
           None \<Rightarrow> (m, Inl InvalidIdentity)
         | Some expires_at_ms \<Rightarrow>
             (case checked_add (next_lease_epoch m) 1 of
                None \<Rightarrow> (m, Inl InvalidIdentity)
              | Some epoch \<Rightarrow>
                  let ctx = \<lparr>gc_handle = handle, gc_target = target,
                             gc_lease = \<lparr>gl_request_id = request_id, gl_lease_id = lease_id,
                               gl_lease_epoch = epoch, gl_peer_session_epoch = peer_session,
                               gl_expires_at_ms = expires_at_ms\<rparr>\<rparr>
                  in (m\<lparr>next_lease_epoch := epoch, gate_state := Preparing ctx\<rparr>, Inr ctx))))"

definition gate_arm_grant ::
  "BundleLeaseManager \<Rightarrow> GateContext \<Rightarrow> u64 \<Rightarrow> u64 \<Rightarrow> u64 \<Rightarrow> u64 \<Rightarrow> bool \<Rightarrow> u64 \<Rightarrow> u64
   \<Rightarrow> BundleLeaseManager \<times> (GateError + GateContext \<times> GateGrantIdentity)" where
  "gate_arm_grant m ctx request_epoch grant_epoch lease_expires grant_expires peer_ready peer_session now_ms =
     (case gate_state m of
        Preparing current \<Rightarrow>
          if current \<noteq> ctx then (m, Inl StaleIdentity)
          else if \<not> peer_ready \<or> gl_peer_session_epoch (gc_lease current) \<noteq> peer_session
          then (m\<lparr>gate_state := Local\<rparr>, Inl PeerNotReady)
          else if gl_expires_at_ms (gc_lease current) \<le> now_ms \<or> lease_expires \<le> now_ms
                \<or> grant_expires \<le> now_ms
          then (m\<lparr>gate_state := Local\<rparr>, Inl Expired)
          else if request_epoch = 0 \<or> grant_epoch = 0 then (m, Inl InvalidIdentity)
          else
            (let grant = \<lparr>gg_request_epoch = request_epoch, gg_grant_epoch = grant_epoch,
                          gg_expires_at_ms = grant_expires\<rparr>;
                 armed = current\<lparr>gc_lease := (gc_lease current)
                           \<lparr>gl_expires_at_ms := min (gl_expires_at_ms (gc_lease current)) lease_expires\<rparr>\<rparr>
             in (m\<lparr>gate_state := GrantArmed armed grant\<rparr>, Inr (armed, grant)))
      | _ \<Rightarrow> (m, Inl InvalidState))"

definition gate_commit ::
  "BundleLeaseManager \<Rightarrow> ClientHandle \<Rightarrow> u64 \<Rightarrow> bool \<Rightarrow> u64 \<Rightarrow> u64
   \<Rightarrow> BundleLeaseManager \<times> (GateError + GateContext \<times> GateGrantIdentity)" where
  "gate_commit m handle lease_epoch peer_ready peer_session now_ms =
     (case gate_state m of
        GrantArmed ctx grant \<Rightarrow>
          if gc_handle ctx \<noteq> handle \<or> gl_lease_epoch (gc_lease ctx) \<noteq> lease_epoch
          then (m, Inl StaleIdentity)
          else if \<not> peer_ready \<or> gl_peer_session_epoch (gc_lease ctx) \<noteq> peer_session
          then (m\<lparr>gate_state := Local\<rparr>, Inl PeerNotReady)
          else if gl_expires_at_ms (gc_lease ctx) \<le> now_ms \<or> gg_expires_at_ms grant \<le> now_ms
          then (m\<lparr>gate_state := Local\<rparr>, Inl Expired)
          else (m\<lparr>gate_state := RemoteOwned ctx grant
                    (min (gl_expires_at_ms (gc_lease ctx)) (gg_expires_at_ms grant))\<rparr>, Inr (ctx, grant))
      | _ \<Rightarrow> (m, Inl InvalidState))"

definition gate_renew ::
  "BundleLeaseManager \<Rightarrow> string \<Rightarrow> u64 \<Rightarrow> bool \<Rightarrow> u64 \<Rightarrow> u64 \<Rightarrow> BundleLeaseManager \<times> (GateError + unit)" where
  "gate_renew m request_id renewed_until peer_ready peer_session now_ms =
     (case gate_state m of
        RemoteOwned ctx grant current \<Rightarrow>
          if gl_request_id (gc_lease ctx) \<noteq> request_id then (m, Inl StaleIdentity)
          else if \<not> peer_ready \<or> gl_peer_session_epoch (gc_lease ctx) \<noteq> peer_session
          then (m\<lparr>gate_state := Local\<rparr>, Inl PeerNotReady)
          else if gl_expires_at_ms (gc_lease ctx) \<le> now_ms \<or> renewed_until \<le> now_ms
          then (m\<lparr>gate_state := Local\<rparr>, Inl Expired)
          else (m\<lparr>gate_state := RemoteOwned
                    (ctx\<lparr>gc_lease := (gc_lease ctx)\<lparr>gl_expires_at_ms := renewed_until\<rparr>\<rparr>)
                    grant renewed_until\<rparr>, Inr ())
      | _ \<Rightarrow> (m, Inl InvalidState))"

definition gate_invalidate :: "BundleLeaseManager \<Rightarrow> BundleLeaseManager \<times> GateContext option" where
  "gate_invalidate m = (m\<lparr>gate_state := Local\<rparr>, state_context (gate_state m))"

fun state_expired :: "BundleGateState \<Rightarrow> u64 \<Rightarrow> bool" where
  "state_expired Local now_ms = False"
| "state_expired (Preparing c) now_ms = (gl_expires_at_ms (gc_lease c) \<le> now_ms)"
| "state_expired (GrantArmed c g) now_ms =
     (gl_expires_at_ms (gc_lease c) \<le> now_ms \<or> gg_expires_at_ms g \<le> now_ms)"
| "state_expired (RemoteOwned c g renewed) now_ms =
     (gl_expires_at_ms (gc_lease c) \<le> now_ms \<or> renewed \<le> now_ms)"

definition gate_expire :: "BundleLeaseManager \<Rightarrow> u64 \<Rightarrow> BundleLeaseManager \<times> GateContext option" where
  "gate_expire m now_ms =
     (if state_expired (gate_state m) now_ms then gate_invalidate m else (m, None))"

fun gate_deadline_ms :: "BundleGateState \<Rightarrow> u64 option" where
  "gate_deadline_ms Local = None"
| "gate_deadline_ms (Preparing c) = Some (gl_expires_at_ms (gc_lease c))"
| "gate_deadline_ms (GrantArmed c g) = Some (min (gl_expires_at_ms (gc_lease c)) (gg_expires_at_ms g))"
| "gate_deadline_ms (RemoteOwned c g renewed) = Some (min (gl_expires_at_ms (gc_lease c)) renewed)"

end
