(* ===== verification/Switch_Client.thy ===== *)
theory Switch_Client
  imports Switch_Gate
begin

text \<open>
  The controller client of \<^verbatim>\<open>lan-mouse/src/switch.rs\<close>: which responses it accepts, how it translates
  the controller's deadlines to the local clock, and what it reports to the user. The HTTP library
  and the JSON parser are parameters: their errors have the arbitrary types \<open>'re\<close> and \<open>'je\<close>, a
  status code has the arbitrary type \<open>'st\<close>.
\<close>

section \<open>Responses\<close>

definition PROTOCOL_VERSION :: u16 where
  "PROTOCOL_VERSION = 2"

definition MAX_RESPONSE_BYTES :: nat where
  "MAX_RESPONSE_BYTES = 64 * 1024"

record 't ApiEnvelope =
  env_protocol_version :: u16
  env_server_now_ms :: u64
  env_data :: 't

record 't TimedEnvelope =
  timed_envelope :: "'t ApiEnvelope"
  timed_request_started_ms :: u64

record ApiError =
  api_protocol_version :: u16
  api_code :: string
  api_message :: string

datatype RemoteRequestStatus =
  Waking | Switching | Grant | Committed | Denied | Cancelled | Fallback | RemoteExpired

fun RemoteRequestStatus_as_str :: "RemoteRequestStatus \<Rightarrow> string" where
  "RemoteRequestStatus_as_str Waking = ''waking''"
| "RemoteRequestStatus_as_str Switching = ''switching''"
| "RemoteRequestStatus_as_str Grant = ''grant''"
| "RemoteRequestStatus_as_str Committed = ''committed''"
| "RemoteRequestStatus_as_str Denied = ''denied''"
| "RemoteRequestStatus_as_str Cancelled = ''cancelled''"
| "RemoteRequestStatus_as_str Fallback = ''fallback''"
| "RemoteRequestStatus_as_str RemoteExpired = ''expired''"

record RemoteLeaseIdentity =
  rl_lease_id :: string
  rl_lease_epoch :: u64
  rl_peer_session_epoch :: u64
  rl_expires_at_ms :: u64

record RemoteGrantIdentity =
  rg_grant_epoch :: u64
  rg_expires_at_ms :: u64

record RemoteEnterRequest =
  re_request_id :: string
  re_target :: SwitchHost
  re_request_epoch :: u64
  re_lease :: RemoteLeaseIdentity
  re_status :: RemoteRequestStatus
  re_grant :: "RemoteGrantIdentity option"
  re_reason :: "string option"

record RenewResponse =
  rr_renewed :: bool
  rr_renewed_until_ms :: "u64 option"
  rr_phase :: string

record PeerBundleReadiness =
  pb_online :: bool
  pb_keyboard_ready :: bool
  pb_pointer_ready :: bool
  pb_session_epoch :: u64

record ReadinessResponse =
  rdy_host :: SwitchHost
  rdy_readiness :: PeerBundleReadiness

record ManualRecoveryResponse =
  mr_target :: SwitchHost
  mr_armed :: bool

record PreparedGrant =
  pg_request_epoch :: u64
  pg_grant_epoch :: u64
  pg_lease_expires_at_ms :: u64
  pg_grant_expires_at_ms :: u64

section \<open>Errors and what the user is told\<close>

datatype ('re, 'je, 'st) SwitchClientError =
    ClientCancelled
  | ClientTimeout
  | ResponseTooLarge
  | ProtocolVersionMismatch u16
  | ClientStaleIdentity
  | ClientDenied string string
  | Http 'st string string
  | InvalidBaseUrl
  | RequestFailed 're
  | JsonFailed 'je

definition controller_denial_notification :: "string \<Rightarrow> string \<Rightarrow> string \<times> string" where
  "controller_denial_notification status reason =
     (if reason = ''target_signal_absent'' then
        (''target_signal_absent'',
         ''The TV selected the target input, but did not detect an active HDMI signal before verification timed out'')
      else if reason = ''target_signal_stale'' then
        (''target_signal_stale'',
         ''The TV returned HDMI signal state from an older switch attempt, so ownership was not transferred'')
      else if reason = ''target_signal_not_observed'' then
        (''target_signal_not_observed'',
         ''The TV did not return HDMI signal state for the target input before verification timed out'')
      else if reason = ''target_input_not_observed'' then
        (''target_input_not_observed'',
         ''The TV did not confirm that it reached the target input before verification timed out'')
      else if reason = ''target_not_fullscreen'' then
        (''target_not_fullscreen'',
         ''The TV did not confirm fullscreen mode before verification timed out'')
      else if reason = ''target_verification_timeout'' \<or> reason = ''observation_timeout'' then
        (''target_verification_timeout'',
         ''The TV did not confirm fullscreen mode, the target input, and an active HDMI signal before verification timed out'')
      else (''controller_denied'',
            ''The TV controller ended the request as '' @ status @ '': '' @ reason))"

text \<open>The code of a notification; \<open>is_timeout\<close> and \<open>is_connect\<close> are those of the HTTP library.\<close>

fun notification_code ::
  "('re \<Rightarrow> bool) \<Rightarrow> ('re \<Rightarrow> bool) \<Rightarrow> ('re, 'je, 'st) SwitchClientError \<Rightarrow> string" where
  "notification_code is_timeout is_connect (ClientDenied status reason) =
     fst (controller_denial_notification status reason)"
| "notification_code is_timeout is_connect ClientTimeout = ''controller_timeout''"
| "notification_code is_timeout is_connect ClientStaleIdentity = ''controller_identity_race''"
| "notification_code is_timeout is_connect (RequestFailed e) =
     (if is_timeout e then ''controller_timeout''
      else if is_connect e then ''controller_unreachable''
      else ''controller_request_failed'')"
| "notification_code is_timeout is_connect ClientCancelled = ''controller_cancelled''"
| "notification_code is_timeout is_connect ResponseTooLarge = ''controller_response_too_large''"
| "notification_code is_timeout is_connect (ProtocolVersionMismatch _) = ''controller_protocol_mismatch''"
| "notification_code is_timeout is_connect (Http _ _ _) = ''controller_http_error''"
| "notification_code is_timeout is_connect InvalidBaseUrl = ''controller_configuration_invalid''"
| "notification_code is_timeout is_connect (JsonFailed _) = ''controller_response_invalid''"

text \<open>The detail is the denial's own text, or the operation and the text of the error.\<close>

definition notification_detail ::
  "('re \<Rightarrow> bool) \<Rightarrow> ('re \<Rightarrow> bool) \<Rightarrow> (('re, 'je, 'st) SwitchClientError \<Rightarrow> string)
   \<Rightarrow> ('re, 'je, 'st) SwitchClientError \<Rightarrow> string \<Rightarrow> string \<times> string" where
  "notification_detail is_timeout is_connect to_string err operation =
     (case err of
        ClientDenied status reason \<Rightarrow> controller_denial_notification status reason
      | _ \<Rightarrow> (notification_code is_timeout is_connect err, operation @ '': '' @ to_string err))"

section \<open>Reading a response\<close>

text \<open>The body is collected chunk by chunk and refused as soon as it exceeds the limit.\<close>

fun collect_body :: "('re + u8 list) list \<Rightarrow> u8 list \<Rightarrow> ('re, 'je, 'st) SwitchClientError + u8 list" where
  "collect_body [] body = Inr body"
| "collect_body (Inl e # chunks) body = Inl (RequestFailed e)"
| "collect_body (Inr chunk # chunks) body =
     (if MAX_RESPONSE_BYTES < length body + length chunk then Inl ResponseTooLarge
      else collect_body chunks (body @ chunk))"

definition decode_body ::
  "('st \<Rightarrow> bool) \<Rightarrow> (u8 list \<Rightarrow> 'je + 't ApiEnvelope) \<Rightarrow> (u8 list \<Rightarrow> ApiError option)
   \<Rightarrow> 'st \<Rightarrow> u8 list \<Rightarrow> ('re, 'je, 'st) SwitchClientError + 't ApiEnvelope" where
  "decode_body is_success parse_envelope parse_error status body =
     (case parse_envelope body of
        Inr envelope \<Rightarrow>
          if env_protocol_version envelope \<noteq> PROTOCOL_VERSION
          then Inl (ProtocolVersionMismatch (env_protocol_version envelope))
          else Inr envelope
      | Inl json_error \<Rightarrow>
          (case parse_error body of
             Some err \<Rightarrow>
               if api_protocol_version err \<noteq> PROTOCOL_VERSION
               then Inl (ProtocolVersionMismatch (api_protocol_version err))
               else Inl (Http status (api_code err) (api_message err))
           | None \<Rightarrow>
               if \<not> is_success status
               then Inl (Http status ''invalid_error_response''
                          ''controller returned an unparseable error body'')
               else Inl (JsonFailed json_error)))"

definition decode ::
  "('st \<Rightarrow> bool) \<Rightarrow> (u8 list \<Rightarrow> 'je + 't ApiEnvelope) \<Rightarrow> (u8 list \<Rightarrow> ApiError option)
   \<Rightarrow> 'st \<Rightarrow> ('re + u8 list) list \<Rightarrow> ('re, 'je, 'st) SwitchClientError + 't ApiEnvelope" where
  "decode is_success parse_envelope parse_error status chunks =
     (case collect_body chunks [] of
        Inl e \<Rightarrow> Inl e
      | Inr body \<Rightarrow> decode_body is_success parse_envelope parse_error status body)"

definition validate_request :: "GateContext \<Rightarrow> RemoteEnterRequest \<Rightarrow> bool" where
  "validate_request ctx r \<longleftrightarrow>
     \<not> (re_request_id r \<noteq> gl_request_id (gc_lease ctx)
        \<or> re_target r \<noteq> gc_target ctx
        \<or> rl_lease_id (re_lease r) \<noteq> gl_lease_id (gc_lease ctx)
        \<or> rl_lease_epoch (re_lease r) \<noteq> gl_lease_epoch (gc_lease ctx)
        \<or> rl_peer_session_epoch (re_lease r) \<noteq> gl_peer_session_epoch (gc_lease ctx)
        \<or> re_request_epoch r = 0)"

definition local_deadline :: "u64 \<Rightarrow> u64 \<Rightarrow> u64 \<Rightarrow> ('re, 'je, 'st) SwitchClientError + u64" where
  "local_deadline request_started_ms server_now_ms remote_deadline_ms =
     (case checked_sub remote_deadline_ms server_now_ms of
        None \<Rightarrow> Inl ClientTimeout
      | Some remaining \<Rightarrow>
          if remaining = 0 then Inl ClientTimeout
          else (case checked_add request_started_ms remaining of
                  None \<Rightarrow> Inl ClientTimeout
                | Some d \<Rightarrow> Inr d))"

section \<open>Operations\<close>

record SwitchControllerTiming =
  sc_request_timeout_ms :: u64
  sc_poll_interval_ms :: u64

text \<open>
  One further round of the polling loop of \<^verbatim>\<open>prepare\<close>: the clock before the pause, whether the
  request was cancelled during it, the clock after it, and the answer of the controller.
\<close>

record ('re, 'je, 'st) PollRound =
  round_now_ms :: u64
  round_cancelled :: bool
  round_after_ms :: u64
  round_result :: "('re, 'je, 'st) SwitchClientError + RemoteEnterRequest TimedEnvelope"

definition poll_sleep_ms :: "SwitchControllerTiming \<Rightarrow> u64 \<Rightarrow> u64 \<Rightarrow> u64" where
  "poll_sleep_ms timing deadline_ms now_ms =
     min (sc_poll_interval_ms timing) (saturating_sub deadline_ms now_ms)"

definition accept_grant ::
  "RemoteEnterRequest TimedEnvelope \<Rightarrow> ('re, 'je, 'st) SwitchClientError + PreparedGrant" where
  "accept_grant result =
     (let envelope = timed_envelope result; r = env_data envelope;
          to_local = local_deadline (timed_request_started_ms result) (env_server_now_ms envelope)
      in case re_grant r of
           None \<Rightarrow> Inl ClientStaleIdentity
         | Some grant \<Rightarrow>
             (case to_local (rl_expires_at_ms (re_lease r)) of
                Inl e \<Rightarrow> Inl e
              | Inr lease_expires \<Rightarrow>
                  (case to_local (rg_expires_at_ms grant) of
                     Inl e \<Rightarrow> Inl e
                   | Inr grant_expires \<Rightarrow>
                       Inr \<lparr>pg_request_epoch = re_request_epoch r,
                            pg_grant_epoch = rg_grant_epoch grant,
                            pg_lease_expires_at_ms = lease_expires,
                            pg_grant_expires_at_ms = grant_expires\<rparr>)))"

text \<open>The loop of \<^verbatim>\<open>prepare\<close> on the rounds that happen; \<^const>\<open>None\<close> while it is still polling.\<close>

fun prepare_loop ::
  "GateContext \<Rightarrow> u64 \<Rightarrow> RemoteEnterRequest TimedEnvelope \<Rightarrow> ('re, 'je, 'st) PollRound list
   \<Rightarrow> (('re, 'je, 'st) SwitchClientError + PreparedGrant) option" where
  "prepare_loop ctx deadline_ms result rounds =
     (let r = env_data (timed_envelope result)
      in if \<not> validate_request ctx r then Some (Inl ClientStaleIdentity)
         else if re_status r = Grant then Some (accept_grant result)
         else if re_status r \<noteq> Waking \<and> re_status r \<noteq> Switching
         then Some (Inl (ClientDenied (RemoteRequestStatus_as_str (re_status r))
                          (case re_reason r of None \<Rightarrow> ''no reason supplied'' | Some s \<Rightarrow> s)))
         else
           (case rounds of
              [] \<Rightarrow> None
            | p # rest \<Rightarrow>
                if deadline_ms \<le> round_now_ms p then Some (Inl ClientTimeout)
                else if round_cancelled p then Some (Inl ClientCancelled)
                else if deadline_ms \<le> round_after_ms p then Some (Inl ClientTimeout)
                else
                  (case round_result p of
                     Inl e \<Rightarrow> Some (Inl e)
                   | Inr result' \<Rightarrow> prepare_loop ctx deadline_ms result' rest)))"

declare prepare_loop.simps [simp del]

definition prepare ::
  "GateContext \<Rightarrow> SwitchControllerTiming \<Rightarrow> u64 \<Rightarrow> ('re, 'je, 'st) SwitchClientError option \<Rightarrow> u64
   \<Rightarrow> ('re, 'je, 'st) SwitchClientError + RemoteEnterRequest TimedEnvelope
   \<Rightarrow> ('re, 'je, 'st) PollRound list \<Rightarrow> (('re, 'je, 'st) SwitchClientError + PreparedGrant) option" where
  "prepare ctx timing now_ms published now_after created rounds =
     (case checked_add now_ms (sc_request_timeout_ms timing) of
        None \<Rightarrow> Some (Inl ClientTimeout)
      | Some deadline_ms \<Rightarrow>
          (case published of
             Some e \<Rightarrow> Some (Inl e)
           | None \<Rightarrow>
               if deadline_ms \<le> now_after then Some (Inl ClientTimeout)
               else
                 (case created of
                    Inl e \<Rightarrow> Some (Inl e)
                  | Inr result \<Rightarrow> prepare_loop ctx deadline_ms result rounds)))"

definition client_commit ::
  "GateContext \<Rightarrow> RemoteEnterRequest TimedEnvelope \<Rightarrow> ('re, 'je, 'st) SwitchClientError + u64" where
  "client_commit ctx result =
     (let envelope = timed_envelope result; r = env_data envelope
      in if \<not> validate_request ctx r then Inl ClientStaleIdentity
         else if re_status r \<noteq> Committed
         then Inl (ClientDenied (RemoteRequestStatus_as_str (re_status r))
                    (case re_reason r of None \<Rightarrow> ''commit was not accepted'' | Some s \<Rightarrow> s))
         else local_deadline (timed_request_started_ms result) (env_server_now_ms envelope)
                (rl_expires_at_ms (re_lease r)))"

definition client_renew ::
  "u64 \<Rightarrow> RenewResponse ApiEnvelope \<Rightarrow> ('re, 'je, 'st) SwitchClientError + u64" where
  "client_renew request_started_ms envelope =
     (let r = env_data envelope
      in if \<not> rr_renewed r then Inl (ClientDenied (rr_phase r) ''lease renewal was rejected'')
         else
           (case rr_renewed_until_ms r of
              None \<Rightarrow> Inl ClientStaleIdentity
            | Some until \<Rightarrow> local_deadline request_started_ms (env_server_now_ms envelope) until))"

definition client_publish_readiness ::
  "SwitchHost \<Rightarrow> PeerBundleReadiness \<Rightarrow> ReadinessResponse \<Rightarrow> ('re, 'je, 'st) SwitchClientError option" where
  "client_publish_readiness host readiness response =
     (if rdy_host response \<noteq> host
         \<or> pb_session_epoch (rdy_readiness response) \<noteq> pb_session_epoch readiness
         \<or> pb_online (rdy_readiness response) \<noteq> pb_online readiness
         \<or> pb_keyboard_ready (rdy_readiness response) \<noteq> pb_keyboard_ready readiness
         \<or> pb_pointer_ready (rdy_readiness response) \<noteq> pb_pointer_ready readiness
      then Some ClientStaleIdentity else None)"

definition client_arm_manual_recovery ::
  "SwitchHost \<Rightarrow> ManualRecoveryResponse \<Rightarrow> ('re, 'je, 'st) SwitchClientError option" where
  "client_arm_manual_recovery target response =
     (if mr_target response \<noteq> target \<or> \<not> mr_armed response then Some ClientStaleIdentity else None)"

end
