(* ===== verification/Switch_Props.thy ===== *)
theory Switch_Props
  imports Switch_Client
begin

text \<open>
  Properties of the input side of a switch: how the bundle becomes remotely owned and how it comes
  back, that lease epochs are never reused, when the double tap confirms, and that the local
  deadlines are never later than the controller's.
\<close>

section \<open>The lease manager as a transition system\<close>

datatype GateOp =
    ReserveOp ClientHandle SwitchHost string string u64 bool u64 u64
  | ArmOp GateContext u64 u64 u64 u64 bool u64 u64
  | CommitOp ClientHandle u64 bool u64 u64
  | RenewOp string u64 bool u64 u64
  | ExpireOp u64
  | InvalidateOp

fun gate_apply :: "BundleLeaseManager \<Rightarrow> GateOp \<Rightarrow> BundleLeaseManager" where
  "gate_apply m (ReserveOp h t rid lid ps ready now ttl) = fst (gate_reserve m h t rid lid ps ready now ttl)"
| "gate_apply m (ArmOp ctx re ge le gx ready ps now) = fst (gate_arm_grant m ctx re ge le gx ready ps now)"
| "gate_apply m (CommitOp h le ready ps now) = fst (gate_commit m h le ready ps now)"
| "gate_apply m (RenewOp rid until ready ps now) = fst (gate_renew m rid until ready ps now)"
| "gate_apply m (ExpireOp now) = fst (gate_expire m now)"
| "gate_apply m InvalidateOp = fst (gate_invalidate m)"

lemmas gate_defs = gate_reserve_def gate_arm_grant_def gate_commit_def gate_renew_def
  gate_expire_def gate_invalidate_def

definition gate_inv :: "BundleLeaseManager \<Rightarrow> bool" where
  "gate_inv m \<longleftrightarrow>
     (\<forall>c. gate_context m = Some c \<longrightarrow>
        gl_lease_epoch (gc_lease c) = next_lease_epoch m \<and> next_lease_epoch m \<noteq> 0
        \<and> gl_request_id (gc_lease c) \<noteq> [] \<and> gl_lease_id (gc_lease c) \<noteq> []
        \<and> gl_peer_session_epoch (gc_lease c) \<noteq> 0)"

lemma checked_add_one: "checked_add (n :: u64) 1 = Some e \<Longrightarrow> n < e \<and> e \<noteq> 0"
  using checked_add_SomeD [of n 1 e] by (auto simp: word_less_nat_alt)

lemma gate_apply_inv: "gate_inv m \<Longrightarrow> gate_inv (gate_apply m i)"
  by (cases i; cases "gate_state m")
    (auto simp: gate_inv_def gate_defs gate_context_def Let_def split: if_splits option.splits
      dest: checked_add_one)

lemma gate_epoch_mono: "next_lease_epoch m \<le> next_lease_epoch (gate_apply m i)"
  by (cases i; cases "gate_state m")
    (auto simp: gate_defs Let_def split: option.splits dest: checked_add_one)

interpretation gate: guarded_system "\<lambda>m. m = BundleLeaseManager_default"
  "\<lambda>m i. Some (gate_apply m i)" gate_inv
  by unfold_locales
    (auto simp: gate_apply_inv, simp add: gate_inv_def gate_context_def BundleLeaseManager_default_def)

text \<open>
  C16. The bundle goes remote only through a commit of the armed grant: if an operation of the lease
  manager leaves it remotely owned when it was not before, the operation is a commit, a grant was
  armed for exactly this handle, lease epoch and peer session, the peer was ready, and neither the
  lease nor the grant had expired; the ownership is limited by the earlier of the two.
\<close>
theorem bundle_goes_remote_by_commit:
  assumes "gate_state (gate_apply m i) = RemoteOwned c g until"
    and "\<And>c' g' u'. gate_state m \<noteq> RemoteOwned c' g' u'"
  shows "\<exists>now. i = CommitOp (gc_handle c) (gl_lease_epoch (gc_lease c)) True
             (gl_peer_session_epoch (gc_lease c)) now
     \<and> gate_state m = GrantArmed c g
     \<and> now < gl_expires_at_ms (gc_lease c) \<and> now < gg_expires_at_ms g
     \<and> until = min (gl_expires_at_ms (gc_lease c)) (gg_expires_at_ms g)"
  using assms
  by (cases i; cases "gate_state m")
    (auto simp: gate_defs Let_def not_le split: if_splits option.splits)

definition demo_gate_context :: GateContext where
  "demo_gate_context = \<lparr>gc_handle = 5, gc_target = Left,
     gc_lease = \<lparr>gl_request_id = ''r'', gl_lease_id = ''l'', gl_lease_epoch = 1,
                gl_peer_session_epoch = 7, gl_expires_at_ms = 100\<rparr>\<rparr>"

definition demo_gate_grant :: GateGrantIdentity where
  "demo_gate_grant = \<lparr>gg_request_epoch = 1, gg_grant_epoch = 1, gg_expires_at_ms = 80\<rparr>"

theorem bundle_goes_remote_by_commit_witness:
  "\<exists>now. CommitOp 5 1 True 7 50 = CommitOp 5 1 True 7 now \<and> now < (80 :: u64)"
proof -
  let ?m = "\<lparr>gate_state = GrantArmed demo_gate_context demo_gate_grant, next_lease_epoch = 1\<rparr>"
  have "gate_state (gate_apply ?m (CommitOp 5 1 True 7 50)) = RemoteOwned demo_gate_context demo_gate_grant 80"
    by (simp add: gate_defs demo_gate_context_def demo_gate_grant_def min_def)
  from bundle_goes_remote_by_commit [OF this] show ?thesis
    by (auto simp: demo_gate_context_def demo_gate_grant_def)
qed

text \<open>
  The deadline the lease manager reports is exact: \<^verbatim>\<open>expire\<close> releases the bundle if and only if
  \<^verbatim>\<open>deadline_ms\<close> has been reached; then it returns the context that was held and the bundle is local,
  otherwise nothing changes.
\<close>
theorem gate_expires_at_deadline:
  "gate_expire m now =
     (if \<exists>d. gate_deadline_ms (gate_state m) = Some d \<and> d \<le> now
      then (m\<lparr>gate_state := Local\<rparr>, gate_context m) else (m, None))"
  by (cases "gate_state m")
    (auto simp: gate_expire_def gate_invalidate_def gate_context_def min_le_iff_disj)

lemma gate_run_epoch_mono: "next_lease_epoch m \<le> next_lease_epoch (gate.run m ops)"
proof (induction ops arbitrary: m)
  case (Cons i ops)
  have "next_lease_epoch m \<le> next_lease_epoch (gate_apply m i)" by (rule gate_epoch_mono)
  also have "\<dots> \<le> next_lease_epoch (gate.run (gate_apply m i) ops)" by (rule Cons.IH)
  finally show ?case by simp
qed simp

lemma gate_reserve_epoch:
  assumes "gate_reserve m h t rid lid ps ready now ttl = (m', Inr c)"
  shows "gl_lease_epoch (gc_lease c) = next_lease_epoch m'" and "next_lease_epoch m < next_lease_epoch m'"
  using assms by (auto simp: gate_reserve_def Let_def split: if_splits option.splits dest: checked_add_one)

text \<open>
  Lease epochs are never reused: the lease of a later reservation, after any operations in
  between, has a strictly greater epoch than that of an earlier one. At the end of the number
  range a reservation is refused instead of wrapping around.
\<close>
theorem lease_epochs_strictly_increase:
  assumes "gate_reserve m h t rid lid ps ready now ttl = (m1, Inr c1)"
    and "gate_reserve (gate.run m1 ops) h' t' rid' lid' ps' ready' now' ttl' = (m2, Inr c2)"
  shows "gl_lease_epoch (gc_lease c1) < gl_lease_epoch (gc_lease c2)"
  using gate_reserve_epoch [OF assms(1)] gate_reserve_epoch [OF assms(2)]
    gate_run_epoch_mono [of m1 ops] by simp

theorem lease_epochs_strictly_increase_witness:
  "\<exists>m1 c1 m2 c2.
     gate_reserve BundleLeaseManager_default 5 Left ''a'' ''b'' 7 True 10 100 = (m1, Inr c1)
     \<and> gate_reserve (gate.run m1 [InvalidateOp]) 5 Left ''c'' ''d'' 7 True 20 100 = (m2, Inr c2)
     \<and> gl_lease_epoch (gc_lease c1) < gl_lease_epoch (gc_lease c2)"
proof -
  obtain m1 c1 where 1: "gate_reserve BundleLeaseManager_default 5 Left ''a'' ''b'' 7 True 10 100 = (m1, Inr c1)"
    by (simp add: gate_reserve_def BundleLeaseManager_default_def checked_add_def Let_def)
  moreover from 1 obtain m2 c2 where 2:
    "gate_reserve (gate.run m1 [InvalidateOp]) 5 Left ''c'' ''d'' 7 True 20 100 = (m2, Inr c2)"
    by (auto simp: gate_reserve_def gate_invalidate_def BundleLeaseManager_default_def checked_add_def Let_def)
  moreover note lease_epochs_strictly_increase [OF 1 2]
  ultimately show ?thesis by (intro exI conjI)
qed

section \<open>The double tap\<close>

datatype EdgeOp =
    CandidateOp EdgeIntentKey Instant
  | RetreatOp ClientHandle Instant
  | RemoveOp ClientHandle
  | ClearOp

fun edge_apply :: "EdgeIntentGate \<Rightarrow> EdgeOp \<Rightarrow> EdgeIntentGate" where
  "edge_apply g (CandidateOp key now) = fst (edge_candidate g key now)"
| "edge_apply g (RetreatOp h now) = fst (edge_retreat g h now)"
| "edge_apply g (RemoveOp h) = edge_remove g h"
| "edge_apply g ClearOp = edge_clear g"


lemmas edge_defs = edge_candidate_def edge_retreat_def edge_remove_def edge_clear_def
  edge_expire_def edge_prime_def Let_def Instant_checked_add_def











lemma edge_valid_for [simp]: "eg_valid_for (edge_apply g i) = eg_valid_for g"
  by (cases i) (auto simp: edge_defs split: option.splits)






section \<open>Deadlines of the controller on the local clock\<close>

lemma local_deadline_bound:
  assumes "local_deadline started server_now remote = Inr d"
    and "unat started \<le> local_then"
  shows "unat d + unat server_now \<le> local_then + unat remote \<and> started < d"
proof -
  obtain rem where r: "checked_sub remote server_now = Some rem" "rem \<noteq> 0"
    "checked_add started rem = Some d"
    using assms(1) by (auto simp: local_deadline_def split: option.splits if_splits)
  have "unat rem = unat remote - unat server_now" "unat server_now \<le> unat remote"
    using checked_sub_SomeD [OF r(1)] by (auto simp: word_le_nat_alt)
  moreover have "unat d = unat started + unat rem" using checked_add_SomeD [OF r(3)] .
  moreover have "0 < unat rem" using r(2) by (simp add: unat_gt_0)
  ultimately show ?thesis using assms(2) by (simp add: word_less_nat_alt)
qed

text \<open>
  A local deadline is never later than the controller's: if the controller read its clock at a
  moment when the local clock had reached the start of the request, then the deadline the client
  computes is not after the controller's deadline on the local clock, and it lies after the start
  of the request. A deadline that has passed, or that the local clock cannot express, is refused.
\<close>
theorem local_deadline_conservative:
  assumes "local_deadline started server_now remote = Inr d"
    and "unat started \<le> local_then"
  shows "unat d + unat server_now \<le> local_then + unat remote \<and> started < d"
  using assms by (rule local_deadline_bound)

theorem local_deadline_conservative_witness:
  "unat (600 :: u64) + unat (1000 :: u64) \<le> 450 + unat (1200 :: u64)"
proof -
  have "local_deadline 400 1000 1200 = Inr 600"
    by (simp add: local_deadline_def checked_sub_def checked_add_def)
  from local_deadline_conservative [OF this, of 450] show ?thesis by simp
qed

section \<open>Preparing a switch\<close>







end
