(* ===== verification/Scancode.thy ===== *)
theory Scancode
  imports DM_Prelude
begin

text \<open>
  Key codes, \<^verbatim>\<open>input-event/src/scancode.rs\<close>: the enumerations \<^verbatim>\<open>Linux\<close> and \<^verbatim>\<open>Windows\<close>, both
  \<^verbatim>\<open>repr(u32)\<close>, and the two conversions between them. A variant is its discriminant as a number; the
  abbreviations carry the source's names, and the tables list the variants and the arms of the
  two \<^verbatim>\<open>match\<close> expressions in the order of the source.
\<close>

section \<open>Variants\<close>

type_synonym Linux = int
type_synonym Windows = int


abbreviation (input) Windows_Shutdown :: Windows where "Windows_Shutdown \<equiv> 0xe05e"
abbreviation (input) Windows_SystemSleep :: Windows where "Windows_SystemSleep \<equiv> 0xe05f"
abbreviation (input) Windows_SystemWakeUp :: Windows where "Windows_SystemWakeUp \<equiv> 0xe063"
abbreviation (input) Windows_ErrorRollOver :: Windows where "Windows_ErrorRollOver \<equiv> 0xff"
abbreviation (input) Windows_KeyA :: Windows where "Windows_KeyA \<equiv> 0x1e"
abbreviation (input) Windows_KeyB :: Windows where "Windows_KeyB \<equiv> 0x30"
abbreviation (input) Windows_KeyC :: Windows where "Windows_KeyC \<equiv> 0x2e"
abbreviation (input) Windows_KeyD :: Windows where "Windows_KeyD \<equiv> 0x20"
abbreviation (input) Windows_KeyE :: Windows where "Windows_KeyE \<equiv> 0x12"
abbreviation (input) Windows_KeyF :: Windows where "Windows_KeyF \<equiv> 0x21"
abbreviation (input) Windows_KeyG :: Windows where "Windows_KeyG \<equiv> 0x22"
abbreviation (input) Windows_KeyH :: Windows where "Windows_KeyH \<equiv> 0x23"
abbreviation (input) Windows_KeyI :: Windows where "Windows_KeyI \<equiv> 0x17"
abbreviation (input) Windows_KeyJ :: Windows where "Windows_KeyJ \<equiv> 0x24"
abbreviation (input) Windows_KeyK :: Windows where "Windows_KeyK \<equiv> 0x25"
abbreviation (input) Windows_KeyL :: Windows where "Windows_KeyL \<equiv> 0x26"
abbreviation (input) Windows_KeyM :: Windows where "Windows_KeyM \<equiv> 0x32"
abbreviation (input) Windows_KeyN :: Windows where "Windows_KeyN \<equiv> 0x31"
abbreviation (input) Windows_KeyO :: Windows where "Windows_KeyO \<equiv> 0x18"
abbreviation (input) Windows_KeyP :: Windows where "Windows_KeyP \<equiv> 0x19"
abbreviation (input) Windows_KeyQ :: Windows where "Windows_KeyQ \<equiv> 0x10"
abbreviation (input) Windows_KeyR :: Windows where "Windows_KeyR \<equiv> 0x13"
abbreviation (input) Windows_KeyS :: Windows where "Windows_KeyS \<equiv> 0x1f"
abbreviation (input) Windows_KeyT :: Windows where "Windows_KeyT \<equiv> 0x14"
abbreviation (input) Windows_KeyU :: Windows where "Windows_KeyU \<equiv> 0x16"
abbreviation (input) Windows_KeyV :: Windows where "Windows_KeyV \<equiv> 0x2f"
abbreviation (input) Windows_KeyW :: Windows where "Windows_KeyW \<equiv> 0x11"
abbreviation (input) Windows_KeyX :: Windows where "Windows_KeyX \<equiv> 0x2d"
abbreviation (input) Windows_KeyY :: Windows where "Windows_KeyY \<equiv> 0x15"
abbreviation (input) Windows_KeyZ :: Windows where "Windows_KeyZ \<equiv> 0x2c"
abbreviation (input) Windows_Key1 :: Windows where "Windows_Key1 \<equiv> 0x2"
abbreviation (input) Windows_Key2 :: Windows where "Windows_Key2 \<equiv> 0x3"
abbreviation (input) Windows_Key3 :: Windows where "Windows_Key3 \<equiv> 0x4"
abbreviation (input) Windows_Key4 :: Windows where "Windows_Key4 \<equiv> 0x5"
abbreviation (input) Windows_Key5 :: Windows where "Windows_Key5 \<equiv> 0x6"
abbreviation (input) Windows_Key6 :: Windows where "Windows_Key6 \<equiv> 0x7"
abbreviation (input) Windows_Key7 :: Windows where "Windows_Key7 \<equiv> 0x8"
abbreviation (input) Windows_Key8 :: Windows where "Windows_Key8 \<equiv> 0x9"
abbreviation (input) Windows_Key9 :: Windows where "Windows_Key9 \<equiv> 0xa"
abbreviation (input) Windows_Key0 :: Windows where "Windows_Key0 \<equiv> 0xb"
abbreviation (input) Windows_KeyEnter :: Windows where "Windows_KeyEnter \<equiv> 0x1c"
abbreviation (input) Windows_KeyEsc :: Windows where "Windows_KeyEsc \<equiv> 0x1"
abbreviation (input) Windows_KeyDelete :: Windows where "Windows_KeyDelete \<equiv> 0xe"
abbreviation (input) Windows_KeyTab :: Windows where "Windows_KeyTab \<equiv> 0xf"
abbreviation (input) Windows_KeySpace :: Windows where "Windows_KeySpace \<equiv> 0x39"
abbreviation (input) Windows_KeyMinus :: Windows where "Windows_KeyMinus \<equiv> 0xc"
abbreviation (input) Windows_KeyEqual :: Windows where "Windows_KeyEqual \<equiv> 0xd"
abbreviation (input) Windows_KeyLeftBrace :: Windows where "Windows_KeyLeftBrace \<equiv> 0x1a"
abbreviation (input) Windows_KeyRightBrace :: Windows where "Windows_KeyRightBrace \<equiv> 0x1b"
abbreviation (input) Windows_KeyBackslash :: Windows where "Windows_KeyBackslash \<equiv> 0x2b"
abbreviation (input) Windows_KeySemiColon :: Windows where "Windows_KeySemiColon \<equiv> 0x27"
abbreviation (input) Windows_KeyApostrophe :: Windows where "Windows_KeyApostrophe \<equiv> 0x28"
abbreviation (input) Windows_KeyGrave :: Windows where "Windows_KeyGrave \<equiv> 0x29"
abbreviation (input) Windows_KeyComma :: Windows where "Windows_KeyComma \<equiv> 0x33"
abbreviation (input) Windows_KeyDot :: Windows where "Windows_KeyDot \<equiv> 0x34"
abbreviation (input) Windows_KeySlash :: Windows where "Windows_KeySlash \<equiv> 0x35"
abbreviation (input) Windows_KeyCapsLock :: Windows where "Windows_KeyCapsLock \<equiv> 0x3a"
abbreviation (input) Windows_KeyF1 :: Windows where "Windows_KeyF1 \<equiv> 0x3b"
abbreviation (input) Windows_KeyF2 :: Windows where "Windows_KeyF2 \<equiv> 0x3c"
abbreviation (input) Windows_KeyF3 :: Windows where "Windows_KeyF3 \<equiv> 0x3d"
abbreviation (input) Windows_KeyF4 :: Windows where "Windows_KeyF4 \<equiv> 0x3e"
abbreviation (input) Windows_KeyF5 :: Windows where "Windows_KeyF5 \<equiv> 0x3f"
abbreviation (input) Windows_KeyF6 :: Windows where "Windows_KeyF6 \<equiv> 0x40"
abbreviation (input) Windows_KeyF7 :: Windows where "Windows_KeyF7 \<equiv> 0x41"
abbreviation (input) Windows_KeyF8 :: Windows where "Windows_KeyF8 \<equiv> 0x42"
abbreviation (input) Windows_KeyF9 :: Windows where "Windows_KeyF9 \<equiv> 0x43"
abbreviation (input) Windows_KeyF10 :: Windows where "Windows_KeyF10 \<equiv> 0x44"
abbreviation (input) Windows_KeyF11 :: Windows where "Windows_KeyF11 \<equiv> 0x57"
abbreviation (input) Windows_KeyF12 :: Windows where "Windows_KeyF12 \<equiv> 0x58"
abbreviation (input) Windows_KeyPrintScreen :: Windows where "Windows_KeyPrintScreen \<equiv> 0xe037"
abbreviation (input) Windows_KeyScrollLock :: Windows where "Windows_KeyScrollLock \<equiv> 0x46"
abbreviation (input) Windows_KeyPause :: Windows where "Windows_KeyPause \<equiv> 0xe11d45"
abbreviation (input) Windows_KeyInsert :: Windows where "Windows_KeyInsert \<equiv> 0xe052"
abbreviation (input) Windows_KeyHome :: Windows where "Windows_KeyHome \<equiv> 0xe047"
abbreviation (input) Windows_KeyPageUp :: Windows where "Windows_KeyPageUp \<equiv> 0xe049"
abbreviation (input) Windows_KeyDeleteForward :: Windows where "Windows_KeyDeleteForward \<equiv> 0xe053"
abbreviation (input) Windows_KeyEnd :: Windows where "Windows_KeyEnd \<equiv> 0xe04f"
abbreviation (input) Windows_KeyPageDown :: Windows where "Windows_KeyPageDown \<equiv> 0xe051"
abbreviation (input) Windows_KeyRight :: Windows where "Windows_KeyRight \<equiv> 0xe04d"
abbreviation (input) Windows_KeyLeft :: Windows where "Windows_KeyLeft \<equiv> 0xe04b"
abbreviation (input) Windows_KeyDown :: Windows where "Windows_KeyDown \<equiv> 0xe050"
abbreviation (input) Windows_KeyUp :: Windows where "Windows_KeyUp \<equiv> 0xe048"
abbreviation (input) Windows_KeypadNumLock :: Windows where "Windows_KeypadNumLock \<equiv> 0x45"
abbreviation (input) Windows_KeypadSlash :: Windows where "Windows_KeypadSlash \<equiv> 0xe035"
abbreviation (input) Windows_KeypadStar :: Windows where "Windows_KeypadStar \<equiv> 0x37"
abbreviation (input) Windows_KeypadDash :: Windows where "Windows_KeypadDash \<equiv> 0x4a"
abbreviation (input) Windows_KeypadPlus :: Windows where "Windows_KeypadPlus \<equiv> 0x4e"
abbreviation (input) Windows_KeypadEnter :: Windows where "Windows_KeypadEnter \<equiv> 0xe01c"
abbreviation (input) Windows_Keypad1End :: Windows where "Windows_Keypad1End \<equiv> 0x4f"
abbreviation (input) Windows_Keypad2DownArrow :: Windows where "Windows_Keypad2DownArrow \<equiv> 0x50"
abbreviation (input) Windows_Keypad3PageDn :: Windows where "Windows_Keypad3PageDn \<equiv> 0x51"
abbreviation (input) Windows_Keypad4LeftArrow :: Windows where "Windows_Keypad4LeftArrow \<equiv> 0x4b"
abbreviation (input) Windows_Keypad5 :: Windows where "Windows_Keypad5 \<equiv> 0x4c"
abbreviation (input) Windows_Keypad6RightArrow :: Windows where "Windows_Keypad6RightArrow \<equiv> 0x4d"
abbreviation (input) Windows_Keypad7Home :: Windows where "Windows_Keypad7Home \<equiv> 0x47"
abbreviation (input) Windows_Keypad8UpArrow :: Windows where "Windows_Keypad8UpArrow \<equiv> 0x48"
abbreviation (input) Windows_Keypad9PageUp :: Windows where "Windows_Keypad9PageUp \<equiv> 0x49"
abbreviation (input) Windows_Keypad0Insert :: Windows where "Windows_Keypad0Insert \<equiv> 0x52"
abbreviation (input) Windows_KeypadDot :: Windows where "Windows_KeypadDot \<equiv> 0x53"
abbreviation (input) Windows_KeyNonUSSlashBar :: Windows where "Windows_KeyNonUSSlashBar \<equiv> 0x56"
abbreviation (input) Windows_KeyApplication :: Windows where "Windows_KeyApplication \<equiv> 0xe05d"
abbreviation (input) Windows_KeypadEquals :: Windows where "Windows_KeypadEquals \<equiv> 0x59"
abbreviation (input) Windows_KeyF13 :: Windows where "Windows_KeyF13 \<equiv> 0x64"
abbreviation (input) Windows_KeyF14 :: Windows where "Windows_KeyF14 \<equiv> 0x65"
abbreviation (input) Windows_KeyF15 :: Windows where "Windows_KeyF15 \<equiv> 0x66"
abbreviation (input) Windows_KeyF16 :: Windows where "Windows_KeyF16 \<equiv> 0x67"
abbreviation (input) Windows_KeyF17 :: Windows where "Windows_KeyF17 \<equiv> 0x68"
abbreviation (input) Windows_KeyF18 :: Windows where "Windows_KeyF18 \<equiv> 0x69"
abbreviation (input) Windows_KeyF19 :: Windows where "Windows_KeyF19 \<equiv> 0x6a"
abbreviation (input) Windows_KeyF20 :: Windows where "Windows_KeyF20 \<equiv> 0x6b"
abbreviation (input) Windows_KeyF21 :: Windows where "Windows_KeyF21 \<equiv> 0x6c"
abbreviation (input) Windows_KeyF22 :: Windows where "Windows_KeyF22 \<equiv> 0x6d"
abbreviation (input) Windows_KeyF23 :: Windows where "Windows_KeyF23 \<equiv> 0x6e"
abbreviation (input) Windows_KeyF24 :: Windows where "Windows_KeyF24 \<equiv> 0x76"
abbreviation (input) Windows_KeypadComma :: Windows where "Windows_KeypadComma \<equiv> 0x7e"
abbreviation (input) Windows_KeyInternational1 :: Windows where "Windows_KeyInternational1 \<equiv> 0x73"
abbreviation (input) Windows_KeyInternational2 :: Windows where "Windows_KeyInternational2 \<equiv> 0x70"
abbreviation (input) Windows_KeyInternational3 :: Windows where "Windows_KeyInternational3 \<equiv> 0x7d"
abbreviation (input) Windows_KeyInternational4 :: Windows where "Windows_KeyInternational4 \<equiv> 0x79"
abbreviation (input) Windows_KeyInternational5 :: Windows where "Windows_KeyInternational5 \<equiv> 0x7b"
abbreviation (input) Windows_KeyLANG1 :: Windows where "Windows_KeyLANG1 \<equiv> 0x72"
abbreviation (input) Windows_KeyLANG2 :: Windows where "Windows_KeyLANG2 \<equiv> 0x71"
abbreviation (input) Windows_KeyLANG3 :: Windows where "Windows_KeyLANG3 \<equiv> 0x78"
abbreviation (input) Windows_KeyLANG4 :: Windows where "Windows_KeyLANG4 \<equiv> 0x77"
abbreviation (input) Windows_KeyLeftCtrl :: Windows where "Windows_KeyLeftCtrl \<equiv> 0x1d"
abbreviation (input) Windows_KeyLeftShift :: Windows where "Windows_KeyLeftShift \<equiv> 0x2a"
abbreviation (input) Windows_KeyLeftAlt :: Windows where "Windows_KeyLeftAlt \<equiv> 0x38"
abbreviation (input) Windows_KeyLeftGUI :: Windows where "Windows_KeyLeftGUI \<equiv> 0xe05b"
abbreviation (input) Windows_KeyRightCtrl :: Windows where "Windows_KeyRightCtrl \<equiv> 0xe01d"
abbreviation (input) Windows_KeyRightShift :: Windows where "Windows_KeyRightShift \<equiv> 0x36"
abbreviation (input) Windows_KeyFakeRightShift :: Windows where "Windows_KeyFakeRightShift \<equiv> 0xe036"
abbreviation (input) Windows_KeyRightAlt :: Windows where "Windows_KeyRightAlt \<equiv> 0xe038"
abbreviation (input) Windows_KeyRightGUI :: Windows where "Windows_KeyRightGUI \<equiv> 0xe05c"
abbreviation (input) Windows_KeyScanNextTrack :: Windows where "Windows_KeyScanNextTrack \<equiv> 0xe019"
abbreviation (input) Windows_KeyScanPreviousTrack :: Windows where "Windows_KeyScanPreviousTrack \<equiv> 0xe010"
abbreviation (input) Windows_KeyStop :: Windows where "Windows_KeyStop \<equiv> 0xe024"
abbreviation (input) Windows_KeyPlayPause :: Windows where "Windows_KeyPlayPause \<equiv> 0xe022"
abbreviation (input) Windows_KeyMute :: Windows where "Windows_KeyMute \<equiv> 0xe020"
abbreviation (input) Windows_KeyVolumeUp :: Windows where "Windows_KeyVolumeUp \<equiv> 0xe030"
abbreviation (input) Windows_KeyVolumeDown :: Windows where "Windows_KeyVolumeDown \<equiv> 0xe02e"
abbreviation (input) Windows_ALConsumerControlConfiguration :: Windows where "Windows_ALConsumerControlConfiguration \<equiv> 0xe06d"
abbreviation (input) Windows_ALEmailReader :: Windows where "Windows_ALEmailReader \<equiv> 0xe06c"
abbreviation (input) Windows_ALCalculator :: Windows where "Windows_ALCalculator \<equiv> 0xe021"
abbreviation (input) Windows_ALLocalMachineBrowser :: Windows where "Windows_ALLocalMachineBrowser \<equiv> 0xe06b"
abbreviation (input) Windows_ACSearch :: Windows where "Windows_ACSearch \<equiv> 0xe065"
abbreviation (input) Windows_ACHome :: Windows where "Windows_ACHome \<equiv> 0xe032"
abbreviation (input) Windows_ACBack :: Windows where "Windows_ACBack \<equiv> 0xe06a"
abbreviation (input) Windows_ACForward :: Windows where "Windows_ACForward \<equiv> 0xe069"
abbreviation (input) Windows_ACStop :: Windows where "Windows_ACStop \<equiv> 0xe068"
abbreviation (input) Windows_ACRefresh :: Windows where "Windows_ACRefresh \<equiv> 0xe067"
abbreviation (input) Windows_ACBookmarks :: Windows where "Windows_ACBookmarks \<equiv> 0xe066"

abbreviation (input) Linux_KeyReserved :: Linux where "Linux_KeyReserved \<equiv> 0"
abbreviation (input) Linux_KeyEsc :: Linux where "Linux_KeyEsc \<equiv> 1"
abbreviation (input) Linux_Key1 :: Linux where "Linux_Key1 \<equiv> 2"
abbreviation (input) Linux_Key2 :: Linux where "Linux_Key2 \<equiv> 3"
abbreviation (input) Linux_Key3 :: Linux where "Linux_Key3 \<equiv> 4"
abbreviation (input) Linux_Key4 :: Linux where "Linux_Key4 \<equiv> 5"
abbreviation (input) Linux_Key5 :: Linux where "Linux_Key5 \<equiv> 6"
abbreviation (input) Linux_Key6 :: Linux where "Linux_Key6 \<equiv> 7"
abbreviation (input) Linux_Key7 :: Linux where "Linux_Key7 \<equiv> 8"
abbreviation (input) Linux_Key8 :: Linux where "Linux_Key8 \<equiv> 9"
abbreviation (input) Linux_Key9 :: Linux where "Linux_Key9 \<equiv> 10"
abbreviation (input) Linux_Key0 :: Linux where "Linux_Key0 \<equiv> 11"
abbreviation (input) Linux_KeyMinus :: Linux where "Linux_KeyMinus \<equiv> 12"
abbreviation (input) Linux_KeyEqual :: Linux where "Linux_KeyEqual \<equiv> 13"
abbreviation (input) Linux_KeyBackspace :: Linux where "Linux_KeyBackspace \<equiv> 14"
abbreviation (input) Linux_KeyTab :: Linux where "Linux_KeyTab \<equiv> 15"
abbreviation (input) Linux_KeyQ :: Linux where "Linux_KeyQ \<equiv> 16"
abbreviation (input) Linux_KeyW :: Linux where "Linux_KeyW \<equiv> 17"
abbreviation (input) Linux_KeyE :: Linux where "Linux_KeyE \<equiv> 18"
abbreviation (input) Linux_KeyR :: Linux where "Linux_KeyR \<equiv> 19"
abbreviation (input) Linux_KeyT :: Linux where "Linux_KeyT \<equiv> 20"
abbreviation (input) Linux_KeyY :: Linux where "Linux_KeyY \<equiv> 21"
abbreviation (input) Linux_KeyU :: Linux where "Linux_KeyU \<equiv> 22"
abbreviation (input) Linux_KeyI :: Linux where "Linux_KeyI \<equiv> 23"
abbreviation (input) Linux_KeyO :: Linux where "Linux_KeyO \<equiv> 24"
abbreviation (input) Linux_KeyP :: Linux where "Linux_KeyP \<equiv> 25"
abbreviation (input) Linux_KeyLeftbrace :: Linux where "Linux_KeyLeftbrace \<equiv> 26"
abbreviation (input) Linux_KeyRightbrace :: Linux where "Linux_KeyRightbrace \<equiv> 27"
abbreviation (input) Linux_KeyEnter :: Linux where "Linux_KeyEnter \<equiv> 28"
abbreviation (input) Linux_KeyLeftCtrl :: Linux where "Linux_KeyLeftCtrl \<equiv> 29"
abbreviation (input) Linux_KeyA :: Linux where "Linux_KeyA \<equiv> 30"
abbreviation (input) Linux_KeyS :: Linux where "Linux_KeyS \<equiv> 31"
abbreviation (input) Linux_KeyD :: Linux where "Linux_KeyD \<equiv> 32"
abbreviation (input) Linux_KeyF :: Linux where "Linux_KeyF \<equiv> 33"
abbreviation (input) Linux_KeyG :: Linux where "Linux_KeyG \<equiv> 34"
abbreviation (input) Linux_KeyH :: Linux where "Linux_KeyH \<equiv> 35"
abbreviation (input) Linux_KeyJ :: Linux where "Linux_KeyJ \<equiv> 36"
abbreviation (input) Linux_KeyK :: Linux where "Linux_KeyK \<equiv> 37"
abbreviation (input) Linux_KeyL :: Linux where "Linux_KeyL \<equiv> 38"
abbreviation (input) Linux_KeySemicolon :: Linux where "Linux_KeySemicolon \<equiv> 39"
abbreviation (input) Linux_KeyApostrophe :: Linux where "Linux_KeyApostrophe \<equiv> 40"
abbreviation (input) Linux_KeyGrave :: Linux where "Linux_KeyGrave \<equiv> 41"
abbreviation (input) Linux_KeyLeftShift :: Linux where "Linux_KeyLeftShift \<equiv> 42"
abbreviation (input) Linux_KeyBackslash :: Linux where "Linux_KeyBackslash \<equiv> 43"
abbreviation (input) Linux_KeyZ :: Linux where "Linux_KeyZ \<equiv> 44"
abbreviation (input) Linux_KeyX :: Linux where "Linux_KeyX \<equiv> 45"
abbreviation (input) Linux_KeyC :: Linux where "Linux_KeyC \<equiv> 46"
abbreviation (input) Linux_KeyV :: Linux where "Linux_KeyV \<equiv> 47"
abbreviation (input) Linux_KeyB :: Linux where "Linux_KeyB \<equiv> 48"
abbreviation (input) Linux_KeyN :: Linux where "Linux_KeyN \<equiv> 49"
abbreviation (input) Linux_KeyM :: Linux where "Linux_KeyM \<equiv> 50"
abbreviation (input) Linux_KeyComma :: Linux where "Linux_KeyComma \<equiv> 51"
abbreviation (input) Linux_KeyDot :: Linux where "Linux_KeyDot \<equiv> 52"
abbreviation (input) Linux_KeySlash :: Linux where "Linux_KeySlash \<equiv> 53"
abbreviation (input) Linux_KeyRightShift :: Linux where "Linux_KeyRightShift \<equiv> 54"
abbreviation (input) Linux_KeyKpAsterisk :: Linux where "Linux_KeyKpAsterisk \<equiv> 55"
abbreviation (input) Linux_KeyLeftAlt :: Linux where "Linux_KeyLeftAlt \<equiv> 56"
abbreviation (input) Linux_KeySpace :: Linux where "Linux_KeySpace \<equiv> 57"
abbreviation (input) Linux_KeyCapsLock :: Linux where "Linux_KeyCapsLock \<equiv> 58"
abbreviation (input) Linux_KeyF1 :: Linux where "Linux_KeyF1 \<equiv> 59"
abbreviation (input) Linux_KeyF2 :: Linux where "Linux_KeyF2 \<equiv> 60"
abbreviation (input) Linux_KeyF3 :: Linux where "Linux_KeyF3 \<equiv> 61"
abbreviation (input) Linux_KeyF4 :: Linux where "Linux_KeyF4 \<equiv> 62"
abbreviation (input) Linux_KeyF5 :: Linux where "Linux_KeyF5 \<equiv> 63"
abbreviation (input) Linux_KeyF6 :: Linux where "Linux_KeyF6 \<equiv> 64"
abbreviation (input) Linux_KeyF7 :: Linux where "Linux_KeyF7 \<equiv> 65"
abbreviation (input) Linux_KeyF8 :: Linux where "Linux_KeyF8 \<equiv> 66"
abbreviation (input) Linux_KeyF9 :: Linux where "Linux_KeyF9 \<equiv> 67"
abbreviation (input) Linux_KeyF10 :: Linux where "Linux_KeyF10 \<equiv> 68"
abbreviation (input) Linux_KeyNumlock :: Linux where "Linux_KeyNumlock \<equiv> 69"
abbreviation (input) Linux_KeyScrollLock :: Linux where "Linux_KeyScrollLock \<equiv> 70"
abbreviation (input) Linux_KeyKp7 :: Linux where "Linux_KeyKp7 \<equiv> 71"
abbreviation (input) Linux_KeyKp8 :: Linux where "Linux_KeyKp8 \<equiv> 72"
abbreviation (input) Linux_KeyKp9 :: Linux where "Linux_KeyKp9 \<equiv> 73"
abbreviation (input) Linux_KeyKpMinus :: Linux where "Linux_KeyKpMinus \<equiv> 74"
abbreviation (input) Linux_KeyKp4 :: Linux where "Linux_KeyKp4 \<equiv> 75"
abbreviation (input) Linux_KeyKp5 :: Linux where "Linux_KeyKp5 \<equiv> 76"
abbreviation (input) Linux_KeyKp6 :: Linux where "Linux_KeyKp6 \<equiv> 77"
abbreviation (input) Linux_KeyKpplus :: Linux where "Linux_KeyKpplus \<equiv> 78"
abbreviation (input) Linux_KeyKp1 :: Linux where "Linux_KeyKp1 \<equiv> 79"
abbreviation (input) Linux_KeyKp2 :: Linux where "Linux_KeyKp2 \<equiv> 80"
abbreviation (input) Linux_KeyKp3 :: Linux where "Linux_KeyKp3 \<equiv> 81"
abbreviation (input) Linux_KeyKp0 :: Linux where "Linux_KeyKp0 \<equiv> 82"
abbreviation (input) Linux_KeyKpDot :: Linux where "Linux_KeyKpDot \<equiv> 83"
abbreviation (input) Linux_Invalid :: Linux where "Linux_Invalid \<equiv> 84"
abbreviation (input) Linux_KeyZenkakuhankaku :: Linux where "Linux_KeyZenkakuhankaku \<equiv> 85"
abbreviation (input) Linux_Key102nd :: Linux where "Linux_Key102nd \<equiv> 86"
abbreviation (input) Linux_KeyF11 :: Linux where "Linux_KeyF11 \<equiv> 87"
abbreviation (input) Linux_KeyF12 :: Linux where "Linux_KeyF12 \<equiv> 88"
abbreviation (input) Linux_KeyRo :: Linux where "Linux_KeyRo \<equiv> 89"
abbreviation (input) Linux_KeyKatakana :: Linux where "Linux_KeyKatakana \<equiv> 90"
abbreviation (input) Linux_KeyHiragana :: Linux where "Linux_KeyHiragana \<equiv> 91"
abbreviation (input) Linux_KeyHenkan :: Linux where "Linux_KeyHenkan \<equiv> 92"
abbreviation (input) Linux_KeyKatakanahiragana :: Linux where "Linux_KeyKatakanahiragana \<equiv> 93"
abbreviation (input) Linux_KeyMuhenkan :: Linux where "Linux_KeyMuhenkan \<equiv> 94"
abbreviation (input) Linux_KeyKpJpComma :: Linux where "Linux_KeyKpJpComma \<equiv> 95"
abbreviation (input) Linux_KeyKpEnter :: Linux where "Linux_KeyKpEnter \<equiv> 96"
abbreviation (input) Linux_KeyRightCtrl :: Linux where "Linux_KeyRightCtrl \<equiv> 97"
abbreviation (input) Linux_KeyKpslash :: Linux where "Linux_KeyKpslash \<equiv> 98"
abbreviation (input) Linux_KeySysrq :: Linux where "Linux_KeySysrq \<equiv> 99"
abbreviation (input) Linux_KeyRightalt :: Linux where "Linux_KeyRightalt \<equiv> 100"
abbreviation (input) Linux_KeyLinefeed :: Linux where "Linux_KeyLinefeed \<equiv> 101"
abbreviation (input) Linux_KeyHome :: Linux where "Linux_KeyHome \<equiv> 102"
abbreviation (input) Linux_KeyUp :: Linux where "Linux_KeyUp \<equiv> 103"
abbreviation (input) Linux_KeyPageup :: Linux where "Linux_KeyPageup \<equiv> 104"
abbreviation (input) Linux_KeyLeft :: Linux where "Linux_KeyLeft \<equiv> 105"
abbreviation (input) Linux_KeyRight :: Linux where "Linux_KeyRight \<equiv> 106"
abbreviation (input) Linux_KeyEnd :: Linux where "Linux_KeyEnd \<equiv> 107"
abbreviation (input) Linux_KeyDown :: Linux where "Linux_KeyDown \<equiv> 108"
abbreviation (input) Linux_KeyPagedown :: Linux where "Linux_KeyPagedown \<equiv> 109"
abbreviation (input) Linux_KeyInsert :: Linux where "Linux_KeyInsert \<equiv> 110"
abbreviation (input) Linux_KeyDelete :: Linux where "Linux_KeyDelete \<equiv> 111"
abbreviation (input) Linux_KeyMacro :: Linux where "Linux_KeyMacro \<equiv> 112"
abbreviation (input) Linux_KeyMute :: Linux where "Linux_KeyMute \<equiv> 113"
abbreviation (input) Linux_KeyVolumeDown :: Linux where "Linux_KeyVolumeDown \<equiv> 114"
abbreviation (input) Linux_KeyVolumeUp :: Linux where "Linux_KeyVolumeUp \<equiv> 115"
abbreviation (input) Linux_KeyPower :: Linux where "Linux_KeyPower \<equiv> 116"
abbreviation (input) Linux_KeyKpequal :: Linux where "Linux_KeyKpequal \<equiv> 117"
abbreviation (input) Linux_KeyKpplusminus :: Linux where "Linux_KeyKpplusminus \<equiv> 118"
abbreviation (input) Linux_KeyPause :: Linux where "Linux_KeyPause \<equiv> 119"
abbreviation (input) Linux_KeyScale :: Linux where "Linux_KeyScale \<equiv> 120"
abbreviation (input) Linux_KeyKpcomma :: Linux where "Linux_KeyKpcomma \<equiv> 121"
abbreviation (input) Linux_KeyHanguel :: Linux where "Linux_KeyHanguel \<equiv> 122"
abbreviation (input) Linux_KeyHanja :: Linux where "Linux_KeyHanja \<equiv> 123"
abbreviation (input) Linux_KeyYen :: Linux where "Linux_KeyYen \<equiv> 124"
abbreviation (input) Linux_KeyLeftMeta :: Linux where "Linux_KeyLeftMeta \<equiv> 125"
abbreviation (input) Linux_KeyRightmeta :: Linux where "Linux_KeyRightmeta \<equiv> 126"
abbreviation (input) Linux_KeyCompose :: Linux where "Linux_KeyCompose \<equiv> 127"
abbreviation (input) Linux_KeyStop :: Linux where "Linux_KeyStop \<equiv> 128"
abbreviation (input) Linux_KeyAgain :: Linux where "Linux_KeyAgain \<equiv> 129"
abbreviation (input) Linux_KeyProps :: Linux where "Linux_KeyProps \<equiv> 130"
abbreviation (input) Linux_KeyUndo :: Linux where "Linux_KeyUndo \<equiv> 131"
abbreviation (input) Linux_KeyFront :: Linux where "Linux_KeyFront \<equiv> 132"
abbreviation (input) Linux_KeyCopy :: Linux where "Linux_KeyCopy \<equiv> 133"
abbreviation (input) Linux_KeyOpen :: Linux where "Linux_KeyOpen \<equiv> 134"
abbreviation (input) Linux_KeyPaste :: Linux where "Linux_KeyPaste \<equiv> 135"
abbreviation (input) Linux_KeyFind :: Linux where "Linux_KeyFind \<equiv> 136"
abbreviation (input) Linux_KeyCut :: Linux where "Linux_KeyCut \<equiv> 137"
abbreviation (input) Linux_KeyHelp :: Linux where "Linux_KeyHelp \<equiv> 138"
abbreviation (input) Linux_KeyMenu :: Linux where "Linux_KeyMenu \<equiv> 139"
abbreviation (input) Linux_KeyCalc :: Linux where "Linux_KeyCalc \<equiv> 140"
abbreviation (input) Linux_KeySetup :: Linux where "Linux_KeySetup \<equiv> 141"
abbreviation (input) Linux_KeySleep :: Linux where "Linux_KeySleep \<equiv> 142"
abbreviation (input) Linux_KeyWakeup :: Linux where "Linux_KeyWakeup \<equiv> 143"
abbreviation (input) Linux_KeyFile :: Linux where "Linux_KeyFile \<equiv> 144"
abbreviation (input) Linux_KeySendfile :: Linux where "Linux_KeySendfile \<equiv> 145"
abbreviation (input) Linux_KeyDeletefile :: Linux where "Linux_KeyDeletefile \<equiv> 146"
abbreviation (input) Linux_KeyXfer :: Linux where "Linux_KeyXfer \<equiv> 147"
abbreviation (input) Linux_KeyProg1 :: Linux where "Linux_KeyProg1 \<equiv> 148"
abbreviation (input) Linux_KeyProg2 :: Linux where "Linux_KeyProg2 \<equiv> 149"
abbreviation (input) Linux_KeyWww :: Linux where "Linux_KeyWww \<equiv> 150"
abbreviation (input) Linux_KeyMsdos :: Linux where "Linux_KeyMsdos \<equiv> 151"
abbreviation (input) Linux_KeyCoffee :: Linux where "Linux_KeyCoffee \<equiv> 152"
abbreviation (input) Linux_KeyRotateDisplay :: Linux where "Linux_KeyRotateDisplay \<equiv> 153"
abbreviation (input) Linux_KeyCyclewindows :: Linux where "Linux_KeyCyclewindows \<equiv> 154"
abbreviation (input) Linux_KeyMail :: Linux where "Linux_KeyMail \<equiv> 155"
abbreviation (input) Linux_KeyBookmarks :: Linux where "Linux_KeyBookmarks \<equiv> 156"
abbreviation (input) Linux_KeyComputer :: Linux where "Linux_KeyComputer \<equiv> 157"
abbreviation (input) Linux_KeyBack :: Linux where "Linux_KeyBack \<equiv> 158"
abbreviation (input) Linux_KeyForward :: Linux where "Linux_KeyForward \<equiv> 159"
abbreviation (input) Linux_KeyClosecd :: Linux where "Linux_KeyClosecd \<equiv> 160"
abbreviation (input) Linux_KeyEjectcd :: Linux where "Linux_KeyEjectcd \<equiv> 161"
abbreviation (input) Linux_KeyEjectclosecd :: Linux where "Linux_KeyEjectclosecd \<equiv> 162"
abbreviation (input) Linux_KeyNextsong :: Linux where "Linux_KeyNextsong \<equiv> 163"
abbreviation (input) Linux_KeyPlaypause :: Linux where "Linux_KeyPlaypause \<equiv> 164"
abbreviation (input) Linux_KeyPrevioussong :: Linux where "Linux_KeyPrevioussong \<equiv> 165"
abbreviation (input) Linux_KeyStopcd :: Linux where "Linux_KeyStopcd \<equiv> 166"
abbreviation (input) Linux_KeyRecord :: Linux where "Linux_KeyRecord \<equiv> 167"
abbreviation (input) Linux_KeyRewind :: Linux where "Linux_KeyRewind \<equiv> 168"
abbreviation (input) Linux_KeyPhone :: Linux where "Linux_KeyPhone \<equiv> 169"
abbreviation (input) Linux_KeyIso :: Linux where "Linux_KeyIso \<equiv> 170"
abbreviation (input) Linux_KeyConfig :: Linux where "Linux_KeyConfig \<equiv> 171"
abbreviation (input) Linux_KeyHomepage :: Linux where "Linux_KeyHomepage \<equiv> 172"
abbreviation (input) Linux_KeyRefresh :: Linux where "Linux_KeyRefresh \<equiv> 173"
abbreviation (input) Linux_KeyExit :: Linux where "Linux_KeyExit \<equiv> 174"
abbreviation (input) Linux_KeyMove :: Linux where "Linux_KeyMove \<equiv> 175"
abbreviation (input) Linux_KeyEdit :: Linux where "Linux_KeyEdit \<equiv> 176"
abbreviation (input) Linux_KeyScrollup :: Linux where "Linux_KeyScrollup \<equiv> 177"
abbreviation (input) Linux_KeyScrolldown :: Linux where "Linux_KeyScrolldown \<equiv> 178"
abbreviation (input) Linux_KeyKpleftparen :: Linux where "Linux_KeyKpleftparen \<equiv> 179"
abbreviation (input) Linux_KeyKprightparen :: Linux where "Linux_KeyKprightparen \<equiv> 180"
abbreviation (input) Linux_KeyNew :: Linux where "Linux_KeyNew \<equiv> 181"
abbreviation (input) Linux_KeyRedo :: Linux where "Linux_KeyRedo \<equiv> 182"
abbreviation (input) Linux_KeyF13 :: Linux where "Linux_KeyF13 \<equiv> 183"
abbreviation (input) Linux_KeyF14 :: Linux where "Linux_KeyF14 \<equiv> 184"
abbreviation (input) Linux_KeyF15 :: Linux where "Linux_KeyF15 \<equiv> 185"
abbreviation (input) Linux_KeyF16 :: Linux where "Linux_KeyF16 \<equiv> 186"
abbreviation (input) Linux_KeyF17 :: Linux where "Linux_KeyF17 \<equiv> 187"
abbreviation (input) Linux_KeyF18 :: Linux where "Linux_KeyF18 \<equiv> 188"
abbreviation (input) Linux_KeyF19 :: Linux where "Linux_KeyF19 \<equiv> 189"
abbreviation (input) Linux_KeyF20 :: Linux where "Linux_KeyF20 \<equiv> 190"
abbreviation (input) Linux_KeyF21 :: Linux where "Linux_KeyF21 \<equiv> 191"
abbreviation (input) Linux_KeyF22 :: Linux where "Linux_KeyF22 \<equiv> 192"
abbreviation (input) Linux_KeyF23 :: Linux where "Linux_KeyF23 \<equiv> 193"
abbreviation (input) Linux_KeyF24 :: Linux where "Linux_KeyF24 \<equiv> 194"
abbreviation (input) Linux_Invalid1 :: Linux where "Linux_Invalid1 \<equiv> 195"
abbreviation (input) Linux_Invalid2 :: Linux where "Linux_Invalid2 \<equiv> 196"
abbreviation (input) Linux_Invalid3 :: Linux where "Linux_Invalid3 \<equiv> 197"
abbreviation (input) Linux_Invalid4 :: Linux where "Linux_Invalid4 \<equiv> 198"
abbreviation (input) Linux_Invalid5 :: Linux where "Linux_Invalid5 \<equiv> 199"
abbreviation (input) Linux_KeyPlaycd :: Linux where "Linux_KeyPlaycd \<equiv> 200"
abbreviation (input) Linux_KeyPausecd :: Linux where "Linux_KeyPausecd \<equiv> 201"
abbreviation (input) Linux_KeyProg3 :: Linux where "Linux_KeyProg3 \<equiv> 202"
abbreviation (input) Linux_KeyProg4 :: Linux where "Linux_KeyProg4 \<equiv> 203"
abbreviation (input) Linux_KeyAllApplications :: Linux where "Linux_KeyAllApplications \<equiv> 204"
abbreviation (input) Linux_KeySuspend :: Linux where "Linux_KeySuspend \<equiv> 205"
abbreviation (input) Linux_KeyClose :: Linux where "Linux_KeyClose \<equiv> 206"
abbreviation (input) Linux_KeyPlay :: Linux where "Linux_KeyPlay \<equiv> 207"
abbreviation (input) Linux_KeyFastforward :: Linux where "Linux_KeyFastforward \<equiv> 208"
abbreviation (input) Linux_KeyBassboost :: Linux where "Linux_KeyBassboost \<equiv> 209"
abbreviation (input) Linux_KeyPrint :: Linux where "Linux_KeyPrint \<equiv> 210"
abbreviation (input) Linux_KeyHp :: Linux where "Linux_KeyHp \<equiv> 211"
abbreviation (input) Linux_KeyCamera :: Linux where "Linux_KeyCamera \<equiv> 212"
abbreviation (input) Linux_KeySound :: Linux where "Linux_KeySound \<equiv> 213"
abbreviation (input) Linux_KeyQuestion :: Linux where "Linux_KeyQuestion \<equiv> 214"
abbreviation (input) Linux_KeyEmail :: Linux where "Linux_KeyEmail \<equiv> 215"
abbreviation (input) Linux_KeyChat :: Linux where "Linux_KeyChat \<equiv> 216"
abbreviation (input) Linux_KeySearch :: Linux where "Linux_KeySearch \<equiv> 217"
abbreviation (input) Linux_KeyConnect :: Linux where "Linux_KeyConnect \<equiv> 218"
abbreviation (input) Linux_KeyFinance :: Linux where "Linux_KeyFinance \<equiv> 219"
abbreviation (input) Linux_KeySport :: Linux where "Linux_KeySport \<equiv> 220"
abbreviation (input) Linux_KeyShop :: Linux where "Linux_KeyShop \<equiv> 221"
abbreviation (input) Linux_KeyAlterase :: Linux where "Linux_KeyAlterase \<equiv> 222"
abbreviation (input) Linux_KeyCancel :: Linux where "Linux_KeyCancel \<equiv> 223"
abbreviation (input) Linux_KeyBrightnessdown :: Linux where "Linux_KeyBrightnessdown \<equiv> 224"
abbreviation (input) Linux_KeyBrightnessup :: Linux where "Linux_KeyBrightnessup \<equiv> 225"
abbreviation (input) Linux_KeyMedia :: Linux where "Linux_KeyMedia \<equiv> 226"
abbreviation (input) Linux_KeySwitchvideomode :: Linux where "Linux_KeySwitchvideomode \<equiv> 227"
abbreviation (input) Linux_KeyKbdillumtoggle :: Linux where "Linux_KeyKbdillumtoggle \<equiv> 228"
abbreviation (input) Linux_KeyKbdillumdown :: Linux where "Linux_KeyKbdillumdown \<equiv> 229"
abbreviation (input) Linux_KeyKbdillumup :: Linux where "Linux_KeyKbdillumup \<equiv> 230"
abbreviation (input) Linux_KeySend :: Linux where "Linux_KeySend \<equiv> 231"
abbreviation (input) Linux_KeyReply :: Linux where "Linux_KeyReply \<equiv> 232"
abbreviation (input) Linux_KeyForwardmail :: Linux where "Linux_KeyForwardmail \<equiv> 233"
abbreviation (input) Linux_KeySave :: Linux where "Linux_KeySave \<equiv> 234"
abbreviation (input) Linux_KeyDocuments :: Linux where "Linux_KeyDocuments \<equiv> 235"
abbreviation (input) Linux_KeyBattery :: Linux where "Linux_KeyBattery \<equiv> 236"
abbreviation (input) Linux_KeyBluetooth :: Linux where "Linux_KeyBluetooth \<equiv> 237"
abbreviation (input) Linux_KeyWlan :: Linux where "Linux_KeyWlan \<equiv> 238"
abbreviation (input) Linux_KeyUwb :: Linux where "Linux_KeyUwb \<equiv> 239"
abbreviation (input) Linux_KeyUnknown :: Linux where "Linux_KeyUnknown \<equiv> 240"
abbreviation (input) Linux_KeyVideoNext :: Linux where "Linux_KeyVideoNext \<equiv> 241"
abbreviation (input) Linux_KeyVideoPrev :: Linux where "Linux_KeyVideoPrev \<equiv> 242"
abbreviation (input) Linux_KeyBrightnessCycle :: Linux where "Linux_KeyBrightnessCycle \<equiv> 243"
abbreviation (input) Linux_KeyBrightnessAuto :: Linux where "Linux_KeyBrightnessAuto \<equiv> 244"
abbreviation (input) Linux_KeyDisplayOff :: Linux where "Linux_KeyDisplayOff \<equiv> 245"
abbreviation (input) Linux_KeyWwan :: Linux where "Linux_KeyWwan \<equiv> 246"
abbreviation (input) Linux_KeyRfkill :: Linux where "Linux_KeyRfkill \<equiv> 247"
abbreviation (input) Linux_KeyMicmute :: Linux where "Linux_KeyMicmute \<equiv> 248"
abbreviation (input) Linux_KeyCount :: Linux where "Linux_KeyCount \<equiv> 249"

definition Windows_variants_1 :: "Windows list" where
  "Windows_variants_1 =
    [Windows_Shutdown, Windows_SystemSleep, Windows_SystemWakeUp, Windows_ErrorRollOver,
     Windows_KeyA, Windows_KeyB, Windows_KeyC, Windows_KeyD,
     Windows_KeyE, Windows_KeyF, Windows_KeyG, Windows_KeyH,
     Windows_KeyI, Windows_KeyJ, Windows_KeyK, Windows_KeyL,
     Windows_KeyM, Windows_KeyN, Windows_KeyO, Windows_KeyP,
     Windows_KeyQ, Windows_KeyR, Windows_KeyS, Windows_KeyT,
     Windows_KeyU, Windows_KeyV, Windows_KeyW, Windows_KeyX,
     Windows_KeyY, Windows_KeyZ, Windows_Key1, Windows_Key2,
     Windows_Key3, Windows_Key4, Windows_Key5, Windows_Key6,
     Windows_Key7, Windows_Key8, Windows_Key9, Windows_Key0,
     Windows_KeyEnter, Windows_KeyEsc, Windows_KeyDelete, Windows_KeyTab,
     Windows_KeySpace, Windows_KeyMinus, Windows_KeyEqual, Windows_KeyLeftBrace,
     Windows_KeyRightBrace, Windows_KeyBackslash, Windows_KeySemiColon, Windows_KeyApostrophe,
     Windows_KeyGrave, Windows_KeyComma, Windows_KeyDot, Windows_KeySlash,
     Windows_KeyCapsLock, Windows_KeyF1, Windows_KeyF2, Windows_KeyF3,
     Windows_KeyF4, Windows_KeyF5, Windows_KeyF6, Windows_KeyF7,
     Windows_KeyF8, Windows_KeyF9, Windows_KeyF10, Windows_KeyF11,
     Windows_KeyF12, Windows_KeyPrintScreen, Windows_KeyScrollLock, Windows_KeyPause,
     Windows_KeyInsert, Windows_KeyHome, Windows_KeyPageUp, Windows_KeyDeleteForward]"

definition Windows_variants_2 :: "Windows list" where
  "Windows_variants_2 =
    [Windows_KeyEnd, Windows_KeyPageDown, Windows_KeyRight, Windows_KeyLeft,
     Windows_KeyDown, Windows_KeyUp, Windows_KeypadNumLock, Windows_KeypadSlash,
     Windows_KeypadStar, Windows_KeypadDash, Windows_KeypadPlus, Windows_KeypadEnter,
     Windows_Keypad1End, Windows_Keypad2DownArrow, Windows_Keypad3PageDn, Windows_Keypad4LeftArrow,
     Windows_Keypad5, Windows_Keypad6RightArrow, Windows_Keypad7Home, Windows_Keypad8UpArrow,
     Windows_Keypad9PageUp, Windows_Keypad0Insert, Windows_KeypadDot, Windows_KeyNonUSSlashBar,
     Windows_KeyApplication, Windows_KeypadEquals, Windows_KeyF13, Windows_KeyF14,
     Windows_KeyF15, Windows_KeyF16, Windows_KeyF17, Windows_KeyF18,
     Windows_KeyF19, Windows_KeyF20, Windows_KeyF21, Windows_KeyF22,
     Windows_KeyF23, Windows_KeyF24, Windows_KeypadComma, Windows_KeyInternational1,
     Windows_KeyInternational2, Windows_KeyInternational3, Windows_KeyInternational4, Windows_KeyInternational5,
     Windows_KeyLANG1, Windows_KeyLANG2, Windows_KeyLANG3, Windows_KeyLANG4,
     Windows_KeyLeftCtrl, Windows_KeyLeftShift, Windows_KeyLeftAlt, Windows_KeyLeftGUI,
     Windows_KeyRightCtrl, Windows_KeyRightShift, Windows_KeyFakeRightShift, Windows_KeyRightAlt,
     Windows_KeyRightGUI, Windows_KeyScanNextTrack, Windows_KeyScanPreviousTrack, Windows_KeyStop,
     Windows_KeyPlayPause, Windows_KeyMute, Windows_KeyVolumeUp, Windows_KeyVolumeDown,
     Windows_ALConsumerControlConfiguration, Windows_ALEmailReader, Windows_ALCalculator, Windows_ALLocalMachineBrowser,
     Windows_ACSearch, Windows_ACHome, Windows_ACBack, Windows_ACForward,
     Windows_ACStop, Windows_ACRefresh, Windows_ACBookmarks]"

definition Linux_variants_1 :: "Linux list" where
  "Linux_variants_1 =
    [Linux_KeyReserved, Linux_KeyEsc, Linux_Key1, Linux_Key2,
     Linux_Key3, Linux_Key4, Linux_Key5, Linux_Key6,
     Linux_Key7, Linux_Key8, Linux_Key9, Linux_Key0,
     Linux_KeyMinus, Linux_KeyEqual, Linux_KeyBackspace, Linux_KeyTab,
     Linux_KeyQ, Linux_KeyW, Linux_KeyE, Linux_KeyR,
     Linux_KeyT, Linux_KeyY, Linux_KeyU, Linux_KeyI,
     Linux_KeyO, Linux_KeyP, Linux_KeyLeftbrace, Linux_KeyRightbrace,
     Linux_KeyEnter, Linux_KeyLeftCtrl, Linux_KeyA, Linux_KeyS,
     Linux_KeyD, Linux_KeyF, Linux_KeyG, Linux_KeyH,
     Linux_KeyJ, Linux_KeyK, Linux_KeyL, Linux_KeySemicolon,
     Linux_KeyApostrophe, Linux_KeyGrave, Linux_KeyLeftShift, Linux_KeyBackslash,
     Linux_KeyZ, Linux_KeyX, Linux_KeyC, Linux_KeyV,
     Linux_KeyB, Linux_KeyN, Linux_KeyM, Linux_KeyComma,
     Linux_KeyDot, Linux_KeySlash, Linux_KeyRightShift, Linux_KeyKpAsterisk,
     Linux_KeyLeftAlt, Linux_KeySpace, Linux_KeyCapsLock, Linux_KeyF1,
     Linux_KeyF2, Linux_KeyF3, Linux_KeyF4, Linux_KeyF5,
     Linux_KeyF6, Linux_KeyF7, Linux_KeyF8, Linux_KeyF9,
     Linux_KeyF10, Linux_KeyNumlock, Linux_KeyScrollLock, Linux_KeyKp7,
     Linux_KeyKp8, Linux_KeyKp9, Linux_KeyKpMinus, Linux_KeyKp4,
     Linux_KeyKp5, Linux_KeyKp6, Linux_KeyKpplus, Linux_KeyKp1,
     Linux_KeyKp2, Linux_KeyKp3, Linux_KeyKp0, Linux_KeyKpDot,
     Linux_Invalid, Linux_KeyZenkakuhankaku, Linux_Key102nd, Linux_KeyF11,
     Linux_KeyF12, Linux_KeyRo, Linux_KeyKatakana, Linux_KeyHiragana,
     Linux_KeyHenkan, Linux_KeyKatakanahiragana, Linux_KeyMuhenkan, Linux_KeyKpJpComma,
     Linux_KeyKpEnter, Linux_KeyRightCtrl, Linux_KeyKpslash, Linux_KeySysrq,
     Linux_KeyRightalt, Linux_KeyLinefeed, Linux_KeyHome, Linux_KeyUp,
     Linux_KeyPageup, Linux_KeyLeft, Linux_KeyRight, Linux_KeyEnd,
     Linux_KeyDown, Linux_KeyPagedown, Linux_KeyInsert, Linux_KeyDelete,
     Linux_KeyMacro, Linux_KeyMute, Linux_KeyVolumeDown, Linux_KeyVolumeUp,
     Linux_KeyPower, Linux_KeyKpequal, Linux_KeyKpplusminus, Linux_KeyPause,
     Linux_KeyScale, Linux_KeyKpcomma, Linux_KeyHanguel, Linux_KeyHanja,
     Linux_KeyYen]"

definition Linux_variants_2 :: "Linux list" where
  "Linux_variants_2 =
    [Linux_KeyLeftMeta, Linux_KeyRightmeta, Linux_KeyCompose, Linux_KeyStop,
     Linux_KeyAgain, Linux_KeyProps, Linux_KeyUndo, Linux_KeyFront,
     Linux_KeyCopy, Linux_KeyOpen, Linux_KeyPaste, Linux_KeyFind,
     Linux_KeyCut, Linux_KeyHelp, Linux_KeyMenu, Linux_KeyCalc,
     Linux_KeySetup, Linux_KeySleep, Linux_KeyWakeup, Linux_KeyFile,
     Linux_KeySendfile, Linux_KeyDeletefile, Linux_KeyXfer, Linux_KeyProg1,
     Linux_KeyProg2, Linux_KeyWww, Linux_KeyMsdos, Linux_KeyCoffee,
     Linux_KeyRotateDisplay, Linux_KeyCyclewindows, Linux_KeyMail, Linux_KeyBookmarks,
     Linux_KeyComputer, Linux_KeyBack, Linux_KeyForward, Linux_KeyClosecd,
     Linux_KeyEjectcd, Linux_KeyEjectclosecd, Linux_KeyNextsong, Linux_KeyPlaypause,
     Linux_KeyPrevioussong, Linux_KeyStopcd, Linux_KeyRecord, Linux_KeyRewind,
     Linux_KeyPhone, Linux_KeyIso, Linux_KeyConfig, Linux_KeyHomepage,
     Linux_KeyRefresh, Linux_KeyExit, Linux_KeyMove, Linux_KeyEdit,
     Linux_KeyScrollup, Linux_KeyScrolldown, Linux_KeyKpleftparen, Linux_KeyKprightparen,
     Linux_KeyNew, Linux_KeyRedo, Linux_KeyF13, Linux_KeyF14,
     Linux_KeyF15, Linux_KeyF16, Linux_KeyF17, Linux_KeyF18,
     Linux_KeyF19, Linux_KeyF20, Linux_KeyF21, Linux_KeyF22,
     Linux_KeyF23, Linux_KeyF24, Linux_Invalid1, Linux_Invalid2,
     Linux_Invalid3, Linux_Invalid4, Linux_Invalid5, Linux_KeyPlaycd,
     Linux_KeyPausecd, Linux_KeyProg3, Linux_KeyProg4, Linux_KeyAllApplications,
     Linux_KeySuspend, Linux_KeyClose, Linux_KeyPlay, Linux_KeyFastforward,
     Linux_KeyBassboost, Linux_KeyPrint, Linux_KeyHp, Linux_KeyCamera,
     Linux_KeySound, Linux_KeyQuestion, Linux_KeyEmail, Linux_KeyChat,
     Linux_KeySearch, Linux_KeyConnect, Linux_KeyFinance, Linux_KeySport,
     Linux_KeyShop, Linux_KeyAlterase, Linux_KeyCancel, Linux_KeyBrightnessdown,
     Linux_KeyBrightnessup, Linux_KeyMedia, Linux_KeySwitchvideomode, Linux_KeyKbdillumtoggle,
     Linux_KeyKbdillumdown, Linux_KeyKbdillumup, Linux_KeySend, Linux_KeyReply,
     Linux_KeyForwardmail, Linux_KeySave, Linux_KeyDocuments, Linux_KeyBattery,
     Linux_KeyBluetooth, Linux_KeyWlan, Linux_KeyUwb, Linux_KeyUnknown,
     Linux_KeyVideoNext, Linux_KeyVideoPrev, Linux_KeyBrightnessCycle, Linux_KeyBrightnessAuto,
     Linux_KeyDisplayOff, Linux_KeyWwan, Linux_KeyRfkill, Linux_KeyMicmute,
     Linux_KeyCount]"

definition Windows_variants :: "Windows list" where
  "Windows_variants = Windows_variants_1 @ Windows_variants_2"

definition Linux_variants :: "Linux list" where
  "Linux_variants = Linux_variants_1 @ Linux_variants_2"

text \<open>\<^verbatim>\<open>TryFromPrimitive\<close>: a number is a variant when it is the discriminant of one.\<close>

definition Windows_try_from_primitive :: "u32 \<Rightarrow> Windows option" where
  "Windows_try_from_primitive n = find ((=) (uint n)) Windows_variants"

definition Linux_try_from_primitive :: "u32 \<Rightarrow> Linux option" where
  "Linux_try_from_primitive n = find ((=) (uint n)) Linux_variants"

section \<open>Conversions\<close>

text \<open>An arm \<^verbatim>\<open>=> Err(())\<close> is \<^const>\<open>None\<close>, an arm \<^verbatim>\<open>=> Ok(Self::K)\<close> is \<^const>\<open>Some\<close>.\<close>

definition Linux_arms_1 :: "(Linux \<times> Windows option) list" where
  "Linux_arms_1 =
    [(Linux_KeyReserved, None), (Linux_KeyEsc, Some Windows_KeyEsc),
     (Linux_Key1, Some Windows_Key1), (Linux_Key2, Some Windows_Key2),
     (Linux_Key3, Some Windows_Key3), (Linux_Key4, Some Windows_Key4),
     (Linux_Key5, Some Windows_Key5), (Linux_Key6, Some Windows_Key6),
     (Linux_Key7, Some Windows_Key7), (Linux_Key8, Some Windows_Key8),
     (Linux_Key9, Some Windows_Key9), (Linux_Key0, Some Windows_Key0),
     (Linux_KeyMinus, Some Windows_KeyMinus), (Linux_KeyEqual, Some Windows_KeyEqual),
     (Linux_KeyBackspace, Some Windows_KeyDelete), (Linux_KeyTab, Some Windows_KeyTab),
     (Linux_KeyQ, Some Windows_KeyQ), (Linux_KeyW, Some Windows_KeyW),
     (Linux_KeyE, Some Windows_KeyE), (Linux_KeyR, Some Windows_KeyR),
     (Linux_KeyT, Some Windows_KeyT), (Linux_KeyY, Some Windows_KeyY),
     (Linux_KeyU, Some Windows_KeyU), (Linux_KeyI, Some Windows_KeyI),
     (Linux_KeyO, Some Windows_KeyO), (Linux_KeyP, Some Windows_KeyP),
     (Linux_KeyLeftbrace, Some Windows_KeyLeftBrace), (Linux_KeyRightbrace, Some Windows_KeyRightBrace),
     (Linux_KeyEnter, Some Windows_KeyEnter), (Linux_KeyLeftCtrl, Some Windows_KeyLeftCtrl),
     (Linux_KeyA, Some Windows_KeyA), (Linux_KeyS, Some Windows_KeyS),
     (Linux_KeyD, Some Windows_KeyD), (Linux_KeyF, Some Windows_KeyF),
     (Linux_KeyG, Some Windows_KeyG), (Linux_KeyH, Some Windows_KeyH),
     (Linux_KeyJ, Some Windows_KeyJ), (Linux_KeyK, Some Windows_KeyK),
     (Linux_KeyL, Some Windows_KeyL), (Linux_KeySemicolon, Some Windows_KeySemiColon),
     (Linux_KeyApostrophe, Some Windows_KeyApostrophe), (Linux_KeyGrave, Some Windows_KeyGrave),
     (Linux_KeyLeftShift, Some Windows_KeyLeftShift), (Linux_KeyBackslash, Some Windows_KeyBackslash),
     (Linux_KeyZ, Some Windows_KeyZ), (Linux_KeyX, Some Windows_KeyX),
     (Linux_KeyC, Some Windows_KeyC), (Linux_KeyV, Some Windows_KeyV),
     (Linux_KeyB, Some Windows_KeyB), (Linux_KeyN, Some Windows_KeyN),
     (Linux_KeyM, Some Windows_KeyM), (Linux_KeyComma, Some Windows_KeyComma),
     (Linux_KeyDot, Some Windows_KeyDot), (Linux_KeySlash, Some Windows_KeySlash),
     (Linux_KeyRightShift, Some Windows_KeyRightShift), (Linux_KeyKpAsterisk, Some Windows_KeypadStar),
     (Linux_KeyLeftAlt, Some Windows_KeyLeftAlt), (Linux_KeySpace, Some Windows_KeySpace),
     (Linux_KeyCapsLock, Some Windows_KeyCapsLock), (Linux_KeyF1, Some Windows_KeyF1),
     (Linux_KeyF2, Some Windows_KeyF2), (Linux_KeyF3, Some Windows_KeyF3),
     (Linux_KeyF4, Some Windows_KeyF4), (Linux_KeyF5, Some Windows_KeyF5),
     (Linux_KeyF6, Some Windows_KeyF6), (Linux_KeyF7, Some Windows_KeyF7),
     (Linux_KeyF8, Some Windows_KeyF8), (Linux_KeyF9, Some Windows_KeyF9),
     (Linux_KeyF10, Some Windows_KeyF10), (Linux_KeyNumlock, Some Windows_KeypadNumLock),
     (Linux_KeyScrollLock, Some Windows_KeyScrollLock), (Linux_KeyKp7, Some Windows_Keypad7Home),
     (Linux_KeyKp8, Some Windows_Keypad8UpArrow), (Linux_KeyKp9, Some Windows_Keypad9PageUp),
     (Linux_KeyKpMinus, Some Windows_KeypadDash), (Linux_KeyKp4, Some Windows_Keypad4LeftArrow),
     (Linux_KeyKp5, Some Windows_Keypad5), (Linux_KeyKp6, Some Windows_Keypad6RightArrow),
     (Linux_KeyKpplus, Some Windows_KeypadPlus), (Linux_KeyKp1, Some Windows_Keypad1End),
     (Linux_KeyKp2, Some Windows_Keypad2DownArrow), (Linux_KeyKp3, Some Windows_Keypad3PageDn),
     (Linux_KeyKp0, Some Windows_Keypad0Insert), (Linux_KeyKpDot, Some Windows_KeypadDot),
     (Linux_KeyZenkakuhankaku, Some Windows_KeyF24), (Linux_Key102nd, Some Windows_KeyNonUSSlashBar),
     (Linux_KeyF11, Some Windows_KeyF11), (Linux_KeyF12, Some Windows_KeyF12),
     (Linux_KeyRo, Some Windows_KeyInternational1), (Linux_KeyKatakana, Some Windows_KeyLANG3),
     (Linux_KeyHiragana, Some Windows_KeyLANG4), (Linux_KeyHenkan, Some Windows_KeyInternational4),
     (Linux_KeyKatakanahiragana, Some Windows_KeyInternational2), (Linux_KeyMuhenkan, Some Windows_KeyInternational5),
     (Linux_KeyKpJpComma, Some Windows_KeypadComma), (Linux_KeyKpEnter, Some Windows_KeypadEnter),
     (Linux_KeyRightCtrl, Some Windows_KeyRightCtrl), (Linux_KeyKpslash, Some Windows_KeypadSlash),
     (Linux_KeySysrq, Some Windows_KeyPrintScreen), (Linux_KeyRightalt, Some Windows_KeyRightAlt),
     (Linux_KeyLinefeed, Some Windows_KeyEnter), (Linux_KeyHome, Some Windows_KeyHome),
     (Linux_KeyUp, Some Windows_KeyUp), (Linux_KeyPageup, Some Windows_KeyPageUp),
     (Linux_KeyLeft, Some Windows_KeyLeft), (Linux_KeyRight, Some Windows_KeyRight),
     (Linux_KeyEnd, Some Windows_KeyEnd), (Linux_KeyDown, Some Windows_KeyDown),
     (Linux_KeyPagedown, Some Windows_KeyPageDown), (Linux_KeyInsert, Some Windows_KeyInsert),
     (Linux_KeyDelete, Some Windows_KeyDeleteForward), (Linux_KeyMacro, None),
     (Linux_KeyMute, Some Windows_KeyMute), (Linux_KeyVolumeDown, Some Windows_KeyVolumeDown),
     (Linux_KeyVolumeUp, Some Windows_KeyVolumeUp), (Linux_KeyPower, Some Windows_Shutdown),
     (Linux_KeyKpequal, Some Windows_KeypadEquals), (Linux_KeyKpplusminus, Some Windows_KeypadPlus),
     (Linux_KeyPause, Some Windows_KeyPause), (Linux_KeyScale, None),
     (Linux_KeyKpcomma, Some Windows_KeypadComma), (Linux_KeyHanguel, Some Windows_KeyLANG1),
     (Linux_KeyHanja, Some Windows_KeyLANG2), (Linux_KeyYen, Some Windows_KeyInternational3),
     (Linux_KeyLeftMeta, Some Windows_KeyLeftGUI)]"

definition Linux_arms_2 :: "(Linux \<times> Windows option) list" where
  "Linux_arms_2 =
    [(Linux_KeyRightmeta, Some Windows_KeyRightGUI), (Linux_KeyCompose, Some Windows_KeyApplication),
     (Linux_KeyStop, Some Windows_ACStop), (Linux_KeyAgain, None),
     (Linux_KeyProps, None), (Linux_KeyUndo, None),
     (Linux_KeyFront, None), (Linux_KeyCopy, None),
     (Linux_KeyOpen, None), (Linux_KeyPaste, None),
     (Linux_KeyFind, Some Windows_ACSearch), (Linux_KeyCut, None),
     (Linux_KeyHelp, Some Windows_KeyF1), (Linux_KeyMenu, Some Windows_KeyApplication),
     (Linux_KeyCalc, Some Windows_ALCalculator), (Linux_KeySetup, None),
     (Linux_KeySleep, Some Windows_SystemSleep), (Linux_KeyWakeup, Some Windows_SystemWakeUp),
     (Linux_KeyFile, Some Windows_ALLocalMachineBrowser), (Linux_KeySendfile, None),
     (Linux_KeyDeletefile, None), (Linux_KeyXfer, None),
     (Linux_KeyProg1, None), (Linux_KeyProg2, None),
     (Linux_KeyWww, Some Windows_ACSearch), (Linux_KeyMsdos, None),
     (Linux_KeyCoffee, None), (Linux_KeyRotateDisplay, None),
     (Linux_KeyCyclewindows, None), (Linux_KeyMail, Some Windows_ALEmailReader),
     (Linux_KeyBookmarks, Some Windows_ACBookmarks), (Linux_KeyComputer, Some Windows_ACHome),
     (Linux_KeyBack, Some Windows_ACBack), (Linux_KeyForward, Some Windows_ACForward),
     (Linux_KeyClosecd, None), (Linux_KeyEjectcd, None),
     (Linux_KeyEjectclosecd, None), (Linux_KeyNextsong, Some Windows_KeyScanNextTrack),
     (Linux_KeyPlaypause, Some Windows_KeyPlayPause), (Linux_KeyPrevioussong, Some Windows_KeyScanPreviousTrack),
     (Linux_KeyStopcd, Some Windows_KeyStop), (Linux_KeyRecord, None),
     (Linux_KeyRewind, None), (Linux_KeyPhone, None),
     (Linux_KeyIso, None), (Linux_KeyConfig, None),
     (Linux_KeyHomepage, Some Windows_ACHome), (Linux_KeyRefresh, Some Windows_ACRefresh),
     (Linux_KeyExit, None), (Linux_KeyMove, None),
     (Linux_KeyEdit, None), (Linux_KeyScrollup, None),
     (Linux_KeyScrolldown, None), (Linux_KeyKpleftparen, None),
     (Linux_KeyKprightparen, None), (Linux_KeyNew, None),
     (Linux_KeyRedo, None), (Linux_KeyF13, Some Windows_KeyF13),
     (Linux_KeyF14, Some Windows_KeyF14), (Linux_KeyF15, Some Windows_KeyF15),
     (Linux_KeyF16, Some Windows_KeyF16), (Linux_KeyF17, Some Windows_KeyF17),
     (Linux_KeyF18, Some Windows_KeyF18), (Linux_KeyF19, Some Windows_KeyF19),
     (Linux_KeyF20, Some Windows_KeyF20), (Linux_KeyF21, Some Windows_KeyF21),
     (Linux_KeyF22, Some Windows_KeyF22), (Linux_KeyF23, Some Windows_KeyF23),
     (Linux_KeyF24, Some Windows_KeyF24), (Linux_KeyPlaycd, None),
     (Linux_KeyPausecd, None), (Linux_KeyProg3, None),
     (Linux_KeyProg4, None), (Linux_KeyAllApplications, None),
     (Linux_KeySuspend, None), (Linux_KeyClose, None),
     (Linux_KeyPlay, None), (Linux_KeyFastforward, None),
     (Linux_KeyBassboost, None), (Linux_KeyPrint, None),
     (Linux_KeyHp, None), (Linux_KeyCamera, None),
     (Linux_KeySound, None), (Linux_KeyQuestion, None),
     (Linux_KeyEmail, None), (Linux_KeyChat, None),
     (Linux_KeySearch, None), (Linux_KeyConnect, None),
     (Linux_KeyFinance, None), (Linux_KeySport, None),
     (Linux_KeyShop, None), (Linux_KeyAlterase, None),
     (Linux_KeyCancel, None), (Linux_KeyBrightnessdown, None),
     (Linux_KeyBrightnessup, None), (Linux_KeyMedia, None),
     (Linux_KeySwitchvideomode, None), (Linux_KeyKbdillumtoggle, None),
     (Linux_KeyKbdillumdown, None), (Linux_KeyKbdillumup, None),
     (Linux_KeySend, None), (Linux_KeyReply, None),
     (Linux_KeyForwardmail, None), (Linux_KeySave, None),
     (Linux_KeyDocuments, None), (Linux_KeyBattery, None),
     (Linux_KeyBluetooth, None), (Linux_KeyWlan, None),
     (Linux_KeyUwb, None), (Linux_KeyUnknown, None),
     (Linux_KeyVideoNext, None), (Linux_KeyVideoPrev, None),
     (Linux_KeyBrightnessCycle, None), (Linux_KeyBrightnessAuto, None),
     (Linux_KeyDisplayOff, None), (Linux_KeyWwan, None),
     (Linux_KeyRfkill, None), (Linux_KeyMicmute, None),
     (Linux_KeyCount, None), (Linux_Invalid, None),
     (Linux_Invalid1, None), (Linux_Invalid2, None),
     (Linux_Invalid3, None), (Linux_Invalid4, None),
     (Linux_Invalid5, None)]"

definition Windows_arms :: "(Windows \<times> Linux option) list" where
  "Windows_arms =
    [(Windows_Shutdown, Some Linux_KeyPower), (Windows_SystemSleep, Some Linux_KeySleep),
     (Windows_SystemWakeUp, Some Linux_KeyWakeup), (Windows_ErrorRollOver, Some Linux_KeyRo),
     (Windows_KeyA, Some Linux_KeyA), (Windows_KeyB, Some Linux_KeyB),
     (Windows_KeyC, Some Linux_KeyC), (Windows_KeyD, Some Linux_KeyD),
     (Windows_KeyE, Some Linux_KeyE), (Windows_KeyF, Some Linux_KeyF),
     (Windows_KeyG, Some Linux_KeyG), (Windows_KeyH, Some Linux_KeyH),
     (Windows_KeyI, Some Linux_KeyI), (Windows_KeyJ, Some Linux_KeyJ),
     (Windows_KeyK, Some Linux_KeyK), (Windows_KeyL, Some Linux_KeyL),
     (Windows_KeyM, Some Linux_KeyM), (Windows_KeyN, Some Linux_KeyN),
     (Windows_KeyO, Some Linux_KeyO), (Windows_KeyP, Some Linux_KeyP),
     (Windows_KeyQ, Some Linux_KeyQ), (Windows_KeyR, Some Linux_KeyR),
     (Windows_KeyS, Some Linux_KeyS), (Windows_KeyT, Some Linux_KeyT),
     (Windows_KeyU, Some Linux_KeyU), (Windows_KeyV, Some Linux_KeyV),
     (Windows_KeyW, Some Linux_KeyW), (Windows_KeyX, Some Linux_KeyX),
     (Windows_KeyY, Some Linux_KeyY), (Windows_KeyZ, Some Linux_KeyZ),
     (Windows_Key1, Some Linux_Key1), (Windows_Key2, Some Linux_Key2),
     (Windows_Key3, Some Linux_Key3), (Windows_Key4, Some Linux_Key4),
     (Windows_Key5, Some Linux_Key5), (Windows_Key6, Some Linux_Key6),
     (Windows_Key7, Some Linux_Key7), (Windows_Key8, Some Linux_Key8),
     (Windows_Key9, Some Linux_Key9), (Windows_Key0, Some Linux_Key0),
     (Windows_KeyEnter, Some Linux_KeyEnter), (Windows_KeyEsc, Some Linux_KeyEsc),
     (Windows_KeyDelete, Some Linux_KeyBackspace), (Windows_KeyTab, Some Linux_KeyTab),
     (Windows_KeySpace, Some Linux_KeySpace), (Windows_KeyMinus, Some Linux_KeyMinus),
     (Windows_KeyEqual, Some Linux_KeyEqual), (Windows_KeyLeftBrace, Some Linux_KeyLeftbrace),
     (Windows_KeyRightBrace, Some Linux_KeyRightbrace), (Windows_KeyBackslash, Some Linux_KeyBackslash),
     (Windows_KeySemiColon, Some Linux_KeySemicolon), (Windows_KeyApostrophe, Some Linux_KeyApostrophe),
     (Windows_KeyGrave, Some Linux_KeyGrave), (Windows_KeyComma, Some Linux_KeyComma),
     (Windows_KeyDot, Some Linux_KeyDot), (Windows_KeySlash, Some Linux_KeySlash),
     (Windows_KeyCapsLock, Some Linux_KeyCapsLock), (Windows_KeyF1, Some Linux_KeyF1),
     (Windows_KeyF2, Some Linux_KeyF2), (Windows_KeyF3, Some Linux_KeyF3),
     (Windows_KeyF4, Some Linux_KeyF4), (Windows_KeyF5, Some Linux_KeyF5),
     (Windows_KeyF6, Some Linux_KeyF6), (Windows_KeyF7, Some Linux_KeyF7),
     (Windows_KeyF8, Some Linux_KeyF8), (Windows_KeyF9, Some Linux_KeyF9),
     (Windows_KeyF10, Some Linux_KeyF10), (Windows_KeyF11, Some Linux_KeyF11),
     (Windows_KeyF12, Some Linux_KeyF12), (Windows_KeyPrintScreen, Some Linux_KeySysrq),
     (Windows_KeyScrollLock, Some Linux_KeyScrollLock), (Windows_KeyPause, Some Linux_KeyPause),
     (Windows_KeyInsert, Some Linux_KeyInsert), (Windows_KeyHome, Some Linux_KeyHome),
     (Windows_KeyPageUp, Some Linux_KeyPageup), (Windows_KeyDeleteForward, Some Linux_KeyDelete),
     (Windows_KeyEnd, Some Linux_KeyEnd), (Windows_KeyPageDown, Some Linux_KeyPagedown),
     (Windows_KeyRight, Some Linux_KeyRight), (Windows_KeyLeft, Some Linux_KeyLeft),
     (Windows_KeyDown, Some Linux_KeyDown), (Windows_KeyUp, Some Linux_KeyUp),
     (Windows_KeypadNumLock, Some Linux_KeyNumlock), (Windows_KeypadSlash, Some Linux_KeyKpslash),
     (Windows_KeypadStar, Some Linux_KeyKpAsterisk), (Windows_KeypadDash, Some Linux_KeyKpMinus),
     (Windows_KeypadPlus, Some Linux_KeyKpplus), (Windows_KeypadEnter, Some Linux_KeyKpEnter),
     (Windows_Keypad1End, Some Linux_KeyKp1), (Windows_Keypad2DownArrow, Some Linux_KeyKp2),
     (Windows_Keypad3PageDn, Some Linux_KeyKp3), (Windows_Keypad4LeftArrow, Some Linux_KeyKp4),
     (Windows_Keypad5, Some Linux_KeyKp5), (Windows_Keypad6RightArrow, Some Linux_KeyKp6),
     (Windows_Keypad7Home, Some Linux_KeyKp7), (Windows_Keypad8UpArrow, Some Linux_KeyKp8),
     (Windows_Keypad9PageUp, Some Linux_KeyKp9), (Windows_Keypad0Insert, Some Linux_KeyKp0),
     (Windows_KeypadDot, Some Linux_KeyKpDot), (Windows_KeyNonUSSlashBar, Some Linux_Key102nd),
     (Windows_KeyApplication, Some Linux_KeyMenu), (Windows_KeypadEquals, Some Linux_KeyKpequal),
     (Windows_KeyF13, Some Linux_KeyF13), (Windows_KeyF14, Some Linux_KeyF14),
     (Windows_KeyF15, Some Linux_KeyF15), (Windows_KeyF16, Some Linux_KeyF16),
     (Windows_KeyF17, Some Linux_KeyF17), (Windows_KeyF18, Some Linux_KeyF18),
     (Windows_KeyF19, Some Linux_KeyF19), (Windows_KeyF20, Some Linux_KeyF20),
     (Windows_KeyF21, Some Linux_KeyF21), (Windows_KeyF22, Some Linux_KeyF22),
     (Windows_KeyF23, Some Linux_KeyF23), (Windows_KeyF24, Some Linux_KeyF24),
     (Windows_KeypadComma, Some Linux_KeyKpcomma), (Windows_KeyInternational1, Some Linux_KeyRo),
     (Windows_KeyInternational2, Some Linux_KeyKatakanahiragana), (Windows_KeyInternational3, Some Linux_KeyYen),
     (Windows_KeyInternational4, Some Linux_KeyHenkan), (Windows_KeyInternational5, Some Linux_KeyMuhenkan),
     (Windows_KeyLANG1, Some Linux_KeyHanguel), (Windows_KeyLANG2, Some Linux_KeyHanja),
     (Windows_KeyLANG3, Some Linux_KeyKatakana), (Windows_KeyLANG4, Some Linux_KeyHiragana),
     (Windows_KeyLeftCtrl, Some Linux_KeyLeftCtrl), (Windows_KeyLeftShift, Some Linux_KeyLeftShift),
     (Windows_KeyLeftAlt, Some Linux_KeyLeftAlt), (Windows_KeyLeftGUI, Some Linux_KeyLeftMeta),
     (Windows_KeyRightCtrl, Some Linux_KeyRightCtrl), (Windows_KeyRightShift, Some Linux_KeyRightShift),
     (Windows_KeyFakeRightShift, Some Linux_KeyRightShift), (Windows_KeyRightAlt, Some Linux_KeyRightalt),
     (Windows_KeyRightGUI, Some Linux_KeyRightmeta), (Windows_KeyScanNextTrack, Some Linux_KeyNextsong),
     (Windows_KeyScanPreviousTrack, Some Linux_KeyPrevioussong), (Windows_KeyStop, Some Linux_KeyStopcd),
     (Windows_KeyPlayPause, Some Linux_KeyPlaypause), (Windows_KeyMute, Some Linux_KeyMute),
     (Windows_KeyVolumeUp, Some Linux_KeyVolumeUp), (Windows_KeyVolumeDown, Some Linux_KeyVolumeDown),
     (Windows_ALConsumerControlConfiguration, None), (Windows_ALEmailReader, Some Linux_KeyMail),
     (Windows_ALCalculator, Some Linux_KeyCalc), (Windows_ALLocalMachineBrowser, Some Linux_KeyFile),
     (Windows_ACSearch, Some Linux_KeyWww), (Windows_ACHome, Some Linux_KeyHomepage),
     (Windows_ACBack, Some Linux_KeyBack), (Windows_ACForward, Some Linux_KeyForward),
     (Windows_ACStop, Some Linux_KeyStop), (Windows_ACRefresh, Some Linux_KeyRefresh),
     (Windows_ACBookmarks, Some Linux_KeyBookmarks)]"



section \<open>Lookups as relations\<close>



lemmas scancode_tables =
  Windows_variants_def Windows_variants_1_def Windows_variants_2_def
  Linux_variants_def Linux_variants_1_def Linux_variants_2_def
  Windows_arms_def Linux_arms_1_def Linux_arms_2_def



lemma Linux_arms_keys: "distinct (map fst (Linux_arms_1 @ Linux_arms_2))"
  by (simp add: scancode_tables)

lemma Linux_variants_upto: "Linux_variants = [0..249]"
  by code_simp

lemma Linux_arms_complete: "set (map fst (Linux_arms_1 @ Linux_arms_2)) = set Linux_variants"
proof -
  define K where "K = map fst (Linux_arms_1 @ Linux_arms_2)"
  have len: "length K = 250" and range: "list_all (\<lambda>k. 0 \<le> k \<and> k \<le> 249) K"
    by (simp_all add: K_def scancode_tables)
  have "card (set K) = 250"
    using distinct_card [of K] Linux_arms_keys len by (simp only: K_def)
  moreover have "set K \<subseteq> {0..249}"
    using range by (auto simp: list_all_iff)
  ultimately show ?thesis
    using card_subset_eq [of "{0..249 :: int}" "set K"]
    unfolding K_def [symmetric] by (simp add: Linux_variants_upto)
qed








section \<open>Round trips\<close>

lemma linux_key_codes:
  "Linux_try_from_primitive n = (if uint n < 250 then Some (uint n) else None)"
proof (cases "uint n < 250")
  case True
  have "find ((=) (uint n)) [0..249] \<noteq> None"
    using True by (auto simp: find_None_iff)
  then obtain k where k: "find ((=) (uint n)) [0..249] = Some k" by blast
  then have "k = uint n" by (auto simp: find_Some_iff)
  with k True show ?thesis by (simp add: Linux_try_from_primitive_def Linux_variants_upto)
next
  case False
  then show ?thesis
    by (auto simp: Linux_try_from_primitive_def Linux_variants_upto find_None_iff)
qed





end
