(* ===== verification/Input_Event.thy ===== *)
theory Input_Event
  imports DM_Prelude
begin

text \<open>
  Keyboard and pointer events, \<^verbatim>\<open>input-event/src/lib.rs\<close>. A floating-point number is its 64-bit
  pattern; none of the modelled code looks into it.
\<close>

type_synonym f64 = "64 word"
type_synonym i32 = "32 word"

datatype PointerEvent =
    Motion (pm_time: u32) (pm_dx: f64) (pm_dy: f64)
  | Button (pb_time: u32) (pb_button: u32) (pb_state: u32)
  | Axis (pa_time: u32) (pa_axis: u8) (pa_value: f64)
  | AxisDiscrete120 (pd_axis: u8) (pd_value: i32)

datatype KeyboardEvent =
    Key (kk_time: u32) (kk_key: u32) (kk_state: u8)
  | Modifiers (km_depressed: u32) (km_latched: u32) (km_locked: u32) (km_group: u32)

datatype InputEvent = Pointer PointerEvent | Keyboard KeyboardEvent

end
