(* ===== verification/Wire_Bytes.thy ===== *)
theory Wire_Bytes
  imports DM_Prelude
begin

text \<open>
  Big-endian integers on the wire, \<^verbatim>\<open>to_be_bytes\<close> and \<^verbatim>\<open>from_be_bytes\<close> of the standard library, and
  the contract of a fixed-width codec with the sequential readers that use it.
\<close>

section \<open>Big-endian numbers\<close>

primrec be_bytes :: "nat \<Rightarrow> nat \<Rightarrow> u8 list" where
  "be_bytes 0 v = []"
| "be_bytes (Suc n) v = be_bytes n (v div 256) @ [of_nat (v mod 256)]"

definition be_value :: "u8 list \<Rightarrow> nat" where
  "be_value bs = foldl (\<lambda>a b. a * 256 + unat b) 0 bs"

lemma be_value_simps [simp]:
  "be_value [] = 0"
  "be_value (bs @ [b]) = be_value bs * 256 + unat b"
  by (simp_all add: be_value_def)

lemma length_be_bytes [simp]: "length (be_bytes n v) = n"
  by (induction n arbitrary: v) simp_all

lemma unat_byte: "unat (of_nat (v mod 256) :: u8) = v mod 256"
  by (simp add: unat_of_nat)

lemma be_value_be_bytes: "be_value (be_bytes n v) = v mod 256 ^ n"
proof (induction n arbitrary: v)
  case (Suc n)
  have "v mod 256 ^ Suc n = 256 * (v div 256 mod 256 ^ n) + v mod 256"
    by (simp add: mod_mult2_eq)
  then show ?case using Suc by (simp add: unat_byte)
qed simp

lemma be_value_less: "be_value bs < 256 ^ length bs"
proof (induction bs rule: rev_induct)
  case (snoc b bs)
  have "unat b < 256" using unsigned_less [of b, where ?'a = nat] by simp
  moreover have "be_value bs * 256 + 256 \<le> 256 ^ length bs * 256"
    using snoc by (metis Suc_leI mult.commute mult_Suc_right add.commute mult_le_mono2)
  ultimately show ?case by (simp add: mult.commute)
qed simp

lemma be_bytes_be_value: "be_bytes (length bs) (be_value bs) = bs"
proof (induction bs rule: rev_induct)
  case (snoc b bs)
  have b: "unat b < 256" using unsigned_less [of b, where ?'a = nat] by simp
  have "(be_value bs * 256 + unat b) div 256 = be_value bs" using b by simp
  moreover have "(be_value bs * 256 + unat b) mod 256 = unat b" using b by simp
  ultimately show ?case using snoc by simp
qed simp

section \<open>Fixed-width codecs\<close>

text \<open>
  The contract of \<^verbatim>\<open>to_be_bytes\<close> and \<^verbatim>\<open>from_be_bytes\<close> of one integer type: encodings have a fixed
  width and the two functions are inverse on values and on byte strings of that width.
\<close>

locale fixed_codec =
  fixes width :: nat
    and enc :: "'a \<Rightarrow> u8 list"
    and dec :: "u8 list \<Rightarrow> 'a"
  assumes enc_width: "length (enc x) = width"
    and dec_enc: "dec (enc x) = x"
    and enc_dec: "length bs = width \<Longrightarrow> enc (dec bs) = bs"
begin

lemma enc_inj: "enc x = enc y \<longleftrightarrow> x = y"
  by (metis dec_enc)

lemma take_enc: "take width (enc x @ rest) = enc x" "drop width (enc x @ rest) = rest"
  by (simp_all add: enc_width)

lemma dec_take_enc: "dec (take width (enc x @ rest)) = x"
  by (simp only: take_enc dec_enc)

lemma split_enc: "width \<le> length bs \<Longrightarrow> bs = enc (dec (take width bs)) @ drop width bs"
  by (simp add: enc_dec)

lemma append_inj: "enc x @ xs = enc y @ ys \<longleftrightarrow> x = y \<and> xs = ys"
  using take_enc enc_inj by metis

end

definition word_to_be :: "nat \<Rightarrow> 'a::len word \<Rightarrow> u8 list" where
  "word_to_be n w = be_bytes n (unat w)"

definition word_of_be :: "u8 list \<Rightarrow> 'a::len word" where
  "word_of_be bs = of_nat (be_value bs)"

lemma word_codec:
  assumes "LENGTH('a::len) = 8 * n"
  shows "fixed_codec n (word_to_be n :: 'a word \<Rightarrow> u8 list) word_of_be"
proof
  have pow: "256 ^ n = (2 :: nat) ^ LENGTH('a)"
    by (simp add: assms power_mult)
  fix w :: "'a word" and bs :: "u8 list"
  show "length (word_to_be n w) = n" by (simp add: word_to_be_def)
  have "unat w < 256 ^ n" using unsigned_less [of w, where ?'a = nat] by (simp add: pow)
  then show "word_of_be (word_to_be n w) = w"
    by (simp add: word_to_be_def word_of_be_def be_value_be_bytes)
  assume "length bs = n"
  then show "word_to_be n (word_of_be bs :: 'a word) = bs"
    using be_value_less [of bs] be_bytes_be_value [of bs]
    by (simp add: word_to_be_def word_of_be_def unat_of_nat pow)
qed

abbreviation u8_to_be :: "u8 \<Rightarrow> u8 list" where "u8_to_be \<equiv> word_to_be 1"
abbreviation u16_to_be :: "u16 \<Rightarrow> u8 list" where "u16_to_be \<equiv> word_to_be 2"
abbreviation u32_to_be :: "u32 \<Rightarrow> u8 list" where "u32_to_be \<equiv> word_to_be 4"
abbreviation u64_to_be :: "u64 \<Rightarrow> u8 list" where "u64_to_be \<equiv> word_to_be 8"
abbreviation u128_to_be :: "u128 \<Rightarrow> u8 list" where "u128_to_be \<equiv> word_to_be 16"

interpretation u8_codec: fixed_codec 1 u8_to_be word_of_be
  by (rule word_codec) simp

interpretation u16_codec: fixed_codec 2 u16_to_be word_of_be
  by (rule word_codec) simp

interpretation u32_codec: fixed_codec 4 u32_to_be word_of_be
  by (rule word_codec) simp

interpretation u64_codec: fixed_codec 8 u64_to_be word_of_be
  by (rule word_codec) simp

interpretation u128_codec: fixed_codec 16 u128_to_be word_of_be
  by (rule word_codec) simp

lemma word_to_be_1 [simp]: "word_to_be (Suc 0) (b :: u8) = [b]"
proof -
  have "unat b mod 256 = unat b" using unsigned_less [of b, where ?'a = nat] by simp
  then show ?thesis by (simp add: word_to_be_def)
qed

lemma length_word_to_be [simp]: "length (word_to_be n w) = n"
  by (simp add: word_to_be_def)

end
