(* ===== verification/Input_Proto.thy ===== *)
theory Input_Proto
  imports Input_Event Wire_Bytes "HOL-Library.Monad_Syntax"
begin

text \<open>
  The datagram format of \<^verbatim>\<open>lan-mouse-proto/src/lib.rs\<close>: every event is written into a zeroed
  buffer of fixed size and read back by its leading tag. Slices that are too short panic in
  \<^verbatim>\<open>split_at\<close>, so both directions can panic in the model.
\<close>

section \<open>Protocol events\<close>

datatype Position = Left | Right | Top | Bottom

datatype ProtoEvent =
    Enter Position
  | Leave u32
  | Ack u32
  | Input InputEvent
  | Ping
  | Pong bool
  | Hello "u8 list"
  | Readiness bool bool u64
  | ReleaseRequest u64
  | ReleaseAck u64

datatype EventType =
    ET_PointerMotion | ET_PointerButton | ET_PointerAxis | ET_PointerAxisValue120 | ET_KeyboardKey
  | ET_KeyboardModifiers | ET_Ping | ET_Pong | ET_Enter | ET_Leave | ET_Ack | ET_Hello
  | ET_Readiness | ET_ReleaseRequest | ET_ReleaseAck

datatype ProtocolError = InvalidEventId u8 | InvalidPosition u8

definition MAX_EVENT_SIZE :: nat where
  "MAX_EVENT_SIZE = 1 + 4 + 2 * 8"

text \<open>\<^verbatim>\<open>commit: [u8; 8]\<close> has exactly eight bytes.\<close>

definition ProtoEvent_wf :: "ProtoEvent \<Rightarrow> bool" where
  "ProtoEvent_wf e \<longleftrightarrow> (case e of Hello c \<Rightarrow> length c = 8 | _ \<Rightarrow> True)"

section \<open>Discriminants\<close>

text \<open>Both enumerations are \<^verbatim>\<open>repr(u8)\<close> and numbered from zero in the order of their variants.\<close>

definition EventType_variants :: "EventType list" where
  "EventType_variants =
     [ET_PointerMotion, ET_PointerButton, ET_PointerAxis, ET_PointerAxisValue120, ET_KeyboardKey,
      ET_KeyboardModifiers, ET_Ping, ET_Pong, ET_Enter, ET_Leave, ET_Ack, ET_Hello, ET_Readiness,
      ET_ReleaseRequest, ET_ReleaseAck]"

definition EventType_try_from :: "u8 \<Rightarrow> (ProtocolError, EventType) outcome" where
  "EventType_try_from n =
     (if unat n < length EventType_variants then Ok (EventType_variants ! unat n)
      else Err (InvalidEventId n))"

fun EventType_as_u8 :: "EventType \<Rightarrow> u8" where
  "EventType_as_u8 ET_PointerMotion = 0"
| "EventType_as_u8 ET_PointerButton = 1"
| "EventType_as_u8 ET_PointerAxis = 2"
| "EventType_as_u8 ET_PointerAxisValue120 = 3"
| "EventType_as_u8 ET_KeyboardKey = 4"
| "EventType_as_u8 ET_KeyboardModifiers = 5"
| "EventType_as_u8 ET_Ping = 6"
| "EventType_as_u8 ET_Pong = 7"
| "EventType_as_u8 ET_Enter = 8"
| "EventType_as_u8 ET_Leave = 9"
| "EventType_as_u8 ET_Ack = 10"
| "EventType_as_u8 ET_Hello = 11"
| "EventType_as_u8 ET_Readiness = 12"
| "EventType_as_u8 ET_ReleaseRequest = 13"
| "EventType_as_u8 ET_ReleaseAck = 14"

definition Position_variants :: "Position list" where
  "Position_variants = [Left, Right, Top, Bottom]"

definition Position_try_from :: "u8 \<Rightarrow> (ProtocolError, Position) outcome" where
  "Position_try_from n =
     (if unat n < length Position_variants then Ok (Position_variants ! unat n)
      else Err (InvalidPosition n))"

fun Position_as_u8 :: "Position \<Rightarrow> u8" where
  "Position_as_u8 Left = 0"
| "Position_as_u8 Right = 1"
| "Position_as_u8 Top = 2"
| "Position_as_u8 Bottom = 3"

definition bool_as_u8 :: "bool \<Rightarrow> u8" where
  "bool_as_u8 b = (if b then 1 else 0)"

fun event_type :: "ProtoEvent \<Rightarrow> EventType" where
  "event_type (Input (Pointer (Motion t dx dy))) = ET_PointerMotion"
| "event_type (Input (Pointer (Button t b s))) = ET_PointerButton"
| "event_type (Input (Pointer (Axis t a v))) = ET_PointerAxis"
| "event_type (Input (Pointer (AxisDiscrete120 a v))) = ET_PointerAxisValue120"
| "event_type (Input (Keyboard (Key t k s))) = ET_KeyboardKey"
| "event_type (Input (Keyboard (Modifiers d lt lk g))) = ET_KeyboardModifiers"
| "event_type Ping = ET_Ping"
| "event_type (Pong b) = ET_Pong"
| "event_type (Enter p) = ET_Enter"
| "event_type (Leave s) = ET_Leave"
| "event_type (Ack s) = ET_Ack"
| "event_type (Hello c) = ET_Hello"
| "event_type (Readiness k p e) = ET_Readiness"
| "event_type (ReleaseRequest e) = ET_ReleaseRequest"
| "event_type (ReleaseAck e) = ET_ReleaseAck"

section \<open>Reading\<close>

text \<open>A reader consumes the front of the slice; \<^verbatim>\<open>split_at\<close> panics beyond its end.\<close>

definition split_at :: "nat \<Rightarrow> u8 list \<Rightarrow> ('e, u8 list \<times> u8 list) outcome" where
  "split_at n data = (if n \<le> length data then Ok (take n data, drop n data) else Panic)"

definition decode_word :: "nat \<Rightarrow> u8 list \<Rightarrow> ('e, 'a::len word \<times> u8 list) outcome" where
  "decode_word n data =
     and_then (split_at n data) (\<lambda>(int_bytes, rest). Ok (word_of_be int_bytes, rest))"

definition decode_u8 :: "u8 list \<Rightarrow> (ProtocolError, u8 \<times> u8 list) outcome" where
  "decode_u8 = decode_word 1"

definition decode_u32 :: "u8 list \<Rightarrow> (ProtocolError, u32 \<times> u8 list) outcome" where
  "decode_u32 = decode_word 4"

definition decode_u64 :: "u8 list \<Rightarrow> (ProtocolError, u64 \<times> u8 list) outcome" where
  "decode_u64 = decode_word 8"

definition decode_i32 :: "u8 list \<Rightarrow> (ProtocolError, i32 \<times> u8 list) outcome" where
  "decode_i32 = decode_word 4"

definition decode_f64 :: "u8 list \<Rightarrow> (ProtocolError, f64 \<times> u8 list) outcome" where
  "decode_f64 = decode_word 8"

text \<open>\<^verbatim>\<open>for b in commit.iter_mut()\<close>: one byte per element.\<close>

primrec decode_commit :: "nat \<Rightarrow> u8 list \<Rightarrow> (ProtocolError, u8 list \<times> u8 list) outcome" where
  "decode_commit 0 data = Ok ([], data)"
| "decode_commit (Suc n) data =
     and_then (decode_u8 data) (\<lambda>(b, data).
     and_then (decode_commit n data) (\<lambda>(bs, data). Ok (b # bs, data)))"

fun decode_payload :: "EventType \<Rightarrow> u8 list \<Rightarrow> (ProtocolError, ProtoEvent) outcome" where
  "decode_payload ET_PointerMotion buf =
     and_then (decode_u32 buf) (\<lambda>(t, buf). and_then (decode_f64 buf) (\<lambda>(dx, buf).
     and_then (decode_f64 buf) (\<lambda>(dy, buf). Ok (Input (Pointer (Motion t dx dy))))))"
| "decode_payload ET_PointerButton buf =
     and_then (decode_u32 buf) (\<lambda>(t, buf). and_then (decode_u32 buf) (\<lambda>(b, buf).
     and_then (decode_u32 buf) (\<lambda>(s, buf). Ok (Input (Pointer (Button t b s))))))"
| "decode_payload ET_PointerAxis buf =
     and_then (decode_u32 buf) (\<lambda>(t, buf). and_then (decode_u8 buf) (\<lambda>(a, buf).
     and_then (decode_f64 buf) (\<lambda>(v, buf). Ok (Input (Pointer (Axis t a v))))))"
| "decode_payload ET_PointerAxisValue120 buf =
     and_then (decode_u8 buf) (\<lambda>(a, buf). and_then (decode_i32 buf) (\<lambda>(v, buf).
     Ok (Input (Pointer (AxisDiscrete120 a v)))))"
| "decode_payload ET_KeyboardKey buf =
     and_then (decode_u32 buf) (\<lambda>(t, buf). and_then (decode_u32 buf) (\<lambda>(k, buf).
     and_then (decode_u8 buf) (\<lambda>(s, buf). Ok (Input (Keyboard (Key t k s))))))"
| "decode_payload ET_KeyboardModifiers buf =
     and_then (decode_u32 buf) (\<lambda>(d, buf). and_then (decode_u32 buf) (\<lambda>(lt, buf).
     and_then (decode_u32 buf) (\<lambda>(lk, buf). and_then (decode_u32 buf) (\<lambda>(g, buf).
     Ok (Input (Keyboard (Modifiers d lt lk g)))))))"
| "decode_payload ET_Ping buf = Ok Ping"
| "decode_payload ET_Pong buf = and_then (decode_u8 buf) (\<lambda>(b, buf). Ok (Pong (b \<noteq> 0)))"
| "decode_payload ET_Enter buf =
     and_then (decode_u8 buf) (\<lambda>(p, buf). and_then (Position_try_from p) (\<lambda>p. Ok (Enter p)))"
| "decode_payload ET_Leave buf = and_then (decode_u32 buf) (\<lambda>(s, buf). Ok (Leave s))"
| "decode_payload ET_Ack buf = and_then (decode_u32 buf) (\<lambda>(s, buf). Ok (Ack s))"
| "decode_payload ET_Hello buf = and_then (decode_commit 8 buf) (\<lambda>(c, buf). Ok (Hello c))"
| "decode_payload ET_Readiness buf =
     and_then (decode_u8 buf) (\<lambda>(k, buf). and_then (decode_u8 buf) (\<lambda>(p, buf).
     and_then (decode_u64 buf) (\<lambda>(e, buf). Ok (Readiness (k \<noteq> 0) (p \<noteq> 0) e))))"
| "decode_payload ET_ReleaseRequest buf = and_then (decode_u64 buf) (\<lambda>(e, buf). Ok (ReleaseRequest e))"
| "decode_payload ET_ReleaseAck buf = and_then (decode_u64 buf) (\<lambda>(e, buf). Ok (ReleaseAck e))"

definition ProtoEvent_try_from :: "u8 list \<Rightarrow> (ProtocolError, ProtoEvent) outcome" where
  "ProtoEvent_try_from buf =
     and_then (decode_u8 buf) (\<lambda>(t, buf).
     and_then (EventType_try_from t) (\<lambda>t. decode_payload t buf))"

section \<open>Writing\<close>

text \<open>
  The writer: the bytes written so far, the rest of the slice and the running length. \<^const>\<open>None\<close> is
  the panic of \<^verbatim>\<open>split_at_mut\<close>.
\<close>

record Writer =
  w_written :: "u8 list"
  w_rest :: "u8 list"
  w_len :: nat

definition encode_word :: "nat \<Rightarrow> 'a::len word \<Rightarrow> Writer \<Rightarrow> Writer option" where
  "encode_word n v w =
     (if n \<le> length (w_rest w)
      then Some (w\<lparr>w_written := w_written w @ word_to_be n v, w_rest := drop n (w_rest w),
                    w_len := w_len w + n\<rparr>)
      else None)"

definition encode_u8 :: "u8 \<Rightarrow> Writer \<Rightarrow> Writer option" where
  "encode_u8 = encode_word 1"

definition encode_u32 :: "u32 \<Rightarrow> Writer \<Rightarrow> Writer option" where
  "encode_u32 = encode_word 4"

definition encode_u64 :: "u64 \<Rightarrow> Writer \<Rightarrow> Writer option" where
  "encode_u64 = encode_word 8"

definition encode_i32 :: "i32 \<Rightarrow> Writer \<Rightarrow> Writer option" where
  "encode_i32 = encode_word 4"

definition encode_f64 :: "f64 \<Rightarrow> Writer \<Rightarrow> Writer option" where
  "encode_f64 = encode_word 8"

primrec encode_commit :: "u8 list \<Rightarrow> Writer \<Rightarrow> Writer option" where
  "encode_commit [] w = Some w"
| "encode_commit (b # bs) w = do { w \<leftarrow> encode_u8 b w; encode_commit bs w }"

fun encode_payload :: "ProtoEvent \<Rightarrow> Writer \<Rightarrow> Writer option" where
  "encode_payload (Input (Pointer (Motion t dx dy))) w =
     do { w \<leftarrow> encode_u32 t w; w \<leftarrow> encode_f64 dx w; encode_f64 dy w }"
| "encode_payload (Input (Pointer (Button t b s))) w =
     do { w \<leftarrow> encode_u32 t w; w \<leftarrow> encode_u32 b w; encode_u32 s w }"
| "encode_payload (Input (Pointer (Axis t a v))) w =
     do { w \<leftarrow> encode_u32 t w; w \<leftarrow> encode_u8 a w; encode_f64 v w }"
| "encode_payload (Input (Pointer (AxisDiscrete120 a v))) w =
     do { w \<leftarrow> encode_u8 a w; encode_i32 v w }"
| "encode_payload (Input (Keyboard (Key t k s))) w =
     do { w \<leftarrow> encode_u32 t w; w \<leftarrow> encode_u32 k w; encode_u8 s w }"
| "encode_payload (Input (Keyboard (Modifiers d lt lk g))) w =
     do { w \<leftarrow> encode_u32 d w; w \<leftarrow> encode_u32 lt w; w \<leftarrow> encode_u32 lk w; encode_u32 g w }"
| "encode_payload Ping w = Some w"
| "encode_payload (Pong alive) w = encode_u8 (bool_as_u8 alive) w"
| "encode_payload (Enter pos) w = encode_u8 (Position_as_u8 pos) w"
| "encode_payload (Leave serial) w = encode_u32 serial w"
| "encode_payload (Ack serial) w = encode_u32 serial w"
| "encode_payload (Hello c) w = encode_commit c w"
| "encode_payload (Readiness k p e) w =
     do { w \<leftarrow> encode_u8 (bool_as_u8 k) w; w \<leftarrow> encode_u8 (bool_as_u8 p) w; encode_u64 e w }"
| "encode_payload (ReleaseRequest e) w = encode_u64 e w"
| "encode_payload (ReleaseAck e) w = encode_u64 e w"

definition ProtoEvent_into :: "ProtoEvent \<Rightarrow> (u8 list \<times> nat) option" where
  "ProtoEvent_into e =
     do { w \<leftarrow> encode_u8 (EventType_as_u8 (event_type e))
                \<lparr>w_written = [], w_rest = replicate MAX_EVENT_SIZE 0, w_len = 0\<rparr>;
          w \<leftarrow> encode_payload e w;
          Some (w_written w @ w_rest w, w_len w) }"

end
