(* ===== verification/Input_Proto_Props.thy ===== *)
theory Input_Proto_Props
  imports Input_Proto
begin

text \<open>
  The datagram format is a round trip, fits its buffer, and reading any full buffer ends with an
  event or with one of the two errors. The bytes of an event have a direct description,
  \<^verbatim>\<open>wire\<close>, that the writer is shown equal to.
\<close>

section \<open>The bytes of an event\<close>

fun payload :: "ProtoEvent \<Rightarrow> u8 list" where
  "payload (Input (Pointer (Motion t dx dy))) = u32_to_be t @ u64_to_be dx @ u64_to_be dy"
| "payload (Input (Pointer (Button t b s))) = u32_to_be t @ u32_to_be b @ u32_to_be s"
| "payload (Input (Pointer (Axis t a v))) = u32_to_be t @ u8_to_be a @ u64_to_be v"
| "payload (Input (Pointer (AxisDiscrete120 a v))) = u8_to_be a @ u32_to_be v"
| "payload (Input (Keyboard (Key t k s))) = u32_to_be t @ u32_to_be k @ u8_to_be s"
| "payload (Input (Keyboard (Modifiers d lt lk g))) =
     u32_to_be d @ u32_to_be lt @ u32_to_be lk @ u32_to_be g"
| "payload Ping = []"
| "payload (Pong b) = u8_to_be (bool_as_u8 b)"
| "payload (Enter p) = u8_to_be (Position_as_u8 p)"
| "payload (Leave s) = u32_to_be s"
| "payload (Ack s) = u32_to_be s"
| "payload (Hello c) = c"
| "payload (Readiness k p e) = u8_to_be (bool_as_u8 k) @ u8_to_be (bool_as_u8 p) @ u64_to_be e"
| "payload (ReleaseRequest e) = u64_to_be e"
| "payload (ReleaseAck e) = u64_to_be e"

definition wire :: "ProtoEvent \<Rightarrow> u8 list" where
  "wire e = EventType_as_u8 (event_type e) # payload e"

lemma length_payload: "ProtoEvent_wf e \<Longrightarrow> length (payload e) \<le> 20"
  by (cases e rule: payload.cases) (auto simp: ProtoEvent_wf_def)

section \<open>Writing appends the bytes\<close>

definition advance :: "Writer \<Rightarrow> u8 list \<Rightarrow> Writer" where
  "advance w bs = w\<lparr>w_written := w_written w @ bs, w_rest := drop (length bs) (w_rest w),
                    w_len := w_len w + length bs\<rparr>"

lemma advance_advance [simp]: "advance (advance w as) bs = advance w (as @ bs)"
  by (simp add: advance_def add.commute add.left_commute)

lemma w_rest_advance [simp]: "length (w_rest (advance w bs)) = length (w_rest w) - length bs"
  by (simp add: advance_def)

lemma encode_word_room [simp]:
  "n \<le> length (w_rest w) \<Longrightarrow> encode_word n v w = Some (advance w (word_to_be n v))"
  by (simp add: encode_word_def advance_def)

lemma encode_commit_room:
  "length c \<le> length (w_rest w) \<Longrightarrow> encode_commit c w = Some (advance w c)"
proof (induction c arbitrary: w)
  case Nil
  then show ?case by (simp add: advance_def)
next
  case (Cons b c)
  then show ?case by (simp add: encode_u8_def)
qed

lemmas encoders = encode_u8_def encode_u32_def encode_u64_def encode_i32_def encode_f64_def

lemma encode_payload_room:
  "length (payload e) \<le> length (w_rest w) \<Longrightarrow> encode_payload e w = Some (advance w (payload e))"
  by (cases e rule: payload.cases) (simp_all add: encoders encode_commit_room, simp add: advance_def)

lemma into_wire:
  assumes "ProtoEvent_wf e"
  shows "ProtoEvent_into e =
    Some (wire e @ replicate (MAX_EVENT_SIZE - length (wire e)) 0, length (wire e))"
proof -
  let ?w = "\<lparr>w_written = [], w_rest = replicate MAX_EVENT_SIZE 0, w_len = 0\<rparr>"
  have "encode_u8 (EventType_as_u8 (event_type e)) ?w = Some (advance ?w [EventType_as_u8 (event_type e)])"
    by (simp add: encode_u8_def MAX_EVENT_SIZE_def)
  moreover have "encode_payload e (advance ?w [EventType_as_u8 (event_type e)])
      = Some (advance ?w (wire e))"
    using length_payload [OF assms] by (simp add: encode_payload_room MAX_EVENT_SIZE_def wire_def)
  ultimately show ?thesis
    by (simp add: ProtoEvent_into_def) (simp add: advance_def)
qed

section \<open>Reading takes them off again\<close>

lemma decode_word_enc:
  assumes "LENGTH('a::len) = 8 * n"
  shows "decode_word n (word_to_be n (v :: 'a word) @ rest) = Ok (v, rest)"
  using fixed_codec.dec_enc [OF word_codec [OF assms]]
  by (simp add: decode_word_def split_at_def)

lemma decoders_enc [simp]:
  "decode_u8 (b # rest) = Ok (b, rest)"
  "decode_u32 (u32_to_be v32 @ rest) = Ok (v32, rest)"
  "decode_i32 (u32_to_be v32 @ rest) = Ok (v32, rest)"
  "decode_u64 (u64_to_be v64 @ rest) = Ok (v64, rest)"
  "decode_f64 (u64_to_be v64 @ rest) = Ok (v64, rest)"
  using decode_word_enc [of 1 b rest]
  by (simp_all add: decode_u8_def decode_u32_def decode_i32_def decode_u64_def decode_f64_def decode_word_enc)

lemma decode_commit_enc: "length c = n \<Longrightarrow> decode_commit n (c @ rest) = Ok (c, rest)"
  by (induction c arbitrary: n) auto

lemma EventType_try_from_as_u8 [simp]: "EventType_try_from (EventType_as_u8 t) = Ok t"
  by (cases t) (simp_all add: EventType_try_from_def EventType_variants_def)

lemma Position_try_from_as_u8 [simp]: "Position_try_from (Position_as_u8 p) = Ok p"
  by (cases p) (simp_all add: Position_try_from_def Position_variants_def)

lemma bool_as_u8_zero [simp]: "bool_as_u8 b \<noteq> 0 \<longleftrightarrow> b"
  by (simp add: bool_as_u8_def)

lemma decode_payload_enc:
  "ProtoEvent_wf e \<Longrightarrow> decode_payload (event_type e) (payload e @ rest) = Ok e"
  by (cases e rule: payload.cases)
    (simp_all add: ProtoEvent_wf_def decode_commit_enc)

lemma try_from_wire: "ProtoEvent_wf e \<Longrightarrow> ProtoEvent_try_from (wire e @ rest) = Ok e"
  by (simp add: ProtoEvent_try_from_def wire_def decode_payload_enc)

section \<open>Reading never panics\<close>

lemma decode_word_room:
  "n \<le> length data \<Longrightarrow> decode_word n data = Ok (word_of_be (take n data), drop n data)"
  by (simp add: decode_word_def split_at_def)

lemmas decoders = decode_u8_def decode_u32_def decode_u64_def decode_i32_def decode_f64_def

lemma decode_commit_room:
  "n \<le> length data \<Longrightarrow> decode_commit n data = Ok (take n data, drop n data)"
proof (induction n arbitrary: data)
  case (Suc n)
  then obtain b rest where "data = b # rest" by (cases data) auto
  with Suc show ?case by simp
qed simp

lemma decode_payload_total:
  assumes "length data = 20"
  shows "case decode_payload t data of
      Ok e \<Rightarrow> ProtoEvent_wf e \<and> event_type e = t \<and> (t = ET_Enter \<longrightarrow> unat (data ! 0) < 4)
    | Err x \<Rightarrow> t = ET_Enter \<and> 4 \<le> unat (data ! 0) \<and> x = InvalidPosition (data ! 0)
    | Panic \<Rightarrow> False"
proof (cases "t = ET_Enter")
  case True
  obtain p rest where "data = p # rest" using assms by (cases data) auto
  with True show ?thesis by (simp add: Position_try_from_def Position_variants_def ProtoEvent_wf_def)
next
  case False
  with assms show ?thesis
    by (cases t) (simp_all add: decoders decode_word_room decode_commit_room ProtoEvent_wf_def)
qed

lemma EventType_try_from_cases:
  "(\<exists>t. EventType_try_from n = Ok t \<and> n = EventType_as_u8 t \<and> unat n < 15)
   \<or> EventType_try_from n = Err (InvalidEventId n) \<and> 15 \<le> unat n"
proof (cases "unat n < 15")
  case True
  have "k < 15 \<Longrightarrow> EventType_as_u8 (EventType_variants ! k) = of_nat k" for k
    by (simp add: EventType_variants_def less_Suc_eq numeral_eq_Suc) auto
  with True show ?thesis
    by (auto simp: EventType_try_from_def EventType_variants_def)
next
  case False
  then show ?thesis by (simp add: EventType_try_from_def EventType_variants_def)
qed

section \<open>Properties\<close>

text \<open>C18. Every input event survives the datagram format: writing it does not panic, fills exactly one
  buffer whose used part fits, pads with zeros, and reading the buffer gives the event back.\<close>

theorem proto_event_roundtrip:
  assumes "ProtoEvent_wf e"
  shows "\<exists>buf len. ProtoEvent_into e = Some (buf, len) \<and> length buf = MAX_EVENT_SIZE
    \<and> len \<le> MAX_EVENT_SIZE \<and> drop len buf = replicate (MAX_EVENT_SIZE - len) 0
    \<and> ProtoEvent_try_from buf = Ok e"
proof -
  have "length (wire e) \<le> MAX_EVENT_SIZE"
    using length_payload [OF assms] by (simp add: wire_def MAX_EVENT_SIZE_def)
  then show ?thesis
    using into_wire [OF assms] try_from_wire [OF assms] by simp
qed

theorem proto_event_roundtrip_witness:
  "ProtoEvent_wf (Readiness True False 0x0102030405060708)
   \<and> (\<exists>buf len. ProtoEvent_into (Readiness True False 0x0102030405060708) = Some (buf, len)
     \<and> ProtoEvent_try_from buf = Ok (Readiness True False 0x0102030405060708))"
  using proto_event_roundtrip [of "Readiness True False 0x0102030405060708"]
  by (auto simp: ProtoEvent_wf_def)

text \<open>C31. Reading a received buffer never panics. It gives a well-formed event of the type named by
  the tag, or rejects exactly the unknown tags and the unknown positions of an enter event.\<close>

theorem proto_decode_total:
  assumes "length buf = MAX_EVENT_SIZE"
  shows "case ProtoEvent_try_from buf of
      Ok e \<Rightarrow> ProtoEvent_wf e \<and> buf ! 0 = EventType_as_u8 (event_type e) \<and> unat (buf ! 0) < 15
        \<and> (event_type e = ET_Enter \<longrightarrow> unat (buf ! 1) < 4)
    | Err x \<Rightarrow> 15 \<le> unat (buf ! 0) \<and> x = InvalidEventId (buf ! 0)
        \<or> buf ! 0 = EventType_as_u8 ET_Enter \<and> 4 \<le> unat (buf ! 1) \<and> x = InvalidPosition (buf ! 1)
    | Panic \<Rightarrow> False"
proof -
  obtain n data where buf: "buf = n # data" and len: "length data = 20"
    using assms by (cases buf) (auto simp: MAX_EVENT_SIZE_def)
  show ?thesis
    using EventType_try_from_cases [of n]
  proof (elim disjE exE conjE)
    fix t assume t: "EventType_try_from n = Ok t" "n = EventType_as_u8 t" "unat n < 15"
    show ?thesis
      using decode_payload_total [OF len, of t] t
      by (auto simp: ProtoEvent_try_from_def buf split: outcome.splits)
  qed (simp add: ProtoEvent_try_from_def buf)
qed

theorem proto_decode_total_witness:
  "length (8 # 9 # replicate 19 0 :: u8 list) = MAX_EVENT_SIZE
   \<and> ProtoEvent_try_from (8 # 9 # replicate 19 0) = Err (InvalidPosition 9)"
proof -
  let ?buf = "8 # 9 # replicate 19 0 :: u8 list"
  have len: "length ?buf = MAX_EVENT_SIZE" by (simp add: MAX_EVENT_SIZE_def)
  have "8 = EventType_as_u8 t \<longleftrightarrow> t = ET_Enter" for t by (cases t) simp_all
  then have "ProtoEvent_try_from ?buf = Err (InvalidPosition 9)"
    using proto_decode_total [OF len] by (auto split: outcome.splits)
  with len show ?thesis by blast
qed

end
