(* ===== verification/Event_Queue.thy ===== *)
theory Event_Queue
  imports Input_Event "HOL-Library.Sublist"
begin

text \<open>
  Capture events and the bounded queue between a capture backend and its consumer,
  \<^verbatim>\<open>input-capture/src/lib.rs\<close> and \<^verbatim>\<open>input-capture/src/event_queue.rs\<close>. Motion is coalesced to the
  latest sample; every other event is critical, counted, and bounded: one too many empties the
  queue and reports the overflow once. The mutex makes each operation atomic; the interleaving with
  the waker, which is taken outside the lock, is modelled step by step.
\<close>

section \<open>Capture events\<close>

type_synonym CaptureHandle = u64

datatype CaptureEvent = Begin | EdgeRetreated | Input InputEvent

datatype Position = Left | Right | Top | Bottom

fun opposite :: "Position \<Rightarrow> Position" where
  "opposite Left = Right"
| "opposite Right = Left"
| "opposite Top = Bottom"
| "opposite Bottom = Top"

section \<open>Queue\<close>

definition SCAN_CODE_SLOTS :: nat where "SCAN_CODE_SLOTS = 2 * (255 + 1)"
definition POINTER_TRANSITIONS :: nat where "POINTER_TRANSITIONS = 16"
definition CRITICAL_EVENT_CAPACITY :: nat where
  "CRITICAL_EVENT_CAPACITY = 2 * SCAN_CODE_SLOTS + POINTER_TRANSITIONS"

record QueueState =
  events :: "(Position \<times> CaptureEvent) list"
  critical_count :: nat
  overflowed :: bool
  closed :: bool

datatype PushOutcome = Queued | Overflow

datatype QueuePoll = PollEvent "Position \<times> CaptureEvent" | PollOverflow | PollClosed

text \<open>\<^verbatim>\<open>Poll\<close> of the standard library.\<close>

datatype 'a Poll = Ready 'a | Pending

definition is_motion :: "CaptureEvent \<Rightarrow> bool" where
  "is_motion e \<longleftrightarrow> (case e of Input (Pointer (Motion _ _ _)) \<Rightarrow> True | _ \<Rightarrow> False)"

definition EventQueue_new :: QueueState where
  "EventQueue_new = \<lparr>events = [], critical_count = 0, overflowed = False, closed = False\<rparr>"

text \<open>
  The locked part of \<^verbatim>\<open>push\<close>. The last component tells whether the waker is woken after the lock
  is released.
\<close>

definition queue_push :: "Position \<Rightarrow> CaptureEvent \<Rightarrow> QueueState \<Rightarrow> PushOutcome \<times> QueueState \<times> bool" where
  "queue_push pos ev s =
     (if closed s \<or> overflowed s then (Overflow, s, False)
      else if is_motion ev then
        (if events s \<noteq> [] \<and> is_motion (snd (last (events s)))
         then (Queued, s\<lparr>events := butlast (events s) @ [(pos, ev)]\<rparr>, True)
         else (Queued, s\<lparr>events := events s @ [(pos, ev)]\<rparr>, True))
      else if critical_count s < CRITICAL_EVENT_CAPACITY
        then (Queued, s\<lparr>events := events s @ [(pos, ev)], critical_count := critical_count s + 1\<rparr>, True)
      else (Overflow, s\<lparr>events := [], critical_count := 0, overflowed := True\<rparr>, True))"

text \<open>
  The locked part of \<^verbatim>\<open>poll\<close>; \<^const>\<open>None\<close> is the arithmetic panic of the counter.
\<close>

definition queue_poll :: "QueueState \<Rightarrow> (QueuePoll Poll \<times> QueueState) option" where
  "queue_poll s =
     (if overflowed s then Some (Ready PollOverflow, s\<lparr>overflowed := False\<rparr>)
      else case events s of
        ev # rest \<Rightarrow>
          if is_motion (snd ev) then Some (Ready (PollEvent ev), s\<lparr>events := rest\<rparr>)
          else if critical_count s = 0 then None
          else Some (Ready (PollEvent ev), s\<lparr>events := rest, critical_count := critical_count s - 1\<rparr>)
      | [] \<Rightarrow> if closed s then Some (Ready PollClosed, s) else Some (Pending, s))"

definition queue_close :: "QueueState \<Rightarrow> QueueState" where
  "queue_close s = s\<lparr>closed := True\<rparr>"

section \<open>Invariant\<close>

abbreviation criticals :: "(Position \<times> CaptureEvent) list \<Rightarrow> (Position \<times> CaptureEvent) list" where
  "criticals \<equiv> filter (\<lambda>e. \<not> is_motion (snd e))"

text \<open>No two motion events are adjacent.\<close>

definition coalesced :: "(Position \<times> CaptureEvent) list \<Rightarrow> bool" where
  "coalesced = successively (\<lambda>a b. \<not> (is_motion (snd a) \<and> is_motion (snd b)))"

definition queue_inv :: "QueueState \<Rightarrow> bool" where
  "queue_inv s \<longleftrightarrow> critical_count s = length (criticals (events s))
     \<and> critical_count s \<le> CRITICAL_EVENT_CAPACITY \<and> coalesced (events s)
     \<and> (overflowed s \<longrightarrow> events s = [])"



lemma queue_inv_new: "queue_inv EventQueue_new"
  by (simp add: queue_inv_def EventQueue_new_def coalesced_def)

lemma coalesced_small [simp]:
  "coalesced []" "coalesced [x]"
  "coalesced [x, y] \<longleftrightarrow> \<not> (is_motion (snd x) \<and> is_motion (snd y))"
  by (simp_all add: coalesced_def)

lemma coalesced_snoc:
  "coalesced (xs @ [x]) \<longleftrightarrow> coalesced xs \<and> (xs \<noteq> [] \<longrightarrow> \<not> (is_motion (snd (last xs)) \<and> is_motion (snd x)))"
  by (auto simp: coalesced_def successively_append_iff)

lemma coalesced_snoc2:
  "coalesced (xs @ [x, y]) \<longleftrightarrow> coalesced (xs @ [x]) \<and> \<not> (is_motion (snd x) \<and> is_motion (snd y))"
  using coalesced_snoc [of "xs @ [x]" y] by simp

lemma coalesced_ConsD: "coalesced (x # xs) \<Longrightarrow> coalesced xs"
  by (cases xs) (simp_all add: coalesced_def)

lemma queue_inv_push: "queue_inv s \<Longrightarrow> queue_push pos ev s = (r, s', w) \<Longrightarrow> queue_inv s'"
proof (cases "events s" rule: rev_cases)
  case Nil
  assume "queue_inv s" "queue_push pos ev s = (r, s', w)"
  with Nil show ?thesis
    by (auto simp: queue_push_def queue_inv_def coalesced_def split: if_splits)
next
  case (snoc xs x)
  assume "queue_inv s" "queue_push pos ev s = (r, s', w)"
  with snoc show ?thesis
    by (auto simp: queue_push_def queue_inv_def coalesced_snoc2 coalesced_snoc split: if_splits)
qed

lemma queue_inv_poll: "queue_inv s \<Longrightarrow> queue_poll s = Some (r, s') \<Longrightarrow> queue_inv s'"
  by (auto simp: queue_poll_def queue_inv_def split: if_splits list.splits dest: coalesced_ConsD)


lemma queue_inv_close: "queue_inv (queue_close s) \<longleftrightarrow> queue_inv s"
  by (simp add: queue_inv_def queue_close_def)

section \<open>The contract of a coalescing queue\<close>



section \<open>Waking the consumer\<close>

text \<open>
  \<^verbatim>\<open>AtomicWaker\<close> of the futures library keeps the waker of the last \<^verbatim>\<open>register\<close>; \<^verbatim>\<open>wake\<close> takes it and
  schedules the consumer. \<^verbatim>\<open>poll\<close> registers before it locks, \<^verbatim>\<open>push\<close> and \<^verbatim>\<open>close\<close> wake after they
  unlock, so another task may run in between. The consumer is about to poll, has registered, or is
  parked by \<^const>\<open>Pending\<close>; \<open>wakes_due\<close> counts the producers between unlock and wake.
\<close>

datatype Consumer = Running | Registered | Parked

record WakeState =
  queue :: QueueState
  registered :: bool
  notified :: bool
  wakes_due :: nat
  consumer :: Consumer

definition wake_initial :: "WakeState \<Rightarrow> bool" where
  "wake_initial s \<longleftrightarrow>
     s = \<lparr>queue = EventQueue_new, registered = False, notified = False, wakes_due = 0, consumer = Running\<rparr>"

datatype WakeStep =
    DoRegister | DoPoll | DoResume | DoPush Position CaptureEvent | DoClose | DoWake

definition wake_step :: "WakeState \<Rightarrow> WakeStep \<Rightarrow> WakeState option" where
  "wake_step s a = (case a of
     DoRegister \<Rightarrow>
       if consumer s = Running then Some (s\<lparr>registered := True, consumer := Registered\<rparr>) else None
   | DoPoll \<Rightarrow>
       if consumer s = Registered then
         (case queue_poll (queue s) of
            None \<Rightarrow> None
          | Some (r, q) \<Rightarrow> Some (s\<lparr>queue := q, consumer := (if r = Pending then Parked else Running)\<rparr>))
       else None
   | DoResume \<Rightarrow>
       if consumer s = Parked \<and> notified s
       then Some (s\<lparr>notified := False, consumer := Running\<rparr>) else None
   | DoPush p e \<Rightarrow>
       (case queue_push p e (queue s) of
          (r, q, w) \<Rightarrow> Some (s\<lparr>queue := q, wakes_due := wakes_due s + (if w then 1 else 0)\<rparr>))
   | DoClose \<Rightarrow> Some (s\<lparr>queue := queue_close (queue s), wakes_due := wakes_due s + 1\<rparr>)
   | DoWake \<Rightarrow>
       if 0 < wakes_due s
       then Some (s\<lparr>wakes_due := wakes_due s - 1, notified := notified s \<or> registered s, registered := False\<rparr>)
       else None)"

text \<open>What a poll would deliver.\<close>

definition deliverable :: "QueueState \<Rightarrow> bool" where
  "deliverable q \<longleftrightarrow> overflowed q \<or> events q \<noteq> [] \<or> closed q"

definition wake_inv :: "WakeState \<Rightarrow> bool" where
  "wake_inv s \<longleftrightarrow> queue_inv (queue s)
     \<and> (consumer s = Registered \<longrightarrow> registered s \<or> notified s)
     \<and> (consumer s = Parked \<longrightarrow> notified s
          \<or> registered s \<and> (deliverable (queue s) \<longrightarrow> 0 < wakes_due s))"

lemma queue_poll_Pending: "queue_poll q = Some (Pending, q') \<Longrightarrow> q' = q \<and> \<not> deliverable q"
  by (auto simp: queue_poll_def deliverable_def split: if_splits list.splits)

lemma queue_push_silent: "queue_push p e q = (r, q', False) \<Longrightarrow> q' = q"
  by (auto simp: queue_push_def split: if_splits)

lemma wake_inv_step: "wake_inv s \<Longrightarrow> wake_step s a = Some s' \<Longrightarrow> wake_inv s'"
proof (cases a)
  case DoPoll
  assume "wake_inv s" "wake_step s a = Some s'"
  with DoPoll show ?thesis
    by (auto simp: wake_step_def wake_inv_def split: if_splits option.splits
        dest: queue_inv_poll queue_poll_Pending)
next
  case (DoPush p e)
  obtain r q w where push: "queue_push p e (queue s) = (r, q, w)" by (cases "queue_push p e (queue s)")
  assume "wake_inv s" "wake_step s a = Some s'"
  with DoPush push queue_inv_push [OF _ push] queue_push_silent [of p e "queue s" r q] show ?thesis
    by (cases w) (auto simp: wake_step_def wake_inv_def)
qed (auto simp: wake_step_def wake_inv_def queue_inv_close split: if_splits)

interpretation wake: guarded_system wake_initial wake_step wake_inv
proof
  show "wake_initial s \<Longrightarrow> wake_inv s" for s
    by (simp add: wake_initial_def wake_inv_def queue_inv_new)
qed (rule wake_inv_step)

section \<open>Properties\<close>



text \<open>C30. No wake-up is lost: whenever the consumer is parked and the queue has an event, an overflow
  or its end to deliver, the consumer has been notified or a producer is about to wake it, under
  every interleaving of registering, polling, pushing, closing and waking.\<close>

theorem no_lost_wakeup:
  assumes "wake.reachable s" "consumer s = Parked" "deliverable (queue s)"
  shows "notified s \<or> (\<exists>s'. registered s \<and> wake_step s DoWake = Some s' \<and> notified s')"
  using wake.reachable_inv [OF assms(1)] assms(2,3) by (auto simp: wake_inv_def wake_step_def)

theorem no_lost_wakeup_witness:
  "\<exists>s. wake.reachable s \<and> consumer s = Parked \<and> deliverable (queue s) \<and> \<not> notified s
     \<and> (\<exists>s'. wake_step s DoWake = Some s' \<and> notified s')"
proof -
  let ?s0 = "\<lparr>queue = EventQueue_new, registered = False, notified = False, wakes_due = 0, consumer = Running\<rparr>"
  define s where "s = wake.run ?s0 [DoRegister, DoPoll, DoPush Left Begin]"
  have reach: "wake.reachable s"
    unfolding s_def by (intro wake.run_reachable wake.reachable.start) (simp add: wake_initial_def)
  have s: "s = \<lparr>queue = EventQueue_new\<lparr>events := [(Left, Begin)], critical_count := 1\<rparr>,
      registered = True, notified = False, wakes_due = 1, consumer = Parked\<rparr>"
    by (simp add: s_def wake_step_def queue_poll_def queue_push_def EventQueue_new_def is_motion_def
        CRITICAL_EVENT_CAPACITY_def POINTER_TRANSITIONS_def)
  then have "consumer s = Parked" "deliverable (queue s)" "\<not> notified s"
    by (simp_all add: deliverable_def)
  with no_lost_wakeup [OF reach] reach show ?thesis by blast
qed

end
