(* ===== verification/Input_Capture.thy ===== *)
theory Input_Capture
  imports Event_Queue Scancode
begin

text \<open>
  The capture front end, \<^verbatim>\<open>input-capture/src/lib.rs\<close>: it multiplexes capture handles over the four
  screen edges of one backend, hands an event at an edge to every handle registered there, and
  tracks the keys that are held down. The backend is a trait object; its answers are arguments and
  the calls made to it are results. A hash set is a list without duplicates; no property depends on
  the order.
\<close>

section \<open>State\<close>

datatype Backend = InputCapturePortal | LayerShell | X11 | WindowsBackend | MacOs | Dummy

fun Backend_to_string :: "Backend \<Rightarrow> string" where
  "Backend_to_string InputCapturePortal = ''input-capture-portal''"
| "Backend_to_string LayerShell = ''layer-shell''"
| "Backend_to_string X11 = ''X11''"
| "Backend_to_string WindowsBackend = ''windows''"
| "Backend_to_string MacOs = ''MacOS''"
| "Backend_to_string Dummy = ''dummy''"

text \<open>
  Errors of a running capture; the variants of the platform libraries are one, with their message.
\<close>

datatype CaptureError =
  ReleaseIncomplete | ActivationClosed | EndOfStream | Io string | CriticalQueueOverflow | Platform string

record InputCapture =
  pressed_keys :: "Linux list"
  position_map :: "Position \<rightharpoonup> CaptureHandle list"
  id_map :: "CaptureHandle \<rightharpoonup> Position"
  cap_pending :: "(CaptureHandle \<times> CaptureEvent) list"

text \<open>The methods of the trait \<^verbatim>\<open>Capture\<close> other than its stream.\<close>

datatype BackendCall =
  BackendCreate Position | BackendDestroy Position | BackendRelease | BackendResume Position | BackendTerminate

definition capture_empty :: InputCapture where
  "capture_empty = \<lparr>pressed_keys = [], position_map = (\<lambda>_. None), id_map = (\<lambda>_. None), cap_pending = []\<rparr>"

section \<open>Choosing a backend\<close>

text \<open>
  \<^verbatim>\<open>open_backend\<close> stands for the constructors of the platform backends, \<^verbatim>\<open>compiled\<close> for the backends the
  build contains in the order of the source. The dummy backend is never tried implicitly.
\<close>

fun try_backends :: "(Backend \<Rightarrow> 'e + 'b) \<Rightarrow> ('e \<Rightarrow> bool) \<Rightarrow> 'e \<Rightarrow> Backend list \<Rightarrow> 'e + 'b" where
  "try_backends open_backend cancelled_by_user no_backend [] = Inl no_backend"
| "try_backends open_backend cancelled_by_user no_backend (b # bs) =
     (case open_backend b of
        Inr c \<Rightarrow> Inr c
      | Inl e \<Rightarrow> if cancelled_by_user e then Inl e
                else try_backends open_backend cancelled_by_user no_backend bs)"

definition create_backend_for ::
    "(Backend \<Rightarrow> 'e + 'b) \<Rightarrow> ('e \<Rightarrow> bool) \<Rightarrow> 'e \<Rightarrow> Backend list \<Rightarrow> Backend option \<Rightarrow> 'e + 'b" where
  "create_backend_for open_backend cancelled_by_user no_backend compiled backend =
     (case backend of
        Some b \<Rightarrow> open_backend b
      | None \<Rightarrow> try_backends open_backend cancelled_by_user no_backend compiled)"

text \<open>\<^verbatim>\<open>InputCapture::new\<close>: a capture only exists with a backend.\<close>

definition capture_new ::
    "(Backend \<Rightarrow> 'e + 'b) \<Rightarrow> ('e \<Rightarrow> bool) \<Rightarrow> 'e \<Rightarrow> Backend list \<Rightarrow> Backend option
      \<Rightarrow> 'e + 'b \<times> InputCapture" where
  "capture_new open_backend cancelled_by_user no_backend compiled backend =
     (case create_backend_for open_backend cancelled_by_user no_backend compiled backend of
        Inl e \<Rightarrow> Inl e
      | Inr c \<Rightarrow> Inr (c, capture_empty))"

section \<open>Operations\<close>

text \<open>An operation ends with a result, the backend calls it made and the new state.\<close>

type_synonym 'r captured = "(CaptureError, 'r) outcome \<times> BackendCall list \<times> InputCapture"

definition from_result :: "'e + 'r \<Rightarrow> ('e, 'r) outcome" where
  "from_result r = (case r of Inl e \<Rightarrow> Err e | Inr v \<Rightarrow> Ok v)"

definition capture_create ::
    "CaptureError + unit \<Rightarrow> CaptureHandle \<Rightarrow> Position \<Rightarrow> InputCapture \<Rightarrow> unit captured" where
  "capture_create answer i pos s =
     (if id_map s i \<noteq> None then (Panic, [], s)
      else let s = s\<lparr>id_map := (id_map s)(i \<mapsto> pos)\<rparr> in
        case position_map s pos of
          Some v \<Rightarrow> (Ok (), [], s\<lparr>position_map := (position_map s)(pos \<mapsto> v @ [i])\<rparr>)
        | None \<Rightarrow> (from_result answer, [BackendCreate pos],
                  s\<lparr>position_map := (position_map s)(pos \<mapsto> [i])\<rparr>))"

definition capture_destroy ::
    "CaptureError + unit \<Rightarrow> CaptureHandle \<Rightarrow> InputCapture \<Rightarrow> unit captured" where
  "capture_destroy answer i s =
     (case id_map s i of
        None \<Rightarrow> (Panic, [], s)
      | Some pos \<Rightarrow>
          let s = s\<lparr>id_map := (id_map s)(i := None)\<rparr> in
          case position_map s pos of
            None \<Rightarrow> (Panic, [], s)
          | Some ids \<Rightarrow>
              let remaining = filter (\<lambda>j. j \<noteq> i) ids;
                  s = s\<lparr>position_map := (position_map s)(pos \<mapsto> remaining)\<rparr> in
              if remaining = []
              then (from_result answer, [BackendDestroy pos],
                    s\<lparr>position_map := (position_map s)(pos := None)\<rparr>)
              else (Ok (), [], s))"

definition capture_release :: "CaptureError + unit \<Rightarrow> InputCapture \<Rightarrow> unit captured" where
  "capture_release answer s = (from_result answer, [BackendRelease], s\<lparr>pressed_keys := []\<rparr>)"

definition capture_resume_if_focused ::
    "CaptureError + bool \<Rightarrow> CaptureHandle \<Rightarrow> InputCapture \<Rightarrow> bool captured" where
  "capture_resume_if_focused answer i s =
     (case id_map s i of
        None \<Rightarrow> (Panic, [], s)
      | Some pos \<Rightarrow> (from_result answer, [BackendResume pos], s))"

definition take_pressed_keys :: "InputCapture \<Rightarrow> Linux list \<times> InputCapture" where
  "take_pressed_keys s = (pressed_keys s, s\<lparr>pressed_keys := []\<rparr>)"

definition capture_terminate :: "CaptureError + unit \<Rightarrow> InputCapture \<Rightarrow> unit captured" where
  "capture_terminate answer s = (from_result answer, [BackendTerminate], s)"

definition keys_pressed :: "Linux list \<Rightarrow> InputCapture \<Rightarrow> bool" where
  "keys_pressed keys s \<longleftrightarrow> list_all (\<lambda>k. k \<in> set (pressed_keys s)) keys"

definition update_pressed_keys :: "u32 \<Rightarrow> u8 \<Rightarrow> InputCapture \<Rightarrow> InputCapture" where
  "update_pressed_keys key st s =
     (case Linux_try_from_primitive key of
        None \<Rightarrow> s
      | Some k \<Rightarrow>
          if st = 1 then s\<lparr>pressed_keys := List.insert k (pressed_keys s)\<rparr>
          else s\<lparr>pressed_keys := removeAll k (pressed_keys s)\<rparr>)"

text \<open>
  \<^verbatim>\<open>poll_next\<close>; the first argument is what the backend's stream answers, should it be asked. The
  outer option is a panic.
\<close>

definition capture_poll_next ::
    "(CaptureError + Position \<times> CaptureEvent) option Poll \<Rightarrow> InputCapture
      \<Rightarrow> (CaptureError + CaptureHandle \<times> CaptureEvent) option Poll option \<times> InputCapture" where
  "capture_poll_next answer s =
     (case cap_pending s of
        e # rest \<Rightarrow> (Some (Ready (Some (Inr e))), s\<lparr>cap_pending := rest\<rparr>)
      | [] \<Rightarrow>
        (case answer of
           Pending \<Rightarrow> (Some Pending, s)
         | Ready None \<Rightarrow> (Some (Ready None), s)
         | Ready (Some (Inl e)) \<Rightarrow> (Some (Ready (Some (Inl e))), s)
         | Ready (Some (Inr (pos, ev))) \<Rightarrow>
             let s = (case ev of Input (Keyboard (Key _ key st)) \<Rightarrow> update_pressed_keys key st s | _ \<Rightarrow> s);
                 len = (case position_map s pos of None \<Rightarrow> 0 | Some ids \<Rightarrow> length ids) in
             if len = 0 then (Some Pending, s)
             else case position_map s pos of
               None \<Rightarrow> (None, s)
             | Some ids \<Rightarrow>
                 if len = 1 then (Some (Ready (Some (Inr (ids ! 0, ev)))), s)
                 else case cap_pending s @ map (\<lambda>i. (i, ev)) ids of
                   [] \<Rightarrow> (None, s)
                 | e # rest \<Rightarrow> (Some (Ready (Some (Inr e))), s\<lparr>cap_pending := rest\<rparr>)))"

section \<open>Invariant\<close>

text \<open>
  The two maps are inverse to each other, no handle is listed twice and no list is empty.
\<close>

definition ids_at :: "(Position \<rightharpoonup> CaptureHandle list) \<Rightarrow> Position \<Rightarrow> CaptureHandle list" where
  "ids_at m pos = (case m pos of None \<Rightarrow> [] | Some ids \<Rightarrow> ids)"

definition maps_agree :: "(Position \<rightharpoonup> CaptureHandle list) \<Rightarrow> (CaptureHandle \<rightharpoonup> Position) \<Rightarrow> bool" where
  "maps_agree m d \<longleftrightarrow> (\<forall>i pos. d i = Some pos \<longleftrightarrow> i \<in> set (ids_at m pos))
     \<and> (\<forall>pos. m pos \<noteq> Some [] \<and> distinct (ids_at m pos))"

definition capture_inv :: "InputCapture \<Rightarrow> bool" where
  "capture_inv s \<longleftrightarrow> maps_agree (position_map s) (id_map s) \<and> distinct (pressed_keys s)"

lemma ids_at_simps [simp]:
  "ids_at (m(pos \<mapsto> v)) p = (if p = pos then v else ids_at m p)"
  "ids_at (m(pos := None)) p = (if p = pos then [] else ids_at m p)"
  by (simp_all add: ids_at_def)

lemma maps_agree_insert:
  assumes "maps_agree m d" "d i = None"
  shows "maps_agree (m(pos \<mapsto> ids_at m pos @ [i])) (d(i \<mapsto> pos))"
  using assms by (auto simp: maps_agree_def) (metis option.distinct(1))+

lemma maps_agree_remove:
  assumes "maps_agree m d" "d i = Some pos"
  defines "remaining \<equiv> filter (\<lambda>j. j \<noteq> i) (ids_at m pos)"
  shows "maps_agree (m(pos := if remaining = [] then None else Some remaining)) (d(i := None))"
proof -
  let ?m = "m(pos := if remaining = [] then None else Some remaining)"
  have ids: "ids_at ?m p = (if p = pos then remaining else ids_at m p)" for p
    by (cases "remaining = []") simp_all
  have other: "i \<notin> set (ids_at m p)" if "p \<noteq> pos" for p
    using assms(1,2) that unfolding maps_agree_def by (metis option.inject)
  have "(d(i := None)) j = Some p \<longleftrightarrow> j \<in> set (ids_at ?m p)" for j p
    using assms(1) other [of p] unfolding ids by (auto simp: maps_agree_def remaining_def)
  moreover have "?m p \<noteq> Some [] \<and> distinct (ids_at ?m p)" for p
    using assms(1) unfolding ids by (auto simp: maps_agree_def remaining_def)
  ultimately show ?thesis unfolding maps_agree_def by blast
qed

lemma capture_inv_empty: "capture_inv capture_empty"
  by (simp add: capture_inv_def capture_empty_def maps_agree_def ids_at_def)

lemma capture_inv_pressed [simp]: "distinct ks \<Longrightarrow> capture_inv s \<Longrightarrow> capture_inv (s\<lparr>pressed_keys := ks\<rparr>)"
  by (simp add: capture_inv_def)

lemma capture_inv_pending [simp]: "capture_inv (s\<lparr>cap_pending := es\<rparr>) \<longleftrightarrow> capture_inv s"
  by (simp add: capture_inv_def)

lemma capture_create_state:
  assumes "id_map s i = None"
  shows "snd (snd (capture_create answer i pos s)) =
    s\<lparr>id_map := (id_map s)(i \<mapsto> pos), position_map := (position_map s)(pos \<mapsto> ids_at (position_map s) pos @ [i])\<rparr>"
  using assms by (simp add: capture_create_def Let_def ids_at_def split: option.split)

lemma capture_inv_create:
  "capture_inv s \<Longrightarrow> id_map s i = None \<Longrightarrow> capture_inv (snd (snd (capture_create answer i pos s)))"
  using maps_agree_insert [of "position_map s" "id_map s" i pos]
  by (simp add: capture_create_state capture_inv_def)

lemma capture_destroy_state:
  assumes inv: "capture_inv s" and known: "id_map s i = Some pos"
  defines "remaining \<equiv> filter (\<lambda>j. j \<noteq> i) (ids_at (position_map s) pos)"
  shows "snd (snd (capture_destroy answer i s)) = s\<lparr>id_map := (id_map s)(i := None),
      position_map := (position_map s)(pos := if remaining = [] then None else Some remaining)\<rparr>"
    and "fst (capture_destroy answer i s) \<noteq> Panic"
proof -
  obtain ids where "position_map s pos = Some ids"
    using inv known by (cases "position_map s pos") (auto simp: capture_inv_def maps_agree_def ids_at_def)
  then show "snd (snd (capture_destroy answer i s)) = s\<lparr>id_map := (id_map s)(i := None),
      position_map := (position_map s)(pos := if remaining = [] then None else Some remaining)\<rparr>"
    "fst (capture_destroy answer i s) \<noteq> Panic"
    using known by (simp_all add: capture_destroy_def Let_def remaining_def ids_at_def from_result_def split: sum.split)
qed

lemma capture_inv_destroy:
  "capture_inv s \<Longrightarrow> id_map s i = Some pos \<Longrightarrow> capture_inv (snd (snd (capture_destroy answer i s)))"
  using maps_agree_remove [of "position_map s" "id_map s" i pos]
  by (auto simp: capture_destroy_state(1) capture_inv_def split: if_splits)

lemma capture_inv_update_keys: "capture_inv s \<Longrightarrow> capture_inv (update_pressed_keys key st s)"
  by (auto simp: update_pressed_keys_def capture_inv_def distinct_removeAll split: option.split)

lemma update_keys_maps [simp]:
  "position_map (update_pressed_keys key st s) = position_map s"
  "id_map (update_pressed_keys key st s) = id_map s"
  "cap_pending (update_pressed_keys key st s) = cap_pending s"
  by (simp_all add: update_pressed_keys_def split: option.split)

lemma capture_poll_next_backend:
  fixes pos :: Position and s :: InputCapture
  assumes "capture_inv s" "cap_pending s = []"
  defines "ids \<equiv> ids_at (position_map s) pos"
  shows "\<exists>s1. capture_inv s1 \<and> position_map s1 = position_map s \<and> id_map s1 = id_map s
    \<and> cap_pending s1 = []
    \<and> capture_poll_next (Ready (Some (Inr (pos, ev)))) s =
        (if ids = [] then (Some Pending, s1)
         else (Some (Ready (Some (Inr (hd ids, ev)))), s1\<lparr>cap_pending := map (\<lambda>i. (i, ev)) (tl ids)\<rparr>))"
proof -
  define s1 where
    "s1 = (case ev of Input (Keyboard (Key _ key st)) \<Rightarrow> update_pressed_keys key st s | _ \<Rightarrow> s)"
  have s1: "capture_inv s1" "position_map s1 = position_map s" "id_map s1 = id_map s" "cap_pending s1 = []"
    using assms(1,2) capture_inv_update_keys
    by (auto simp: s1_def split: CaptureEvent.splits InputEvent.splits KeyboardEvent.splits)
  have "capture_poll_next (Ready (Some (Inr (pos, ev)))) s =
        (if ids = [] then (Some Pending, s1)
         else (Some (Ready (Some (Inr (hd ids, ev)))), s1\<lparr>cap_pending := map (\<lambda>i. (i, ev)) (tl ids)\<rparr>))"
  proof (cases ids)
    case Nil
    then show ?thesis
      using assms(2) s1 unfolding ids_def
      by (auto simp: capture_poll_next_def Let_def s1_def [symmetric] ids_at_def split: option.splits)
  next
    case (Cons i js)
    then have "position_map s1 pos = Some (i # js)"
      using s1(2) by (auto simp: ids_def ids_at_def split: option.splits)
    moreover have "s1\<lparr>cap_pending := []\<rparr> = s1" using s1(4) by simp
    ultimately show ?thesis
      using assms(2) s1(4) Cons
      by (cases js) (simp_all add: capture_poll_next_def Let_def s1_def [symmetric])
  qed
  with s1 show ?thesis by blast
qed

lemma capture_poll_next_pending:
  "cap_pending s = e # rest \<Longrightarrow>
     capture_poll_next answer s = (Some (Ready (Some (Inr e))), s\<lparr>cap_pending := rest\<rparr>)"
  by (simp add: capture_poll_next_def)

lemma capture_inv_poll:
  fixes answer :: "(CaptureError + Position \<times> CaptureEvent) option Poll"
  assumes "capture_inv s" "capture_poll_next answer s = (r, s')"
  shows "capture_inv s' \<and> r \<noteq> None"
proof (cases "cap_pending s")
  case (Cons e rest)
  with assms show ?thesis by (auto simp: capture_poll_next_def)
next
  case Nil
  then show ?thesis
  proof (cases "\<exists>pos ev. answer = Ready (Some (Inr (pos, ev)))")
    case True
    then obtain pos ev where "answer = Ready (Some (Inr (pos, ev)))" by blast
    with capture_poll_next_backend [OF assms(1) Nil, of pos ev] assms(2) show ?thesis
      by (auto split: if_splits)
  next
    case False
    with Nil assms show ?thesis
      by (auto simp: capture_poll_next_def split: Poll.splits option.splits sum.splits)
  qed
qed

section \<open>Runs\<close>

datatype CaptureOp =
    OpCreate "CaptureError + unit" CaptureHandle Position
  | OpDestroy "CaptureError + unit" CaptureHandle
  | OpRelease "CaptureError + unit"
  | OpTakeKeys
  | OpPoll "(CaptureError + Position \<times> CaptureEvent) option Poll"

text \<open>A run ends with a panic; every other end of an operation, an error included, continues.\<close>

definition unless_panic :: "'r captured \<Rightarrow> InputCapture option" where
  "unless_panic x = (if fst x = Panic then None else Some (snd (snd x)))"

definition capture_step :: "InputCapture \<Rightarrow> CaptureOp \<Rightarrow> InputCapture option" where
  "capture_step s op = (case op of
     OpCreate a i pos \<Rightarrow> unless_panic (capture_create a i pos s)
   | OpDestroy a i \<Rightarrow> unless_panic (capture_destroy a i s)
   | OpRelease a \<Rightarrow> unless_panic (capture_release a s)
   | OpTakeKeys \<Rightarrow> Some (snd (take_pressed_keys s))
   | OpPoll a \<Rightarrow> (case capture_poll_next a s of (None, _) \<Rightarrow> None | (Some _, s') \<Rightarrow> Some s'))"

lemma capture_create_panics: "fst (capture_create a i pos s) = Panic \<longleftrightarrow> id_map s i \<noteq> None"
  by (simp add: capture_create_def from_result_def Let_def split: option.split sum.split)

lemma capture_destroy_unknown: "id_map s i = None \<Longrightarrow> fst (capture_destroy a i s) = Panic"
  by (simp add: capture_destroy_def)

lemma capture_inv_step:
  assumes inv: "capture_inv s" and step: "capture_step s op = Some s'"
  shows "capture_inv s'"
proof (cases op)
  case (OpCreate a i pos)
  with step have "id_map s i = None" "s' = snd (snd (capture_create a i pos s))"
    by (simp_all add: capture_step_def unless_panic_def capture_create_panics split: if_splits)
  then show ?thesis by (simp only: capture_inv_create [OF inv])
next
  case (OpDestroy a i)
  with step obtain pos where "id_map s i = Some pos" "s' = snd (snd (capture_destroy a i s))"
    using capture_destroy_unknown [of s i a]
    by (cases "id_map s i") (simp_all add: capture_step_def unless_panic_def split: if_splits)
  then show ?thesis by (simp only: capture_inv_destroy [OF inv])
next
  case (OpRelease a)
  with inv step show ?thesis
    by (auto simp: capture_step_def unless_panic_def capture_release_def split: if_splits)
next
  case OpTakeKeys
  with inv step show ?thesis by (auto simp: capture_step_def take_pressed_keys_def)
next
  case (OpPoll a)
  obtain r s1 where run: "capture_poll_next a s = (r, s1)" by (metis prod.exhaust)
  have "capture_inv s1" using capture_inv_poll [OF inv run] by simp
  moreover have "s' = s1" using step run by (simp add: capture_step_def OpPoll split: option.splits)
  ultimately show ?thesis by simp
qed

interpretation capturing: guarded_system "\<lambda>s. s = capture_empty" capture_step capture_inv
proof
  show "s = capture_empty \<Longrightarrow> capture_inv s" for s by (simp add: capture_inv_empty)
qed (rule capture_inv_step)

text \<open>An event of the backend at a screen edge reaches exactly the handles registered there, each
  once and in the order of their registration: the first by this poll, the others by the next polls
  without asking the backend again; no poll panics.\<close>

theorem capture_event_reaches_registered:
  assumes "capturing.reachable s" "cap_pending s = []"
  shows "\<exists>ids s'. distinct ids \<and> (\<forall>i. i \<in> set ids \<longleftrightarrow> id_map s i = Some pos)
    \<and> capture_poll_next (Ready (Some (Inr (pos, ev)))) s =
        (if ids = [] then (Some Pending, s') else (Some (Ready (Some (Inr (hd ids, ev)))), s'))
    \<and> cap_pending s' = map (\<lambda>i. (i, ev)) (tl ids)
    \<and> (\<forall>e rest answer. cap_pending s' = e # rest \<longrightarrow>
         capture_poll_next answer s' = (Some (Ready (Some (Inr e))), s'\<lparr>cap_pending := rest\<rparr>))"
proof -
  let ?ids = "ids_at (position_map s) pos"
  have inv: "capture_inv s" by (rule capturing.reachable_inv [OF assms(1)])
  obtain s1 where s1: "cap_pending s1 = []"
    "capture_poll_next (Ready (Some (Inr (pos, ev)))) s =
        (if ?ids = [] then (Some Pending, s1)
         else (Some (Ready (Some (Inr (hd ?ids, ev)))), s1\<lparr>cap_pending := map (\<lambda>i. (i, ev)) (tl ?ids)\<rparr>))"
    using capture_poll_next_backend [OF inv assms(2), of pos ev] by blast
  define s' where "s' = (if ?ids = [] then s1 else s1\<lparr>cap_pending := map (\<lambda>i. (i, ev)) (tl ?ids)\<rparr>)"
  have "distinct ?ids" "\<forall>i. i \<in> set ?ids \<longleftrightarrow> id_map s i = Some pos"
    using inv by (auto simp: capture_inv_def maps_agree_def)
  moreover have "capture_poll_next (Ready (Some (Inr (pos, ev)))) s =
      (if ?ids = [] then (Some Pending, s') else (Some (Ready (Some (Inr (hd ?ids, ev)))), s'))"
    using s1(2) by (simp add: s'_def)
  moreover have "cap_pending s' = map (\<lambda>i. (i, ev)) (tl ?ids)"
    using s1(1) by (simp add: s'_def)
  ultimately show ?thesis
    by (intro exI [of _ ?ids] exI [of _ s'] conjI allI impI capture_poll_next_pending) simp_all
qed

theorem capture_event_reaches_registered_witness:
  "\<exists>s s'. capturing.reachable s \<and> cap_pending s = [] \<and> id_map s 7 = Some Left \<and> id_map s 9 = Some Left
    \<and> (\<exists>i. i \<in> {7, 9} \<and> capture_poll_next (Ready (Some (Inr (Left, Begin)))) s = (Some (Ready (Some (Inr (i, Begin)))), s'))"
proof -
  define s where "s = capturing.run capture_empty [OpCreate (Inr ()) 7 Left, OpCreate (Inr ()) 9 Left]"
  have reach: "capturing.reachable s"
    unfolding s_def by (intro capturing.run_reachable capturing.reachable.start refl)
  have s: "cap_pending s = []" "id_map s = [7 \<mapsto> Left, 9 \<mapsto> Left]"
    by (simp_all add: s_def capture_step_def unless_panic_def capture_create_def capture_empty_def from_result_def Let_def)
  obtain ids s' where ids: "\<forall>i. i \<in> set ids \<longleftrightarrow> id_map s i = Some Left"
    "capture_poll_next (Ready (Some (Inr (Left, Begin)))) s =
        (if ids = [] then (Some Pending, s') else (Some (Ready (Some (Inr (hd ids, Begin)))), s'))"
    using capture_event_reaches_registered [OF reach s(1), of Left Begin] by (elim exE conjE) (rule that)
  have "set ids = {7, 9}"
    by (rule set_eqI) (simp add: ids(1) s(2))
  then have "ids \<noteq> []" "hd ids \<in> {7, 9}" by (cases ids; force)+
  moreover have "id_map s 7 = Some Left" "id_map s 9 = Some Left" by (simp_all add: s(2))
  moreover have "capture_poll_next (Ready (Some (Inr (Left, Begin)))) s = (Some (Ready (Some (Inr (hd ids, Begin)))), s')"
    using ids(2) \<open>ids \<noteq> []\<close> by simp
  ultimately show ?thesis using reach s(1) by blast
qed

end
