(* ===== verification/Capture_Task.thy ===== *)
theory Capture_Task
  imports Input_Capture Input_Proto
begin

text \<open>
  The capture task, \<^verbatim>\<open>lan-mouse/src/capture.rs\<close>: it runs sessions of the capture front end,
  forwards captured input to the active client, and lets a client become active only by consuming a
  one-shot permit that the service armed and then authorizes. What the surroundings answer during
  a step (the clock, the backend, the connection, the service's decision) is a record of
  arguments; what the task does to them is appended to a list of effects in the order of the calls.
  The event channel to the service outlives the task, so sending on it does not fail.
\<close>

section \<open>Permits\<close>

record CapturePermit =
  permit_handle :: CaptureHandle
  permit_lease_epoch :: u64
  permit_peer_session_epoch :: u64
  permit_expires_at :: Instant

record CaptureGate =
  armed :: "CapturePermit option"
  last_epoch :: u64

definition CaptureGate_default :: CaptureGate where
  "CaptureGate_default = \<lparr>armed = None, last_epoch = 0\<rparr>"

definition permit_arm ::
    "Instant \<Rightarrow> CaptureHandle \<Rightarrow> u64 \<Rightarrow> u64 \<Rightarrow> Duration \<Rightarrow> CaptureGate \<Rightarrow> bool \<times> CaptureGate" where
  "permit_arm now h lease peer valid_for g =
     (if lease > last_epoch g then
        (case Instant_checked_add now valid_for of
           Some expires \<Rightarrow>
             (True, g\<lparr>last_epoch := lease,
                     armed := Some \<lparr>permit_handle = h, permit_lease_epoch = lease,
                       permit_peer_session_epoch = peer, permit_expires_at = expires\<rparr>\<rparr>)
         | None \<Rightarrow> (False, g))
      else (False, g))"

definition permit_consume :: "Instant \<Rightarrow> CaptureHandle \<Rightarrow> CaptureGate \<Rightarrow> CapturePermit option \<times> CaptureGate" where
  "permit_consume now h g =
     (case armed g of
        None \<Rightarrow> (None, g)
      | Some p \<Rightarrow>
          if permit_expires_at p \<le> now then (None, g\<lparr>armed := None\<rparr>)
          else if permit_handle p \<noteq> h then (None, g)
          else (Some p, g\<lparr>armed := None\<rparr>))"

definition permit_disarm :: "u64 \<Rightarrow> CaptureGate \<Rightarrow> CaptureGate" where
  "permit_disarm lease g =
     (case armed g of
        Some p \<Rightarrow> if permit_lease_epoch p = lease then g\<lparr>armed := None\<rparr> else g
      | None \<Rightarrow> g)"

definition permit_remove :: "CaptureHandle \<Rightarrow> CaptureGate \<Rightarrow> CaptureGate" where
  "permit_remove h g =
     (case armed g of
        Some p \<Rightarrow> if permit_handle p = h then g\<lparr>armed := None\<rparr> else g
      | None \<Rightarrow> g)"

definition permit_clear :: "CaptureGate \<Rightarrow> CaptureGate" where
  "permit_clear g = g\<lparr>armed := None\<rparr>"

section \<open>Messages\<close>

datatype CaptureReleaseReason =
    LocalCaptureLost | PeerLeft | PeerReadinessLost | PeerReleaseRequested | ServiceRequested
  | ReleaseBind | TransportFailed

fun failure_reason :: "CaptureReleaseReason \<Rightarrow> string option" where
  "failure_reason LocalCaptureLost = Some ''local_pointer_capture_lost''"
| "failure_reason PeerReadinessLost = Some ''peer_readiness_lost_during_capture''"
| "failure_reason TransportFailed = Some ''peer_transport_failed_during_capture''"
| "failure_reason PeerLeft = None"
| "failure_reason PeerReleaseRequested = None"
| "failure_reason ServiceRequested = None"
| "failure_reason ReleaseBind = None"

datatype CaptureType = Default | EnterOnly

datatype ICaptureEvent =
    CaptureBegin CaptureHandle
  | CaptureDisabled
  | CaptureEnabled
  | CaptureCandidate CaptureHandle
  | Retreated CaptureHandle
  | CommitRequested CaptureHandle u64 u64
  | CommitDeniedReleased CaptureHandle u64
  | ClientReleased CaptureHandle CaptureReleaseReason
  | PeerReadiness CaptureHandle
  | PeerReleaseStarted CaptureHandle u64

text \<open>The flag of \<open>Release\<close> tells whether the request carries a completion channel.\<close>

datatype CaptureRequest =
    Release bool
  | Create CaptureHandle Event_Queue.Position CaptureType
  | Destroy CaptureHandle
  | Reenable
  | SetReleaseBind "Linux list"
  | ResumeIfFocused CaptureHandle

datatype State = WaitingForAck | Sending

fun to_proto_pos :: "Event_Queue.Position \<Rightarrow> Input_Proto.Position" where
  "to_proto_pos Event_Queue.Left = Input_Proto.Left"
| "to_proto_pos Event_Queue.Right = Input_Proto.Right"
| "to_proto_pos Event_Queue.Top = Input_Proto.Top"
| "to_proto_pos Event_Queue.Bottom = Input_Proto.Bottom"

section \<open>State, effects and surroundings\<close>

datatype TaskEffect =
    ToBackend BackendCall
  | ToPeer ProtoEvent CaptureHandle
  | ToService ICaptureEvent
  | ToCompletion bool

record CaptureTask =
  active_peer_session_epoch :: "u64 option"
  active_client :: "CaptureHandle option"
  captures :: "(CaptureHandle \<times> Event_Queue.Position \<times> CaptureType) list"
  gate :: CaptureGate
  release_bind :: "Linux list"
  state :: State
  capture :: InputCapture
  effects :: "TaskEffect list"

record TaskEnv =
  env_now :: Instant
  env_new :: "CaptureError + unit"
  env_creates :: "nat \<Rightarrow> (CaptureError + unit) option"
  env_create :: "CaptureError + unit"
  env_destroy :: "CaptureError + unit"
  env_release :: "CaptureError + unit"
  env_resume :: "CaptureError + bool"
  env_terminate :: "CaptureError + unit"
  env_send :: bool
  env_decision :: "bool option"

type_synonym 'r stepped = "(CaptureError, 'r) outcome \<times> CaptureTask"

definition emit :: "TaskEffect \<Rightarrow> CaptureTask \<Rightarrow> CaptureTask" where
  "emit e t = t\<lparr>effects := effects t @ [e]\<rparr>"

text \<open>An operation of the capture front end, its calls to the backend recorded.\<close>

definition with_capture :: "(InputCapture \<Rightarrow> 'r captured) \<Rightarrow> CaptureTask \<Rightarrow> 'r stepped" where
  "with_capture f t =
     (case f (capture t) of
        (r, calls, c) \<Rightarrow> (r, t\<lparr>capture := c, effects := effects t @ map ToBackend calls\<rparr>))"

text \<open>Sequencing with the operator \<^verbatim>\<open>?\<close>: an error or a panic ends the function in the state reached.\<close>

definition then_do :: "'a stepped \<Rightarrow> ('a \<Rightarrow> CaptureTask \<Rightarrow> 'b stepped) \<Rightarrow> 'b stepped" where
  "then_do m k = (case fst m of Ok x \<Rightarrow> k x (snd m) | Err e \<Rightarrow> (Err e, snd m) | Panic \<Rightarrow> (Panic, snd m))"

section \<open>Captures\<close>

definition add_capture :: "CaptureHandle \<Rightarrow> Event_Queue.Position \<Rightarrow> CaptureType \<Rightarrow> CaptureTask \<Rightarrow> CaptureTask" where
  "add_capture h pos ty t = t\<lparr>captures := captures t @ [(h, pos, ty)]\<rparr>"

definition remove_capture :: "CaptureHandle \<Rightarrow> CaptureTask \<Rightarrow> CaptureTask" where
  "remove_capture h t =
     t\<lparr>captures := filter (\<lambda>c. h \<noteq> fst c) (captures t), gate := permit_remove h (gate t)\<rparr>"

definition is_default_capture_at :: "Event_Queue.Position \<Rightarrow> CaptureTask \<Rightarrow> bool" where
  "is_default_capture_at pos t \<longleftrightarrow> list_ex (\<lambda>(_, p, ty). p = pos \<and> ty = Default) (captures t)"

text \<open>\<^verbatim>\<open>expect("no such capture")\<close>: \<^const>\<open>None\<close> is the panic.\<close>

definition get_pos :: "CaptureHandle \<Rightarrow> CaptureTask \<Rightarrow> Event_Queue.Position option" where
  "get_pos h t = map_option (\<lambda>c. fst (snd c)) (find (\<lambda>c. fst c = h) (captures t))"

definition get_type :: "CaptureHandle \<Rightarrow> CaptureTask \<Rightarrow> CaptureType option" where
  "get_type h t = map_option (\<lambda>c. snd (snd c)) (find (\<lambda>c. fst c = h) (captures t))"

section \<open>Releasing\<close>

definition key_up :: "Linux \<Rightarrow> ProtoEvent" where
  "key_up k = Input_Proto.Input (Keyboard (Key 0 (of_int k) 0))"

definition mods_zero :: ProtoEvent where
  "mods_zero = Input_Proto.Input (Keyboard (Modifiers 0 0 0 0))"

text \<open>The result of a send after the release is only logged.\<close>

definition release_capture :: "TaskEnv \<Rightarrow> CaptureReleaseReason \<Rightarrow> CaptureTask \<Rightarrow> unit stepped" where
  "release_capture env reason t =
     (let released = active_client t;
          t = t\<lparr>active_client := None\<rparr>;
          (keys, c) = (if released \<noteq> None then take_pressed_keys (capture t) else ([], capture t));
          t = t\<lparr>capture := c\<rparr> in
      then_do (with_capture (capture_release (env_release env)) t) (\<lambda>_ t.
        case released of
          None \<Rightarrow> (Ok (), t)
        | Some h \<Rightarrow>
            let t = t\<lparr>active_peer_session_epoch := None\<rparr>;
                t = fold (\<lambda>k. emit (ToPeer (key_up k) h)) keys t;
                t = emit (ToPeer mods_zero h) t;
                t = emit (ToPeer (Leave 0) h) t in
            (Ok (), emit (ToService (ClientReleased h reason)) t)))"

text \<open>\<^verbatim>\<open>release_then_notify\<close>: the service hears of it only after the release.\<close>

definition release_then_notify :: "TaskEnv \<Rightarrow> ICaptureEvent \<Rightarrow> CaptureTask \<Rightarrow> unit stepped" where
  "release_then_notify env ev t =
     then_do (with_capture (capture_release (env_release env)) t)
       (\<lambda>_ t. (Ok (), emit (ToService ev) t))"

text \<open>A dropped decision counts as a refusal.\<close>

definition request_commit_authorization ::
    "TaskEnv \<Rightarrow> CaptureHandle \<Rightarrow> CapturePermit \<Rightarrow> CaptureTask \<Rightarrow> bool \<times> CaptureTask" where
  "request_commit_authorization env h p t =
     ((case env_decision env of Some d \<Rightarrow> d | None \<Rightarrow> False),
      emit (ToService (CommitRequested h (permit_lease_epoch p) (permit_peer_session_epoch p))) t)"

section \<open>Captured events\<close>

text \<open>The last part of \<^verbatim>\<open>handle_capture_event\<close>: forwarding to the active client.\<close>

definition forward_event :: "TaskEnv \<Rightarrow> CaptureHandle \<Rightarrow> CaptureEvent \<Rightarrow> CaptureTask \<Rightarrow> unit stepped" where
  "forward_event env h ev t =
     (if Some h \<noteq> active_client t
      then then_do (with_capture (capture_release (env_release env)) t) (\<lambda>_ t. (Ok (), t))
      else case get_pos h t of
        None \<Rightarrow> (Panic, t)
      | Some pos \<Rightarrow>
          (case (case ev of
                   Begin \<Rightarrow> Some (Enter (to_proto_pos (opposite pos)))
                 | EdgeRetreated \<Rightarrow> None
                 | Event_Queue.Input e \<Rightarrow>
                     (case state t of
                        WaitingForAck \<Rightarrow> Some (Enter (to_proto_pos (opposite pos)))
                      | Sending \<Rightarrow> Some (Input_Proto.Input e))) of
             None \<Rightarrow> (Panic, t)
           | Some out \<Rightarrow>
               let t = emit (ToPeer out h) t in
               if env_send env then (Ok (), t)
               else then_do (release_capture env TransportFailed t) (\<lambda>_ t. (Ok (), t))))"

text \<open>The part in the middle: a crossing of an outgoing edge needs a permit and the service's consent.\<close>

definition enter_client :: "TaskEnv \<Rightarrow> CaptureHandle \<Rightarrow> CaptureEvent \<Rightarrow> CaptureTask \<Rightarrow> unit stepped" where
  "enter_client env h ev t =
     (case permit_consume (env_now env) h (gate t) of
        (None, g) \<Rightarrow> release_then_notify env (CaptureCandidate h) (t\<lparr>gate := g\<rparr>)
      | (Some p, g) \<Rightarrow>
          (case request_commit_authorization env h p (t\<lparr>gate := g\<rparr>) of
             (False, t) \<Rightarrow> release_then_notify env (CommitDeniedReleased h (permit_lease_epoch p)) t
           | (True, t) \<Rightarrow>
               forward_event env h ev
                 (t\<lparr>state := WaitingForAck, active_client := Some h,
                    active_peer_session_epoch := Some (permit_peer_session_epoch p)\<rparr>)))"

definition handle_capture_event :: "TaskEnv \<Rightarrow> CaptureHandle \<Rightarrow> CaptureEvent \<Rightarrow> CaptureTask \<Rightarrow> unit stepped" where
  "handle_capture_event env h ev t =
     (if ev = EdgeRetreated then
        (if active_client t = Some h then release_capture env LocalCaptureLost t
         else (Ok (), emit (ToService (Retreated h)) t))
      else if keys_pressed (release_bind t) (capture t) then release_capture env ReleaseBind t
      else
        let t = (if ev = Begin then emit (ToService (CaptureBegin h)) t else t) in
        case get_type h t of
          None \<Rightarrow> (Panic, t)
        | Some EnterOnly \<Rightarrow>
            (case get_pos h t of
               None \<Rightarrow> (Panic, t)
             | Some pos \<Rightarrow>
                 if is_default_capture_at pos t then (Ok (), t)
                 else then_do (with_capture (capture_release (env_release env)) t) (\<lambda>_ t. (Ok (), t)))
        | Some Default \<Rightarrow>
            if ev = Begin \<and> Some h \<noteq> active_client t then enter_client env h ev t
            else forward_event env h ev t)"

section \<open>One session\<close>

text \<open>
  The branches of the \<^verbatim>\<open>select!\<close> of \<^verbatim>\<open>do_capture_session\<close>: which of the ready ones runs is not
  determined, so a session is any sequence of these inputs. \<open>FromCapture\<close> carries what the
  backend's stream answers to the poll.
\<close>

datatype SessionInput =
    FromCapture "(CaptureError + Event_Queue.Position \<times> CaptureEvent) option Poll"
  | FromPeer CaptureHandle ProtoEvent
  | FromService CaptureRequest
  | Cancelled

datatype Flow = Continue | Finished

definition peer_event :: "TaskEnv \<Rightarrow> CaptureHandle \<Rightarrow> ProtoEvent \<Rightarrow> CaptureTask \<Rightarrow> unit stepped" where
  "peer_event env h ev t =
     (if (case active_client t of Some a \<Rightarrow> h \<noteq> a | None \<Rightarrow> False) then (Ok (), t)
      else case ev of
        Ack _ \<Rightarrow> (Ok (), t\<lparr>state := Sending\<rparr>)
      | Leave _ \<Rightarrow> release_capture env PeerLeft t
      | Readiness keyboard_ready pointer_ready session_epoch \<Rightarrow>
          then_do
            (if active_client t = Some h
                \<and> (\<not> keyboard_ready \<or> \<not> pointer_ready \<or> active_peer_session_epoch t \<noteq> Some session_epoch)
             then release_capture env PeerReadinessLost t else (Ok (), t))
            (\<lambda>_ t. (Ok (), emit (ToService (PeerReadiness h)) t))
      | Hello _ \<Rightarrow> (Ok (), emit (ToService (PeerReadiness h)) t)
      | ReleaseRequest release_epoch \<Rightarrow>
          let t = (if active_client t = Some h
                   then emit (ToService (PeerReleaseStarted h release_epoch)) t else t) in
          then_do (release_capture env PeerReleaseRequested t)
            (\<lambda>_ t. (Ok (), emit (ToPeer (ReleaseAck release_epoch) h) t))
      | _ \<Rightarrow> (Ok (), t))"

definition session_request :: "TaskEnv \<Rightarrow> CaptureRequest \<Rightarrow> CaptureTask \<Rightarrow> unit stepped" where
  "session_request env req t = (case req of
     Reenable \<Rightarrow> (Ok (), t)
   | Release completion \<Rightarrow>
       (case release_capture env ServiceRequested (t\<lparr>gate := permit_clear (gate t)\<rparr>) of
          (r, t) \<Rightarrow> (r, if completion then emit (ToCompletion (case r of Ok _ \<Rightarrow> True | _ \<Rightarrow> False)) t else t))
   | Create h p ty \<Rightarrow> with_capture (capture_create (env_create env) h p) (add_capture h p ty t)
   | Destroy h \<Rightarrow> with_capture (capture_destroy (env_destroy env) h) (remove_capture h t)
   | SetReleaseBind keys \<Rightarrow> (Ok (), t\<lparr>release_bind := keys\<rparr>)
   | ResumeIfFocused h \<Rightarrow>
       then_do (with_capture (capture_resume_if_focused (env_resume env) h) t) (\<lambda>_ t. (Ok (), t)))"

definition session_step :: "TaskEnv \<Rightarrow> SessionInput \<Rightarrow> CaptureTask \<Rightarrow> Flow stepped" where
  "session_step env inp t = (case inp of
     FromCapture answer \<Rightarrow>
       (case capture_poll_next answer (capture t) of
          (None, c) \<Rightarrow> (Panic, t\<lparr>capture := c\<rparr>)
        | (Some Pending, c) \<Rightarrow> (Ok Continue, t\<lparr>capture := c\<rparr>)
        | (Some (Ready None), c) \<Rightarrow> (Ok Finished, t\<lparr>capture := c\<rparr>)
        | (Some (Ready (Some (Inl e))), c) \<Rightarrow> (Err e, t\<lparr>capture := c\<rparr>)
        | (Some (Ready (Some (Inr (h, ev)))), c) \<Rightarrow>
            then_do (handle_capture_event env h ev (t\<lparr>capture := c\<rparr>)) (\<lambda>_ t. (Ok Continue, t)))
   | FromPeer h ev \<Rightarrow> then_do (peer_event env h ev t) (\<lambda>_ t. (Ok Continue, t))
   | FromService req \<Rightarrow> then_do (session_request env req t) (\<lambda>_ t. (Ok Continue, t))
   | Cancelled \<Rightarrow> (Ok Finished, t))"

section \<open>Sessions in sequence\<close>

text \<open>
  \<^verbatim>\<open>create_captures\<close> registers every known capture; an answer \<^const>\<open>None\<close> is a cancellation that
  arrives first.
\<close>

fun create_captures ::
    "(nat \<Rightarrow> (CaptureError + unit) option) \<Rightarrow> (CaptureHandle \<times> Event_Queue.Position \<times> CaptureType) list
      \<Rightarrow> CaptureTask \<Rightarrow> unit stepped" where
  "create_captures answers [] t = (Ok (), t)"
| "create_captures answers ((h, pos, ty) # cs) t =
     (case answers 0 of
        None \<Rightarrow> (Ok (), t)
      | Some a \<Rightarrow>
          then_do (with_capture (capture_create a h pos) t)
            (\<lambda>_ t. create_captures (\<lambda>n. answers (Suc n)) cs t))"

text \<open>
  The task is waiting for \<^verbatim>\<open>Reenable\<close>, in a session, stopped by cancellation, or dead by a panic.
  The guard of a session reports \<^verbatim>\<open>CaptureEnabled\<close> at its start and \<^verbatim>\<open>CaptureDisabled\<close> when it is
  dropped, after the backend was terminated.
\<close>

datatype Phase = Waiting | InSession | Stopped | Dead

definition end_session :: "TaskEnv \<Rightarrow> CaptureTask \<Rightarrow> CaptureTask" where
  "end_session env t =
     emit (ToService CaptureDisabled) (snd (with_capture (capture_terminate (env_terminate env)) t))"

definition do_capture :: "TaskEnv \<Rightarrow> CaptureTask \<Rightarrow> Phase \<times> CaptureTask" where
  "do_capture env t =
     (case env_new env of
        Inl _ \<Rightarrow> (Waiting, t)
      | Inr _ \<Rightarrow>
          let t = emit (ToService CaptureEnabled) (t\<lparr>capture := capture_empty\<rparr>) in
          (case create_captures (env_creates env) (captures t) t of
             (Ok _, t) \<Rightarrow> (InSession, t)
           | (Err _, t) \<Rightarrow> (Waiting, end_session env t)
           | (Panic, t) \<Rightarrow> (Dead, t)))"

definition waiting_request :: "TaskEnv \<Rightarrow> CaptureRequest \<Rightarrow> CaptureTask \<Rightarrow> Phase \<times> CaptureTask" where
  "waiting_request env req t = (case req of
     Reenable \<Rightarrow> do_capture env t
   | Create h p ty \<Rightarrow> (Waiting, add_capture h p ty t)
   | Destroy h \<Rightarrow> (Waiting, remove_capture h t)
   | Release completion \<Rightarrow>
       let t = t\<lparr>gate := permit_clear (gate t)\<rparr> in
       (Waiting, if completion then emit (ToCompletion True) t else t)
   | SetReleaseBind keys \<Rightarrow> (Waiting, t\<lparr>release_bind := keys\<rparr>)
   | ResumeIfFocused _ \<Rightarrow> (Waiting, t))"

text \<open>The service reaches the shared gate directly: \<^verbatim>\<open>arm\<close>, \<^verbatim>\<open>disarm\<close> and \<^verbatim>\<open>request_release\<close>.\<close>

datatype TaskInput =
    Step SessionInput
  | Arm CaptureHandle u64 u64 Duration
  | Disarm u64
  | RequestRelease

definition task_step :: "TaskEnv \<Rightarrow> TaskInput \<Rightarrow> Phase \<times> CaptureTask \<Rightarrow> Phase \<times> CaptureTask" where
  "task_step env inp s = (case s of (phase, t) \<Rightarrow> (case inp of
     Arm h lease peer valid_for \<Rightarrow>
       (phase, t\<lparr>gate := snd (permit_arm (env_now env) h lease peer valid_for (gate t))\<rparr>)
   | Disarm lease \<Rightarrow> (phase, t\<lparr>gate := permit_disarm lease (gate t)\<rparr>)
   | RequestRelease \<Rightarrow> (phase, t\<lparr>gate := permit_clear (gate t)\<rparr>)
   | Step si \<Rightarrow>
       (case phase of
          Waiting \<Rightarrow>
            (case si of
               FromService req \<Rightarrow> waiting_request env req t
             | Cancelled \<Rightarrow> (Stopped, t)
             | _ \<Rightarrow> (phase, t))
        | InSession \<Rightarrow>
            (case session_step env si t of
               (Ok Continue, t) \<Rightarrow> (InSession, t)
             | (Ok Finished, t) \<Rightarrow> (if si = Cancelled then Stopped else Waiting, end_session env t)
             | (Err _, t) \<Rightarrow> (Waiting, end_session env t)
             | (Panic, t) \<Rightarrow> (Dead, t))
        | _ \<Rightarrow> (phase, t))))"

definition task_new :: "Linux list \<Rightarrow> CaptureTask" where
  "task_new keys = \<lparr>active_peer_session_epoch = None, active_client = None, captures = [],
     gate = CaptureGate_default, release_bind = keys, state = WaitingForAck, capture = capture_empty,
     effects = []\<rparr>"

text \<open>\<^verbatim>\<open>run\<close> begins with a session.\<close>

definition task_start :: "TaskEnv \<Rightarrow> Linux list \<Rightarrow> Phase \<times> CaptureTask" where
  "task_start env keys = do_capture env (task_new keys)"

primrec task_run :: "(TaskEnv \<times> TaskInput) list \<Rightarrow> Phase \<times> CaptureTask \<Rightarrow> Phase \<times> CaptureTask" where
  "task_run [] s = s"
| "task_run (x # xs) s = task_run xs (task_step (fst x) (snd x) s)"

end
