(* ===== verification/Capture_Task_Props.thy ===== *)
theory Capture_Task_Props
  imports Capture_Task
begin

text \<open>
  What the capture task guarantees: control of another host starts only with a permit and the
  service's consent, a release gives the input back before anything is sent over the network, and
  two sequences of inputs in which the task does not keep to this.
\<close>

section \<open>Releasing, exactly\<close>

lemma fold_emit: "fold (\<lambda>k. emit (f k)) ks t = t\<lparr>effects := effects t @ map f ks\<rparr>"
  by (induction ks arbitrary: t) (simp_all add: emit_def)

definition farewell :: "CaptureReleaseReason \<Rightarrow> CaptureTask \<Rightarrow> TaskEffect list" where
  "farewell reason t = (case active_client t of
     None \<Rightarrow> []
   | Some h \<Rightarrow> map (\<lambda>k. ToPeer (key_up k) h) (pressed_keys (capture t))
       @ [ToPeer mods_zero h, ToPeer (Leave 0) h, ToService (ClientReleased h reason)])"

lemma release_capture_result:
  "release_capture env reason t = (case env_release env of
     Inl e \<Rightarrow> (Err e, t\<lparr>active_client := None, capture := (capture t)\<lparr>pressed_keys := []\<rparr>,
                      effects := effects t @ [ToBackend BackendRelease]\<rparr>)
   | Inr _ \<Rightarrow> (Ok (), t\<lparr>active_client := None,
                active_peer_session_epoch :=
                  (if active_client t = None then active_peer_session_epoch t else None),
                capture := (capture t)\<lparr>pressed_keys := []\<rparr>,
                effects := effects t @ ToBackend BackendRelease # farewell reason t\<rparr>))"
  by (simp add: release_capture_def then_do_def with_capture_def capture_release_def from_result_def
      take_pressed_keys_def fold_emit farewell_def emit_def Let_def split: sum.split option.split)

section \<open>Control\<close>

text \<open>Who may be sent input during a step that begins in \<open>t\<close>.\<close>

definition permitted :: "TaskEnv \<Rightarrow> CaptureTask \<Rightarrow> CaptureHandle \<Rightarrow> bool" where
  "permitted env t h \<longleftrightarrow> (case armed (gate t) of
     None \<Rightarrow> False
   | Some p \<Rightarrow> permit_handle p = h \<and> env_now env < permit_expires_at p \<and> env_decision env = Some True)"

definition may_control :: "TaskEnv \<Rightarrow> CaptureTask \<Rightarrow> CaptureHandle \<Rightarrow> bool" where
  "may_control env t h \<longleftrightarrow> active_client t = Some h \<or> permitted env t h"

fun effect_ok :: "TaskEnv \<Rightarrow> CaptureTask \<Rightarrow> TaskEffect \<Rightarrow> bool" where
  "effect_ok env t (ToPeer ev h) \<longleftrightarrow> (case ev of ReleaseAck _ \<Rightarrow> True | _ \<Rightarrow> may_control env t h)"
| "effect_ok env t (ToBackend _) \<longleftrightarrow> True"
| "effect_ok env t (ToService _) \<longleftrightarrow> True"
| "effect_ok env t (ToCompletion _) \<longleftrightarrow> True"

definition controlled :: "TaskEnv \<Rightarrow> CaptureTask \<Rightarrow> CaptureTask \<Rightarrow> bool" where
  "controlled env t0 t \<longleftrightarrow>
     (\<exists>new. effects t = effects t0 @ new \<and> list_all (effect_ok env t0) new)
     \<and> (\<forall>h. active_client t = Some h \<longrightarrow> may_control env t0 h)
     \<and> (\<forall>h. active_client t = Some h \<and> active_client t0 \<noteq> Some h \<longrightarrow> armed (gate t) = None)"

named_theorems control_intro \<open>every operation of the task keeps within control\<close>

lemma controlled_refl [control_intro]: "controlled env t t"
  by (auto simp: controlled_def may_control_def)

lemma controlled_frame [simp]:
  "controlled env t0 (t\<lparr>state := x\<rparr>) \<longleftrightarrow> controlled env t0 t"
  "controlled env t0 (t\<lparr>capture := c\<rparr>) \<longleftrightarrow> controlled env t0 t"
  "controlled env t0 (t\<lparr>captures := cs\<rparr>) \<longleftrightarrow> controlled env t0 t"
  "controlled env t0 (t\<lparr>release_bind := ks\<rparr>) \<longleftrightarrow> controlled env t0 t"
  "controlled env t0 (t\<lparr>active_peer_session_epoch := e\<rparr>) \<longleftrightarrow> controlled env t0 t"
  by (simp_all add: controlled_def)

lemma controlled_inactive [control_intro]:
  "controlled env t0 t \<Longrightarrow> controlled env t0 (t\<lparr>active_client := None\<rparr>)"
  by (simp add: controlled_def)

lemma controlled_effects [control_intro]:
  assumes "controlled env t0 t" "list_all (effect_ok env t0) es"
  shows "controlled env t0 (t\<lparr>effects := effects t @ es\<rparr>)"
  using assms by (auto simp: controlled_def)

lemma controlled_emit [control_intro]:
  "controlled env t0 t \<Longrightarrow> effect_ok env t0 e \<Longrightarrow> controlled env t0 (emit e t)"
  using controlled_effects [of env t0 t "[e]"] by (simp add: emit_def)

lemma controlled_gate [control_intro]:
  "controlled env t0 t \<Longrightarrow> (armed (gate t) = None \<Longrightarrow> armed g = None) \<Longrightarrow> controlled env t0 (t\<lparr>gate := g\<rparr>)"
  by (auto simp: controlled_def)

lemma controlled_with_capture [control_intro]:
  assumes "controlled env t0 t"
  shows "controlled env t0 (snd (with_capture f t))"
proof -
  obtain r calls c where "f (capture t) = (r, calls, c)" by (cases "f (capture t)")
  moreover have "list_all (effect_ok env t0) (map ToBackend calls)" by (simp add: list_all_iff)
  ultimately show ?thesis
    using controlled_effects [of env t0 "t\<lparr>capture := c\<rparr>"] assms by (simp add: with_capture_def)
qed

lemma controlled_then_do [control_intro]:
  "controlled env t0 (snd m) \<Longrightarrow> (\<And>x t. controlled env t0 t \<Longrightarrow> controlled env t0 (snd (k x t)))
   \<Longrightarrow> controlled env t0 (snd (then_do m k))"
  by (cases "fst m") (simp_all add: then_do_def)

lemma farewell_ok:
  "controlled env t0 t \<Longrightarrow> list_all (effect_ok env t0) (farewell reason t)"
  by (auto simp: farewell_def controlled_def key_up_def mods_zero_def list_all_iff split: option.splits)

lemma controlled_release [control_intro]:
  assumes "controlled env t0 t"
  shows "controlled env t0 (snd (release_capture env reason t))"
proof -
  let ?t = "t\<lparr>active_client := None\<rparr>"
  have "controlled env t0 (?t\<lparr>effects := effects ?t @ ToBackend BackendRelease # farewell reason t\<rparr>)"
    "controlled env t0 (?t\<lparr>effects := effects ?t @ [ToBackend BackendRelease]\<rparr>)"
    using assms farewell_ok [OF assms, of reason]
    by (intro controlled_effects controlled_inactive; simp)+
  then show ?thesis
    by (simp add: release_capture_result controlled_def split: sum.split)
qed

lemma controlled_release_then_notify [control_intro]:
  "controlled env t0 t \<Longrightarrow> controlled env t0 (snd (release_then_notify env ev t))"
  unfolding release_then_notify_def by (intro control_intro) (auto intro: control_intro)

lemma controlled_forward [control_intro]:
  assumes "controlled env t0 t"
  shows "controlled env t0 (snd (forward_event env h ev t))"
proof (cases "active_client t = Some h")
  case True
  with assms have h: "may_control env t0 h" by (simp add: controlled_def)
  have sent: "controlled env t0 (emit (ToPeer out h) t)" if "\<forall>e. out \<noteq> ReleaseAck e" for out
    using assms h that by (intro controlled_emit) (auto split: ProtoEvent.split)
  show ?thesis
    using True assms
    by (auto simp: forward_event_def Let_def intro!: sent control_intro
        split: option.split CaptureEvent.split State.split)
next
  case False
  then show ?thesis
    using assms by (auto simp: forward_event_def intro!: control_intro)
qed

lemma permit_consume_None: "armed g = None \<Longrightarrow> permit_consume now h g = (None, g)"
  by (simp add: permit_consume_def)

lemma permit_consume_gate: "permit_consume now h g = (None, g') \<Longrightarrow> armed g = None \<Longrightarrow> armed g' = None"
  by (simp add: permit_consume_def)

lemma permit_consume_Some:
  "permit_consume now h g = (Some p, g') \<Longrightarrow>
     armed g = Some p \<and> permit_handle p = h \<and> now < permit_expires_at p \<and> armed g' = None"
  by (auto simp: permit_consume_def split: option.splits if_splits)

lemma controlled_enter [control_intro]:
  assumes t: "controlled env t0 t" and gate: "gate t = gate t0"
  shows "controlled env t0 (snd (enter_client env h ev t))"
proof -
  obtain r g where c: "permit_consume (env_now env) h (gate t) = (r, g)" by (metis prod.exhaust)
  show ?thesis
  proof (cases r)
    case None
    have "controlled env t0 (t\<lparr>gate := g\<rparr>)"
      using t c None by (intro controlled_gate) (auto dest: permit_consume_gate)
    then show ?thesis using c None by (simp add: enter_client_def controlled_release_then_notify)
  next
    case (Some p)
    note p = permit_consume_Some [OF c [unfolded Some]]
    let ?t = "emit (ToService (CommitRequested h (permit_lease_epoch p) (permit_peer_session_epoch p))) (t\<lparr>gate := g\<rparr>)"
    have asked: "controlled env t0 ?t"
      using t p by (intro controlled_emit controlled_gate) simp_all
    have granted: "controlled env t0 (?t\<lparr>state := WaitingForAck, active_client := Some h\<rparr>)" if "env_decision env = Some True"
      using asked p that gate by (auto simp: controlled_def may_control_def permitted_def emit_def)
    show ?thesis
      using c Some asked granted
      by (auto simp: enter_client_def request_commit_authorization_def
          intro!: control_intro split: option.split bool.split)
  qed
qed

lemma gate_emit [simp]: "gate (emit e t) = gate t"
  by (simp add: emit_def)

lemma controlled_handle [control_intro]:
  assumes "controlled env t0 t" "gate t = gate t0"
  shows "controlled env t0 (snd (handle_capture_event env h ev t))"
proof -
  define t1 where "t1 = (if ev = Begin then emit (ToService (CaptureBegin h)) t else t)"
  have "controlled env t0 t1" "gate t1 = gate t0"
    using assms by (auto simp: t1_def intro: control_intro)
  then show ?thesis
    using assms unfolding handle_capture_event_def t1_def [symmetric] Let_def
    by (auto intro!: control_intro split: option.split CaptureType.split)
qed

lemma controlled_peer [control_intro]:
  "controlled env t0 t \<Longrightarrow> controlled env t0 (snd (peer_event env h ev t))"
  by (auto simp: peer_event_def Let_def intro!: control_intro split: ProtoEvent.split option.split)

lemma permit_gates_None [simp]:
  "armed (permit_clear g) = None"
  "armed g = None \<Longrightarrow> armed (permit_remove h g) = None"
  "armed g = None \<Longrightarrow> armed (permit_disarm lease g) = None"
  by (simp_all add: permit_clear_def permit_remove_def permit_disarm_def)

lemma controlled_captures [control_intro]:
  "controlled env t0 t \<Longrightarrow> controlled env t0 (add_capture h p ty t)"
  "controlled env t0 t \<Longrightarrow> controlled env t0 (remove_capture h t)"
  using controlled_gate [of env t0 t "permit_remove h (gate t)"]
  by (simp_all add: add_capture_def remove_capture_def) (simp add: controlled_def)

lemma controlled_session_request [control_intro]:
  assumes "controlled env t0 t"
  shows "controlled env t0 (snd (session_request env req t))"
proof (cases req)
  case (Release completion)
  have "controlled env t0 (t\<lparr>gate := permit_clear (gate t)\<rparr>)"
    using assms by (intro controlled_gate) simp_all
  then have "controlled env t0 (snd (release_capture env ServiceRequested (t\<lparr>gate := permit_clear (gate t)\<rparr>)))"
    by (rule controlled_release)
  then show ?thesis
    by (simp add: Release session_request_def split_beta controlled_emit)
qed (use assms in \<open>auto simp: session_request_def intro!: control_intro\<close>)

lemma controlled_session [control_intro]:
  assumes "controlled env t0 t" "gate t = gate t0"
  shows "controlled env t0 (snd (session_step env inp t))"
proof (cases inp)
  case (FromCapture answer)
  obtain r c where "capture_poll_next answer (capture t) = (r, c)" by (metis prod.exhaust)
  with FromCapture assms show ?thesis
    by (auto simp: session_step_def intro!: control_intro split: option.split Poll.split sum.split)
qed (use assms in \<open>auto simp: session_step_def intro!: control_intro\<close>)

lemma controlled_create_captures [control_intro]:
  "controlled env t0 t \<Longrightarrow> controlled env t0 (snd (create_captures answers cs t))"
  by (induction answers cs t rule: create_captures.induct)
    (auto intro!: controlled_then_do controlled_with_capture split: option.split)

lemma controlled_end_session [control_intro]:
  "controlled env t0 t \<Longrightarrow> controlled env t0 (end_session env t)"
  unfolding end_session_def by (intro control_intro) simp_all

lemma controlled_do_capture [control_intro]:
  assumes "controlled env t0 t"
  shows "controlled env t0 (snd (do_capture env t))"
proof -
  define t1 where "t1 = emit (ToService CaptureEnabled) (t\<lparr>capture := capture_empty\<rparr>)"
  have "controlled env t0 t1" unfolding t1_def using assms by (intro control_intro) simp_all
  then have "controlled env t0 (snd (create_captures (env_creates env) (captures t1) t1))"
    by (rule controlled_create_captures)
  then show ?thesis
    using assms unfolding do_capture_def t1_def [symmetric] Let_def
    by (cases "create_captures (env_creates env) (captures t1) t1")
      (auto intro: control_intro split: sum.split outcome.split)
qed

lemma controlled_waiting [control_intro]:
  assumes "controlled env t0 t"
  shows "controlled env t0 (snd (waiting_request env req t))"
  using assms by (cases req) (auto simp: waiting_request_def Let_def intro!: control_intro)

lemma controlled_task_step: "controlled env t (snd (task_step env inp (phase, t)))"
proof (cases inp)
  case (Step si)
  have "controlled env t (snd (session_step env si t))" by (intro control_intro) simp_all
  then show ?thesis
    using Step by (cases "session_step env si t")
      (auto simp: task_step_def intro: control_intro
        split: Phase.split SessionInput.split outcome.split Flow.split)
next
  case (Arm h lease peer valid_for)
  then show ?thesis by (simp add: task_step_def controlled_def may_control_def)
qed (auto simp: task_step_def intro!: control_intro)

section \<open>Properties\<close>

text \<open>C4. A host gains control of another only with a permit: in every step of the capture task, for
  every behaviour of the backend, the connection and the service, a client becomes active only by
  consuming the armed, unexpired permit for exactly this client together with the service's
  consent, the permit is gone afterwards, and nothing but the acknowledgement of a release request
  is sent to a client that is neither active nor so permitted.\<close>

theorem control_needs_permit:
  "case task_step env inp (phase, t) of (phase', t') \<Rightarrow>
     (\<exists>new. effects t' = effects t @ new
       \<and> (\<forall>ev h. ToPeer ev h \<in> set new \<longrightarrow>
            active_client t = Some h \<or> permitted env t h \<or> (\<exists>e. ev = ReleaseAck e)))
     \<and> (\<forall>h. active_client t' = Some h \<and> active_client t \<noteq> Some h \<longrightarrow>
          permitted env t h \<and> armed (gate t') = None)"
proof -
  obtain phase' t' where run: "task_step env inp (phase, t) = (phase', t')" by (metis prod.exhaust)
  have c: "controlled env t t'" using controlled_task_step [of env t inp phase] by (simp add: run)
  then obtain new where new: "effects t' = effects t @ new" "list_all (effect_ok env t) new"
    by (auto simp: controlled_def)
  have "\<forall>ev h. ToPeer ev h \<in> set new \<longrightarrow>
      active_client t = Some h \<or> permitted env t h \<or> (\<exists>e. ev = ReleaseAck e)"
    using new(2) by (fastforce simp: list_all_iff may_control_def split: ProtoEvent.splits)
  with new(1) c show ?thesis
    unfolding run controlled_def may_control_def by auto
qed

definition demo_env :: TaskEnv where
  "demo_env = \<lparr>env_now = 0, env_new = Inr (), env_creates = (\<lambda>_. Some (Inr ())), env_create = Inr (),
     env_destroy = Inr (), env_release = Inr (), env_resume = Inr True, env_terminate = Inr (),
     env_send = True, env_decision = Some True\<rparr>"

definition demo_task :: CaptureTask where
  "demo_task = (task_new [29])\<lparr>captures := [(7, Event_Queue.Left, Default)],
     capture := capture_empty\<lparr>position_map := [Event_Queue.Left \<mapsto> [7]], id_map := [7 \<mapsto> Event_Queue.Left]\<rparr>,
     gate := \<lparr>armed = Some \<lparr>permit_handle = 7, permit_lease_epoch = 1, permit_peer_session_epoch = 5,
       permit_expires_at = 10\<rparr>, last_epoch = 1\<rparr>\<rparr>"

lemmas task_eval =
  task_step_def session_step_def handle_capture_event_def enter_client_def forward_event_def
  request_commit_authorization_def permit_consume_def capture_poll_next_def update_pressed_keys_def
  then_do_def with_capture_def emit_def Let_def keys_pressed_def get_type_def get_pos_def

theorem control_needs_permit_witness:
  "permitted demo_env demo_task 7 \<and> active_client demo_task = None
   \<and> active_client (snd (task_step demo_env (Step (FromCapture (Ready (Some (Inr (Event_Queue.Left, Begin))))))
       (InSession, demo_task))) = Some 7
   \<and> armed (gate (snd (task_step demo_env (Step (FromCapture (Ready (Some (Inr (Event_Queue.Left, Begin))))))
       (InSession, demo_task)))) = None"
proof -
  let ?inp = "Step (FromCapture (Ready (Some (Inr (Event_Queue.Left, Begin)))))"
  have "active_client demo_task = None" by (simp add: demo_task_def task_new_def)
  moreover have "active_client (snd (task_step demo_env ?inp (InSession, demo_task))) = Some 7"
    by (simp add: demo_task_def task_new_def demo_env_def task_eval capture_empty_def)
  ultimately show ?thesis
    using control_needs_permit [where env = demo_env and inp = ?inp and phase = InSession and t = demo_task]
    by (auto simp: split_beta)
qed


text \<open>C38. A capture session that ends while a client is active does not end the activation: after an
  error of the backend and a restart the task still regards the client as active, and the next
  crossing of its edge sends it an enter event without a permit and without asking the service.\<close>

theorem failed_session_keeps_client:
  assumes "active_client t = Some h" "captures t = [(h, pos, Default)]" "armed (gate t) = None"
    and "cap_pending (capture t) = []" "release_bind t \<noteq> []"
    and "env_new env = Inr ()" "env_creates env 0 = Some (Inr ())" "env_send env"
  shows "case task_run [(env, Step (FromCapture (Ready (Some (Inl e))))), (env, Step (FromService Reenable)),
        (env, Step (FromCapture (Ready (Some (Inr (pos, Begin))))))] (InSession, t) of
      (phase', t') \<Rightarrow> phase' = InSession \<and> active_client t' = Some h
        \<and> effects t' = effects t @ [ToBackend BackendTerminate, ToService CaptureDisabled,
            ToService CaptureEnabled, ToBackend (BackendCreate pos), ToService (CaptureBegin h),
            ToPeer (Enter (to_proto_pos (opposite pos))) h]"
  using assms
  by (cases "release_bind t")
    (simp_all add: task_eval waiting_request_def do_capture_def end_session_def capture_terminate_def
      capture_create_def capture_empty_def from_result_def)

theorem failed_session_keeps_client_witness:
  "case task_run [(demo_env, Step (FromCapture (Ready (Some (Inl EndOfStream))))),
      (demo_env, Step (FromService Reenable)),
      (demo_env, Step (FromCapture (Ready (Some (Inr (Event_Queue.Left, Begin))))))]
      (InSession, demo_task\<lparr>active_client := Some 7, gate := CaptureGate_default\<rparr>) of
    (phase', t') \<Rightarrow> phase' = InSession \<and> last (effects t') = ToPeer (Enter Input_Proto.Right) 7"
proof -
  let ?t = "demo_task\<lparr>active_client := Some 7, gate := CaptureGate_default\<rparr>"
  have "active_client ?t = Some 7" "captures ?t = [(7, Event_Queue.Left, Default)]" "armed (gate ?t) = None"
    "cap_pending (capture ?t) = []" "release_bind ?t \<noteq> []"
    "env_new demo_env = Inr ()" "env_creates demo_env 0 = Some (Inr ())" "env_send demo_env"
    by (simp_all add: demo_task_def task_new_def demo_env_def CaptureGate_default_def capture_empty_def)
  from failed_session_keeps_client [OF this, where e = EndOfStream] show ?thesis
    by (auto simp del: task_run.simps)
qed

text \<open>Destroying a capture can kill the capture task: with two handles at the same edge an event is
  delivered to them one after the other, and if the request to destroy the second is handled in
  between, the second delivery panics because the handle is no longer known.\<close>

theorem destroy_between_deliveries_panics:
  assumes "h1 \<noteq> h2" "keys \<noteq> []" "env_new env = Inr ()" "env_create env = Inr ()" "env_release env = Inr ()"
  shows "fst (task_run
      [(env, Step (FromService (Create h1 pos Default))), (env, Step (FromService (Create h2 pos ty))),
       (env, Step (FromCapture (Ready (Some (Inr (pos, Begin)))))),
       (env, Step (FromService (Destroy h2))),
       (env, Step (FromCapture answer))] (task_start env keys)) = Dead"
  using assms
  by (cases keys)
    (simp_all add: task_eval task_start_def task_new_def do_capture_def session_request_def add_capture_def
      remove_capture_def permit_remove_def capture_create_def capture_destroy_def capture_empty_def
      from_result_def CaptureGate_default_def release_then_notify_def capture_release_def)

theorem destroy_between_deliveries_panics_witness:
  "fst (task_run
      [(demo_env, Step (FromService (Create 7 Event_Queue.Left Default))),
       (demo_env, Step (FromService (Create 9 Event_Queue.Left EnterOnly))),
       (demo_env, Step (FromCapture (Ready (Some (Inr (Event_Queue.Left, Begin)))))),
       (demo_env, Step (FromService (Destroy 9))),
       (demo_env, Step (FromCapture Pending))] (task_start demo_env [29])) = Dead"
  by (rule destroy_between_deliveries_panics) (simp_all add: demo_env_def)

end
