(* ===== verification/Clipboard_Types.thy ===== *)
theory Clipboard_Types
  imports Wire_Bytes
begin

text \<open>
  Identities and values of the clipboard protocol, \<^verbatim>\<open>lan-mouse-clipboard/src/types.rs\<close>. The newtype
  identifiers are their integers. A Rust string is its UTF-8 bytes; the validity check of the
  standard library is the executable predicate \<^verbatim>\<open>valid_utf8\<close>.
\<close>

section \<open>UTF-8\<close>

definition utf8_cont :: "u8 \<Rightarrow> bool" where
  "utf8_cont b \<longleftrightarrow> 0x80 \<le> b \<and> b \<le> 0xBF"

text \<open>
  The well-formed sequences of the standard: no overlong forms, no surrogates, nothing beyond
  U+10FFFF. The number of bytes of the first character, zero if it is malformed.
\<close>

definition utf8_first :: "u8 list \<Rightarrow> nat" where
  "utf8_first bs = (case bs of
     [] \<Rightarrow> 0
   | b # rest \<Rightarrow>
       if b < 0x80 then 1
       else if 0xC2 \<le> b \<and> b \<le> 0xDF then
         (case rest of c # _ \<Rightarrow> if utf8_cont c then 2 else 0 | _ \<Rightarrow> 0)
       else if 0xE0 \<le> b \<and> b \<le> 0xEF then
         (case rest of
            c # d # _ \<Rightarrow>
              if utf8_cont c \<and> utf8_cont d \<and> (b = 0xE0 \<longrightarrow> 0xA0 \<le> c) \<and> (b = 0xED \<longrightarrow> c \<le> 0x9F)
              then 3 else 0
          | _ \<Rightarrow> 0)
       else if 0xF0 \<le> b \<and> b \<le> 0xF4 then
         (case rest of
            c # d # e # _ \<Rightarrow>
              if utf8_cont c \<and> utf8_cont d \<and> utf8_cont e \<and> (b = 0xF0 \<longrightarrow> 0x90 \<le> c)
                 \<and> (b = 0xF4 \<longrightarrow> c \<le> 0x8F)
              then 4 else 0
          | _ \<Rightarrow> 0)
       else 0)"

function valid_utf8 :: "u8 list \<Rightarrow> bool" where
  "valid_utf8 bs \<longleftrightarrow>
     (if bs = [] then True
      else if utf8_first bs = 0 then False
      else valid_utf8 (drop (utf8_first bs) bs))"
  by pat_completeness auto
termination
  by (relation "measure length") auto

declare valid_utf8.simps [simp del]

section \<open>Identities\<close>

type_synonym ProcessSessionId = u128
type_synonym AuthoritySessionId = u128
type_synonym OwnershipEpoch = u64
type_synonym HandoffEpoch = u64
type_synonym SnapshotSequence = u64
type_synonym NativeGeneration = u64
type_synonym HostId = "u8 list"

record OwnershipToken =
  tok_authority_session_id :: AuthoritySessionId
  tok_ownership_epoch :: OwnershipEpoch
  tok_owner_host_id :: HostId

record HandoffId =
  ho_authority_session_id :: AuthoritySessionId
  ho_handoff_epoch :: HandoffEpoch

record SnapshotId =
  sn_source_process_session_id :: ProcessSessionId
  sn_sequence :: SnapshotSequence

datatype ClipboardKind = KindText | KindEmpty

datatype ClipboardReason =
    CapabilityMissing | BackendUnavailable | PermissionDenied | PrivateContent | UnsupportedFormat
  | Oversize | SourceChanged | TargetNotPrepared | DestinationChanged | StaleAuthoritySession
  | StalePeerSession | StaleHandoff | StaleOwnerToken | Duplicate | ChannelUnavailable
  | TransferTimeout | ProtocolErrorReason | IntegrityFailed | InvalidUtf8 | Canceled | QueueFull
  | IdentityExhausted

fun reason_code :: "ClipboardReason \<Rightarrow> string" where
  "reason_code CapabilityMissing = ''capability_missing''"
| "reason_code BackendUnavailable = ''backend_unavailable''"
| "reason_code PermissionDenied = ''permission_denied''"
| "reason_code PrivateContent = ''private_content''"
| "reason_code UnsupportedFormat = ''unsupported_format''"
| "reason_code Oversize = ''oversize''"
| "reason_code SourceChanged = ''source_changed''"
| "reason_code TargetNotPrepared = ''target_not_prepared''"
| "reason_code DestinationChanged = ''destination_changed''"
| "reason_code StaleAuthoritySession = ''stale_authority_session''"
| "reason_code StalePeerSession = ''stale_peer_session''"
| "reason_code StaleHandoff = ''stale_handoff''"
| "reason_code StaleOwnerToken = ''stale_owner_token''"
| "reason_code Duplicate = ''duplicate''"
| "reason_code ChannelUnavailable = ''channel_unavailable''"
| "reason_code TransferTimeout = ''transfer_timeout''"
| "reason_code ProtocolErrorReason = ''protocol_error''"
| "reason_code IntegrityFailed = ''integrity_failed''"
| "reason_code InvalidUtf8 = ''invalid_utf8''"
| "reason_code Canceled = ''canceled''"
| "reason_code QueueFull = ''queue_full''"
| "reason_code IdentityExhausted = ''identity_exhausted''"

datatype ClipboardData = Text "u8 list" | Empty | Unavailable ClipboardReason

definition ClipboardData_text :: "u8 list \<Rightarrow> ClipboardReason + ClipboardData" where
  "ClipboardData_text bytes = (if valid_utf8 bytes then Inr (Text bytes) else Inl InvalidUtf8)"

fun ClipboardData_kind :: "ClipboardData \<Rightarrow> ClipboardReason + ClipboardKind" where
  "ClipboardData_kind (Text _) = Inr KindText"
| "ClipboardData_kind Empty = Inr KindEmpty"
| "ClipboardData_kind (Unavailable reason) = Inl reason"

fun ClipboardData_len :: "ClipboardData \<Rightarrow> nat" where
  "ClipboardData_len (Text bytes) = length bytes"
| "ClipboardData_len Empty = 0"
| "ClipboardData_len (Unavailable _) = 0"

definition is_explicit_empty :: "ClipboardData \<Rightarrow> bool" where
  "is_explicit_empty d \<longleftrightarrow> d = Empty"

record AppliedIdentity =
  ai_handoff_id :: HandoffId
  ai_snapshot_id :: SnapshotId

record StagedSnapshot =
  st_handoff_id :: HandoffId
  st_snapshot_id :: SnapshotId
  st_target_token :: OwnershipToken
  st_target_process_session_id :: ProcessSessionId
  st_baseline_generation :: NativeGeneration
  st_data :: ClipboardData

end
