(* ===== verification/Clipboard_Frame.thy ===== *)
theory Clipboard_Frame
  imports Clipboard_Types
begin

text \<open>
  The wire format of the clipboard channel, \<^verbatim>\<open>lan-mouse-clipboard/src/frame.rs\<close>: a fixed prefix, a
  header whose fields depend on the message type, and a payload for the two snapshot messages. The
  hash function is that of an external library and an argument; so is the byte stream, as a function
  that reads an exact number of bytes or fails (by end of stream, deadline or cancellation).
\<close>

section \<open>Constants and messages\<close>

definition PROTOCOL_VERSION :: u16 where "PROTOCOL_VERSION = 1"
definition CLIPBOARD_TEXT_V1 :: u64 where "CLIPBOARD_TEXT_V1 = 1"
definition MAGIC :: "u8 list" where "MAGIC = [0x4C, 0x4D, 0x43, 0x42]"
definition PREFIX_BYTES :: nat where "PREFIX_BYTES = 24"
definition KNOWN_FLAGS :: u32 where "KNOWN_FLAGS = 0"
definition MAX_HOST_ID_BYTES :: nat where "MAX_HOST_ID_BYTES = 255"
definition TOKEN_FIXED_BYTES :: nat where "TOKEN_FIXED_BYTES = 16 + 8 + 1"
definition HANDOFF_BYTES :: nat where "HANDOFF_BYTES = 16 + 8"
definition MAX_TOKEN_BYTES :: nat where "MAX_TOKEN_BYTES = TOKEN_FIXED_BYTES + MAX_HOST_ID_BYTES"
definition ENVELOPE_FIXED_BYTES :: nat where
  "ENVELOPE_FIXED_BYTES = HANDOFF_BYTES + MAX_TOKEN_BYTES * 2 + 16 * 2"
definition MAX_HEADER_BYTES :: nat where
  "MAX_HEADER_BYTES = 16 + MAX_TOKEN_BYTES + 1 + ENVELOPE_FIXED_BYTES"

datatype MessageType =
    MT_ClipboardHello | MT_AuthorityState | MT_PrepareTarget | MT_PrepareResult
  | MT_OwnershipActivated | MT_SnapshotOffer | MT_SnapshotDeliver | MT_ApplyResult
  | MT_CancelHandoff | MT_ProtocolError

datatype FrameError =
    FrameIo | FrameCanceled | FrameTransferTimeout | InvalidMagic | UnsupportedVersion u16
  | UnknownMessageType u16 | UnknownFlags u32 | InvalidHeaderLength | PayloadTooLarge
  | PlatformLengthOverflow | UnexpectedPayload | FrameIntegrityFailed | FrameInvalidUtf8
  | InvalidHostId | InvalidField | UnavailableData

fun MessageType_as_u16 :: "MessageType \<Rightarrow> u16" where
  "MessageType_as_u16 MT_ClipboardHello = 1"
| "MessageType_as_u16 MT_AuthorityState = 2"
| "MessageType_as_u16 MT_PrepareTarget = 3"
| "MessageType_as_u16 MT_PrepareResult = 4"
| "MessageType_as_u16 MT_OwnershipActivated = 5"
| "MessageType_as_u16 MT_SnapshotOffer = 6"
| "MessageType_as_u16 MT_SnapshotDeliver = 7"
| "MessageType_as_u16 MT_ApplyResult = 8"
| "MessageType_as_u16 MT_CancelHandoff = 9"
| "MessageType_as_u16 MT_ProtocolError = 10"

definition MessageType_try_from :: "u16 \<Rightarrow> (FrameError, MessageType) outcome" where
  "MessageType_try_from v =
     (if v = 1 then Ok MT_ClipboardHello else if v = 2 then Ok MT_AuthorityState
      else if v = 3 then Ok MT_PrepareTarget else if v = 4 then Ok MT_PrepareResult
      else if v = 5 then Ok MT_OwnershipActivated else if v = 6 then Ok MT_SnapshotOffer
      else if v = 7 then Ok MT_SnapshotDeliver else if v = 8 then Ok MT_ApplyResult
      else if v = 9 then Ok MT_CancelHandoff else if v = 10 then Ok MT_ProtocolError
      else Err (UnknownMessageType v))"

fun FrameError_reason :: "FrameError \<Rightarrow> ClipboardReason" where
  "FrameError_reason FrameIo = ChannelUnavailable"
| "FrameError_reason FrameCanceled = Canceled"
| "FrameError_reason FrameTransferTimeout = TransferTimeout"
| "FrameError_reason PayloadTooLarge = Oversize"
| "FrameError_reason PlatformLengthOverflow = Oversize"
| "FrameError_reason FrameIntegrityFailed = IntegrityFailed"
| "FrameError_reason FrameInvalidUtf8 = InvalidUtf8"
| "FrameError_reason UnavailableData = BackendUnavailable"
| "FrameError_reason InvalidMagic = ProtocolErrorReason"
| "FrameError_reason (UnsupportedVersion _) = ProtocolErrorReason"
| "FrameError_reason (UnknownMessageType _) = ProtocolErrorReason"
| "FrameError_reason (UnknownFlags _) = ProtocolErrorReason"
| "FrameError_reason InvalidHeaderLength = ProtocolErrorReason"
| "FrameError_reason UnexpectedPayload = ProtocolErrorReason"
| "FrameError_reason InvalidHostId = ProtocolErrorReason"
| "FrameError_reason InvalidField = ProtocolErrorReason"

record ClipboardHello =
  he_host_id :: HostId
  he_process_session_id :: ProcessSessionId
  he_offered_capabilities :: u64
  he_max_receive_bytes :: u64

definition supports_text_v1 :: "ClipboardHello \<Rightarrow> bool" where
  "supports_text_v1 h \<longleftrightarrow> and (he_offered_capabilities h) CLIPBOARD_TEXT_V1 \<noteq> 0"

record HandoffEnvelope =
  en_handoff_id :: HandoffId
  en_source_token :: OwnershipToken
  en_source_process_session_id :: ProcessSessionId
  en_target_token :: OwnershipToken
  en_target_process_session_id :: ProcessSessionId

record AuthorityState =
  au_authority_process_session_id :: ProcessSessionId
  au_current_token :: OwnershipToken
  au_active_handoff :: "HandoffEnvelope option"

datatype OperationResult = Completed | Skipped ClipboardReason

record PrepareResult =
  pr_handoff_id :: HandoffId
  pr_target_token :: OwnershipToken
  pr_target_process_session_id :: ProcessSessionId
  pr_baseline_generation :: "NativeGeneration option"
  pr_result :: OperationResult

record ClipboardPayload =
  cp_handoff :: HandoffEnvelope
  cp_snapshot_id :: SnapshotId
  cp_data :: ClipboardData

record ApplyResult =
  ar_handoff_id :: HandoffId
  ar_target_token :: OwnershipToken
  ar_target_process_session_id :: ProcessSessionId
  ar_snapshot_id :: SnapshotId
  ar_post_write_generation :: "NativeGeneration option"
  ar_result :: OperationResult

datatype WireMessage =
    WM_ClipboardHello ClipboardHello
  | WM_AuthorityState AuthorityState
  | WM_PrepareTarget HandoffEnvelope
  | WM_PrepareResult PrepareResult
  | WM_OwnershipActivated HandoffEnvelope
  | WM_SnapshotOffer ClipboardPayload
  | WM_SnapshotDeliver ClipboardPayload
  | WM_ApplyResult ApplyResult
  | WM_CancelHandoff HandoffId
  | WM_ProtocolError ClipboardReason

fun message_type :: "WireMessage \<Rightarrow> MessageType" where
  "message_type (WM_ClipboardHello _) = MT_ClipboardHello"
| "message_type (WM_AuthorityState _) = MT_AuthorityState"
| "message_type (WM_PrepareTarget _) = MT_PrepareTarget"
| "message_type (WM_PrepareResult _) = MT_PrepareResult"
| "message_type (WM_OwnershipActivated _) = MT_OwnershipActivated"
| "message_type (WM_SnapshotOffer _) = MT_SnapshotOffer"
| "message_type (WM_SnapshotDeliver _) = MT_SnapshotDeliver"
| "message_type (WM_ApplyResult _) = MT_ApplyResult"
| "message_type (WM_CancelHandoff _) = MT_CancelHandoff"
| "message_type (WM_ProtocolError _) = MT_ProtocolError"

fun is_payload :: "WireMessage \<Rightarrow> bool" where
  "is_payload (WM_SnapshotOffer _) = True"
| "is_payload (WM_SnapshotDeliver _) = True"
| "is_payload _ = False"

section \<open>Reasons on the wire\<close>

fun reason_to_u16 :: "ClipboardReason \<Rightarrow> u16" where
  "reason_to_u16 CapabilityMissing = 1"
| "reason_to_u16 BackendUnavailable = 2"
| "reason_to_u16 PermissionDenied = 3"
| "reason_to_u16 PrivateContent = 4"
| "reason_to_u16 UnsupportedFormat = 5"
| "reason_to_u16 Oversize = 6"
| "reason_to_u16 SourceChanged = 7"
| "reason_to_u16 TargetNotPrepared = 8"
| "reason_to_u16 DestinationChanged = 9"
| "reason_to_u16 StaleAuthoritySession = 10"
| "reason_to_u16 StalePeerSession = 11"
| "reason_to_u16 StaleHandoff = 12"
| "reason_to_u16 StaleOwnerToken = 13"
| "reason_to_u16 Duplicate = 14"
| "reason_to_u16 ChannelUnavailable = 15"
| "reason_to_u16 TransferTimeout = 16"
| "reason_to_u16 ProtocolErrorReason = 17"
| "reason_to_u16 IntegrityFailed = 18"
| "reason_to_u16 InvalidUtf8 = 19"
| "reason_to_u16 Canceled = 20"
| "reason_to_u16 QueueFull = 21"
| "reason_to_u16 IdentityExhausted = 22"

definition reason_from_u16 :: "u16 \<Rightarrow> (FrameError, ClipboardReason) outcome" where
  "reason_from_u16 v =
     (if v = 1 then Ok CapabilityMissing else if v = 2 then Ok BackendUnavailable
      else if v = 3 then Ok PermissionDenied else if v = 4 then Ok PrivateContent
      else if v = 5 then Ok UnsupportedFormat else if v = 6 then Ok Oversize
      else if v = 7 then Ok SourceChanged else if v = 8 then Ok TargetNotPrepared
      else if v = 9 then Ok DestinationChanged else if v = 10 then Ok StaleAuthoritySession
      else if v = 11 then Ok StalePeerSession else if v = 12 then Ok StaleHandoff
      else if v = 13 then Ok StaleOwnerToken else if v = 14 then Ok Duplicate
      else if v = 15 then Ok ChannelUnavailable else if v = 16 then Ok TransferTimeout
      else if v = 17 then Ok ProtocolErrorReason else if v = 18 then Ok IntegrityFailed
      else if v = 19 then Ok InvalidUtf8 else if v = 20 then Ok Canceled
      else if v = 21 then Ok QueueFull else if v = 22 then Ok IdentityExhausted
      else Err InvalidField)"

lemma reason_from_to [simp]: "reason_from_u16 (reason_to_u16 r) = Ok r"
  by (cases r) (simp_all add: reason_from_u16_def)

lemma reason_from_u16_OkD: "reason_from_u16 v = Ok r \<Longrightarrow> v = reason_to_u16 r"
  by (auto simp: reason_from_u16_def split: if_splits)

lemma MessageType_try_from_as [simp]: "MessageType_try_from (MessageType_as_u16 t) = Ok t"
  by (cases t) (simp_all add: MessageType_try_from_def)

lemma MessageType_try_from_OkD: "MessageType_try_from v = Ok t \<Longrightarrow> v = MessageType_as_u16 t"
  by (auto simp: MessageType_try_from_def split: if_splits)

section \<open>Header fields\<close>

text \<open>The writer: each function gives the bytes it appends.\<close>

definition put_host :: "HostId \<Rightarrow> (FrameError, u8 list) outcome" where
  "put_host h =
     (if h = [] \<or> length h > MAX_HOST_ID_BYTES then Err InvalidHostId
      else Ok (of_nat (length h) # h))"

definition put_token :: "OwnershipToken \<Rightarrow> (FrameError, u8 list) outcome" where
  "put_token t =
     and_then (put_host (tok_owner_host_id t)) (\<lambda>h.
       Ok (u128_to_be (tok_authority_session_id t) @ u64_to_be (tok_ownership_epoch t) @ h))"

definition put_handoff :: "HandoffId \<Rightarrow> u8 list" where
  "put_handoff h = u128_to_be (ho_authority_session_id h) @ u64_to_be (ho_handoff_epoch h)"

definition put_snapshot :: "SnapshotId \<Rightarrow> u8 list" where
  "put_snapshot s = u128_to_be (sn_source_process_session_id s) @ u64_to_be (sn_sequence s)"

definition put_envelope :: "HandoffEnvelope \<Rightarrow> (FrameError, u8 list) outcome" where
  "put_envelope e =
     and_then (put_token (en_source_token e)) (\<lambda>source.
     and_then (put_token (en_target_token e)) (\<lambda>target.
       Ok (put_handoff (en_handoff_id e) @ source @ u128_to_be (en_source_process_session_id e)
           @ target @ u128_to_be (en_target_process_session_id e))))"

definition put_optional_generation :: "NativeGeneration option \<Rightarrow> u8 list" where
  "put_optional_generation g =
     (if g \<noteq> None then 1 else 0) # u64_to_be (case g of None \<Rightarrow> 0 | Some v \<Rightarrow> v)"

definition put_reason :: "ClipboardReason \<Rightarrow> u8 list" where
  "put_reason r = u16_to_be (reason_to_u16 r)"

definition put_operation_result :: "OperationResult \<Rightarrow> u8 list" where
  "put_operation_result r = (case r of
     Completed \<Rightarrow> 0 # u16_to_be 0
   | Skipped reason \<Rightarrow> 1 # put_reason reason)"

text \<open>
  The reader is the unread rest of the header. \<^verbatim>\<open>take\<close> fails with the same error when the end
  overflows and when it lies beyond the header.
\<close>

type_synonym 'a got = "(FrameError, 'a \<times> u8 list) outcome"

definition get_take :: "nat \<Rightarrow> u8 list \<Rightarrow> u8 list got" where
  "get_take n bs = (if n \<le> length bs then Ok (take n bs, drop n bs) else Err InvalidHeaderLength)"

definition get_u8 :: "u8 list \<Rightarrow> u8 got" where
  "get_u8 bs = and_then (get_take 1 bs) (\<lambda>(a, bs). Ok (a ! 0, bs))"

definition get_word :: "nat \<Rightarrow> u8 list \<Rightarrow> 'a::len word got" where
  "get_word n bs = and_then (get_take n bs) (\<lambda>(a, bs). Ok (word_of_be a, bs))"

abbreviation get_u16 :: "u8 list \<Rightarrow> u16 got" where "get_u16 \<equiv> get_word 2"
abbreviation get_u64 :: "u8 list \<Rightarrow> u64 got" where "get_u64 \<equiv> get_word 8"
abbreviation get_u128 :: "u8 list \<Rightarrow> u128 got" where "get_u128 \<equiv> get_word 16"

definition get_host :: "u8 list \<Rightarrow> HostId got" where
  "get_host bs =
     and_then (get_u8 bs) (\<lambda>(len, bs).
       if len = 0 then Err InvalidHostId
       else and_then (get_take (unat len) bs) (\<lambda>(v, bs).
         if valid_utf8 v then Ok (v, bs) else Err InvalidHostId))"

definition get_token :: "u8 list \<Rightarrow> OwnershipToken got" where
  "get_token bs =
     and_then (get_u128 bs) (\<lambda>(a, bs). and_then (get_u64 bs) (\<lambda>(e, bs).
     and_then (get_host bs) (\<lambda>(h, bs).
       Ok (\<lparr>tok_authority_session_id = a, tok_ownership_epoch = e, tok_owner_host_id = h\<rparr>, bs))))"

definition get_handoff :: "u8 list \<Rightarrow> HandoffId got" where
  "get_handoff bs =
     and_then (get_u128 bs) (\<lambda>(a, bs). and_then (get_u64 bs) (\<lambda>(e, bs).
       Ok (\<lparr>ho_authority_session_id = a, ho_handoff_epoch = e\<rparr>, bs)))"

definition get_snapshot :: "u8 list \<Rightarrow> SnapshotId got" where
  "get_snapshot bs =
     and_then (get_u128 bs) (\<lambda>(a, bs). and_then (get_u64 bs) (\<lambda>(e, bs).
       Ok (\<lparr>sn_source_process_session_id = a, sn_sequence = e\<rparr>, bs)))"

definition get_envelope :: "u8 list \<Rightarrow> HandoffEnvelope got" where
  "get_envelope bs =
     and_then (get_handoff bs) (\<lambda>(h, bs). and_then (get_token bs) (\<lambda>(s, bs).
     and_then (get_u128 bs) (\<lambda>(sp, bs). and_then (get_token bs) (\<lambda>(t, bs).
     and_then (get_u128 bs) (\<lambda>(tp, bs).
       Ok (\<lparr>en_handoff_id = h, en_source_token = s, en_source_process_session_id = sp,
            en_target_token = t, en_target_process_session_id = tp\<rparr>, bs))))))"

definition get_optional_generation :: "u8 list \<Rightarrow> NativeGeneration option got" where
  "get_optional_generation bs =
     and_then (get_u8 bs) (\<lambda>(present, bs). and_then (get_u64 bs) (\<lambda>(v, bs).
       if present = 0 \<and> v = 0 then Ok (None, bs)
       else if present = 1 then Ok (Some v, bs)
       else Err InvalidField))"

definition get_reason :: "u8 list \<Rightarrow> ClipboardReason got" where
  "get_reason bs =
     and_then (get_u16 bs) (\<lambda>(v, bs). and_then (reason_from_u16 v) (\<lambda>r. Ok (r, bs)))"

definition get_operation_result :: "u8 list \<Rightarrow> OperationResult got" where
  "get_operation_result bs =
     and_then (get_u8 bs) (\<lambda>(status, bs). and_then (get_u16 bs) (\<lambda>(v, bs).
       if status = 0 \<and> v = 0 then Ok (Completed, bs)
       else if status = 1 then and_then (reason_from_u16 v) (\<lambda>r. Ok (Skipped r, bs))
       else Err InvalidField))"

section \<open>Encoding a message\<close>

record EncodedFrame =
  ef_prefix :: "u8 list"
  ef_header :: "u8 list"
  ef_payload :: "u8 list option"

definition snapshot_bytes :: "ClipboardData \<Rightarrow> (FrameError, u8 \<times> u8 list) outcome" where
  "snapshot_bytes d = (case d of
     Text bytes \<Rightarrow> if valid_utf8 bytes then Ok (1, bytes) else Err FrameInvalidUtf8
   | Empty \<Rightarrow> Ok (2, [])
   | Unavailable _ \<Rightarrow> Err UnavailableData)"

definition encode_snapshot ::
    "(u8 list \<Rightarrow> u8 list) \<Rightarrow> nat \<Rightarrow> ClipboardPayload \<Rightarrow> (FrameError, u8 list \<times> u8 list option) outcome" where
  "encode_snapshot digest max_payload s =
     and_then (put_envelope (cp_handoff s)) (\<lambda>env.
     and_then (snapshot_bytes (cp_data s)) (\<lambda>(kind, bytes).
       if length bytes > max_payload then Err PayloadTooLarge
       else Ok (env @ put_snapshot (cp_snapshot_id s) @ [kind] @ digest bytes, Some bytes)))"

fun encode_header ::
    "(u8 list \<Rightarrow> u8 list) \<Rightarrow> nat \<Rightarrow> WireMessage \<Rightarrow> (FrameError, u8 list \<times> u8 list option) outcome" where
  "encode_header digest max_payload (WM_ClipboardHello h) =
     and_then (put_host (he_host_id h)) (\<lambda>host.
       Ok (host @ u128_to_be (he_process_session_id h) @ u64_to_be (he_offered_capabilities h)
           @ u64_to_be (he_max_receive_bytes h), None))"
| "encode_header digest max_payload (WM_AuthorityState a) =
     and_then (put_token (au_current_token a)) (\<lambda>token.
     and_then (case au_active_handoff a of None \<Rightarrow> Ok [] | Some e \<Rightarrow> put_envelope e) (\<lambda>env.
       Ok (u128_to_be (au_authority_process_session_id a) @ token
           @ [if au_active_handoff a \<noteq> None then 1 else 0] @ env, None)))"
| "encode_header digest max_payload (WM_PrepareTarget e) = and_then (put_envelope e) (\<lambda>env. Ok (env, None))"
| "encode_header digest max_payload (WM_OwnershipActivated e) = and_then (put_envelope e) (\<lambda>env. Ok (env, None))"
| "encode_header digest max_payload (WM_PrepareResult r) =
     and_then (put_token (pr_target_token r)) (\<lambda>token.
       Ok (put_handoff (pr_handoff_id r) @ token @ u128_to_be (pr_target_process_session_id r)
           @ put_optional_generation (pr_baseline_generation r) @ put_operation_result (pr_result r), None))"
| "encode_header digest max_payload (WM_SnapshotOffer s) = encode_snapshot digest max_payload s"
| "encode_header digest max_payload (WM_SnapshotDeliver s) = encode_snapshot digest max_payload s"
| "encode_header digest max_payload (WM_ApplyResult r) =
     and_then (put_token (ar_target_token r)) (\<lambda>token.
       Ok (put_handoff (ar_handoff_id r) @ token @ u128_to_be (ar_target_process_session_id r)
           @ put_snapshot (ar_snapshot_id r) @ put_optional_generation (ar_post_write_generation r)
           @ put_operation_result (ar_result r), None))"
| "encode_header digest max_payload (WM_CancelHandoff h) = Ok (put_handoff h, None)"
| "encode_header digest max_payload (WM_ProtocolError r) = Ok (put_reason r, None)"

definition encode_prefix :: "MessageType \<Rightarrow> nat \<Rightarrow> nat \<Rightarrow> u8 list" where
  "encode_prefix ty header_length payload_length =
     MAGIC @ u16_to_be PROTOCOL_VERSION @ u16_to_be (MessageType_as_u16 ty) @ u32_to_be KNOWN_FLAGS
     @ u32_to_be (of_nat header_length) @ u64_to_be (of_nat payload_length)"

definition encode_message ::
    "(u8 list \<Rightarrow> u8 list) \<Rightarrow> WireMessage \<Rightarrow> nat \<Rightarrow> (FrameError, EncodedFrame) outcome" where
  "encode_message digest m max_payload =
     and_then (encode_header digest max_payload m) (\<lambda>(header, payload).
       if length header > MAX_HEADER_BYTES then Err InvalidHeaderLength
       else Ok \<lparr>ef_prefix = encode_prefix (message_type m) (length header)
                  (case payload of None \<Rightarrow> 0 | Some p \<Rightarrow> length p),
                ef_header = header, ef_payload = payload\<rparr>)"

definition encoded_len :: "EncodedFrame \<Rightarrow> nat" where
  "encoded_len f = length (ef_prefix f) + length (ef_header f)
     + (case ef_payload f of None \<Rightarrow> 0 | Some p \<Rightarrow> length p)"

text \<open>\<^verbatim>\<open>write_frame\<close> writes the parts one after the other and stops at the first failure.\<close>

definition write_frame ::
    "('w \<Rightarrow> u8 list \<Rightarrow> (FrameError, 'w) outcome) \<Rightarrow> 'w \<Rightarrow> EncodedFrame \<Rightarrow> (FrameError, 'w) outcome" where
  "write_frame write_all w f =
     and_then (write_all w (ef_prefix f)) (\<lambda>w.
     and_then (write_all w (ef_header f)) (\<lambda>w.
       case ef_payload f of None \<Rightarrow> Ok w | Some p \<Rightarrow> write_all w p))"

section \<open>Decoding a message\<close>

record DecodedPrefix =
  dp_message_type :: MessageType
  dp_header_length :: nat
  dp_payload_length :: nat

definition checked_payload_length :: "u64 \<Rightarrow> nat \<Rightarrow> u64 \<Rightarrow> (FrameError, nat) outcome" where
  "checked_payload_length declared negotiated_max platform_max =
     (if unat declared > negotiated_max then Err PayloadTooLarge
      else if declared > platform_max then Err PlatformLengthOverflow
      else Ok (unat declared))"

definition decode_prefix :: "u8 list \<Rightarrow> nat \<Rightarrow> (FrameError, DecodedPrefix) outcome" where
  "decode_prefix prefix max_payload =
     (if take 4 prefix \<noteq> MAGIC then Err InvalidMagic
      else
        let version = (word_of_be (take 2 (drop 4 prefix)) :: u16) in
        if version \<noteq> PROTOCOL_VERSION then Err (UnsupportedVersion version)
        else and_then (MessageType_try_from (word_of_be (take 2 (drop 6 prefix)))) (\<lambda>ty.
          let flags = (word_of_be (take 4 (drop 8 prefix)) :: u32) in
          if flags \<noteq> KNOWN_FLAGS then Err (UnknownFlags flags)
          else
            let header_length = unat (word_of_be (take 4 (drop 12 prefix)) :: u32) in
            if header_length > MAX_HEADER_BYTES then Err InvalidHeaderLength
            else and_then
              (checked_payload_length (word_of_be (take 8 (drop 16 prefix))) max_payload (- 1)) (\<lambda>len.
                Ok \<lparr>dp_message_type = ty, dp_header_length = header_length, dp_payload_length = len\<rparr>)))"

datatype ParsedHeader =
    PH_Hello ClipboardHello
  | PH_Authority AuthorityState
  | PH_Envelope HandoffEnvelope
  | PH_PrepareResult PrepareResult
  | PH_Snapshot HandoffEnvelope SnapshotId ClipboardKind "u8 list"
  | PH_ApplyResult ApplyResult
  | PH_Handoff HandoffId
  | PH_Reason ClipboardReason

definition parse_snapshot :: "u8 list \<Rightarrow> ParsedHeader got" where
  "parse_snapshot bs =
     and_then (get_envelope bs) (\<lambda>(e, bs). and_then (get_snapshot bs) (\<lambda>(s, bs).
     and_then (get_u8 bs) (\<lambda>(k, bs).
     and_then (if k = 1 then Ok KindText else if k = 2 then Ok KindEmpty else Err InvalidField) (\<lambda>kind.
     and_then (get_take 32 bs) (\<lambda>(d, bs). Ok (PH_Snapshot e s kind d, bs))))))"

text \<open>The fields of a header, without the check that nothing is left over.\<close>

fun parse_fields :: "MessageType \<Rightarrow> u8 list \<Rightarrow> ParsedHeader got" where
  "parse_fields MT_ClipboardHello bs =
     and_then (get_host bs) (\<lambda>(h, bs). and_then (get_u128 bs) (\<lambda>(p, bs).
     and_then (get_u64 bs) (\<lambda>(c, bs). and_then (get_u64 bs) (\<lambda>(m, bs).
       Ok (PH_Hello \<lparr>he_host_id = h, he_process_session_id = p, he_offered_capabilities = c,
                     he_max_receive_bytes = m\<rparr>, bs)))))"
| "parse_fields MT_AuthorityState bs =
     and_then (get_u128 bs) (\<lambda>(p, bs). and_then (get_token bs) (\<lambda>(t, bs).
     and_then (get_u8 bs) (\<lambda>(flag, bs).
     and_then (if flag = 0 then Ok (None, bs)
               else if flag = 1 then and_then (get_envelope bs) (\<lambda>(e, bs). Ok (Some e, bs))
               else Err InvalidField) (\<lambda>(active, bs).
       Ok (PH_Authority \<lparr>au_authority_process_session_id = p, au_current_token = t,
                         au_active_handoff = active\<rparr>, bs)))))"
| "parse_fields MT_PrepareTarget bs = and_then (get_envelope bs) (\<lambda>(e, bs). Ok (PH_Envelope e, bs))"
| "parse_fields MT_OwnershipActivated bs = and_then (get_envelope bs) (\<lambda>(e, bs). Ok (PH_Envelope e, bs))"
| "parse_fields MT_PrepareResult bs =
     and_then (get_handoff bs) (\<lambda>(h, bs). and_then (get_token bs) (\<lambda>(t, bs).
     and_then (get_u128 bs) (\<lambda>(p, bs). and_then (get_optional_generation bs) (\<lambda>(g, bs).
     and_then (get_operation_result bs) (\<lambda>(r, bs).
       Ok (PH_PrepareResult \<lparr>pr_handoff_id = h, pr_target_token = t, pr_target_process_session_id = p,
                             pr_baseline_generation = g, pr_result = r\<rparr>, bs))))))"
| "parse_fields MT_SnapshotOffer bs = parse_snapshot bs"
| "parse_fields MT_SnapshotDeliver bs = parse_snapshot bs"
| "parse_fields MT_ApplyResult bs =
     and_then (get_handoff bs) (\<lambda>(h, bs). and_then (get_token bs) (\<lambda>(t, bs).
     and_then (get_u128 bs) (\<lambda>(p, bs). and_then (get_snapshot bs) (\<lambda>(s, bs).
     and_then (get_optional_generation bs) (\<lambda>(g, bs). and_then (get_operation_result bs) (\<lambda>(r, bs).
       Ok (PH_ApplyResult \<lparr>ar_handoff_id = h, ar_target_token = t, ar_target_process_session_id = p,
                           ar_snapshot_id = s, ar_post_write_generation = g, ar_result = r\<rparr>, bs)))))))"
| "parse_fields MT_CancelHandoff bs = and_then (get_handoff bs) (\<lambda>(h, bs). Ok (PH_Handoff h, bs))"
| "parse_fields MT_ProtocolError bs = and_then (get_reason bs) (\<lambda>(r, bs). Ok (PH_Reason r, bs))"

definition parse_header :: "MessageType \<Rightarrow> u8 list \<Rightarrow> (FrameError, ParsedHeader) outcome" where
  "parse_header ty header =
     and_then (parse_fields ty header) (\<lambda>(parsed, rest).
       if rest = [] then Ok parsed else Err InvalidHeaderLength)"

section \<open>What the receiver checks before the payload\<close>

record FrameMetadata =
  fm_message_type :: MessageType
  fm_handoff_id :: "HandoffId option"
  fm_source_token :: "OwnershipToken option"
  fm_source_process_session_id :: "ProcessSessionId option"
  fm_target_token :: "OwnershipToken option"
  fm_target_process_session_id :: "ProcessSessionId option"
  fm_snapshot_id :: "SnapshotId option"

definition set_envelope :: "HandoffEnvelope \<Rightarrow> FrameMetadata \<Rightarrow> FrameMetadata" where
  "set_envelope e m =
     m\<lparr>fm_handoff_id := Some (en_handoff_id e),
       fm_source_token := Some (en_source_token e),
       fm_source_process_session_id := Some (en_source_process_session_id e),
       fm_target_token := Some (en_target_token e),
       fm_target_process_session_id := Some (en_target_process_session_id e)\<rparr>"

definition frame_metadata :: "MessageType \<Rightarrow> ParsedHeader \<Rightarrow> FrameMetadata" where
  "frame_metadata ty header =
     (let m = \<lparr>fm_message_type = ty, fm_handoff_id = None, fm_source_token = None,
               fm_source_process_session_id = None, fm_target_token = None,
               fm_target_process_session_id = None, fm_snapshot_id = None\<rparr> in
      case header of
        PH_Authority a \<Rightarrow> (case au_active_handoff a of Some e \<Rightarrow> set_envelope e m | None \<Rightarrow> m)
      | PH_Envelope e \<Rightarrow> set_envelope e m
      | PH_PrepareResult r \<Rightarrow>
          m\<lparr>fm_handoff_id := Some (pr_handoff_id r), fm_target_token := Some (pr_target_token r),
            fm_target_process_session_id := Some (pr_target_process_session_id r)\<rparr>
      | PH_Snapshot e s _ _ \<Rightarrow> (set_envelope e m)\<lparr>fm_snapshot_id := Some s\<rparr>
      | PH_ApplyResult r \<Rightarrow>
          m\<lparr>fm_handoff_id := Some (ar_handoff_id r), fm_target_token := Some (ar_target_token r),
            fm_target_process_session_id := Some (ar_target_process_session_id r),
            fm_snapshot_id := Some (ar_snapshot_id r)\<rparr>
      | PH_Handoff h \<Rightarrow> m\<lparr>fm_handoff_id := Some h\<rparr>
      | PH_Hello _ \<Rightarrow> m
      | PH_Reason _ \<Rightarrow> m)"

definition require_empty_payload :: "u8 list \<Rightarrow> WireMessage \<Rightarrow> (FrameError, WireMessage) outcome" where
  "require_empty_payload payload m = (if payload = [] then Ok m else Err UnexpectedPayload)"

definition finish_snapshot ::
    "(u8 list \<Rightarrow> u8 list) \<Rightarrow> HandoffEnvelope \<Rightarrow> SnapshotId \<Rightarrow> ClipboardKind \<Rightarrow> u8 list \<Rightarrow> u8 list
      \<Rightarrow> (FrameError, ClipboardPayload) outcome" where
  "finish_snapshot digest e s kind d payload =
     (if digest payload \<noteq> d then Err FrameIntegrityFailed
      else and_then
        (case kind of
           KindText \<Rightarrow> if valid_utf8 payload then Ok (Text payload) else Err FrameInvalidUtf8
         | KindEmpty \<Rightarrow> if payload = [] then Ok Empty else Err UnexpectedPayload) (\<lambda>data.
        Ok \<lparr>cp_handoff = e, cp_snapshot_id = s, cp_data = data\<rparr>))"

text \<open>A header that does not belong to the message type is an invalid field.\<close>

definition finish_message ::
    "(u8 list \<Rightarrow> u8 list) \<Rightarrow> MessageType \<Rightarrow> ParsedHeader \<Rightarrow> u8 list \<Rightarrow> (FrameError, WireMessage) outcome" where
  "finish_message digest ty header payload = (case header of
     PH_Hello h \<Rightarrow>
       if ty = MT_ClipboardHello then require_empty_payload payload (WM_ClipboardHello h)
       else Err InvalidField
   | PH_Authority a \<Rightarrow>
       if ty = MT_AuthorityState then require_empty_payload payload (WM_AuthorityState a)
       else Err InvalidField
   | PH_Envelope e \<Rightarrow>
       if ty = MT_PrepareTarget then require_empty_payload payload (WM_PrepareTarget e)
       else if ty = MT_OwnershipActivated then require_empty_payload payload (WM_OwnershipActivated e)
       else Err InvalidField
   | PH_PrepareResult r \<Rightarrow>
       if ty = MT_PrepareResult then require_empty_payload payload (WM_PrepareResult r)
       else Err InvalidField
   | PH_Snapshot e s k d \<Rightarrow>
       if ty = MT_SnapshotOffer \<or> ty = MT_SnapshotDeliver then
         and_then (finish_snapshot digest e s k d payload) (\<lambda>p.
           if ty = MT_SnapshotOffer then Ok (WM_SnapshotOffer p) else Ok (WM_SnapshotDeliver p))
       else Err InvalidField
   | PH_ApplyResult r \<Rightarrow>
       if ty = MT_ApplyResult then require_empty_payload payload (WM_ApplyResult r)
       else Err InvalidField
   | PH_Handoff h \<Rightarrow>
       if ty = MT_CancelHandoff then require_empty_payload payload (WM_CancelHandoff h)
       else Err InvalidField
   | PH_Reason r \<Rightarrow>
       if ty = MT_ProtocolError then require_empty_payload payload (WM_ProtocolError r)
       else Err InvalidField)"

section \<open>Reading a frame\<close>

text \<open>
  \<open>read_exact n r\<close> stands for \<^verbatim>\<open>read_exact_before\<close>: \<open>n\<close> bytes and the reader after them, or an error.
  \<open>from\<close> is the conversion \<^verbatim>\<open>E::from\<close> into the caller's error type, \<open>validator\<close> the caller's check
  of the metadata.
\<close>

definition map_err :: "('d \<Rightarrow> 'e) \<Rightarrow> ('d, 'a) outcome \<Rightarrow> ('e, 'a) outcome" where
  "map_err from r = (case r of Ok x \<Rightarrow> Ok x | Err e \<Rightarrow> Err (from e) | Panic \<Rightarrow> Panic)"

definition read_frame_after_prefix ::
    "(u8 list \<Rightarrow> u8 list) \<Rightarrow> (nat \<Rightarrow> 'r \<Rightarrow> (FrameError, u8 list \<times> 'r) outcome) \<Rightarrow> (FrameError \<Rightarrow> 'e)
      \<Rightarrow> (FrameMetadata \<Rightarrow> ('e, unit) outcome) \<Rightarrow> nat \<Rightarrow> u8 list \<Rightarrow> 'r \<Rightarrow> ('e, WireMessage \<times> 'r) outcome" where
  "read_frame_after_prefix digest read_exact from validator max_payload prefix r =
     and_then (map_err from (decode_prefix prefix max_payload)) (\<lambda>decoded.
     and_then (map_err from (read_exact (dp_header_length decoded) r)) (\<lambda>(header, r).
     and_then (map_err from (parse_header (dp_message_type decoded) header)) (\<lambda>parsed.
       if dp_message_type decoded \<noteq> MT_SnapshotOffer \<and> dp_message_type decoded \<noteq> MT_SnapshotDeliver
          \<and> dp_payload_length decoded \<noteq> 0
       then Err (from UnexpectedPayload)
       else
         and_then (validator (frame_metadata (dp_message_type decoded) parsed)) (\<lambda>_.
         and_then (map_err from (read_exact (dp_payload_length decoded) r)) (\<lambda>(payload, r).
         and_then (map_err from (finish_message digest (dp_message_type decoded) parsed payload)) (\<lambda>m.
           Ok (m, r)))))))"

definition read_frame_validated ::
    "(u8 list \<Rightarrow> u8 list) \<Rightarrow> (nat \<Rightarrow> 'r \<Rightarrow> (FrameError, u8 list \<times> 'r) outcome) \<Rightarrow> (FrameError \<Rightarrow> 'e)
      \<Rightarrow> (FrameMetadata \<Rightarrow> ('e, unit) outcome) \<Rightarrow> nat \<Rightarrow> 'r \<Rightarrow> ('e, WireMessage \<times> 'r) outcome" where
  "read_frame_validated digest read_exact from validator max_payload r =
     and_then (map_err from (read_exact PREFIX_BYTES r)) (\<lambda>(prefix, r).
       read_frame_after_prefix digest read_exact from validator max_payload prefix r)"

text \<open>
  \<^verbatim>\<open>read_next_frame_validated\<close> waits for the first byte without a deadline (\<open>read_wait\<close>) and reads
  the rest of the frame under one.
\<close>

definition read_next_frame_validated ::
    "(u8 list \<Rightarrow> u8 list) \<Rightarrow> (nat \<Rightarrow> 'r \<Rightarrow> (FrameError, u8 list \<times> 'r) outcome)
      \<Rightarrow> (nat \<Rightarrow> 'r \<Rightarrow> (FrameError, u8 list \<times> 'r) outcome) \<Rightarrow> (FrameError \<Rightarrow> 'e)
      \<Rightarrow> (FrameMetadata \<Rightarrow> ('e, unit) outcome) \<Rightarrow> nat \<Rightarrow> 'r \<Rightarrow> ('e, WireMessage \<times> 'r) outcome" where
  "read_next_frame_validated digest read_wait read_exact from validator max_payload r =
     and_then (map_err from (read_wait 1 r)) (\<lambda>(first, r).
     and_then (map_err from (read_exact (PREFIX_BYTES - 1) r)) (\<lambda>(rest, r).
       read_frame_after_prefix digest read_exact from validator max_payload (first @ rest) r))"

definition read_frame ::
    "(u8 list \<Rightarrow> u8 list) \<Rightarrow> (nat \<Rightarrow> 'r \<Rightarrow> (FrameError, u8 list \<times> 'r) outcome) \<Rightarrow> nat \<Rightarrow> 'r
      \<Rightarrow> (FrameError, WireMessage \<times> 'r) outcome" where
  "read_frame digest read_exact max_payload r =
     read_frame_validated digest read_exact id (\<lambda>_. Ok ()) max_payload r"

end
