(* ===== verification/Clipboard_Frame_Props.thy ===== *)
theory Clipboard_Frame_Props
  imports Clipboard_Frame
begin

text \<open>
  The clipboard wire format is exact: what is written is read back, and what is accepted is what
  would be written. Both laws are proved once for every header field as the contract of a wire codec
  and put together along the structure of the messages.
\<close>

section \<open>Codecs for header fields\<close>

text \<open>
  A field has a writer that may refuse a value, a reader that returns the unread rest, and the values
  of its Rust type. What was written is read back; what is read is a value of the type, and writing
  it gives the bytes that were read.
\<close>

locale wire_codec =
  fixes put :: "'a \<Rightarrow> (FrameError, u8 list) outcome"
    and get :: "u8 list \<Rightarrow> 'a got"
    and valid :: "'a \<Rightarrow> bool"
  assumes get_put: "valid x \<Longrightarrow> put x = Ok bs \<Longrightarrow> get (bs @ rest) = Ok (x, rest)"
    and put_get: "get bs = Ok (x, rest) \<Longrightarrow> valid x \<and> (\<exists>h. put x = Ok h \<and> bs = h @ rest)"
begin

lemma get_put_all: "valid x \<Longrightarrow> put x = Ok bs \<Longrightarrow> get bs = Ok (x, [])"
  using get_put [of x bs "[]"] by simp

lemma getE:
  assumes "get bs = Ok (x, rest)"
  obtains h where "valid x" "put x = Ok h" "bs = h @ rest"
  using put_get [OF assms] by blast

lemma put_inj: "valid x \<Longrightarrow> valid y \<Longrightarrow> put x = Ok bs \<Longrightarrow> put y = Ok bs \<Longrightarrow> x = y"
  using get_put_all [of x bs] get_put_all [of y bs] by simp

end

lemma get_word_put:
  assumes "LENGTH('a::len) = 8 * n"
  shows "get_word n (word_to_be n (v :: 'a word) @ rest) = Ok (v, rest)"
  using fixed_codec.dec_enc [OF word_codec [OF assms]] by (simp add: get_word_def get_take_def)

lemma get_word_OkD:
  assumes "LENGTH('a::len) = 8 * n" "get_word n bs = Ok (v :: 'a word, rest)"
  shows "bs = word_to_be n v @ rest"
  using assms(2) fixed_codec.enc_dec [OF word_codec [OF assms(1)], of "take n bs"]
  by (auto simp: get_word_def get_take_def split: if_splits)

lemma get_words_put [simp]:
  "get_u16 (u16_to_be v16 @ rest) = Ok (v16, rest)"
  "get_u64 (u64_to_be v64 @ rest) = Ok (v64, rest)"
  "get_u128 (u128_to_be v128 @ rest) = Ok (v128, rest)"
  by (simp_all add: get_word_put)

lemma get_words_OkD:
  "get_u16 bs = Ok (v16, rest) \<Longrightarrow> bs = u16_to_be v16 @ rest"
  "get_u64 bs = Ok (v64, rest) \<Longrightarrow> bs = u64_to_be v64 @ rest"
  "get_u128 bs = Ok (v128, rest) \<Longrightarrow> bs = u128_to_be v128 @ rest"
  by (simp_all add: get_word_OkD)

lemma get_u8_Cons [simp]: "get_u8 (b # bs) = Ok (b, bs)"
  by (simp add: get_u8_def get_take_def)

lemma get_u8_OkD: "get_u8 bs = Ok (b, rest) \<Longrightarrow> bs = b # rest"
  by (cases bs) (auto simp: get_u8_def get_take_def)

lemma get_take_append [simp]: "length a = n \<Longrightarrow> get_take n (a @ rest) = Ok (a, rest)"
  by (simp add: get_take_def)

lemma get_take_OkD: "get_take n bs = Ok (a, rest) \<Longrightarrow> bs = a @ rest \<and> length a = n"
  by (auto simp: get_take_def split: if_splits)

definition valid_host :: "HostId \<Rightarrow> bool" where "valid_host h \<longleftrightarrow> valid_utf8 h"
definition valid_token :: "OwnershipToken \<Rightarrow> bool" where
  "valid_token t \<longleftrightarrow> valid_host (tok_owner_host_id t)"
definition valid_envelope :: "HandoffEnvelope \<Rightarrow> bool" where
  "valid_envelope e \<longleftrightarrow> valid_token (en_source_token e) \<and> valid_token (en_target_token e)"

lemma unat_of_nat_byte: "n \<le> 255 \<Longrightarrow> unat (of_nat n :: u8) = n"
  by (simp add: unat_of_nat)

interpretation host: wire_codec put_host get_host valid_host
proof
  fix x bs rest
  assume "valid_host x" "put_host x = Ok bs"
  then have "bs = of_nat (length x) # x" "x \<noteq> []" "length x \<le> 255" "valid_utf8 x"
    by (auto simp: put_host_def MAX_HOST_ID_BYTES_def valid_host_def split: if_splits)
  moreover from this have "(of_nat (length x) :: u8) \<noteq> 0"
    using unat_of_nat_byte [of "length x"] by (metis length_0_conv unat_0)
  ultimately show "get_host (bs @ rest) = Ok (x, rest)"
    by (simp add: get_host_def unat_of_nat_byte)
next
  fix bs x rest
  assume "get_host bs = Ok (x, rest)"
  then obtain len bs' where b: "bs = len # bs'" "len \<noteq> 0" "get_take (unat len) bs' = Ok (x, rest)" "valid_utf8 x"
    by (auto simp: get_host_def and_then_eq_Ok split: if_splits dest!: get_u8_OkD)
  then have x: "bs' = x @ rest" "length x = unat len" by (auto dest: get_take_OkD)
  moreover have "unat len \<le> 255" using unsigned_less [of len, where ?'a = nat] by simp
  moreover have "x \<noteq> []" using b(2) x(2) by (metis length_0_conv unat_eq_zero)
  ultimately show "valid_host x \<and> (\<exists>h. put_host x = Ok h \<and> bs = h @ rest)"
    using b by (auto simp: put_host_def MAX_HOST_ID_BYTES_def valid_host_def)
qed

interpretation token: wire_codec put_token get_token valid_token
proof
  fix x bs rest
  assume "valid_token x" "put_token x = Ok bs"
  then show "get_token (bs @ rest) = Ok (x, rest)"
    by (auto simp: put_token_def get_token_def valid_token_def and_then_eq_Ok host.get_put)
next
  fix bs x rest
  assume "get_token bs = Ok (x, rest)"
  then show "valid_token x \<and> (\<exists>h. put_token x = Ok h \<and> bs = h @ rest)"
    by (auto simp: put_token_def get_token_def valid_token_def and_then_eq_Ok
        dest!: get_words_OkD elim!: host.getE)
qed

interpretation handoff: wire_codec "\<lambda>h. Ok (put_handoff h)" get_handoff "\<lambda>_. True"
  by unfold_locales
    (auto simp: put_handoff_def get_handoff_def and_then_eq_Ok dest!: get_words_OkD)

interpretation snapshot: wire_codec "\<lambda>s. Ok (put_snapshot s)" get_snapshot "\<lambda>_. True"
  by unfold_locales
    (auto simp: put_snapshot_def get_snapshot_def and_then_eq_Ok dest!: get_words_OkD)

interpretation reason: wire_codec "\<lambda>r. Ok (put_reason r)" get_reason "\<lambda>_. True"
  by unfold_locales
    (auto simp: put_reason_def get_reason_def and_then_eq_Ok dest!: get_words_OkD reason_from_u16_OkD)

interpretation generation: wire_codec "\<lambda>g. Ok (put_optional_generation g)" get_optional_generation "\<lambda>_. True"
  by unfold_locales
    (auto simp: put_optional_generation_def get_optional_generation_def and_then_eq_Ok
      split: if_splits option.splits dest!: get_words_OkD get_u8_OkD)

interpretation operation: wire_codec "\<lambda>r. Ok (put_operation_result r)" get_operation_result "\<lambda>_. True"
  by unfold_locales
    (auto simp: put_operation_result_def get_operation_result_def put_reason_def and_then_eq_Ok
      split: if_splits OperationResult.splits dest!: get_words_OkD get_u8_OkD reason_from_u16_OkD)

interpretation envelope: wire_codec put_envelope get_envelope valid_envelope
proof
  fix x bs rest
  assume "valid_envelope x" "put_envelope x = Ok bs"
  then show "get_envelope (bs @ rest) = Ok (x, rest)"
    by (auto simp: put_envelope_def get_envelope_def valid_envelope_def and_then_eq_Ok
        token.get_put handoff.get_put)
next
  fix bs x rest
  assume "get_envelope bs = Ok (x, rest)"
  then show "valid_envelope x \<and> (\<exists>h. put_envelope x = Ok h \<and> bs = h @ rest)"
    by (auto simp: put_envelope_def get_envelope_def valid_envelope_def and_then_eq_Ok
        dest!: get_words_OkD elim!: handoff.getE token.getE)
qed

section \<open>Headers\<close>

text \<open>The values of the Rust types: every host identity is a string.\<close>

fun valid_message :: "WireMessage \<Rightarrow> bool" where
  "valid_message (WM_ClipboardHello h) \<longleftrightarrow> valid_host (he_host_id h)"
| "valid_message (WM_AuthorityState a) \<longleftrightarrow> valid_token (au_current_token a)
     \<and> (case au_active_handoff a of None \<Rightarrow> True | Some e \<Rightarrow> valid_envelope e)"
| "valid_message (WM_PrepareTarget e) \<longleftrightarrow> valid_envelope e"
| "valid_message (WM_OwnershipActivated e) \<longleftrightarrow> valid_envelope e"
| "valid_message (WM_PrepareResult r) \<longleftrightarrow> valid_token (pr_target_token r)"
| "valid_message (WM_SnapshotOffer s) \<longleftrightarrow> valid_envelope (cp_handoff s)"
| "valid_message (WM_SnapshotDeliver s) \<longleftrightarrow> valid_envelope (cp_handoff s)"
| "valid_message (WM_ApplyResult r) \<longleftrightarrow> valid_token (ar_target_token r)"
| "valid_message (WM_CancelHandoff h) \<longleftrightarrow> True"
| "valid_message (WM_ProtocolError r) \<longleftrightarrow> True"

definition payload_of :: "u8 list option \<Rightarrow> u8 list" where
  "payload_of p = (case p of None \<Rightarrow> [] | Some b \<Rightarrow> b)"

lemmas field_get_put =
  host.get_put token.get_put envelope.get_put handoff.get_put snapshot.get_put generation.get_put
  operation.get_put reason.get_put
lemmas field_get_all =
  envelope.get_put_all handoff.get_put_all operation.get_put_all reason.get_put_all

lemma get_words_all [simp]:
  "get_u64 (u64_to_be v64) = Ok (v64, [])" "get_u128 (u128_to_be v128) = Ok (v128, [])"
  using get_words_put(2,3) [where rest = "[]"] by simp_all

lemma snapshot_roundtrip:
  assumes "valid_envelope (cp_handoff s)" "encode_snapshot digest max_payload s = Ok (h, p)"
    and "\<And>b. length (digest b) = 32"
  shows "\<exists>kind d. parse_snapshot h = Ok (PH_Snapshot (cp_handoff s) (cp_snapshot_id s) kind d, [])
    \<and> finish_snapshot digest (cp_handoff s) (cp_snapshot_id s) kind d (payload_of p) = Ok s"
proof -
  obtain env kb bytes where e: "put_envelope (cp_handoff s) = Ok env" "snapshot_bytes (cp_data s) = Ok (kb, bytes)"
    "h = env @ put_snapshot (cp_snapshot_id s) @ kb # digest bytes" "p = Some bytes"
    using assms(2) by (auto simp: encode_snapshot_def and_then_eq_Ok split: if_splits)
  have take: "get_take 32 (digest bytes) = Ok (digest bytes, [])"
    using get_take_append [OF assms(3), where rest = "[]"] by simp
  show ?thesis
    using e assms(1) take
    by (cases "cp_data s")
      (auto simp: parse_snapshot_def field_get_put snapshot_bytes_def finish_snapshot_def payload_of_def
        split: if_splits)
qed

lemma header_roundtrip:
  assumes "valid_message m" "encode_header digest max_payload m = Ok (h, p)" "\<And>b. length (digest b) = 32"
  shows "\<exists>parsed. parse_header (message_type m) h = Ok parsed
    \<and> finish_message digest (message_type m) parsed (payload_of p) = Ok m"
proof (cases m)
  case (WM_SnapshotOffer s)
  with assms snapshot_roundtrip [of s digest max_payload h p] show ?thesis
    by (auto simp: parse_header_def finish_message_def)
next
  case (WM_SnapshotDeliver s)
  with assms snapshot_roundtrip [of s digest max_payload h p] show ?thesis
    by (auto simp: parse_header_def finish_message_def)
next
  case (WM_AuthorityState a)
  obtain token env where t: "put_token (au_current_token a) = Ok token" "valid_token (au_current_token a)"
    and env: "(case au_active_handoff a of None \<Rightarrow> Ok [] | Some e \<Rightarrow> put_envelope e) = Ok env"
    and h: "h = u128_to_be (au_authority_process_session_id a) @ token
           @ (if au_active_handoff a \<noteq> None then 1 else 0) # env" "p = None"
    using assms(1,2) WM_AuthorityState by (auto simp: and_then_eq_Ok)
  have "parse_header MT_AuthorityState h = Ok (PH_Authority a)"
    using t env h assms(1) WM_AuthorityState
    by (cases "au_active_handoff a") (simp_all add: parse_header_def field_get_put field_get_all)
  then show ?thesis
    using WM_AuthorityState h by (simp add: finish_message_def require_empty_payload_def payload_of_def)
qed (use assms in \<open>auto simp: parse_header_def finish_message_def require_empty_payload_def payload_of_def
    and_then_eq_Ok field_get_put field_get_all split: option.splits\<close>)

lemma parse_snapshot_OkD:
  assumes "parse_snapshot bs = Ok (parsed, [])"
  shows "\<exists>e s kind kb d env. parsed = PH_Snapshot e s kind d \<and> valid_envelope e
    \<and> put_envelope e = Ok env \<and> bs = env @ put_snapshot s @ kb # d
    \<and> (kb = 1 \<and> kind = KindText \<or> kb = 2 \<and> kind = KindEmpty)"
proof -
  obtain e s kb d bs1 bs2 bs3 kind where *: "get_envelope bs = Ok (e, bs1)" "get_snapshot bs1 = Ok (s, bs2)"
    "get_u8 bs2 = Ok (kb, bs3)" "get_take 32 bs3 = Ok (d, [])" "parsed = PH_Snapshot e s kind d"
    "kb = 1 \<and> kind = KindText \<or> kb = 2 \<and> kind = KindEmpty"
    using assms by (auto simp: parse_snapshot_def and_then_eq_Ok split: if_splits)
  obtain env where "valid_envelope e" "put_envelope e = Ok env" "bs = env @ bs1"
    using *(1) by (rule envelope.getE)
  moreover have "bs1 = put_snapshot s @ bs2" using snapshot.put_get [OF *(2)] by simp
  moreover have "bs2 = kb # bs3" "bs3 = d" using *(3,4) by (auto dest: get_u8_OkD get_take_OkD)
  ultimately show ?thesis using *(5,6) by blast
qed

lemma snapshot_canonical:
  assumes "parse_snapshot h = Ok (PH_Snapshot e s kind d, [])" "length payload \<le> max_payload"
    and "finish_snapshot digest e s kind d payload = Ok c"
  shows "valid_envelope (cp_handoff c) \<and> encode_snapshot digest max_payload c = Ok (h, Some payload)"
proof -
  obtain kb env where *: "valid_envelope e" "put_envelope e = Ok env" "h = env @ put_snapshot s @ kb # d"
    "kb = 1 \<and> kind = KindText \<or> kb = 2 \<and> kind = KindEmpty"
    using parse_snapshot_OkD [OF assms(1)] by auto
  have "digest payload = d"
    "kind = KindText \<Longrightarrow> valid_utf8 payload \<and> c = \<lparr>cp_handoff = e, cp_snapshot_id = s, cp_data = Text payload\<rparr>"
    "kind = KindEmpty \<Longrightarrow> payload = [] \<and> c = \<lparr>cp_handoff = e, cp_snapshot_id = s, cp_data = Empty\<rparr>"
    using assms(3) by (auto simp: finish_snapshot_def split: if_splits)
  with * assms(2) show ?thesis
    by (elim disjE) (auto simp: encode_snapshot_def snapshot_bytes_def)
qed

lemma header_canonical:
  assumes "parse_header ty h = Ok parsed" "finish_message digest ty parsed payload = Ok m"
    and "length payload \<le> max_payload"
  shows "message_type m = ty \<and> valid_message m
    \<and> (\<exists>p. encode_header digest max_payload m = Ok (h, p) \<and> payload = payload_of p)"
proof -
  have fields: "parse_fields ty h = Ok (parsed, [])"
    using assms(1) by (auto simp: parse_header_def and_then_eq_Ok split: if_splits)
  show ?thesis
  proof (cases "ty = MT_SnapshotOffer \<or> ty = MT_SnapshotDeliver")
    case True
    with fields have snap: "parse_snapshot h = Ok (parsed, [])" by auto
    then obtain e s kind d where parsed: "parsed = PH_Snapshot e s kind d"
      using parse_snapshot_OkD by blast
    with True assms(2) obtain c where c: "finish_snapshot digest e s kind d payload = Ok c"
      and m: "m = (if ty = MT_SnapshotOffer then WM_SnapshotOffer c else WM_SnapshotDeliver c)"
      by (auto simp: finish_message_def and_then_eq_Ok split: if_splits)
    from snapshot_canonical [OF snap [unfolded parsed] assms(3) c] True m show ?thesis
      by (auto simp: payload_of_def)
  next
    case False
    then show ?thesis
      using fields assms(2)
      by (cases ty)
        (auto simp: finish_message_def require_empty_payload_def payload_of_def and_then_eq_Ok
          split: if_splits dest!: get_words_OkD get_u8_OkD
          elim!: host.getE token.getE envelope.getE handoff.getE snapshot.getE generation.getE
            operation.getE reason.getE)
  qed
qed

section \<open>Prefixes\<close>

lemma encode_prefix_length [simp]: "length (encode_prefix ty hl pl) = PREFIX_BYTES"
  by (simp add: encode_prefix_def MAGIC_def PREFIX_BYTES_def)

lemma word_of_be_to_be:
  assumes "LENGTH('a::len) = 8 * n"
  shows "word_of_be (word_to_be n (v :: 'a word)) = v"
  by (rule fixed_codec.dec_enc [OF word_codec [OF assms]])

lemma unat_of_nat_small:
  "n \<le> MAX_HEADER_BYTES \<Longrightarrow> unat (of_nat n :: u32) = n"
  "m < 2 ^ 64 \<Longrightarrow> unat (of_nat m :: u64) = m"
  by (simp_all add: unat_of_nat MAX_HEADER_BYTES_def MAX_TOKEN_BYTES_def TOKEN_FIXED_BYTES_def
      MAX_HOST_ID_BYTES_def ENVELOPE_FIXED_BYTES_def HANDOFF_BYTES_def)

lemma decode_encode_prefix:
  assumes "hl \<le> MAX_HEADER_BYTES" "pl \<le> max_payload" "max_payload < 2 ^ 64"
  shows "decode_prefix (encode_prefix ty hl pl) max_payload
    = Ok \<lparr>dp_message_type = ty, dp_header_length = hl, dp_payload_length = pl\<rparr>"
proof -
  have "unat (of_nat pl :: u64) = pl" using assms(2,3) by (intro unat_of_nat_small) simp
  with assms show ?thesis
    by (simp add: decode_prefix_def encode_prefix_def MAGIC_def word_of_be_to_be unat_of_nat_small(1)
        checked_payload_length_def Let_def)
qed

lemma encode_decode_prefix:
  assumes "decode_prefix prefix max_payload = Ok d" "length prefix = PREFIX_BYTES"
  shows "prefix = encode_prefix (dp_message_type d) (dp_header_length d) (dp_payload_length d)
    \<and> dp_header_length d \<le> MAX_HEADER_BYTES \<and> dp_payload_length d \<le> max_payload"
proof -
  define f where "f k n = take n (drop k prefix)" for k n :: nat
  have split: "prefix = take 4 prefix @ f 4 2 @ f 6 2 @ f 8 4 @ f 12 4 @ f 16 8"
  proof -
    have chunk: "drop k prefix = f k n @ drop (n + k) prefix" for k n
      by (simp add: f_def flip: drop_drop)
    have "drop 16 prefix = f 16 8" using assms(2) by (simp add: f_def PREFIX_BYTES_def)
    then have "drop 4 prefix = f 4 2 @ f 6 2 @ f 8 4 @ f 12 4 @ f 16 8"
      using chunk [of 4 2] chunk [of 6 2] chunk [of 8 4] chunk [of 12 4] by simp
    then show ?thesis by (metis append_take_drop_id)
  qed
  have len: "length (f 4 2) = 2" "length (f 6 2) = 2" "length (f 8 4) = 4" "length (f 12 4) = 4"
    "length (f 16 8) = 8"
    using assms(2) by (simp_all add: f_def PREFIX_BYTES_def)
  have be: "word_to_be 2 (word_of_be (f 4 2) :: u16) = f 4 2" "word_to_be 2 (word_of_be (f 6 2) :: u16) = f 6 2"
    "word_to_be 4 (word_of_be (f 8 4) :: u32) = f 8 4" "word_to_be 4 (word_of_be (f 12 4) :: u32) = f 12 4"
    "word_to_be 8 (word_of_be (f 16 8) :: u64) = f 16 8"
    by (simp_all add: fixed_codec.enc_dec [OF word_codec] len)
  have d: "take 4 prefix = MAGIC" "(word_of_be (f 4 2) :: u16) = PROTOCOL_VERSION"
    "MessageType_try_from (word_of_be (f 6 2)) = Ok (dp_message_type d)"
    "(word_of_be (f 8 4) :: u32) = KNOWN_FLAGS" "unat (word_of_be (f 12 4) :: u32) = dp_header_length d"
    "dp_header_length d \<le> MAX_HEADER_BYTES" "unat (word_of_be (f 16 8) :: u64) = dp_payload_length d"
    "dp_payload_length d \<le> max_payload"
    using assms(1)
    by (auto simp: decode_prefix_def f_def Let_def and_then_eq_Ok checked_payload_length_def split: if_splits)
  have "of_nat (dp_header_length d) = (word_of_be (f 12 4) :: u32)"
    "of_nat (dp_payload_length d) = (word_of_be (f 16 8) :: u64)"
    by (simp_all flip: d(5,7))
  with d be MessageType_try_from_OkD [OF d(3)] show ?thesis
    by (subst split) (simp add: encode_prefix_def)
qed

section \<open>Frames\<close>

definition frame_bytes :: "EncodedFrame \<Rightarrow> u8 list" where
  "frame_bytes f = ef_prefix f @ ef_header f @ payload_of (ef_payload f)"

lemma frame_bytes_length: "length (frame_bytes f) = encoded_len f"
  by (simp add: frame_bytes_def encoded_len_def payload_of_def split: option.splits)

lemma map_err_id [simp]: "map_err id r = r"
  by (cases r) (simp_all add: map_err_def)

lemma encode_header_payload:
  assumes "encode_header digest max_payload m = Ok (h, p)"
  shows "length (payload_of p) \<le> max_payload"
    and "message_type m \<noteq> MT_SnapshotOffer \<Longrightarrow> message_type m \<noteq> MT_SnapshotDeliver \<Longrightarrow> payload_of p = []"
  using assms
  by (cases m; auto simp: payload_of_def and_then_eq_Ok encode_snapshot_def split: if_splits)+

lemma encode_message_eq_Ok:
  "encode_message digest m max_payload = Ok f \<longleftrightarrow>
     encode_header digest max_payload m = Ok (ef_header f, ef_payload f)
     \<and> length (ef_header f) \<le> MAX_HEADER_BYTES
     \<and> ef_prefix f = encode_prefix (message_type m) (length (ef_header f)) (length (payload_of (ef_payload f)))"
  by (cases f) (auto simp: encode_message_def and_then_eq_Ok payload_of_def not_less split: if_splits option.splits)

lemma read_frame_encoded:
  assumes "valid_message m" "encode_message digest m max_payload = Ok f"
    and "\<And>b. length (digest b) = 32" "max_payload < 2 ^ 64"
    and reads: "\<And>r bs rest. contents r = bs @ rest \<Longrightarrow>
      \<exists>r'. read_exact (length bs) r = Ok (bs, r') \<and> contents r' = rest"
    and "contents r = frame_bytes f @ rest"
  shows "\<exists>r'. read_frame digest read_exact max_payload r = Ok (m, r') \<and> contents r' = rest"
proof -
  note f = assms(2) [unfolded encode_message_eq_Ok]
  let ?h = "ef_header f" and ?p = "payload_of (ef_payload f)"
  obtain r1 where r1: "read_exact (length (ef_prefix f)) r = Ok (ef_prefix f, r1)" "contents r1 = ?h @ ?p @ rest"
    using reads [of r "ef_prefix f" "?h @ ?p @ rest"] assms(6) by (auto simp: frame_bytes_def)
  obtain r2 where r2: "read_exact (length ?h) r1 = Ok (?h, r2)" "contents r2 = ?p @ rest"
    using reads [OF r1(2)] by blast
  obtain r3 where r3: "read_exact (length ?p) r2 = Ok (?p, r3)" "contents r3 = rest"
    using reads [OF r2(2)] by blast
  obtain parsed where p: "parse_header (message_type m) ?h = Ok parsed"
    "finish_message digest (message_type m) parsed ?p = Ok m"
    using header_roundtrip [where digest = digest, OF assms(1) _ assms(3)] f by blast
  have "decode_prefix (ef_prefix f) max_payload = Ok \<lparr>dp_message_type = message_type m,
      dp_header_length = length ?h, dp_payload_length = length ?p\<rparr>"
    using f encode_header_payload(1) [of digest max_payload m "ef_header f" "ef_payload f"] assms(4)
    by (simp add: decode_encode_prefix)
  moreover have "message_type m = MT_SnapshotOffer \<or> message_type m = MT_SnapshotDeliver \<or> ?p = []"
    using f encode_header_payload(2) by blast
  moreover have "length (ef_prefix f) = PREFIX_BYTES" using f by simp
  ultimately have "read_frame digest read_exact max_payload r = Ok (m, r3)"
    using r1(1) r2(1) r3(1) p
    by (simp add: read_frame_def read_frame_validated_def read_frame_after_prefix_def)
  with r3(2) show ?thesis by blast
qed

lemma read_frame_accepted:
  assumes "read_frame digest read_exact max_payload r = Ok (m, r')"
    and reads: "\<And>n r bs r'. read_exact n r = Ok (bs, r') \<Longrightarrow> length bs = n \<and> contents r = bs @ contents r'"
  shows "valid_message m
    \<and> (\<exists>f. encode_message digest m max_payload = Ok f \<and> contents r = frame_bytes f @ contents r')"
proof -
  obtain prefix d r1 r2 h p parsed where
    *: "read_exact PREFIX_BYTES r = Ok (prefix, r1)" "decode_prefix prefix max_payload = Ok d"
    "read_exact (dp_header_length d) r1 = Ok (h, r2)" "parse_header (dp_message_type d) h = Ok parsed"
    "read_exact (dp_payload_length d) r2 = Ok (p, r')"
    "finish_message digest (dp_message_type d) parsed p = Ok m"
    using assms(1)
    by (auto simp: read_frame_def read_frame_validated_def read_frame_after_prefix_def and_then_eq_Ok
        split: if_splits)
  note len = reads [OF *(1)] reads [OF *(3)] reads [OF *(5)]
  have lens: "length prefix = PREFIX_BYTES" "length h = dp_header_length d" "length p = dp_payload_length d"
    using len by blast+
  have d: "prefix = encode_prefix (dp_message_type d) (length h) (length p)"
    "length h \<le> MAX_HEADER_BYTES" "length p \<le> max_payload"
    using encode_decode_prefix [OF *(2) lens(1)] by (simp_all add: lens)
  obtain q where q: "message_type m = dp_message_type d" "valid_message m"
    "encode_header digest max_payload m = Ok (h, q)" "p = payload_of q"
    using header_canonical [OF *(4,6) d(3)] by blast
  let ?f = "\<lparr>ef_prefix = prefix, ef_header = h, ef_payload = q\<rparr>"
  have "encode_message digest m max_payload = Ok ?f"
    using d q by (simp add: encode_message_eq_Ok)
  moreover have "contents r = frame_bytes ?f @ contents r'"
    using len q(4) by (simp add: frame_bytes_def)
  ultimately show ?thesis using q(2) by blast
qed

text \<open>
  C19. The clipboard reader accepts exactly the frames that the writer produces: on a stream that is
  neither cut off nor canceled, \<^verbatim>\<open>read_frame\<close> returns a message and leaves the rest unread just when the
  stream starts with the encoding of that message under the same payload limit. So a frame is read
  back as it was written, and there is no second encoding of a message that a peer could send.
  The hash gives 32 bytes and the limit fits into 64 bits.
\<close>

theorem frame_accepted_iff_encoded:
  assumes "\<And>b. length (digest b) = 32" "max_payload < 2 ^ 64"
    and "\<And>n r bs r'. read_exact n r = Ok (bs, r') \<Longrightarrow> length bs = n \<and> contents r = bs @ contents r'"
    and "\<And>r bs rest. contents r = bs @ rest \<Longrightarrow>
      \<exists>r'. read_exact (length bs) r = Ok (bs, r') \<and> contents r' = rest"
  shows "(\<exists>r'. read_frame digest read_exact max_payload r = Ok (m, r') \<and> contents r' = rest)
    \<longleftrightarrow> valid_message m
      \<and> (\<exists>f. encode_message digest m max_payload = Ok f \<and> contents r = frame_bytes f @ rest)"
    (is "?L \<longleftrightarrow> ?R")
proof
  assume ?L
  then obtain r' where r': "read_frame digest read_exact max_payload r = Ok (m, r')" "contents r' = rest"
    by blast
  have "valid_message m
    \<and> (\<exists>f. encode_message digest m max_payload = Ok f \<and> contents r = frame_bytes f @ contents r')"
    using r'(1) assms(3) by (rule read_frame_accepted)
  with r'(2) show ?R by simp
next
  assume ?R
  then obtain f where f: "valid_message m" "encode_message digest m max_payload = Ok f"
    "contents r = frame_bytes f @ rest"
    by blast
  show ?L
    using f(1,2) assms(1,2,4) f(3) by (rule read_frame_encoded)
qed

text \<open>The stream of a byte list, and a cancellation read from it with one byte left over.\<close>

definition list_reader :: "nat \<Rightarrow> u8 list \<Rightarrow> (FrameError, u8 list \<times> u8 list) outcome" where
  "list_reader n r = (if n \<le> length r then Ok (take n r, drop n r) else Err FrameIo)"

lemma be_bytes_numeral:
  "be_bytes (numeral k) v = be_bytes (pred_numeral k) (v div 256) @ [of_nat (v mod 256)]"
  unfolding numeral_eq_Suc [of k] by (rule be_bytes.simps)

theorem frame_accepted_iff_encoded_witness:
  "\<exists>r'. read_frame (\<lambda>_. replicate 32 0) list_reader 1024
      ([0x4C, 0x4D, 0x43, 0x42, 0, 1, 0, 10, 0, 0, 0, 0, 0, 0, 0, 2, 0, 0, 0, 0, 0, 0, 0, 0, 0, 20] @ [7])
    = Ok (WM_ProtocolError Canceled, r') \<and> r' = [7]"
proof (subst frame_accepted_iff_encoded [where contents = "\<lambda>r. r"])
  let ?f = "\<lparr>ef_prefix = encode_prefix MT_ProtocolError 2 0, ef_header = put_reason Canceled, ef_payload = None\<rparr>"
  have "encode_message (\<lambda>_. replicate 32 0) (WM_ProtocolError Canceled) 1024 = Ok ?f"
    by (simp add: encode_message_def put_reason_def MAX_HEADER_BYTES_def)
  moreover have "[0x4C, 0x4D, 0x43, 0x42, 0, 1, 0, 10, 0, 0, 0, 0, 0, 0, 0, 2, 0, 0, 0, 0, 0, 0, 0, 0, 0, 20] @ [7]
      = frame_bytes ?f @ [7]"
    by (simp add: frame_bytes_def encode_prefix_def MAGIC_def PROTOCOL_VERSION_def KNOWN_FLAGS_def
        put_reason_def payload_of_def word_to_be_def be_bytes_numeral)
  ultimately show "valid_message (WM_ProtocolError Canceled)
    \<and> (\<exists>f. encode_message (\<lambda>_. replicate 32 0) (WM_ProtocolError Canceled) 1024 = Ok f
      \<and> [0x4C, 0x4D, 0x43, 0x42, 0, 1, 0, 10, 0, 0, 0, 0, 0, 0, 0, 2, 0, 0, 0, 0, 0, 0, 0, 0, 0, 20] @ [7]
        = frame_bytes f @ [7])"
    by auto
qed (auto simp: list_reader_def split: if_splits)

end
