(* ===== verification/Clipboard_Coordinator.thy ===== *)
theory Clipboard_Coordinator
  imports Clipboard_Types
begin

text \<open>
  The authority of the clipboard protocol, \<^verbatim>\<open>lan-mouse-clipboard/src/coordinator.rs\<close>: it follows the
  owner of the input and runs at most one handoff of the clipboard to the next owner. A method of
  \<^verbatim>\<open>Coordinator\<close> is a function from the state to the new state and the result.
\<close>

section \<open>State and commands\<close>

datatype HandoffPhase = Capturing | Ready | InFlight | Staged

record SnapshotMetadata =
  sm_snapshot_id :: SnapshotId
  sm_kind :: ClipboardKind
  sm_bytes :: nat

record TargetPreparation =
  tp_process_session_id :: ProcessSessionId
  tp_baseline_generation :: NativeGeneration

record ActiveHandoff =
  ah_id :: HandoffId
  ah_source_host :: HostId
  ah_source_token :: OwnershipToken
  ah_source_process_session_id :: ProcessSessionId
  ah_target_host :: HostId
  ah_target_token :: OwnershipToken
  ah_target_process_session_id :: ProcessSessionId
  ah_phase :: HandoffPhase
  ah_snapshot :: "SnapshotMetadata option"
  ah_target_preparation :: "TargetPreparation option"
  ah_target_activated :: bool
  ah_snapshot_published :: bool

datatype CoordinatorCommand =
    CC_PrepareTarget HandoffId OwnershipToken ProcessSessionId
  | CC_CaptureSource HandoffId OwnershipToken ProcessSessionId nat
  | CC_PublishSnapshot HandoffId SnapshotId
  | CC_ActivateTarget HandoffId OwnershipToken ProcessSessionId
  | CC_CancelHandoff HandoffId

record BeginHandoff =
  bh_handoff_id :: HandoffId
  bh_source_token :: OwnershipToken
  bh_target_token :: OwnershipToken
  bh_commands :: "CoordinatorCommand list"

record PendingOwnership =
  po_handoff_id :: HandoffId
  po_target_token :: OwnershipToken

datatype CoordinatorError =
    CE_IdentityExhausted | CE_SameHost | CE_StaleHandoff | CE_StaleOwnerToken | CE_StaleProcessSession
  | CE_InvalidSnapshot

fun CoordinatorError_reason :: "CoordinatorError \<Rightarrow> ClipboardReason" where
  "CoordinatorError_reason CE_IdentityExhausted = IdentityExhausted"
| "CoordinatorError_reason CE_SameHost = Canceled"
| "CoordinatorError_reason CE_StaleHandoff = StaleHandoff"
| "CoordinatorError_reason CE_StaleOwnerToken = StaleOwnerToken"
| "CoordinatorError_reason CE_StaleProcessSession = StalePeerSession"
| "CoordinatorError_reason CE_InvalidSnapshot = ProtocolErrorReason"

text \<open>The end of a handoff is \<^const>\<open>None\<close> for success and the reason otherwise.\<close>

record Coordinator =
  co_enabled :: bool
  co_authority_session_id :: AuthoritySessionId
  co_current_token :: OwnershipToken
  co_next_ownership_epoch :: OwnershipEpoch
  co_next_handoff_epoch :: HandoffEpoch
  co_max_bytes :: nat
  co_process_sessions :: "HostId \<rightharpoonup> ProcessSessionId"
  co_pending_ownership :: "PendingOwnership option"
  co_active :: "ActiveHandoff option"
  co_last_terminal :: "(HandoffId \<times> ClipboardReason option) option"

definition Coordinator_new ::
    "bool \<Rightarrow> AuthoritySessionId \<Rightarrow> HostId \<Rightarrow> ProcessSessionId \<Rightarrow> nat \<Rightarrow> Coordinator" where
  "Coordinator_new enabled authority server_host server_process_session_id max_bytes =
     \<lparr>co_enabled = enabled,
      co_authority_session_id = authority,
      co_current_token = \<lparr>tok_authority_session_id = authority, tok_ownership_epoch = 0,
                          tok_owner_host_id = server_host\<rparr>,
      co_next_ownership_epoch = 0,
      co_next_handoff_epoch = 0,
      co_max_bytes = max_bytes,
      co_process_sessions = [server_host \<mapsto> server_process_session_id],
      co_pending_ownership = None,
      co_active = None,
      co_last_terminal = None\<rparr>"

section \<open>Operations\<close>

type_synonym 'a coord_result = "Coordinator \<times> (CoordinatorError, 'a) outcome"

definition co_cancel :: "Coordinator \<Rightarrow> ClipboardReason \<Rightarrow> Coordinator \<times> CoordinatorCommand list" where
  "co_cancel c reason = (case co_active c of
     None \<Rightarrow> (c, [])
   | Some h \<Rightarrow> (c\<lparr>co_active := None, co_last_terminal := Some (ah_id h, Some reason)\<rparr>,
                [CC_CancelHandoff (ah_id h)]))"

definition involves :: "ActiveHandoff \<Rightarrow> HostId \<Rightarrow> bool" where
  "involves h host \<longleftrightarrow> ah_source_host h = host \<or> ah_target_host h = host"

definition set_process_session ::
    "Coordinator \<Rightarrow> HostId \<Rightarrow> ProcessSessionId \<Rightarrow> Coordinator \<times> CoordinatorCommand list" where
  "set_process_session c host session =
     (let previous = co_process_sessions c host;
          changed = (case previous of None \<Rightarrow> False | Some p \<Rightarrow> p \<noteq> session);
          c = c\<lparr>co_process_sessions := (co_process_sessions c)(host \<mapsto> session)\<rparr>
      in if changed \<and> (case co_active c of None \<Rightarrow> False | Some h \<Rightarrow> involves h host)
         then co_cancel c StalePeerSession
         else (c, []))"

definition remove_process_session :: "Coordinator \<Rightarrow> HostId \<Rightarrow> Coordinator \<times> CoordinatorCommand list" where
  "remove_process_session c host =
     (if co_process_sessions c host = None then (c, [])
      else
        let c = c\<lparr>co_process_sessions := (co_process_sessions c)(host := None)\<rparr> in
        if (case co_active c of None \<Rightarrow> False | Some h \<Rightarrow> involves h host)
        then co_cancel c ChannelUnavailable
        else (c, []))"

definition set_enabled :: "Coordinator \<Rightarrow> bool \<Rightarrow> Coordinator \<times> CoordinatorCommand list" where
  "set_enabled c enabled =
     (if co_enabled c = enabled then (c, [])
      else
        let c = c\<lparr>co_enabled := enabled\<rparr> in
        if enabled then (c, []) else co_cancel c Canceled)"

text \<open>
  The new handoff of \<^verbatim>\<open>begin_handoff\<close>, after the checks: the previous one is canceled, both epochs
  advance, and the clipboard is only moved when it is enabled and both processes are known.
\<close>

definition install_handoff ::
    "Coordinator \<Rightarrow> HostId \<Rightarrow> OwnershipEpoch \<Rightarrow> HandoffEpoch \<Rightarrow> Coordinator \<times> BeginHandoff" where
  "install_handoff c target_host ownership_epoch handoff_epoch =
     (let source_process = co_process_sessions c (tok_owner_host_id (co_current_token c));
          target_process = co_process_sessions c target_host;
          (c, commands) = co_cancel c Canceled;
          c = c\<lparr>co_next_ownership_epoch := ownership_epoch, co_next_handoff_epoch := handoff_epoch\<rparr>;
          handoff_id = \<lparr>ho_authority_session_id = co_authority_session_id c, ho_handoff_epoch = handoff_epoch\<rparr>;
          target_token = \<lparr>tok_authority_session_id = co_authority_session_id c,
                          tok_ownership_epoch = ownership_epoch, tok_owner_host_id = target_host\<rparr>;
          source_token = co_current_token c;
          c = c\<lparr>co_pending_ownership :=
                  Some \<lparr>po_handoff_id = handoff_id, po_target_token = target_token\<rparr>\<rparr>
      in case (co_enabled c, source_process, target_process) of
           (True, Some sp, Some tp) \<Rightarrow>
             (c\<lparr>co_active := Some
                  \<lparr>ah_id = handoff_id,
                   ah_source_host = tok_owner_host_id source_token,
                   ah_source_token = source_token,
                   ah_source_process_session_id = sp,
                   ah_target_host = target_host,
                   ah_target_token = target_token,
                   ah_target_process_session_id = tp,
                   ah_phase = Capturing,
                   ah_snapshot = None,
                   ah_target_preparation = None,
                   ah_target_activated = False,
                   ah_snapshot_published = False\<rparr>\<rparr>,
              \<lparr>bh_handoff_id = handoff_id, bh_source_token = source_token, bh_target_token = target_token,
               bh_commands = commands @ [CC_PrepareTarget handoff_id target_token tp,
                                         CC_CaptureSource handoff_id source_token sp (co_max_bytes c)]\<rparr>)
         | _ \<Rightarrow>
             (c\<lparr>co_active := None,
                co_last_terminal :=
                  Some (handoff_id, Some (if co_enabled c then CapabilityMissing else Canceled))\<rparr>,
              \<lparr>bh_handoff_id = handoff_id, bh_source_token = source_token, bh_target_token = target_token,
               bh_commands = commands\<rparr>))"

definition begin_handoff :: "Coordinator \<Rightarrow> HostId \<Rightarrow> BeginHandoff coord_result" where
  "begin_handoff c target_host =
     (if target_host = tok_owner_host_id (co_current_token c) then (c, Err CE_SameHost)
      else case checked_add (co_next_ownership_epoch c) 1 of
        None \<Rightarrow> (c, Err CE_IdentityExhausted)
      | Some ownership_epoch \<Rightarrow>
          (case checked_add (co_next_handoff_epoch c) 1 of
             None \<Rightarrow> (c, Err CE_IdentityExhausted)
           | Some handoff_epoch \<Rightarrow>
               let (c, begun) = install_handoff c target_host ownership_epoch handoff_epoch in (c, Ok begun)))"

definition match_active :: "Coordinator \<Rightarrow> HandoffId \<Rightarrow> ActiveHandoff option" where
  "match_active c handoff_id = (case co_active c of
     None \<Rightarrow> None
   | Some h \<Rightarrow> if ah_id h \<noteq> handoff_id then None else Some h)"

text \<open>The handoff is changed in place: the result is the handoff afterwards and the command.\<close>

definition publish_if_ready :: "ActiveHandoff \<Rightarrow> ActiveHandoff \<times> CoordinatorCommand list" where
  "publish_if_ready h = (case ah_snapshot h of
     None \<Rightarrow> (h, [])
   | Some s \<Rightarrow>
       if ah_snapshot_published h \<or> ah_target_preparation h = None then (h, [])
       else (h\<lparr>ah_snapshot_published := True, ah_phase := InFlight\<rparr>,
             [CC_PublishSnapshot (ah_id h) (sm_snapshot_id s)]))"

definition target_prepared ::
    "Coordinator \<Rightarrow> HandoffId \<Rightarrow> OwnershipToken \<Rightarrow> ProcessSessionId \<Rightarrow> NativeGeneration
      \<Rightarrow> CoordinatorCommand list coord_result" where
  "target_prepared c handoff_id target_token process baseline = (case match_active c handoff_id of
     None \<Rightarrow> (c, Err CE_StaleHandoff)
   | Some h \<Rightarrow>
       if ah_target_token h \<noteq> target_token then (c, Err CE_StaleOwnerToken)
       else if ah_target_process_session_id h \<noteq> process then (c, Err CE_StaleProcessSession)
       else
         let (h, commands) = publish_if_ready
               (h\<lparr>ah_target_preparation :=
                    Some \<lparr>tp_process_session_id = process, tp_baseline_generation = baseline\<rparr>\<rparr>)
         in (c\<lparr>co_active := Some h\<rparr>, Ok commands))"

definition source_captured ::
    "Coordinator \<Rightarrow> HandoffId \<Rightarrow> OwnershipToken \<Rightarrow> ProcessSessionId \<Rightarrow> SnapshotMetadata
      \<Rightarrow> CoordinatorCommand list coord_result" where
  "source_captured c handoff_id source_token process snapshot =
     (if sm_bytes snapshot > co_max_bytes c then (c, Err CE_InvalidSnapshot)
      else case match_active c handoff_id of
        None \<Rightarrow> (c, Err CE_StaleHandoff)
      | Some h \<Rightarrow>
          if ah_source_token h \<noteq> source_token then (c, Err CE_StaleOwnerToken)
          else if ah_source_process_session_id h \<noteq> process
                  \<or> sn_source_process_session_id (sm_snapshot_id snapshot) \<noteq> process
          then (c, Err CE_StaleProcessSession)
          else
            let (h, commands) = publish_if_ready (h\<lparr>ah_snapshot := Some snapshot, ah_phase := Ready\<rparr>)
            in (c\<lparr>co_active := Some h\<rparr>, Ok commands))"

definition ownership_activated ::
    "Coordinator \<Rightarrow> HandoffId \<Rightarrow> OwnershipToken \<Rightarrow> ProcessSessionId
      \<Rightarrow> CoordinatorCommand list coord_result" where
  "ownership_activated c handoff_id target_token process = (case co_pending_ownership c of
     None \<Rightarrow> (c, Err CE_StaleHandoff)
   | Some pending \<Rightarrow>
       if po_handoff_id pending \<noteq> handoff_id then (c, Err CE_StaleHandoff)
       else if po_target_token pending \<noteq> target_token then (c, Err CE_StaleOwnerToken)
       else
         let c = c\<lparr>co_pending_ownership := None, co_current_token := target_token\<rparr> in
         if co_active c = None then (c, Ok [])
         else case match_active c handoff_id of
           None \<Rightarrow> (c, Err CE_StaleHandoff)
         | Some h \<Rightarrow>
             if ah_target_token h \<noteq> target_token then (c, Err CE_StaleOwnerToken)
             else if ah_target_process_session_id h \<noteq> process then (c, Err CE_StaleProcessSession)
             else
               let (h, published) = publish_if_ready (h\<lparr>ah_target_activated := True\<rparr>)
               in (c\<lparr>co_active := Some h\<rparr>,
                   Ok (CC_ActivateTarget handoff_id target_token process # published)))"

definition snapshot_staged :: "Coordinator \<Rightarrow> HandoffId \<Rightarrow> unit coord_result" where
  "snapshot_staged c handoff_id = (case match_active c handoff_id of
     None \<Rightarrow> (c, Err CE_StaleHandoff)
   | Some h \<Rightarrow> (c\<lparr>co_active := Some (h\<lparr>ah_phase := Staged\<rparr>)\<rparr>, Ok ()))"

definition handoff_applied :: "Coordinator \<Rightarrow> HandoffId \<Rightarrow> SnapshotId \<Rightarrow> unit coord_result" where
  "handoff_applied c handoff_id snapshot_id = (case match_active c handoff_id of
     None \<Rightarrow> (c, Err CE_StaleHandoff)
   | Some h \<Rightarrow>
       if \<not> ah_target_activated h \<or> map_option sm_snapshot_id (ah_snapshot h) \<noteq> Some snapshot_id
       then (c, Err CE_InvalidSnapshot)
       else (c\<lparr>co_active := None, co_last_terminal := Some (handoff_id, None)\<rparr>, Ok ()))"

definition skip :: "Coordinator \<Rightarrow> HandoffId \<Rightarrow> ClipboardReason \<Rightarrow> unit coord_result" where
  "skip c handoff_id reason = (case match_active c handoff_id of
     None \<Rightarrow> (c, Err CE_StaleHandoff)
   | Some h \<Rightarrow> (c\<lparr>co_active := None, co_last_terminal := Some (handoff_id, Some reason)\<rparr>, Ok ()))"

definition abort :: "Coordinator \<Rightarrow> HandoffId \<Rightarrow> CoordinatorCommand list coord_result" where
  "abort c handoff_id =
     (if (case co_pending_ownership c of None \<Rightarrow> True | Some p \<Rightarrow> po_handoff_id p \<noteq> handoff_id)
      then (c, Err CE_StaleHandoff)
      else let (c, commands) = co_cancel (c\<lparr>co_pending_ownership := None\<rparr>) Canceled in (c, Ok commands))"

section \<open>Runs\<close>

text \<open>A call of a method, and what it gives: the commands, none for an error.\<close>

datatype CoordinatorCall =
    SetProcessSession HostId ProcessSessionId
  | RemoveProcessSession HostId
  | SetEnabled bool
  | BeginHandoffTo HostId
  | TargetPrepared HandoffId OwnershipToken ProcessSessionId NativeGeneration
  | SourceCaptured HandoffId OwnershipToken ProcessSessionId SnapshotMetadata
  | OwnershipActivated HandoffId OwnershipToken ProcessSessionId
  | SnapshotStaged HandoffId
  | AppliedSnapshot HandoffId SnapshotId
  | SkipHandoff HandoffId ClipboardReason
  | AbortHandoff HandoffId

definition commands_of :: "('a \<Rightarrow> CoordinatorCommand list) \<Rightarrow> 'a coord_result \<Rightarrow> Coordinator \<times> CoordinatorCommand list" where
  "commands_of f r = (fst r, case snd r of Ok x \<Rightarrow> f x | _ \<Rightarrow> [])"

fun coordinator_call :: "Coordinator \<Rightarrow> CoordinatorCall \<Rightarrow> Coordinator \<times> CoordinatorCommand list" where
  "coordinator_call c (SetProcessSession host session) = set_process_session c host session"
| "coordinator_call c (RemoveProcessSession host) = remove_process_session c host"
| "coordinator_call c (SetEnabled b) = set_enabled c b"
| "coordinator_call c (BeginHandoffTo host) = commands_of bh_commands (begin_handoff c host)"
| "coordinator_call c (TargetPrepared h t p g) = commands_of id (target_prepared c h t p g)"
| "coordinator_call c (SourceCaptured h t p s) = commands_of id (source_captured c h t p s)"
| "coordinator_call c (OwnershipActivated h t p) = commands_of id (ownership_activated c h t p)"
| "coordinator_call c (SnapshotStaged h) = commands_of (\<lambda>_. []) (snapshot_staged c h)"
| "coordinator_call c (AppliedSnapshot h s) = commands_of (\<lambda>_. []) (handoff_applied c h s)"
| "coordinator_call c (SkipHandoff h r) = commands_of (\<lambda>_. []) (skip c h r)"
| "coordinator_call c (AbortHandoff h) = commands_of id (abort c h)"

primrec coordinator_run :: "Coordinator \<Rightarrow> CoordinatorCall list \<Rightarrow> Coordinator \<times> CoordinatorCommand list" where
  "coordinator_run c [] = (c, [])"
| "coordinator_run c (call # calls) =
     (let (c, out) = coordinator_call c call; (c, rest) = coordinator_run c calls in (c, out @ rest))"

end
