(* ===== verification/Clipboard_Coordinator_Props.thy ===== *)
theory Clipboard_Coordinator_Props
  imports Clipboard_Coordinator
begin

text \<open>
  What the clipboard coordinator keeps: the active handoff is the latest one, between the processes
  that are known now, and tied to the input ownership that it follows; a handoff is published once.
\<close>

section \<open>Invariant\<close>

definition latest_id :: "Coordinator \<Rightarrow> HandoffId" where
  "latest_id c = \<lparr>ho_authority_session_id = co_authority_session_id c, ho_handoff_epoch = co_next_handoff_epoch c\<rparr>"

definition latest_token :: "Coordinator \<Rightarrow> HostId \<Rightarrow> OwnershipToken" where
  "latest_token c host = \<lparr>tok_authority_session_id = co_authority_session_id c,
     tok_ownership_epoch = co_next_ownership_epoch c, tok_owner_host_id = host\<rparr>"

text \<open>The input is still with the source and the move is pending, or it has reached the target.\<close>

definition ownership_ok :: "Coordinator \<Rightarrow> ActiveHandoff \<Rightarrow> bool" where
  "ownership_ok c h \<longleftrightarrow>
     (co_pending_ownership c = Some \<lparr>po_handoff_id = ah_id h, po_target_token = ah_target_token h\<rparr>
        \<and> co_current_token c = ah_source_token h \<and> \<not> ah_target_activated h)
   \<or> (co_pending_ownership c = None \<and> co_current_token c = ah_target_token h)"

definition progress_ok :: "nat \<Rightarrow> ActiveHandoff \<Rightarrow> bool" where
  "progress_ok max_bytes h \<longleftrightarrow>
     (case ah_snapshot h of None \<Rightarrow> True
      | Some s \<Rightarrow> sm_bytes s \<le> max_bytes
          \<and> sn_source_process_session_id (sm_snapshot_id s) = ah_source_process_session_id h)
   \<and> (case ah_target_preparation h of None \<Rightarrow> True
      | Some p \<Rightarrow> tp_process_session_id p = ah_target_process_session_id h)
   \<and> (ah_snapshot_published h \<longleftrightarrow> ah_snapshot h \<noteq> None \<and> ah_target_preparation h \<noteq> None)"

definition handoff_ok :: "Coordinator \<Rightarrow> ActiveHandoff \<Rightarrow> bool" where
  "handoff_ok c h \<longleftrightarrow>
     ah_id h = latest_id c
   \<and> ah_target_token h = latest_token c (ah_target_host h)
   \<and> tok_owner_host_id (ah_source_token h) = ah_source_host h
   \<and> tok_ownership_epoch (ah_source_token h) < co_next_ownership_epoch c
   \<and> ah_source_host h \<noteq> ah_target_host h
   \<and> co_process_sessions c (ah_source_host h) = Some (ah_source_process_session_id h)
   \<and> co_process_sessions c (ah_target_host h) = Some (ah_target_process_session_id h)
   \<and> progress_ok (co_max_bytes c) h
   \<and> ownership_ok c h"

definition pending_move_ok :: "Coordinator \<Rightarrow> PendingOwnership \<Rightarrow> bool" where
  "pending_move_ok c p \<longleftrightarrow>
     po_handoff_id p = latest_id c
   \<and> (\<exists>host. po_target_token p = latest_token c host)
   \<and> tok_ownership_epoch (co_current_token c) < co_next_ownership_epoch c"

definition handoffs_inv :: "Coordinator \<Rightarrow> bool" where
  "handoffs_inv c \<longleftrightarrow>
     tok_authority_session_id (co_current_token c) = co_authority_session_id c
   \<and> tok_ownership_epoch (co_current_token c) \<le> co_next_ownership_epoch c
   \<and> (case co_pending_ownership c of None \<Rightarrow> True | Some p \<Rightarrow> pending_move_ok c p)
   \<and> (case co_active c of None \<Rightarrow> True | Some h \<Rightarrow> handoff_ok c h)"

lemmas handoffs_inv_defs =
  handoffs_inv_def handoff_ok_def pending_move_ok_def ownership_ok_def latest_id_def latest_token_def

lemma handoffs_inv_new: "handoffs_inv (Coordinator_new enabled authority host process max_bytes)"
  by (simp add: handoffs_inv_defs Coordinator_new_def)

lemma inv_cancel: "handoffs_inv c \<Longrightarrow> handoffs_inv (fst (co_cancel c reason))"
  by (auto simp: handoffs_inv_defs co_cancel_def split: option.splits)

lemma inv_set_process_session:
  assumes "handoffs_inv c"
  shows "handoffs_inv (fst (set_process_session c host session))"
proof (cases "co_active c")
  case None
  with assms show ?thesis
    by (simp add: set_process_session_def Let_def handoffs_inv_defs split: option.splits)
next
  case (Some h)
  with assms show ?thesis
    by (auto simp: set_process_session_def Let_def handoffs_inv_defs involves_def co_cancel_def
        split: option.splits)
qed

lemma inv_remove_process_session:
  assumes "handoffs_inv c"
  shows "handoffs_inv (fst (remove_process_session c host))"
  using assms
  by (auto simp: remove_process_session_def Let_def handoffs_inv_defs involves_def co_cancel_def
      split: option.splits)

lemma inv_set_enabled: "handoffs_inv c \<Longrightarrow> handoffs_inv (fst (set_enabled c b))"
  by (auto simp: set_enabled_def Let_def handoffs_inv_defs co_cancel_def split: option.splits)

lemma co_cancel_frame:
  "\<exists>e. fst (co_cancel c reason) = c\<lparr>co_active := None, co_last_terminal := e\<rparr>"
proof (cases "co_active c")
  case None
  then have "fst (co_cancel c reason) = c\<lparr>co_active := None, co_last_terminal := co_last_terminal c\<rparr>"
    by (simp add: co_cancel_def)
  then show ?thesis by blast
qed (auto simp: co_cancel_def)

lemma inv_install_handoff:
  assumes "handoffs_inv c" "target \<noteq> tok_owner_host_id (co_current_token c)"
    and "co_next_ownership_epoch c < oe"
  shows "handoffs_inv (fst (install_handoff c target oe he))"
proof -
  have inv: "tok_authority_session_id (co_current_token c) = co_authority_session_id c"
    "tok_ownership_epoch (co_current_token c) < oe" "tok_ownership_epoch (co_current_token c) \<le> oe"
    using assms(1,3) by (auto simp: handoffs_inv_def)
  obtain e where e: "fst (co_cancel c Canceled) = c\<lparr>co_active := None, co_last_terminal := e\<rparr>"
    using co_cancel_frame by blast
  let ?sp = "co_process_sessions c (tok_owner_host_id (co_current_token c))" and ?tp = "co_process_sessions c target"
  consider sp tp where "co_enabled c" "?sp = Some sp" "?tp = Some tp" | "\<not> co_enabled c" | "co_enabled c" "?sp = None"
    | sp where "co_enabled c" "?sp = Some sp" "?tp = None"
    by (cases "co_enabled c"; cases ?sp; cases ?tp) auto
  then show ?thesis
    using inv assms(2)
    by cases (simp_all add: install_handoff_def case_prod_beta Let_def e handoffs_inv_defs progress_ok_def)
qed

lemma inv_begin_handoff:
  assumes "handoffs_inv c"
  shows "handoffs_inv (fst (begin_handoff c host))"
  using assms inv_install_handoff [OF assms _ checked_add_one_less]
  by (simp add: begin_handoff_def case_prod_beta Let_def split: option.splits)

lemma match_active_Some:
  "match_active c i = Some h \<longleftrightarrow> co_active c = Some h \<and> ah_id h = i"
  "match_active c i = None \<longleftrightarrow> (\<forall>h. co_active c = Some h \<longrightarrow> ah_id h \<noteq> i)"
  by (auto simp: match_active_def split: option.splits)

text \<open>A change of the progress of the active handoff, followed by \<^verbatim>\<open>publish_if_ready\<close>.\<close>

definition same_handoff :: "ActiveHandoff \<Rightarrow> ActiveHandoff \<Rightarrow> bool" where
  "same_handoff h h' \<longleftrightarrow>
     ah_id h' = ah_id h \<and> ah_source_host h' = ah_source_host h \<and> ah_source_token h' = ah_source_token h
   \<and> ah_source_process_session_id h' = ah_source_process_session_id h
   \<and> ah_target_host h' = ah_target_host h \<and> ah_target_token h' = ah_target_token h
   \<and> ah_target_process_session_id h' = ah_target_process_session_id h"

definition partial_progress :: "nat \<Rightarrow> ActiveHandoff \<Rightarrow> bool" where
  "partial_progress max_bytes h \<longleftrightarrow>
     (\<exists>b. progress_ok max_bytes (h\<lparr>ah_snapshot_published := b\<rparr>) \<and> (ah_snapshot_published h \<longrightarrow> b))"

lemma publish_if_ready_same:
  "same_handoff h (fst (publish_if_ready h))"
  "ah_target_activated (fst (publish_if_ready h)) = ah_target_activated h"
  by (simp_all add: publish_if_ready_def same_handoff_def split: option.splits)

lemma publish_if_ready_progress:
  "partial_progress m h \<Longrightarrow> progress_ok m (fst (publish_if_ready h))"
  by (auto simp: publish_if_ready_def progress_ok_def partial_progress_def split: option.splits)

lemma same_handoff_trans: "same_handoff h h' \<Longrightarrow> same_handoff h' h'' \<Longrightarrow> same_handoff h h''"
  by (simp add: same_handoff_def)

lemma inv_update_active:
  assumes "handoffs_inv c" "co_active c = Some h" "same_handoff h h'" "progress_ok (co_max_bytes c) h'"
    and "ah_target_activated h' \<Longrightarrow> ah_target_activated h \<or> co_pending_ownership c = None"
  shows "handoffs_inv (c\<lparr>co_active := Some h'\<rparr>)"
  using assms by (auto simp: handoffs_inv_defs same_handoff_def split: option.splits)

lemma inv_publish:
  assumes "handoffs_inv c" "co_active c = Some h" "same_handoff h h'" "partial_progress (co_max_bytes c) h'"
    and "ah_target_activated h' \<Longrightarrow> ah_target_activated h \<or> co_pending_ownership c = None"
  shows "handoffs_inv (c\<lparr>co_active := Some (fst (publish_if_ready h'))\<rparr>)"
  using assms(1,2)
proof (rule inv_update_active)
  show "same_handoff h (fst (publish_if_ready h'))"
    by (rule same_handoff_trans [OF assms(3) publish_if_ready_same(1)])
qed (use assms publish_if_ready_progress in \<open>simp_all add: publish_if_ready_same\<close>)

lemma inv_activeD:
  "handoffs_inv c \<Longrightarrow> co_active c = Some h \<Longrightarrow> handoff_ok c h"
  by (simp add: handoffs_inv_def)

lemma inv_target_prepared:
  assumes "handoffs_inv c"
  shows "handoffs_inv (fst (target_prepared c i t p g))"
proof (cases "match_active c i")
  case (Some h)
  then have h: "co_active c = Some h" by (simp add: match_active_Some)
  let ?h = "h\<lparr>ah_target_preparation := Some \<lparr>tp_process_session_id = p, tp_baseline_generation = g\<rparr>\<rparr>"
  have "handoffs_inv (c\<lparr>co_active := Some (fst (publish_if_ready ?h))\<rparr>)"
    if "ah_target_process_session_id h = p"
    using inv_activeD [OF assms h] that
    by (intro inv_publish [OF assms h])
      (auto simp: same_handoff_def handoff_ok_def partial_progress_def progress_ok_def split: option.splits)
  with Some assms show ?thesis
    by (simp add: target_prepared_def case_prod_beta Let_def)
qed (use assms in \<open>simp add: target_prepared_def\<close>)

lemma inv_source_captured:
  assumes "handoffs_inv c"
  shows "handoffs_inv (fst (source_captured c i t p s))"
proof (cases "match_active c i")
  case (Some h)
  then have h: "co_active c = Some h" by (simp add: match_active_Some)
  let ?h = "h\<lparr>ah_snapshot := Some s, ah_phase := Ready\<rparr>"
  have "handoffs_inv (c\<lparr>co_active := Some (fst (publish_if_ready ?h))\<rparr>)"
    if "sm_bytes s \<le> co_max_bytes c" "ah_source_process_session_id h = p"
      "sn_source_process_session_id (sm_snapshot_id s) = p"
    using inv_activeD [OF assms h] that
    by (intro inv_publish [OF assms h])
      (auto simp: same_handoff_def handoff_ok_def partial_progress_def progress_ok_def split: option.splits)
  with Some assms show ?thesis
    by (simp add: source_captured_def case_prod_beta Let_def)
qed (use assms in \<open>simp add: source_captured_def\<close>)

lemma inv_ownership_moved:
  assumes "handoffs_inv c" "co_pending_ownership c = Some p"
  shows "handoffs_inv (c\<lparr>co_pending_ownership := None, co_current_token := po_target_token p\<rparr>)"
  using assms by (auto simp: handoffs_inv_defs split: option.splits) 

lemma inv_ownership_activated:
  assumes "handoffs_inv c"
  shows "handoffs_inv (fst (ownership_activated c i t p))"
proof (cases "co_pending_ownership c")
  case (Some pending)
  define c' where "c' = c\<lparr>co_pending_ownership := None, co_current_token := po_target_token pending\<rparr>"
  have inv: "handoffs_inv c'" unfolding c'_def by (rule inv_ownership_moved [OF assms Some])
  have "handoffs_inv (c'\<lparr>co_active := Some (fst (publish_if_ready (h\<lparr>ah_target_activated := True\<rparr>)))\<rparr>)"
    if "co_active c' = Some h" for h
    using inv_activeD [OF inv that]
    by (intro inv_publish [OF inv that])
      (auto simp: same_handoff_def handoff_ok_def partial_progress_def progress_ok_def c'_def
        split: option.splits)
  with inv assms Some show ?thesis
    by (auto simp: ownership_activated_def case_prod_beta Let_def c'_def match_active_Some split: option.splits)
qed (use assms in \<open>simp add: ownership_activated_def\<close>)

lemma inv_snapshot_staged: "handoffs_inv c \<Longrightarrow> handoffs_inv (fst (snapshot_staged c i))"
  by (auto simp: snapshot_staged_def match_active_Some handoff_ok_def same_handoff_def progress_ok_def
      split: option.splits dest: inv_activeD intro!: inv_update_active)

lemma inv_finished: "handoffs_inv c \<Longrightarrow> handoffs_inv (c\<lparr>co_active := None, co_last_terminal := e\<rparr>)"
  by (auto simp: handoffs_inv_defs split: option.splits)

lemma inv_aborted: "handoffs_inv c \<Longrightarrow> co_active c = None \<Longrightarrow> handoffs_inv (c\<lparr>co_pending_ownership := None\<rparr>)"
  by (auto simp: handoffs_inv_defs split: option.splits)

lemma inv_abort: "handoffs_inv c \<Longrightarrow> handoffs_inv (fst (abort c i))"
  by (auto simp: abort_def co_cancel_def handoffs_inv_defs split: option.splits)

lemma inv_call: "handoffs_inv c \<Longrightarrow> handoffs_inv (fst (coordinator_call c call))"
  by (cases call)
    (simp_all add: commands_of_def inv_set_process_session inv_remove_process_session inv_set_enabled
      inv_begin_handoff inv_target_prepared inv_source_captured inv_ownership_activated
      inv_snapshot_staged inv_abort handoff_applied_def skip_def inv_finished split: option.splits)

interpretation handoffs: guarded_system
  "\<lambda>c. \<exists>enabled authority host process max_bytes. c = Coordinator_new enabled authority host process max_bytes"
  "\<lambda>c call. Some (fst (coordinator_call c call))"
  handoffs_inv
  by unfold_locales (auto simp: handoffs_inv_new intro: inv_call)

section \<open>How a handoff handoff_evolves\<close>

text \<open>
  A call keeps the active handoff, never takes back a publication, or replaces the handoff by one
  with a later epoch.
\<close>

definition handoff_evolves :: "Coordinator \<Rightarrow> Coordinator \<Rightarrow> bool" where
  "handoff_evolves c c' \<longleftrightarrow>
     co_max_bytes c' = co_max_bytes c \<and> co_next_handoff_epoch c \<le> co_next_handoff_epoch c'
   \<and> (\<forall>h'. co_active c' = Some h' \<longrightarrow>
        co_next_handoff_epoch c < ho_handoff_epoch (ah_id h')
      \<or> (\<exists>h. co_active c = Some h \<and> same_handoff h h' \<and> (ah_snapshot_published h \<longrightarrow> ah_snapshot_published h')))"

lemma evolves_same [simp]: "handoff_evolves c c"
  by (auto simp: handoff_evolves_def same_handoff_def)

lemma evolves_cancel [simp]: "handoff_evolves c (fst (co_cancel c reason))"
  by (auto simp: handoff_evolves_def same_handoff_def co_cancel_def split: option.splits)

lemma publish_if_ready_keeps: "ah_snapshot_published h \<Longrightarrow> ah_snapshot_published (fst (publish_if_ready h))"
  by (simp add: publish_if_ready_def split: option.splits)

lemma evolves_publish:
  assumes "co_active c = Some h" "same_handoff h h'" "ah_snapshot_published h' = ah_snapshot_published h"
    and "co_max_bytes c' = co_max_bytes c" "co_next_handoff_epoch c' = co_next_handoff_epoch c"
  shows "handoff_evolves c (c'\<lparr>co_active := Some (fst (publish_if_ready h'))\<rparr>)"
  using assms publish_if_ready_keeps [of h'] same_handoff_trans [OF assms(2) publish_if_ready_same(1)]
  by (simp add: handoff_evolves_def)

lemma evolves_begin: "handoff_evolves c (fst (begin_handoff c host))"
proof -
  have "handoff_evolves c (fst (install_handoff c host oe he))" if "co_next_handoff_epoch c < he" for oe he
  proof -
    obtain e where e: "fst (co_cancel c Canceled) = c\<lparr>co_active := None, co_last_terminal := e\<rparr>"
      using co_cancel_frame by blast
    from that show ?thesis
      by (auto simp: handoff_evolves_def install_handoff_def case_prod_beta Let_def e split: option.splits bool.splits)
  qed
  with checked_add_one_less [of "co_next_handoff_epoch c"] show ?thesis
    by (auto simp: begin_handoff_def case_prod_beta Let_def split: option.splits)
qed

lemmas call_defs =
  commands_of_def set_process_session_def remove_process_session_def set_enabled_def target_prepared_def
  source_captured_def ownership_activated_def snapshot_staged_def handoff_applied_def skip_def abort_def

lemma evolves_call: "handoff_evolves c (fst (coordinator_call c call))"
proof (cases call)
  case (BeginHandoffTo host)
  then show ?thesis by (simp add: commands_of_def evolves_begin)
next
  case (TargetPrepared i t p g)
  then show ?thesis
    by (auto simp: commands_of_def target_prepared_def case_prod_beta Let_def match_active_Some same_handoff_def
        split: option.splits intro!: evolves_publish)
next
  case (SourceCaptured i t p m)
  then show ?thesis
    by (auto simp: commands_of_def source_captured_def case_prod_beta Let_def match_active_Some same_handoff_def
        split: option.splits intro!: evolves_publish)
next
  case (OwnershipActivated i t p)
  have moved: "handoff_evolves c (c\<lparr>co_pending_ownership := q, co_current_token := t\<rparr>)" for q
    by (auto simp: handoff_evolves_def same_handoff_def)
  with OwnershipActivated show ?thesis
    by (auto simp: commands_of_def ownership_activated_def case_prod_beta Let_def match_active_Some
        same_handoff_def split: option.splits intro!: evolves_publish)
qed (auto simp: call_defs Let_def handoff_evolves_def same_handoff_def co_cancel_def match_active_Some
    split: option.splits)

section \<open>Publication\<close>

lemma publish_if_ready_out:
  assumes "snd (publish_if_ready h) \<noteq> []"
  shows "\<exists>m. ah_snapshot h = Some m \<and> snd (publish_if_ready h) = [CC_PublishSnapshot (ah_id h) (sm_snapshot_id m)]
    \<and> \<not> ah_snapshot_published h \<and> fst (publish_if_ready h) = h\<lparr>ah_snapshot_published := True, ah_phase := InFlight\<rparr>"
  using assms by (auto simp: publish_if_ready_def split: option.splits if_splits)

text \<open>Which calls publish: the handoff is the active one and was not published before.\<close>

definition publishes :: "Coordinator \<Rightarrow> Coordinator \<Rightarrow> HandoffId \<Rightarrow> SnapshotId \<Rightarrow> bool" where
  "publishes c c' i s \<longleftrightarrow> (\<exists>h h' m. co_active c = Some h \<and> ah_id h = i \<and> \<not> ah_snapshot_published h
     \<and> co_active c' = Some h' \<and> same_handoff h h' \<and> ah_snapshot_published h'
     \<and> ah_snapshot h' = Some m \<and> sm_snapshot_id m = s)"

lemma publish_if_ready_publishes:
  assumes "CC_PublishSnapshot i s \<in> set (snd (publish_if_ready h'))" "co_active c = Some h" "same_handoff h h'"
    and "ah_snapshot_published h' = ah_snapshot_published h"
  shows "publishes c (c'\<lparr>co_active := Some (fst (publish_if_ready h'))\<rparr>) i s"
proof -
  have "snd (publish_if_ready h') \<noteq> []" using assms(1) by auto
  from publish_if_ready_out [OF this] assms show ?thesis
    by (auto simp: publishes_def same_handoff_def)
qed

lemma co_cancel_out: "CC_PublishSnapshot i s \<notin> set (snd (co_cancel c reason))"
  by (simp add: co_cancel_def split: option.splits)

lemma begin_handoff_out: "CC_PublishSnapshot i s \<notin> set (snd (coordinator_call c (BeginHandoffTo host)))"
proof -
  have "CC_PublishSnapshot i s \<notin> set (bh_commands (snd (install_handoff c host oe he)))" for oe he
    using co_cancel_out [of i s c Canceled]
    by (auto simp: install_handoff_def case_prod_beta Let_def split: option.splits bool.splits)
  then show ?thesis
    by (simp add: commands_of_def begin_handoff_def case_prod_beta Let_def split: option.splits)
qed

lemma call_publishes:
  assumes "CC_PublishSnapshot i s \<in> set (snd (coordinator_call c call))"
  shows "publishes c (fst (coordinator_call c call)) i s"
proof (cases call)
  case (BeginHandoffTo host)
  with assms begin_handoff_out show ?thesis by blast
next
  case (TargetPrepared j t p g)
  with assms show ?thesis
    by (auto simp: commands_of_def target_prepared_def case_prod_beta Let_def match_active_Some same_handoff_def
        split: option.splits if_splits intro!: publish_if_ready_publishes)
next
  case (SourceCaptured j t p m)
  with assms show ?thesis
    by (auto simp: commands_of_def source_captured_def case_prod_beta Let_def match_active_Some same_handoff_def
        split: option.splits if_splits intro!: publish_if_ready_publishes)
next
  case (OwnershipActivated j t p)
  with assms show ?thesis
    by (auto simp: commands_of_def ownership_activated_def case_prod_beta Let_def match_active_Some same_handoff_def
        split: option.splits if_splits intro!: publish_if_ready_publishes)
qed (use assms co_cancel_out in \<open>auto simp: call_defs case_prod_beta Let_def split: option.splits if_splits\<close>)

text \<open>A handoff that is over, superseded or already published stays unpublished from then on.\<close>

definition closed :: "Coordinator \<Rightarrow> HandoffId \<Rightarrow> bool" where
  "closed c i \<longleftrightarrow> ho_handoff_epoch i \<le> co_next_handoff_epoch c
     \<and> (\<forall>h. co_active c = Some h \<longrightarrow> ah_id h = i \<longrightarrow> ah_snapshot_published h)"

lemma closed_evolves: "handoff_evolves c c' \<Longrightarrow> closed c i \<Longrightarrow> closed c' i"
  by (fastforce simp: handoff_evolves_def closed_def same_handoff_def)

lemma closed_no_publish: "closed c i \<Longrightarrow> \<not> publishes c c' i s"
  by (auto simp: closed_def publishes_def)

lemma publishes_closed: "handoffs_inv c \<Longrightarrow> handoff_evolves c c' \<Longrightarrow> publishes c c' i s \<Longrightarrow> closed c' i"
  by (auto simp: closed_def publishes_def handoff_evolves_def handoffs_inv_def handoff_ok_def latest_id_def same_handoff_def)

lemma coordinator_run_append:
  "coordinator_run c (calls @ [call]) =
     (let (c', sent) = coordinator_run c calls; (c'', out) = coordinator_call c' call in (c'', sent @ out))"
  by (induction calls arbitrary: c) (simp_all add: case_prod_beta Let_def)

lemma run_facts:
  assumes "handoffs_inv c"
  shows "handoffs_inv (fst (coordinator_run c calls))
    \<and> co_max_bytes (fst (coordinator_run c calls)) = co_max_bytes c
    \<and> (\<forall>i s. CC_PublishSnapshot i s \<in> set (snd (coordinator_run c calls)) \<longrightarrow> closed (fst (coordinator_run c calls)) i)"
proof (induction calls rule: rev_induct)
  case Nil
  then show ?case using assms by simp
next
  case (snoc call calls)
  let ?c = "fst (coordinator_run c calls)"
  have ev: "handoff_evolves ?c (fst (coordinator_call ?c call))" by (rule evolves_call)
  have "closed (fst (coordinator_call ?c call)) i" if "CC_PublishSnapshot i s \<in> set (snd (coordinator_call ?c call))" for i s
    using publishes_closed [OF _ ev call_publishes [OF that]] snoc by blast
  then show ?case
    using snoc ev inv_call closed_evolves [OF ev]
    by (simp add: coordinator_run_append case_prod_beta Let_def) (auto simp: handoff_evolves_def)
qed

text \<open>
  C21. In every run of the clipboard coordinator a handoff is published at most once. When it is
  published, it is the active handoff; the snapshot is the one that the present process of the source
  captured, within the size limit; and the present process of the target has prepared for it.
\<close>

theorem clipboard_published_once:
  assumes "coordinator_run (Coordinator_new enabled authority host process max_bytes) calls = (c, sent)"
    and "coordinator_call c call = (c', out)"
    and "CC_PublishSnapshot i s \<in> set out"
  shows "(\<forall>s'. CC_PublishSnapshot i s' \<notin> set sent)
    \<and> (\<exists>h m p. co_active c' = Some h \<and> ah_id h = i
        \<and> ah_snapshot h = Some m \<and> sm_snapshot_id m = s \<and> sm_bytes m \<le> max_bytes
        \<and> co_process_sessions c' (ah_source_host h) = Some (sn_source_process_session_id s)
        \<and> ah_target_preparation h = Some p
        \<and> co_process_sessions c' (ah_target_host h) = Some (tp_process_session_id p))"
proof -
  let ?c0 = "Coordinator_new enabled authority host process max_bytes"
  have run: "handoffs_inv c" "co_max_bytes c = max_bytes"
    "\<And>s'. CC_PublishSnapshot i s' \<in> set sent \<Longrightarrow> closed c i"
    using run_facts [OF handoffs_inv_new, of enabled authority host process max_bytes calls] assms(1)
    by (auto simp: Coordinator_new_def)
  have pub: "publishes c c' i s"
    using call_publishes [of i s c call] assms(2,3) by simp
  have "handoffs_inv c'" "co_max_bytes c' = max_bytes"
    using inv_call [OF run(1), of call] evolves_call [of c call] assms(2) run(2) by (auto simp: handoff_evolves_def)
  with pub have "\<exists>h m p. co_active c' = Some h \<and> ah_id h = i
        \<and> ah_snapshot h = Some m \<and> sm_snapshot_id m = s \<and> sm_bytes m \<le> max_bytes
        \<and> co_process_sessions c' (ah_source_host h) = Some (sn_source_process_session_id s)
        \<and> ah_target_preparation h = Some p
        \<and> co_process_sessions c' (ah_target_host h) = Some (tp_process_session_id p)"
    by (auto simp: publishes_def handoffs_inv_def handoff_ok_def progress_ok_def same_handoff_def)
  with run(3) closed_no_publish [of c i c' s] pub show ?thesis by blast
qed

definition demo_handoff :: HandoffId where
  "demo_handoff = \<lparr>ho_authority_session_id = 1, ho_handoff_epoch = 1\<rparr>"

definition demo_server :: OwnershipToken where
  "demo_server = \<lparr>tok_authority_session_id = 1, tok_ownership_epoch = 0, tok_owner_host_id = [97]\<rparr>"

definition demo_target :: OwnershipToken where
  "demo_target = \<lparr>tok_authority_session_id = 1, tok_ownership_epoch = 1, tok_owner_host_id = [98]\<rparr>"

definition demo_snapshot :: SnapshotMetadata where
  "demo_snapshot = \<lparr>sm_snapshot_id = \<lparr>sn_source_process_session_id = 5, sn_sequence = 1\<rparr>,
                    sm_kind = KindText, sm_bytes = 3\<rparr>"

lemmas demo_defs = demo_handoff_def demo_server_def demo_target_def demo_snapshot_def

lemma demo_run:
  "\<exists>c. coordinator_run (Coordinator_new True 1 [97] 5 1024)
      [SetProcessSession [98] 6, BeginHandoffTo [98], SourceCaptured demo_handoff demo_server 5 demo_snapshot]
    = (c, [CC_PrepareTarget demo_handoff demo_target 6, CC_CaptureSource demo_handoff demo_server 5 1024])
    \<and> snd (coordinator_call c (TargetPrepared demo_handoff demo_target 6 9))
      = [CC_PublishSnapshot demo_handoff (sm_snapshot_id demo_snapshot)]"
  by (simp add: Coordinator_new_def demo_defs call_defs begin_handoff_def install_handoff_def co_cancel_def
      match_active_def publish_if_ready_def checked_add_def Let_def)

theorem clipboard_published_once_witness:
  "\<exists>c c' out. coordinator_run (Coordinator_new True 1 [97] 5 1024)
      [SetProcessSession [98] 6, BeginHandoffTo [98], SourceCaptured demo_handoff demo_server 5 demo_snapshot]
    = (c, [CC_PrepareTarget demo_handoff demo_target 6, CC_CaptureSource demo_handoff demo_server 5 1024])
    \<and> coordinator_call c (TargetPrepared demo_handoff demo_target 6 9) = (c', out)
    \<and> CC_PublishSnapshot demo_handoff (sm_snapshot_id demo_snapshot) \<in> set out
    \<and> (\<exists>h. co_active c' = Some h \<and> co_process_sessions c' (ah_source_host h) = Some 5)"
proof -
  obtain c where c: "coordinator_run (Coordinator_new True 1 [97] 5 1024)
      [SetProcessSession [98] 6, BeginHandoffTo [98], SourceCaptured demo_handoff demo_server 5 demo_snapshot]
    = (c, [CC_PrepareTarget demo_handoff demo_target 6, CC_CaptureSource demo_handoff demo_server 5 1024])"
    and out: "snd (coordinator_call c (TargetPrepared demo_handoff demo_target 6 9))
      = [CC_PublishSnapshot demo_handoff (sm_snapshot_id demo_snapshot)]"
    using demo_run by blast
  define c' where "c' = fst (coordinator_call c (TargetPrepared demo_handoff demo_target 6 9))"
  have call: "coordinator_call c (TargetPrepared demo_handoff demo_target 6 9)
      = (c', [CC_PublishSnapshot demo_handoff (sm_snapshot_id demo_snapshot)])"
    using out by (simp add: c'_def prod_eq_iff)
  from clipboard_published_once [OF c call, of demo_handoff "sm_snapshot_id demo_snapshot"]
  have "\<exists>h. co_active c' = Some h \<and> co_process_sessions c' (ah_source_host h) = Some 5"
    by (auto simp: demo_snapshot_def)
  with c call show ?thesis by auto
qed

end
