(* ===== verification/Clipboard_Actor.thy ===== *)
theory Clipboard_Actor
  imports Clipboard_Types
begin

text \<open>
  The clipboard of one host, \<^verbatim>\<open>lan-mouse-clipboard/src/actor.rs\<close>: a thread that owns the native clipboard
  and answers one command after the other. The native clipboard is the trait \<^verbatim>\<open>ClipboardBackend\<close>, whose
  methods are arguments here; a method gives its result and the backend afterwards.
\<close>

section \<open>Backend, commands and events\<close>

record 'b ClipboardBackend =
  be_initialize :: "'b \<Rightarrow> (ClipboardReason + NativeGeneration) \<times> 'b"
  be_generation :: "'b \<Rightarrow> (ClipboardReason + NativeGeneration) \<times> 'b"
  be_capture :: "nat \<Rightarrow> 'b \<Rightarrow> (ClipboardReason + ClipboardData) \<times> 'b"
  be_apply :: "NativeGeneration \<Rightarrow> ClipboardData \<Rightarrow> 'b \<Rightarrow> (ClipboardReason + NativeGeneration) \<times> 'b"
  be_shutdown :: "'b \<Rightarrow> 'b"

definition COMMAND_CLASS_COUNT :: nat where "COMMAND_CLASS_COUNT = 10"
definition PAYLOAD_SLOT_COUNT :: nat where "PAYLOAD_SLOT_COUNT = 1"
definition SOURCE_CHANGE_RETRIES :: nat where "SOURCE_CHANGE_RETRIES = 1"

datatype ActorCommand =
    SynchronizeAuthority OwnershipToken
  | ObserveGeneration
  | PrepareTarget HandoffId OwnershipToken
  | CaptureSource HandoffId OwnershipToken nat
  | CaptureProvisional OwnershipToken nat
  | BindProvisional HandoffId OwnershipToken
  | PublishSnapshot HandoffId SnapshotId
  | ActivateTarget HandoffId OwnershipToken
  | StageSnapshot StagedSnapshot
  | CancelHandoff HandoffId
  | Shutdown

datatype ActorEvent =
    AE_AuthoritySynchronized OwnershipToken
  | AE_Generation NativeGeneration
  | AE_Prepared HandoffId OwnershipToken ProcessSessionId NativeGeneration
  | AE_Captured HandoffId OwnershipToken SnapshotId ClipboardKind nat
  | AE_ProvisionalCaptured OwnershipToken SnapshotId ClipboardKind nat
  | AE_Activated HandoffId OwnershipToken
  | AE_Staged HandoffId SnapshotId
  | AE_Applied AppliedIdentity
  | AE_Published HandoffId SnapshotId
  | AE_Skipped "HandoffId option" ClipboardReason
  | AE_BackendUnavailable "HandoffId option" ClipboardReason
  | AE_Canceled HandoffId
  | AE_Shutdown

record ActorPayload =
  ap_handoff_id :: HandoffId
  ap_snapshot_id :: SnapshotId
  ap_source_token :: OwnershipToken
  ap_data :: ClipboardData

record StoredSnapshot =
  ss_handoff_id :: "HandoffId option"
  ss_source_token :: OwnershipToken
  ss_snapshot_id :: SnapshotId
  ss_data :: ClipboardData

datatype ActorFailure = Native ClipboardReason | Handoff ClipboardReason

text \<open>
  The state of the actor with its end of the payload channel: the payloads that the receiver has not
  taken, and whether the receiver is gone.
\<close>

record 'b Actor =
  ac_backend :: 'b
  ac_process_session_id :: ProcessSessionId
  ac_local_host_id :: HostId
  ac_current_token :: OwnershipToken
  ac_observed_generation :: NativeGeneration
  ac_next_snapshot_sequence :: SnapshotSequence
  ac_preparation :: "(HandoffId \<times> OwnershipToken \<times> NativeGeneration) option"
  ac_source_snapshot :: "StoredSnapshot option"
  ac_stage :: "StagedSnapshot option"
  ac_applied :: "AppliedIdentity option"
  ac_payloads :: "ActorPayload list"
  ac_payload_closed :: bool

definition Actor_new ::
    "'b \<Rightarrow> ProcessSessionId \<Rightarrow> HostId \<Rightarrow> OwnershipToken \<Rightarrow> NativeGeneration \<Rightarrow> 'b Actor" where
  "Actor_new backend process local_host token generation =
     \<lparr>ac_backend = backend, ac_process_session_id = process, ac_local_host_id = local_host,
      ac_current_token = token, ac_observed_generation = generation, ac_next_snapshot_sequence = 0,
      ac_preparation = None, ac_source_snapshot = None, ac_stage = None, ac_applied = None,
      ac_payloads = [], ac_payload_closed = False\<rparr>"

text \<open>The bounded request queue of the handle: a request is refused when it is full or closed.\<close>

definition try_request ::
    "ActorCommand list \<Rightarrow> bool \<Rightarrow> ActorCommand \<Rightarrow> ClipboardReason + ActorCommand list" where
  "try_request queue is_closed command =
     (if is_closed then Inl ChannelUnavailable
      else if length queue \<ge> COMMAND_CLASS_COUNT then Inl QueueFull
      else Inr (queue @ [command]))"

section \<open>Commands of the source\<close>

definition skipped :: "HandoffId option \<Rightarrow> ClipboardReason \<Rightarrow> ActorEvent" where
  "skipped handoff_id reason = AE_Skipped handoff_id reason"

definition native_failure :: "HandoffId option \<Rightarrow> ClipboardReason \<Rightarrow> ActorEvent" where
  "native_failure handoff_id reason =
     (if reason = BackendUnavailable \<or> reason = PermissionDenied \<or> reason = IdentityExhausted
      then AE_BackendUnavailable handoff_id reason
      else skipped handoff_id reason)"

definition synchronize_authority :: "'b Actor \<Rightarrow> OwnershipToken \<Rightarrow> 'b Actor \<times> ActorEvent" where
  "synchronize_authority a token =
     (let authority_changed = tok_authority_session_id token \<noteq> tok_authority_session_id (ac_current_token a);
          token_changed = token \<noteq> ac_current_token a
      in (if authority_changed \<or> token_changed then
            let preserve = \<not> authority_changed
                  \<and> (case ac_source_snapshot a of None \<Rightarrow> False
                     | Some s \<Rightarrow> ss_handoff_id s \<noteq> None \<and> ss_source_token s = ac_current_token a)
            in a\<lparr>ac_source_snapshot := (if preserve then ac_source_snapshot a else None),
                 ac_stage := None, ac_preparation := None, ac_applied := None, ac_current_token := token\<rparr>
          else a,
          AE_AuthoritySynchronized token))"

text \<open>The check of captured data; the reason of a rejection.\<close>

definition check_captured :: "nat \<Rightarrow> ClipboardData \<Rightarrow> ClipboardReason option" where
  "check_captured max_bytes data = (case data of
     Text bytes \<Rightarrow>
       if \<not> valid_utf8 bytes then Some InvalidUtf8
       else if ClipboardData_len data > max_bytes then Some Oversize else None
   | Empty \<Rightarrow> if ClipboardData_len data > max_bytes then Some Oversize else None
   | Unavailable reason \<Rightarrow> Some reason)"

text \<open>The loop over the retries; its end is the \<^verbatim>\<open>unreachable!\<close> of the source.\<close>

fun capture_loop ::
    "'b ClipboardBackend \<Rightarrow> nat \<Rightarrow> nat list \<Rightarrow> 'b Actor \<Rightarrow> 'b Actor \<times> (ActorFailure, ClipboardData) outcome" where
  "capture_loop B max_bytes [] a = (a, Panic)"
| "capture_loop B max_bytes (retry # retries) a =
     (case be_generation B (ac_backend a) of
        (Inl reason, b) \<Rightarrow> (a\<lparr>ac_backend := b\<rparr>, Err (Native reason))
      | (Inr before, b) \<Rightarrow>
          (case be_capture B max_bytes b of
             (Inl reason, b) \<Rightarrow> (a\<lparr>ac_backend := b\<rparr>, Err (Native reason))
           | (Inr data, b) \<Rightarrow>
               (case check_captured max_bytes data of
                  Some reason \<Rightarrow> (a\<lparr>ac_backend := b\<rparr>, Err (Handoff reason))
                | None \<Rightarrow>
                    (case be_generation B b of
                       (Inl reason, b) \<Rightarrow> (a\<lparr>ac_backend := b\<rparr>, Err (Native reason))
                     | (Inr after, b) \<Rightarrow>
                         let a = a\<lparr>ac_backend := b, ac_observed_generation := after\<rparr> in
                         if before = after then (a, Ok data)
                         else if retry = SOURCE_CHANGE_RETRIES then (a, Err (Handoff SourceChanged))
                         else capture_loop B max_bytes retries a))))"

definition stable_capture ::
    "'b ClipboardBackend \<Rightarrow> 'b Actor \<Rightarrow> nat \<Rightarrow> 'b Actor \<times> (ActorFailure, ClipboardData) outcome" where
  "stable_capture B a max_bytes = capture_loop B max_bytes [0..<SOURCE_CHANGE_RETRIES + 1] a"

text \<open>A command gives the event, or \<^const>\<open>None\<close> where the thread would panic.\<close>

definition capture_source ::
    "'b ClipboardBackend \<Rightarrow> 'b Actor \<Rightarrow> HandoffId option \<Rightarrow> OwnershipToken \<Rightarrow> nat \<Rightarrow> 'b Actor \<times> ActorEvent option" where
  "capture_source B a handoff_id source_token max_bytes =
     (if source_token \<noteq> ac_current_token a then (a, Some (skipped handoff_id StaleOwnerToken))
      else if (case handoff_id of None \<Rightarrow> False
               | Some i \<Rightarrow> ho_authority_session_id i \<noteq> tok_authority_session_id source_token)
      then (a, Some (skipped handoff_id StaleAuthoritySession))
      else case stable_capture B a max_bytes of
        (a, Panic) \<Rightarrow> (a, None)
      | (a, Err (Native reason)) \<Rightarrow> (a, Some (native_failure handoff_id reason))
      | (a, Err (Handoff reason)) \<Rightarrow> (a, Some (skipped handoff_id reason))
      | (a, Ok data) \<Rightarrow>
          (case checked_add (ac_next_snapshot_sequence a) 1 of
             None \<Rightarrow> (a, Some (native_failure handoff_id IdentityExhausted))
           | Some sequence \<Rightarrow>
               let a = a\<lparr>ac_next_snapshot_sequence := sequence\<rparr>;
                   snapshot_id = \<lparr>sn_source_process_session_id = ac_process_session_id a, sn_sequence = sequence\<rparr>
               in (case ClipboardData_kind data of
                     Inl _ \<Rightarrow> (a, None)
                   | Inr kind \<Rightarrow>
                       (a\<lparr>ac_source_snapshot := Some
                            \<lparr>ss_handoff_id = handoff_id, ss_source_token = source_token,
                             ss_snapshot_id = snapshot_id, ss_data = data\<rparr>\<rparr>,
                        Some (case handoff_id of
                          Some i \<Rightarrow> AE_Captured i source_token snapshot_id kind (ClipboardData_len data)
                        | None \<Rightarrow> AE_ProvisionalCaptured source_token snapshot_id kind (ClipboardData_len data))))))"

definition bind_provisional :: "'b Actor \<Rightarrow> HandoffId \<Rightarrow> OwnershipToken \<Rightarrow> 'b Actor \<times> ActorEvent option" where
  "bind_provisional a handoff_id source_token = (case ac_source_snapshot a of
     None \<Rightarrow> (a, Some (skipped (Some handoff_id) SourceChanged))
   | Some s \<Rightarrow>
       if ss_handoff_id s \<noteq> None \<or> ss_source_token s \<noteq> source_token
       then (a, Some (skipped (Some handoff_id) StaleOwnerToken))
       else if ho_authority_session_id handoff_id \<noteq> tok_authority_session_id source_token
       then (a, Some (skipped (Some handoff_id) StaleAuthoritySession))
       else
         (a\<lparr>ac_source_snapshot := Some (s\<lparr>ss_handoff_id := Some handoff_id\<rparr>)\<rparr>,
          case ClipboardData_kind (ss_data s) of
            Inl _ \<Rightarrow> None
          | Inr kind \<Rightarrow>
              Some (AE_Captured handoff_id source_token (ss_snapshot_id s) kind (ClipboardData_len (ss_data s)))))"

definition publish_snapshot :: "'b Actor \<Rightarrow> HandoffId \<Rightarrow> SnapshotId \<Rightarrow> 'b Actor \<times> ActorEvent" where
  "publish_snapshot a handoff_id snapshot_id = (case ac_source_snapshot a of
     None \<Rightarrow> (a, skipped (Some handoff_id) StaleHandoff)
   | Some s \<Rightarrow>
       if ss_handoff_id s \<noteq> Some handoff_id \<or> ss_snapshot_id s \<noteq> snapshot_id
       then (a, skipped (Some handoff_id) StaleHandoff)
       else
         let a = a\<lparr>ac_source_snapshot := None\<rparr>;
             payload = \<lparr>ap_handoff_id = handoff_id, ap_snapshot_id = snapshot_id,
                        ap_source_token = ss_source_token s, ap_data = ss_data s\<rparr>
         in if ac_payload_closed a then (a, skipped (Some handoff_id) ChannelUnavailable)
            else if length (ac_payloads a) \<ge> PAYLOAD_SLOT_COUNT then (a, skipped (Some handoff_id) QueueFull)
            else (a\<lparr>ac_payloads := ac_payloads a @ [payload]\<rparr>, AE_Published handoff_id snapshot_id))"

section \<open>Commands of the target\<close>

definition prepare_target :: "'b Actor \<Rightarrow> HandoffId \<Rightarrow> OwnershipToken \<Rightarrow> 'b Actor \<times> ActorEvent" where
  "prepare_target a handoff_id target_token =
     (if ho_authority_session_id handoff_id \<noteq> tok_authority_session_id target_token
         \<or> tok_authority_session_id target_token \<noteq> tok_authority_session_id (ac_current_token a)
      then (a, skipped (Some handoff_id) StaleAuthoritySession)
      else if tok_owner_host_id target_token = ac_local_host_id a \<and> target_token \<noteq> ac_current_token a
      then (a\<lparr>ac_preparation := Some (handoff_id, target_token, ac_observed_generation a)\<rparr>,
            AE_Prepared handoff_id target_token (ac_process_session_id a) (ac_observed_generation a))
      else (a, skipped (Some handoff_id) StaleOwnerToken))"

definition apply_stage :: "'b ClipboardBackend \<Rightarrow> 'b Actor \<Rightarrow> 'b Actor \<times> ActorEvent" where
  "apply_stage B a = (case ac_stage a of
     None \<Rightarrow> (a, skipped None StaleHandoff)
   | Some stage \<Rightarrow>
       if st_target_token stage \<noteq> ac_current_token a then (a, skipped None StaleOwnerToken)
       else
         let a = a\<lparr>ac_stage := None\<rparr>;
             identity = \<lparr>ai_handoff_id = st_handoff_id stage, ai_snapshot_id = st_snapshot_id stage\<rparr>
         in if ac_applied a = Some identity then (a, skipped (Some (st_handoff_id stage)) Duplicate)
            else case be_apply B (st_baseline_generation stage) (st_data stage) (ac_backend a) of
              (Inr generation, b) \<Rightarrow>
                (a\<lparr>ac_backend := b, ac_observed_generation := generation, ac_applied := Some identity,
                   ac_preparation := None\<rparr>,
                 AE_Applied identity)
            | (Inl reason, b) \<Rightarrow>
                (let a = a\<lparr>ac_backend := b\<rparr>;
                     a = (if reason = DestinationChanged then
                            case be_generation B (ac_backend a) of
                              (Inr generation, b) \<Rightarrow> a\<lparr>ac_backend := b, ac_observed_generation := generation\<rparr>
                            | (Inl _, b) \<Rightarrow> a\<lparr>ac_backend := b\<rparr>
                          else a)
                 in (a, native_failure (Some (st_handoff_id stage)) reason)))"

definition activate_target ::
    "'b ClipboardBackend \<Rightarrow> 'b Actor \<Rightarrow> HandoffId \<Rightarrow> OwnershipToken \<Rightarrow> 'b Actor \<times> ActorEvent" where
  "activate_target B a handoff_id target_token =
     (if ho_authority_session_id handoff_id \<noteq> tok_authority_session_id target_token
      then (a, skipped (Some handoff_id) StaleAuthoritySession)
      else if tok_owner_host_id target_token \<noteq> ac_local_host_id a
      then (a, skipped (Some handoff_id) StaleOwnerToken)
      else case ac_preparation a of
        None \<Rightarrow> (a, skipped (Some handoff_id) TargetNotPrepared)
      | Some (prepared_handoff, prepared_token, _) \<Rightarrow>
          if prepared_handoff \<noteq> handoff_id \<or> prepared_token \<noteq> target_token
          then (a, skipped (Some handoff_id) StaleHandoff)
          else
            let a = a\<lparr>ac_current_token := target_token\<rparr> in
            if (case ac_stage a of None \<Rightarrow> False | Some stage \<Rightarrow> st_handoff_id stage = handoff_id)
            then apply_stage B a
            else (a, AE_Activated handoff_id target_token))"

definition stage_snapshot :: "'b ClipboardBackend \<Rightarrow> 'b Actor \<Rightarrow> StagedSnapshot \<Rightarrow> 'b Actor \<times> ActorEvent" where
  "stage_snapshot B a stage =
     (let handoff_id = st_handoff_id stage in
      case ClipboardData_kind (st_data stage) of
        Inl reason \<Rightarrow> (a, skipped (Some handoff_id) reason)
      | Inr _ \<Rightarrow>
          if ho_authority_session_id handoff_id \<noteq> tok_authority_session_id (st_target_token stage)
          then (a, skipped (Some handoff_id) StaleAuthoritySession)
          else if tok_owner_host_id (st_target_token stage) \<noteq> ac_local_host_id a
          then (a, skipped (Some handoff_id) StaleOwnerToken)
          else if ac_applied a = Some \<lparr>ai_handoff_id = handoff_id, ai_snapshot_id = st_snapshot_id stage\<rparr>
          then (a, skipped (Some handoff_id) Duplicate)
          else case ac_preparation a of
            None \<Rightarrow> (a, skipped (Some handoff_id) TargetNotPrepared)
          | Some (prepared_handoff, prepared_token, prepared_generation) \<Rightarrow>
              if prepared_handoff \<noteq> handoff_id \<or> prepared_token \<noteq> st_target_token stage
                 \<or> prepared_generation \<noteq> st_baseline_generation stage
                 \<or> st_target_process_session_id stage \<noteq> ac_process_session_id a
              then (a, skipped (Some handoff_id) StaleHandoff)
              else
                let a = a\<lparr>ac_stage := Some stage\<rparr> in
                if ac_current_token a = st_target_token stage then apply_stage B a
                else (a, AE_Staged handoff_id (st_snapshot_id stage)))"

definition cancel_handoff :: "'b Actor \<Rightarrow> HandoffId \<Rightarrow> 'b Actor" where
  "cancel_handoff a handoff_id =
     a\<lparr>ac_preparation := (case ac_preparation a of
          Some (i, t, g) \<Rightarrow> if i = handoff_id then None else Some (i, t, g) | None \<Rightarrow> None),
       ac_source_snapshot := (case ac_source_snapshot a of
          Some s \<Rightarrow> if ss_handoff_id s = Some handoff_id then None else Some s | None \<Rightarrow> None),
       ac_stage := (case ac_stage a of
          Some s \<Rightarrow> if st_handoff_id s = handoff_id then None else Some s | None \<Rightarrow> None)\<rparr>"

section \<open>The loop\<close>

definition observe_generation :: "'b ClipboardBackend \<Rightarrow> 'b Actor \<Rightarrow> 'b Actor \<times> ActorEvent" where
  "observe_generation B a = (case be_generation B (ac_backend a) of
     (Inr generation, b) \<Rightarrow> (a\<lparr>ac_backend := b, ac_observed_generation := generation\<rparr>, AE_Generation generation)
   | (Inl reason, b) \<Rightarrow> (a\<lparr>ac_backend := b\<rparr>, native_failure None reason))"

definition total :: "'b Actor \<times> ActorEvent \<Rightarrow> 'b Actor \<times> ActorEvent option" where
  "total r = (fst r, Some (snd r))"

fun actor_handle :: "'b ClipboardBackend \<Rightarrow> 'b Actor \<Rightarrow> ActorCommand \<Rightarrow> 'b Actor \<times> ActorEvent option" where
  "actor_handle B a (SynchronizeAuthority token) = total (synchronize_authority a token)"
| "actor_handle B a ObserveGeneration = total (observe_generation B a)"
| "actor_handle B a (PrepareTarget i t) = total (prepare_target a i t)"
| "actor_handle B a (CaptureSource i t n) = capture_source B a (Some i) t n"
| "actor_handle B a (CaptureProvisional t n) = capture_source B a None t n"
| "actor_handle B a (BindProvisional i t) = bind_provisional a i t"
| "actor_handle B a (PublishSnapshot i s) = total (publish_snapshot a i s)"
| "actor_handle B a (ActivateTarget i t) = total (activate_target B a i t)"
| "actor_handle B a (StageSnapshot stage) = total (stage_snapshot B a stage)"
| "actor_handle B a (CancelHandoff i) = (cancel_handoff a i, Some (AE_Canceled i))"
| "actor_handle B a Shutdown = (a, Some AE_Shutdown)"

definition is_backend_lost :: "ActorEvent \<Rightarrow> bool" where
  "is_backend_lost e = (case e of AE_BackendUnavailable _ _ \<Rightarrow> True | _ \<Rightarrow> False)"

definition actor_end :: "'b ClipboardBackend \<Rightarrow> 'b Actor \<Rightarrow> 'b Actor" where
  "actor_end B a = a\<lparr>ac_backend := be_shutdown B (ac_backend a), ac_source_snapshot := None,
     ac_stage := None, ac_preparation := None\<rparr>"

text \<open>
  What happens to the thread: a request is handled, the receiver takes a payload, or the receiver is
  dropped. The loop ends with the requests, after a shutdown or when the backend is lost; the result is
  the final state and the answered requests, \<^const>\<open>None\<close> after a panic.
\<close>

datatype ActorInput = Request ActorCommand | TakePayload | DropReceiver

fun actor_run ::
    "'b ClipboardBackend \<Rightarrow> 'b Actor \<Rightarrow> ActorInput list \<Rightarrow> ('b Actor \<times> (ActorCommand \<times> ActorEvent) list) option" where
  "actor_run B a [] = Some (actor_end B a, [])"
| "actor_run B a (TakePayload # inputs) = actor_run B (a\<lparr>ac_payloads := tl (ac_payloads a)\<rparr>) inputs"
| "actor_run B a (DropReceiver # inputs) = actor_run B (a\<lparr>ac_payload_closed := True\<rparr>) inputs"
| "actor_run B a (Request command # inputs) = (case actor_handle B a command of
     (a, None) \<Rightarrow> None
   | (a, Some event) \<Rightarrow>
       if command = Shutdown \<or> is_backend_lost event then Some (actor_end B a, [(command, event)])
       else map_option (\<lambda>(a, log). (a, (command, event) # log)) (actor_run B a inputs))"

text \<open>\<^verbatim>\<open>spawn_actor\<close>: the backend is initialised first; a failure shuts it down and is reported.\<close>

definition spawn_actor ::
    "'b ClipboardBackend \<Rightarrow> 'b \<Rightarrow> ProcessSessionId \<Rightarrow> HostId \<Rightarrow> OwnershipToken \<Rightarrow> 'b \<times> ClipboardReason + 'b Actor" where
  "spawn_actor B backend process local_host token = (case be_initialize B backend of
     (Inr generation, b) \<Rightarrow> Inr (Actor_new b process local_host token generation)
   | (Inl reason, b) \<Rightarrow> Inl (be_shutdown B b, reason))"

end
