(* ===== verification/Clipboard_Actor_Props.thy ===== *)
theory Clipboard_Actor_Props
  imports Clipboard_Actor
begin

text \<open>
  The clipboard actor returns from every request, and it writes to the native clipboard only what was
  staged for a handoff that it prepared, once per preparation.
\<close>

section \<open>Capturing\<close>

lemma capture_loop_frame:
  "\<exists>b g. fst (capture_loop B max_bytes retries a) = a\<lparr>ac_backend := b, ac_observed_generation := g\<rparr>"
proof (induction retries arbitrary: a)
  case Nil
  have "a = a\<lparr>ac_backend := ac_backend a, ac_observed_generation := ac_observed_generation a\<rparr>" by simp
  then show ?case unfolding capture_loop.simps fst_conv by blast
next
  case (Cons retry retries)
  have keep: "\<exists>b' g. a\<lparr>ac_backend := b\<rparr> = a\<lparr>ac_backend := b', ac_observed_generation := g\<rparr>" for b
    by (rule exI [of _ b], rule exI [of _ "ac_observed_generation a"]) simp
  have again: "\<exists>b g. fst (capture_loop B max_bytes retries (a\<lparr>ac_backend := b1, ac_observed_generation := g1\<rparr>))
      = a\<lparr>ac_backend := b, ac_observed_generation := g\<rparr>" for b1 g1
    using Cons [of "a\<lparr>ac_backend := b1, ac_observed_generation := g1\<rparr>"] by simp
  show ?case
    by (auto simp: Let_def keep again split: prod.splits sum.splits option.splits)
qed

lemma stable_capture_frame:
  assumes "stable_capture B a max_bytes = (a', r)"
  shows "\<exists>b g. a' = a\<lparr>ac_backend := b, ac_observed_generation := g\<rparr>"
  using capture_loop_frame [of B max_bytes "[0..<SOURCE_CHANGE_RETRIES + 1]" a] assms
  by (simp add: stable_capture_def)

text \<open>The loop returns at the last retry at the latest.\<close>

lemma capture_loop_returns:
  "SOURCE_CHANGE_RETRIES \<in> set retries \<Longrightarrow> snd (capture_loop B max_bytes retries a) \<noteq> Panic"
  by (induction retries arbitrary: a)
    (auto simp: Let_def split: prod.splits sum.splits option.splits)

lemma stable_capture_returns: "snd (stable_capture B a max_bytes) \<noteq> Panic"
  unfolding stable_capture_def by (rule capture_loop_returns) simp

lemma capture_loop_checked:
  "snd (capture_loop B max_bytes retries a) = Ok data \<Longrightarrow> check_captured max_bytes data = None"
  by (induction retries arbitrary: a)
    (auto simp: Let_def split: prod.splits sum.splits option.splits if_splits)

lemma stable_capture_checked:
  "stable_capture B a max_bytes = (a', Ok data) \<Longrightarrow>
     (\<exists>kind. ClipboardData_kind data = Inr kind) \<and> ClipboardData_len data \<le> max_bytes"
  using capture_loop_checked [of B max_bytes "[0..<SOURCE_CHANGE_RETRIES + 1]" a data]
  by (auto simp: stable_capture_def check_captured_def split: ClipboardData.splits if_splits)

section \<open>What the state remembers\<close>

definition transferable :: "ClipboardData \<Rightarrow> bool" where
  "transferable d \<longleftrightarrow> (\<exists>kind. ClipboardData_kind d = Inr kind)"

definition prepared_for :: "HandoffId \<Rightarrow> ActorCommand \<times> ActorEvent \<Rightarrow> bool" where
  "prepared_for h x = (case snd x of AE_Prepared i _ _ _ \<Rightarrow> i = h | _ \<Rightarrow> False)"

definition applied_for :: "HandoffId \<Rightarrow> ActorCommand \<times> ActorEvent \<Rightarrow> bool" where
  "applied_for h x = (case snd x of AE_Applied d \<Rightarrow> ai_handoff_id d = h | _ \<Rightarrow> False)"

definition preparing :: "HandoffId \<Rightarrow> 'b Actor \<Rightarrow> nat" where
  "preparing h a = (case ac_preparation a of None \<Rightarrow> 0 | Some (i, _, _) \<Rightarrow> if i = h then 1 else 0)"

type_synonym history = "(ActorCommand \<times> ActorEvent) list"

definition was_prepared :: "ProcessSessionId \<Rightarrow> HostId \<Rightarrow> history \<Rightarrow> HandoffId \<times> OwnershipToken \<times> NativeGeneration \<Rightarrow> bool" where
  "was_prepared process host log p = (case p of (h, t, g) \<Rightarrow>
     (PrepareTarget h t, AE_Prepared h t process g) \<in> set log \<and> tok_owner_host_id t = host)"

definition prepared_stage :: "ProcessSessionId \<Rightarrow> HostId \<Rightarrow> history \<Rightarrow> StagedSnapshot \<Rightarrow> bool" where
  "prepared_stage process host log st \<longleftrightarrow> st_target_process_session_id st = process
     \<and> was_prepared process host log (st_handoff_id st, st_target_token st, st_baseline_generation st)"

text \<open>
  \<open>commands\<close> are the commands seen so far; they include the current one, whose answer is not yet in
  the log.
\<close>

definition actor_inv :: "ProcessSessionId \<Rightarrow> HostId \<Rightarrow> ActorCommand set \<Rightarrow> 'b Actor \<Rightarrow> history \<Rightarrow> bool" where
  "actor_inv process host commands a log \<longleftrightarrow>
     ac_process_session_id a = process \<and> ac_local_host_id a = host
   \<and> (\<forall>p. ac_preparation a = Some p \<longrightarrow> was_prepared process host log p)
   \<and> (\<forall>st. ac_stage a = Some st \<longrightarrow> prepared_stage process host log st \<and> StageSnapshot st \<in> commands)
   \<and> (\<forall>s. ac_source_snapshot a = Some s \<longrightarrow> transferable (ss_data s))
   \<and> (\<forall>h. length (filter (applied_for h) log) + preparing h a \<le> length (filter (prepared_for h) log))"

lemma was_prepared_append [simp]: "was_prepared process host log p \<Longrightarrow> was_prepared process host (log @ log2) p"
  by (auto simp: was_prepared_def)

lemma prepared_stage_append [simp]: "prepared_stage process host log st \<Longrightarrow> prepared_stage process host (log @ log2) st"
  by (auto simp: prepared_stage_def)

lemma actor_inv_new: "actor_inv process host {} (Actor_new b process host token g) []"
  by (simp add: actor_inv_def Actor_new_def preparing_def)

lemma inv_commands: "actor_inv process host commands a log \<Longrightarrow> actor_inv process host (insert c commands) a log"
  by (auto simp: actor_inv_def)

text \<open>
  Most commands neither prepare nor write: it is enough that they leave the preparation and the stage
  alone or drop them.
\<close>

definition undisturbed :: "'b Actor \<Rightarrow> 'b Actor \<Rightarrow> bool" where
  "undisturbed a a' \<longleftrightarrow>
     ac_process_session_id a' = ac_process_session_id a \<and> ac_local_host_id a' = ac_local_host_id a
   \<and> ac_preparation a' \<in> {ac_preparation a, None} \<and> ac_stage a' \<in> {ac_stage a, None}
   \<and> (\<forall>s. ac_source_snapshot a' = Some s \<longrightarrow> transferable (ss_data s))"

definition silent :: "ActorEvent \<Rightarrow> bool" where
  "silent e = (case e of AE_Applied _ \<Rightarrow> False | AE_Prepared _ _ _ _ \<Rightarrow> False | _ \<Rightarrow> True)"

lemma silent_failures [simp]: "silent (skipped i r)" "silent (native_failure i r)"
  by (simp_all add: silent_def skipped_def native_failure_def)

lemma undisturbedI:
  assumes "actor_inv process host commands a log"
    and "ac_process_session_id a' = ac_process_session_id a" "ac_local_host_id a' = ac_local_host_id a"
    and "ac_preparation a' \<in> {ac_preparation a, None}" "ac_stage a' \<in> {ac_stage a, None}"
    and "ac_source_snapshot a' \<in> {ac_source_snapshot a, None}"
  shows "undisturbed a a'"
  using assms by (auto simp: undisturbed_def actor_inv_def)

lemma silent_counts:
  assumes "silent e"
  shows "filter (applied_for h) (log @ [(c, e)]) = filter (applied_for h) log"
    "filter (prepared_for h) (log @ [(c, e)]) = filter (prepared_for h) log"
  using assms by (auto simp: silent_def applied_for_def prepared_for_def split: ActorEvent.splits)

lemma inv_quiet:
  assumes "actor_inv process host commands a log" "undisturbed a a'" "silent e"
  shows "actor_inv process host commands a' (log @ [(c, e)])"
proof -
  have "length (filter (applied_for h) log) + preparing h a' \<le> length (filter (prepared_for h) log)" for h
  proof -
    have "preparing h a' \<le> preparing h a" using assms(2) by (auto simp: undisturbed_def preparing_def)
    moreover have "length (filter (applied_for h) log) + preparing h a \<le> length (filter (prepared_for h) log)"
      using assms(1) by (simp add: actor_inv_def)
    ultimately show ?thesis by linarith
  qed
  with assms show ?thesis
    unfolding actor_inv_def silent_counts [OF assms(3)] undisturbed_def by fastforce
qed

section \<open>Every command keeps it\<close>

lemma apply_stage_outcome:
  assumes "ac_stage a = Some st"
  shows "(\<exists>g b. st_target_token st = ac_current_token a
      \<and> be_apply B (st_baseline_generation st) (st_data st) (ac_backend a) = (Inr g, b)
      \<and> apply_stage B a = (a\<lparr>ac_stage := None, ac_backend := b, ac_observed_generation := g,
            ac_applied := Some \<lparr>ai_handoff_id = st_handoff_id st, ai_snapshot_id = st_snapshot_id st\<rparr>,
            ac_preparation := None\<rparr>,
          AE_Applied \<lparr>ai_handoff_id = st_handoff_id st, ai_snapshot_id = st_snapshot_id st\<rparr>))
   \<or> silent (snd (apply_stage B a)) \<and> ac_process_session_id (fst (apply_stage B a)) = ac_process_session_id a
      \<and> ac_local_host_id (fst (apply_stage B a)) = ac_local_host_id a
      \<and> ac_preparation (fst (apply_stage B a)) = ac_preparation a
      \<and> ac_stage (fst (apply_stage B a)) \<in> {ac_stage a, None}
      \<and> ac_source_snapshot (fst (apply_stage B a)) = ac_source_snapshot a"
  using assms by (simp add: apply_stage_def Let_def split: prod.splits sum.splits)

lemma inv_apply_stage:
  assumes inv: "actor_inv process host commands a log"
    and stage: "ac_stage a = Some st" "ac_preparation a = Some (st_handoff_id st, t, g)"
  shows "actor_inv process host commands (fst (apply_stage B a)) (log @ [(c, snd (apply_stage B a))])"
  using apply_stage_outcome [OF stage(1), of B]
proof
  assume "silent (snd (apply_stage B a)) \<and> ac_process_session_id (fst (apply_stage B a)) = ac_process_session_id a
      \<and> ac_local_host_id (fst (apply_stage B a)) = ac_local_host_id a
      \<and> ac_preparation (fst (apply_stage B a)) = ac_preparation a
      \<and> ac_stage (fst (apply_stage B a)) \<in> {ac_stage a, None}
      \<and> ac_source_snapshot (fst (apply_stage B a)) = ac_source_snapshot a"
  then show ?thesis by (intro inv_quiet [OF inv] undisturbedI [OF inv]) simp_all
next
  let ?d = "\<lparr>ai_handoff_id = st_handoff_id st, ai_snapshot_id = st_snapshot_id st\<rparr>"
  assume "\<exists>g b. st_target_token st = ac_current_token a
      \<and> be_apply B (st_baseline_generation st) (st_data st) (ac_backend a) = (Inr g, b)
      \<and> apply_stage B a = (a\<lparr>ac_stage := None, ac_backend := b, ac_observed_generation := g,
            ac_applied := Some ?d, ac_preparation := None\<rparr>, AE_Applied ?d)"
  then obtain g' b where applied: "apply_stage B a = (a\<lparr>ac_stage := None, ac_backend := b,
      ac_observed_generation := g', ac_applied := Some ?d, ac_preparation := None\<rparr>, AE_Applied ?d)"
    by blast
  have "length (filter (applied_for h) (log @ [(c, AE_Applied ?d)]))
      \<le> length (filter (prepared_for h) (log @ [(c, AE_Applied ?d)]))" for h
  proof -
    have "length (filter (applied_for h) log) + preparing h a \<le> length (filter (prepared_for h) log)"
      using inv by (simp add: actor_inv_def)
    then show ?thesis using stage(2) by (auto simp: preparing_def applied_for_def)
  qed
  with inv show ?thesis
    unfolding applied by (simp add: actor_inv_def preparing_def)
qed

lemma inv_prepare_target:
  assumes "actor_inv process host commands a log"
  shows "actor_inv process host commands (fst (prepare_target a i t)) (log @ [(PrepareTarget i t, snd (prepare_target a i t))])"
proof (cases "ho_authority_session_id i = tok_authority_session_id t
    \<and> tok_authority_session_id t = tok_authority_session_id (ac_current_token a)
    \<and> tok_owner_host_id t = ac_local_host_id a \<and> t \<noteq> ac_current_token a")
  case True
  let ?e = "AE_Prepared i t (ac_process_session_id a) (ac_observed_generation a)"
  let ?a = "a\<lparr>ac_preparation := Some (i, t, ac_observed_generation a)\<rparr>"
  have counts: "length (filter (applied_for h) (log @ [(PrepareTarget i t, ?e)])) + preparing h ?a
      \<le> length (filter (prepared_for h) (log @ [(PrepareTarget i t, ?e)]))" for h
  proof -
    have "length (filter (applied_for h) log) + preparing h a \<le> length (filter (prepared_for h) log)"
      using assms by (simp add: actor_inv_def)
    then show ?thesis by (auto simp: preparing_def applied_for_def prepared_for_def)
  qed
  have "was_prepared process host (log @ [(PrepareTarget i t, ?e)]) (i, t, ac_observed_generation a)"
    using assms True by (simp add: was_prepared_def actor_inv_def)
  with assms True counts show ?thesis
    by (simp add: prepare_target_def actor_inv_def)
next
  case False
  then have "prepare_target a i t \<in> {(a, skipped (Some i) StaleAuthoritySession), (a, skipped (Some i) StaleOwnerToken)}"
    by (auto simp: prepare_target_def)
  then show ?thesis
    by (elim insertE emptyE) (simp_all add: inv_quiet [OF assms undisturbedI [OF assms]])
qed

lemma inv_stage_snapshot:
  assumes "actor_inv process host commands a log" "StageSnapshot stage \<in> commands"
  shows "actor_inv process host commands (fst (stage_snapshot B a stage)) (log @ [(c, snd (stage_snapshot B a stage))])"
proof (cases "\<exists>kind. ClipboardData_kind (st_data stage) = Inr kind
    \<and> ho_authority_session_id (st_handoff_id stage) = tok_authority_session_id (st_target_token stage)
    \<and> tok_owner_host_id (st_target_token stage) = ac_local_host_id a
    \<and> ac_applied a \<noteq> Some \<lparr>ai_handoff_id = st_handoff_id stage, ai_snapshot_id = st_snapshot_id stage\<rparr>
    \<and> ac_preparation a = Some (st_handoff_id stage, st_target_token stage, st_baseline_generation stage)
    \<and> st_target_process_session_id stage = ac_process_session_id a")
  case True
  let ?a = "a\<lparr>ac_stage := Some stage\<rparr>"
  have inv: "actor_inv process host commands ?a log"
    using assms True by (auto simp: actor_inv_def prepared_stage_def preparing_def)
  have step: "stage_snapshot B a stage =
      (if ac_current_token a = st_target_token stage then apply_stage B ?a
       else (?a, AE_Staged (st_handoff_id stage) (st_snapshot_id stage)))"
    using True by (auto simp: stage_snapshot_def Let_def)
  show ?thesis
  proof (cases "ac_current_token a = st_target_token stage")
    case True
    with \<open>\<exists>kind. _\<close> show ?thesis
      unfolding step by (auto intro!: inv_apply_stage [OF inv, where st = stage])
  next
    case False
    have "undisturbed ?a ?a" by (rule undisturbedI [OF inv]) simp_all
    with False show ?thesis unfolding step by (simp add: inv_quiet [OF inv] silent_def)
  qed
next
  case False
  then have "fst (stage_snapshot B a stage) = a \<and> silent (snd (stage_snapshot B a stage))"
    by (auto simp: stage_snapshot_def Let_def split: sum.splits option.splits prod.splits)
  then show ?thesis by (intro inv_quiet [OF assms(1)] undisturbedI [OF assms(1)]) simp_all
qed

lemma activate_target_outcome:
  "(\<exists>st g. ac_stage a = Some st \<and> st_handoff_id st = i \<and> ac_preparation a = Some (i, t, g)
      \<and> activate_target B a i t = apply_stage B (a\<lparr>ac_current_token := t\<rparr>))
   \<or> fst (activate_target B a i t) \<in> {a, a\<lparr>ac_current_token := t\<rparr>} \<and> silent (snd (activate_target B a i t))"
  by (simp add: activate_target_def Let_def silent_def skipped_def split: option.splits prod.splits)

lemma inv_activate_target:
  assumes "actor_inv process host commands a log"
  shows "actor_inv process host commands (fst (activate_target B a i t)) (log @ [(c, snd (activate_target B a i t))])"
  using activate_target_outcome [of a i t B]
proof (elim disjE exE conjE)
  fix st g
  assume *: "ac_stage a = Some st" "st_handoff_id st = i" "ac_preparation a = Some (i, t, g)"
    "activate_target B a i t = apply_stage B (a\<lparr>ac_current_token := t\<rparr>)"
  have "actor_inv process host commands (a\<lparr>ac_current_token := t\<rparr>) log"
    using assms by (simp add: actor_inv_def preparing_def)
  from inv_apply_stage [OF this, of st t g B c] * show ?thesis by simp
next
  assume "fst (activate_target B a i t) \<in> {a, a\<lparr>ac_current_token := t\<rparr>}" "silent (snd (activate_target B a i t))"
  then show ?thesis by (intro inv_quiet [OF assms] undisturbedI [OF assms]) auto
qed

lemma inv_capture_source:
  assumes "actor_inv process host commands a log" "capture_source B a i t n = (a', Some e)"
  shows "actor_inv process host commands a' (log @ [(c, e)])"
proof (rule inv_quiet [OF assms(1)])
  obtain a1 r where r: "stable_capture B a n = (a1, r)" by fastforce
  obtain b g where a1: "a1 = a\<lparr>ac_backend := b, ac_observed_generation := g\<rparr>"
    using stable_capture_frame [OF r] by blast
  have src: "\<And>s. ac_source_snapshot a = Some s \<Longrightarrow> transferable (ss_data s)"
    using assms(1) by (simp add: actor_inv_def)
  show "undisturbed a a'" "silent e"
    using assms(2) stable_capture_checked [of B a n a1] src
    by (auto simp: capture_source_def r a1 Let_def undisturbed_def transferable_def silent_def
        skipped_def native_failure_def
        split: if_splits option.splits outcome.splits ActorFailure.splits sum.splits)
qed

lemma inv_bind_provisional:
  assumes "actor_inv process host commands a log" "bind_provisional a i t = (a', Some e)"
  shows "actor_inv process host commands a' (log @ [(c, e)])"
  using assms(2)
  by (intro inv_quiet [OF assms(1)])
    (use assms in \<open>auto simp: actor_inv_def bind_provisional_def undisturbed_def silent_def skipped_def
      split: if_splits option.splits sum.splits\<close>)

definition kept :: "'b Actor \<Rightarrow> 'b Actor \<times> ActorEvent \<Rightarrow> bool" where
  "kept a r \<longleftrightarrow> ac_process_session_id (fst r) = ac_process_session_id a
    \<and> ac_local_host_id (fst r) = ac_local_host_id a
    \<and> (ac_preparation (fst r) = ac_preparation a \<or> ac_preparation (fst r) = None)
    \<and> (ac_stage (fst r) = ac_stage a \<or> ac_stage (fst r) = None)
    \<and> (ac_source_snapshot (fst r) = ac_source_snapshot a \<or> ac_source_snapshot (fst r) = None) \<and> silent (snd r)"

lemma kept_synchronize_authority: "kept a (synchronize_authority a t)"
  by (simp add: kept_def synchronize_authority_def Let_def silent_def)

lemma kept_observe_generation: "kept a (observe_generation B a)"
  by (simp add: kept_def observe_generation_def native_failure_def skipped_def silent_def split: prod.split sum.split)

lemma kept_publish_snapshot: "kept a (publish_snapshot a i s)"
  by (simp add: kept_def publish_snapshot_def Let_def skipped_def silent_def split: option.split)

lemma kept_cancel_handoff: "silent e \<Longrightarrow> kept a (cancel_handoff a i, e)"
  by (simp add: kept_def cancel_handoff_def split: option.split)

lemma quiet_handle:
  assumes "actor_handle B a c = (a', Some e)"
    and "(\<exists>t. c = SynchronizeAuthority t) \<or> c = ObserveGeneration \<or> (\<exists>i s. c = PublishSnapshot i s)
      \<or> (\<exists>i. c = CancelHandoff i) \<or> c = Shutdown"
  shows "kept a (a', e)"
proof -
  have total: "kept a r \<Longrightarrow> total r = (a', Some e) \<Longrightarrow> kept a (a', e)" for r
    by (cases r) (simp add: total_def)
  have shutdown: "kept a (a, AE_Shutdown)" by (simp add: kept_def silent_def)
  have cancel: "kept a (cancel_handoff a i, AE_Canceled i)" for i
    by (rule kept_cancel_handoff) (simp add: silent_def)
  note ops = kept_synchronize_authority kept_observe_generation kept_publish_snapshot
  show ?thesis
    using assms(2,1) shutdown cancel
    by (elim disjE exE) (auto intro: total [OF ops(1)] total [OF ops(2)] total [OF ops(3)])
qed

lemma inv_handle:
  assumes "actor_inv process host commands a log" "actor_handle B a c = (a', Some e)"
  shows "actor_inv process host (insert c commands) a' (log @ [(c, e)])"
proof -
  note inv = inv_commands [OF assms(1), of c]
  have other: ?thesis if "(\<exists>t. c = SynchronizeAuthority t) \<or> c = ObserveGeneration
      \<or> (\<exists>i s. c = PublishSnapshot i s) \<or> (\<exists>i. c = CancelHandoff i) \<or> c = Shutdown"
    using quiet_handle [OF assms(2) that] unfolding kept_def
    by (intro inv_quiet [OF inv] undisturbedI [OF inv]) simp_all
  show ?thesis
  proof (cases c)
    case (PrepareTarget i t)
    with inv_prepare_target [OF inv, of i t] assms(2) show ?thesis by (auto simp: total_def)
  next
    case (StageSnapshot st)
    with inv_stage_snapshot [OF inv, of st B c] assms(2) show ?thesis by (auto simp: total_def)
  next
    case (ActivateTarget i t)
    with inv_activate_target [OF inv, of B i t c] assms(2) show ?thesis by (auto simp: total_def)
  next
    case (CaptureSource i t n)
    with inv_capture_source [OF inv, of B "Some i" t n a' e c] assms(2) show ?thesis by simp
  next
    case (CaptureProvisional t n)
    with inv_capture_source [OF inv, of B None t n a' e c] assms(2) show ?thesis by simp
  next
    case (BindProvisional i t)
    with inv_bind_provisional [OF inv, of i t a' e c] assms(2) show ?thesis by simp
  qed (use other in simp_all)
qed

text \<open>No command panics: neither the end of the capture loop nor unavailable stored data is met.\<close>

lemma handle_returns:
  assumes "actor_inv process host commands a log"
  shows "\<exists>a' e. actor_handle B a c = (a', Some e)"
proof (cases c)
  case (CaptureSource i t n)
  with stable_capture_returns [of B a n] stable_capture_checked [of B a n] show ?thesis
    by (fastforce simp: capture_source_def Let_def
        split: option.splits outcome.splits ActorFailure.splits sum.splits prod.splits)
next
  case (CaptureProvisional t n)
  with stable_capture_returns [of B a n] stable_capture_checked [of B a n] show ?thesis
    by (fastforce simp: capture_source_def Let_def
        split: option.splits outcome.splits ActorFailure.splits sum.splits prod.splits)
next
  case (BindProvisional i t)
  with assms show ?thesis
    by (auto simp: bind_provisional_def actor_inv_def transferable_def split: option.splits)
qed (auto simp: total_def)

lemma inv_payloads:
  "actor_inv process host commands (a\<lparr>ac_payloads := ps\<rparr>) log = actor_inv process host commands a log"
  "actor_inv process host commands (a\<lparr>ac_payload_closed := b\<rparr>) log = actor_inv process host commands a log"
  by (simp_all add: actor_inv_def preparing_def)


text \<open>An answered request was handled in a state that remembers the requests before it.\<close>

lemma actor_run_split:
  assumes "actor_inv process host commands a log" "actor_run B a inputs = Some (z, before @ (c, e) # after)"
  shows "\<exists>b b'. actor_inv process host (commands \<union> fst ` set before) b (log @ before)
    \<and> actor_handle B b c = (b', Some e)"
  using assms
proof (induction B a inputs arbitrary: commands log z before rule: actor_run.induct)
  case (4 B a d inputs)
  obtain a' e' where h: "actor_handle B a d = (a', Some e')"
    using handle_returns [OF 4(2)] by blast
  show ?case
  proof (cases before)
    case Nil
    with 4(3) h have "c = d" "e = e'" by (auto split: if_splits)
    with Nil 4(2) h show ?thesis by auto
  next
    case (Cons x rest)
    with 4(3) h have x: "x = (d, e')" "\<not> (d = Shutdown \<or> is_backend_lost e')"
      and run: "actor_run B a' inputs = Some (z, rest @ (c, e) # after)"
      by (auto split: if_splits)
    have "\<exists>b b'. actor_inv process host (insert d commands \<union> fst ` set rest) b ((log @ [(d, e')]) @ rest)
        \<and> actor_handle B b c = (b', Some e)"
      using 4(1) [OF h [symmetric] refl x(2) inv_handle [OF 4(2) h] run] .
    with Cons x show ?thesis by simp
  qed
qed (simp_all add: inv_payloads)

lemma stage_snapshot_applied:
  assumes "snd (stage_snapshot B a stage) = AE_Applied d"
  shows "ac_preparation a = Some (st_handoff_id stage, st_target_token stage, st_baseline_generation stage)
    \<and> st_target_process_session_id stage = ac_process_session_id a
    \<and> stage_snapshot B a stage = apply_stage B (a\<lparr>ac_stage := Some stage\<rparr>)"
  using assms
  by (auto simp: stage_snapshot_def Let_def skipped_def split: sum.splits option.splits prod.splits if_splits)

lemma activate_target_applied:
  assumes "snd (activate_target B a i t) = AE_Applied d"
  shows "\<exists>st g. ac_stage a = Some st \<and> st_handoff_id st = i \<and> ac_preparation a = Some (i, t, g)
      \<and> activate_target B a i t = apply_stage B (a\<lparr>ac_current_token := t\<rparr>)"
  using activate_target_outcome [of a i t B] assms by (auto simp: silent_def)

lemma apply_stage_applied:
  assumes "snd (apply_stage B a) = AE_Applied d" "ac_stage a = Some st"
  shows "d = \<lparr>ai_handoff_id = st_handoff_id st, ai_snapshot_id = st_snapshot_id st\<rparr>
    \<and> (\<exists>b g b'. be_apply B (st_baseline_generation st) (st_data st) b = (Inr g, b'))"
  using apply_stage_outcome [OF assms(2), of B] assms(1) by (auto simp: silent_def)

lemma only_targets_apply:
  assumes "actor_handle B a c = (a', Some (AE_Applied d))"
  shows "(\<exists>i t. c = ActivateTarget i t \<and> snd (activate_target B a i t) = AE_Applied d)
    \<or> (\<exists>st. c = StageSnapshot st \<and> snd (stage_snapshot B a st) = AE_Applied d)"
  using assms
  by (cases c)
    (auto simp: total_def synchronize_authority_def observe_generation_def prepare_target_def capture_source_def
      bind_provisional_def publish_snapshot_def Let_def skipped_def native_failure_def
      split: if_splits option.splits sum.splits prod.splits outcome.splits ActorFailure.splits)

lemma applied_handle:
  assumes inv: "actor_inv process host commands a log" and "actor_handle B a c = (a', Some (AE_Applied d))"
  shows "\<exists>st. (StageSnapshot st = c \<or> StageSnapshot st \<in> commands)
    \<and> d = \<lparr>ai_handoff_id = st_handoff_id st, ai_snapshot_id = st_snapshot_id st\<rparr>
    \<and> prepared_stage process host log st
    \<and> (\<exists>b g b'. be_apply B (st_baseline_generation st) (st_data st) b = (Inr g, b'))
    \<and> preparing (st_handoff_id st) a = 1"
  using only_targets_apply [OF assms(2)]
proof (elim disjE exE conjE)
  fix i t
  assume "snd (activate_target B a i t) = AE_Applied d"
  with activate_target_applied [OF this] obtain st g where
    *: "ac_stage a = Some st" "st_handoff_id st = i" "ac_preparation a = Some (i, t, g)"
    "snd (apply_stage B (a\<lparr>ac_current_token := t\<rparr>)) = AE_Applied d"
    by auto
  from apply_stage_applied [OF *(4), of st] inv * show ?thesis
    by (intro exI [of _ st]) (simp add: actor_inv_def preparing_def)
next
  fix st
  assume c: "c = StageSnapshot st" and "snd (stage_snapshot B a st) = AE_Applied d"
  with stage_snapshot_applied [OF this(2)] have
    *: "ac_preparation a = Some (st_handoff_id st, st_target_token st, st_baseline_generation st)"
    "st_target_process_session_id st = ac_process_session_id a"
    "snd (apply_stage B (a\<lparr>ac_stage := Some st\<rparr>)) = AE_Applied d"
    by auto
  from apply_stage_applied [OF *(3), of st] inv * c show ?thesis
    by (intro exI [of _ st]) (simp add: actor_inv_def preparing_def prepared_stage_def)
qed

section \<open>Properties\<close>


text \<open>
  C20. The clipboard actor writes to the native clipboard only what was staged for this process and a
  handoff that it prepared for this host before, against the generation that it had observed when it
  prepared; and it writes at most once per preparation.
\<close>

theorem clipboard_write_is_prepared:
  assumes "actor_run B (Actor_new backend process host token generation) inputs = Some (z, log)"
    and "log = before @ (c, AE_Applied d) # after"
  shows "\<exists>st. StageSnapshot st \<in> set (map fst before @ [c])
    \<and> d = \<lparr>ai_handoff_id = st_handoff_id st, ai_snapshot_id = st_snapshot_id st\<rparr>
    \<and> st_target_process_session_id st = process \<and> tok_owner_host_id (st_target_token st) = host
    \<and> (PrepareTarget (st_handoff_id st) (st_target_token st),
        AE_Prepared (st_handoff_id st) (st_target_token st) process (st_baseline_generation st)) \<in> set before
    \<and> (\<exists>b g b'. be_apply B (st_baseline_generation st) (st_data st) b = (Inr g, b'))
    \<and> length (filter (applied_for (st_handoff_id st)) before) < length (filter (prepared_for (st_handoff_id st)) before)"
proof -
  obtain a a' where a: "actor_inv process host (fst ` set before) a before"
    "actor_handle B a c = (a', Some (AE_Applied d))"
    using actor_run_split [OF actor_inv_new assms(1) [unfolded assms(2)]] by auto
  obtain st where st: "StageSnapshot st = c \<or> StageSnapshot st \<in> fst ` set before"
    "d = \<lparr>ai_handoff_id = st_handoff_id st, ai_snapshot_id = st_snapshot_id st\<rparr>"
    "prepared_stage process host before st"
    "\<exists>b g b'. be_apply B (st_baseline_generation st) (st_data st) b = (Inr g, b')"
    "preparing (st_handoff_id st) a = 1"
    using applied_handle [OF a] by blast
  have "length (filter (applied_for (st_handoff_id st)) before) + 1 \<le> length (filter (prepared_for (st_handoff_id st)) before)"
    using a(1) st(5) unfolding actor_inv_def by metis
  with st show ?thesis
    by (intro exI [of _ st]) (auto simp: prepared_stage_def was_prepared_def)
qed

text \<open>
  A clipboard in memory: a generation and a value; a write against another generation than the present
  one is refused.
\<close>

definition memory_backend :: "(NativeGeneration \<times> ClipboardData) ClipboardBackend" where
  "memory_backend =
     \<lparr>be_initialize = \<lambda>b. (Inr (fst b), b),
      be_generation = \<lambda>b. (Inr (fst b), b),
      be_capture = \<lambda>_ b. (Inr (snd b), b),
      be_apply = \<lambda>g d b. if fst b = g then (Inr (g + 1), (g + 1, d)) else (Inl DestinationChanged, b),
      be_shutdown = id\<rparr>"

definition demo_stage :: StagedSnapshot where
  "demo_stage =
     \<lparr>st_handoff_id = \<lparr>ho_authority_session_id = 1, ho_handoff_epoch = 1\<rparr>,
      st_snapshot_id = \<lparr>sn_source_process_session_id = 5, sn_sequence = 1\<rparr>,
      st_target_token = \<lparr>tok_authority_session_id = 1, tok_ownership_epoch = 1, tok_owner_host_id = [98]\<rparr>,
      st_target_process_session_id = 6, st_baseline_generation = 9, st_data = Text [104, 105]\<rparr>"

definition demo_actor :: "(NativeGeneration \<times> ClipboardData) Actor" where
  "demo_actor = Actor_new (9, Empty) 6 [98]
     \<lparr>tok_authority_session_id = 1, tok_ownership_epoch = 0, tok_owner_host_id = [97]\<rparr> 9"

definition demo_inputs :: "ActorInput list" where
  "demo_inputs =
     [Request (PrepareTarget (st_handoff_id demo_stage) (st_target_token demo_stage)),
      Request (StageSnapshot demo_stage),
      Request (ActivateTarget (st_handoff_id demo_stage) (st_target_token demo_stage))]"

lemma demo_apply:
  "\<exists>z. actor_run memory_backend demo_actor demo_inputs
    = Some (z, [(PrepareTarget (st_handoff_id demo_stage) (st_target_token demo_stage),
                 AE_Prepared (st_handoff_id demo_stage) (st_target_token demo_stage) 6 9),
                (StageSnapshot demo_stage, AE_Staged (st_handoff_id demo_stage) (st_snapshot_id demo_stage))]
       @ (ActivateTarget (st_handoff_id demo_stage) (st_target_token demo_stage),
          AE_Applied \<lparr>ai_handoff_id = st_handoff_id demo_stage, ai_snapshot_id = st_snapshot_id demo_stage\<rparr>) # [])"
  by (simp add: demo_actor_def demo_inputs_def demo_stage_def memory_backend_def Actor_new_def total_def
      prepare_target_def stage_snapshot_def activate_target_def apply_stage_def is_backend_lost_def Let_def)

theorem clipboard_write_is_prepared_witness:
  "\<exists>z log. actor_run memory_backend demo_actor demo_inputs = Some (z, log) \<and> length log = 3
    \<and> (\<exists>st. st_handoff_id st = st_handoff_id demo_stage \<and> st_target_process_session_id st = 6
        \<and> tok_owner_host_id (st_target_token st) = [98] \<and> StageSnapshot st \<in> set (map fst log))"
proof -
  obtain z where z: "actor_run memory_backend demo_actor demo_inputs
    = Some (z, [(PrepareTarget (st_handoff_id demo_stage) (st_target_token demo_stage),
                 AE_Prepared (st_handoff_id demo_stage) (st_target_token demo_stage) 6 9),
                (StageSnapshot demo_stage, AE_Staged (st_handoff_id demo_stage) (st_snapshot_id demo_stage))]
       @ (ActivateTarget (st_handoff_id demo_stage) (st_target_token demo_stage),
          AE_Applied \<lparr>ai_handoff_id = st_handoff_id demo_stage, ai_snapshot_id = st_snapshot_id demo_stage\<rparr>) # [])"
    using demo_apply by blast
  from clipboard_write_is_prepared [OF z [unfolded demo_actor_def] refl] z show ?thesis
    by (elim exE conjE) auto
qed

end
