(* ===== verification/Input_Emulation.thy ===== *)
theory Input_Emulation
  imports Input_Event
begin

text \<open>
  The front end of input emulation, \<^verbatim>\<open>input-emulation/src/lib.rs\<close>: it drops repeated presses and releases
  and releases what a handle still holds. The platform backend is the trait \<^verbatim>\<open>Emulation\<close>, whose methods
  are arguments here; a method gives its result and the backend afterwards. A hash set is a list without
  duplicates, in the order in which it is visited.
\<close>

type_synonym EmulationHandle = u64

datatype EmulationBackendKind = Wlroots | Libei | Xdp | X11Emulation | WindowsEmulation | MacOsEmulation | DummyEmulation

fun EmulationBackend_to_string :: "EmulationBackendKind \<Rightarrow> string" where
  "EmulationBackend_to_string Wlroots = ''wlroots''"
| "EmulationBackend_to_string Libei = ''libei''"
| "EmulationBackend_to_string Xdp = ''xdg-desktop-portal''"
| "EmulationBackend_to_string X11Emulation = ''X11''"
| "EmulationBackend_to_string WindowsEmulation = ''windows''"
| "EmulationBackend_to_string MacOsEmulation = ''macos''"
| "EmulationBackend_to_string DummyEmulation = ''dummy''"

record ('b, 'e) EmulationBackend =
  em_consume :: "InputEvent \<Rightarrow> EmulationHandle \<Rightarrow> 'b \<Rightarrow> ('e + unit) \<times> 'b"
  em_create :: "EmulationHandle \<Rightarrow> 'b \<Rightarrow> 'b"
  em_destroy :: "EmulationHandle \<Rightarrow> 'b \<Rightarrow> 'b"
  em_terminate :: "'b \<Rightarrow> 'b"
  em_center_pointer :: "EmulationHandle \<Rightarrow> 'b \<Rightarrow> ('e + unit) \<times> 'b"

record 'b InputEmulation =
  ie_backend :: EmulationBackendKind
  ie_emulation :: 'b
  ie_handles :: "EmulationHandle list"
  ie_pressed_buttons :: "EmulationHandle \<rightharpoonup> u32 list"
  ie_pressed_keys :: "EmulationHandle \<rightharpoonup> u32 list"

section \<open>Choosing a backend\<close>

text \<open>
  \<open>open_backend\<close> stands for the constructors of the platform backends, \<open>compiled\<close> for the backends of the
  build in the order of the source.
\<close>

definition with_backend ::
    "(EmulationBackendKind \<Rightarrow> 'c + 'b) \<Rightarrow> EmulationBackendKind \<Rightarrow> 'c + 'b InputEmulation" where
  "with_backend open_backend backend = (case open_backend backend of
     Inl e \<Rightarrow> Inl e
   | Inr b \<Rightarrow> Inr \<lparr>ie_backend = backend, ie_emulation = b, ie_handles = [],
                  ie_pressed_buttons = Map.empty, ie_pressed_keys = Map.empty\<rparr>)"

fun first_backend ::
    "(EmulationBackendKind \<Rightarrow> 'c + 'b) \<Rightarrow> ('c \<Rightarrow> bool) \<Rightarrow> ('c \<Rightarrow> bool) \<Rightarrow> 'c \<Rightarrow> EmulationBackendKind list
      \<Rightarrow> 'c + 'b InputEmulation" where
  "first_backend open_backend cancelled_by_user transient no_available_backend [] = Inl no_available_backend"
| "first_backend open_backend cancelled_by_user transient no_available_backend (b # bs) =
     (case with_backend open_backend b of
        Inr c \<Rightarrow> Inr c
      | Inl e \<Rightarrow>
          if cancelled_by_user e then Inl e
          else if transient e then Inl e
          else first_backend open_backend cancelled_by_user transient no_available_backend bs)"

definition emulation_new ::
    "(EmulationBackendKind \<Rightarrow> 'c + 'b) \<Rightarrow> ('c \<Rightarrow> bool) \<Rightarrow> ('c \<Rightarrow> bool) \<Rightarrow> 'c \<Rightarrow> EmulationBackendKind list
      \<Rightarrow> EmulationBackendKind option \<Rightarrow> 'c + 'b InputEmulation" where
  "emulation_new open_backend cancelled_by_user transient no_available_backend compiled backend =
     (case backend of
        Some b \<Rightarrow> with_backend open_backend b
      | None \<Rightarrow> first_backend open_backend cancelled_by_user transient no_available_backend compiled)"

section \<open>Operations\<close>

text \<open>\<^verbatim>\<open>update_pressed_keys\<close> and \<^verbatim>\<open>update_pressed_button\<close>: whether the event changes what is pressed.\<close>

definition update_pressed ::
    "(EmulationHandle \<rightharpoonup> u32 list) \<Rightarrow> EmulationHandle \<Rightarrow> u32 \<Rightarrow> bool \<Rightarrow> (EmulationHandle \<rightharpoonup> u32 list) \<times> bool" where
  "update_pressed m handle k released = (case m handle of
     None \<Rightarrow> (m, False)
   | Some ks \<Rightarrow>
       if released then (m(handle \<mapsto> removeAll k ks), k \<in> set ks)
       else (m(handle \<mapsto> List.insert k ks), k \<notin> set ks))"

definition backend_consume ::
    "('b, 'e) EmulationBackend \<Rightarrow> InputEvent \<Rightarrow> EmulationHandle \<Rightarrow> 'b InputEmulation \<Rightarrow> ('e + unit) \<times> 'b InputEmulation" where
  "backend_consume B event handle s =
     (let (r, b) = em_consume B event handle (ie_emulation s) in (r, s\<lparr>ie_emulation := b\<rparr>))"

definition emulation_consume ::
    "('b, 'e) EmulationBackend \<Rightarrow> InputEvent \<Rightarrow> EmulationHandle \<Rightarrow> 'b InputEmulation \<Rightarrow> ('e + unit) \<times> 'b InputEmulation" where
  "emulation_consume B event handle s = (case event of
     Keyboard (Key _ key state) \<Rightarrow>
       (let (m, changed) = update_pressed (ie_pressed_keys s) handle key (state = 0);
            s = s\<lparr>ie_pressed_keys := m\<rparr>
        in if changed then backend_consume B event handle s else (Inr (), s))
   | Pointer (Button _ button state) \<Rightarrow>
       (let (m, changed) = update_pressed (ie_pressed_buttons s) handle button (state = 0);
            s = s\<lparr>ie_pressed_buttons := m\<rparr>
        in if changed then backend_consume B event handle s else (Inr (), s))
   | _ \<Rightarrow> backend_consume B event handle s)"

definition emulation_center_pointer ::
    "('b, 'e) EmulationBackend \<Rightarrow> EmulationHandle \<Rightarrow> 'b InputEmulation \<Rightarrow> ('e + unit) \<times> 'b InputEmulation" where
  "emulation_center_pointer B handle s =
     (let (r, b) = em_center_pointer B handle (ie_emulation s) in (r, s\<lparr>ie_emulation := b\<rparr>))"

definition emulation_create ::
    "('b, 'e) EmulationBackend \<Rightarrow> EmulationHandle \<Rightarrow> 'b InputEmulation \<Rightarrow> bool \<times> 'b InputEmulation" where
  "emulation_create B handle s =
     (if handle \<in> set (ie_handles s) then (False, s)
      else (True, s\<lparr>ie_handles := handle # ie_handles s,
                    ie_pressed_buttons := (ie_pressed_buttons s)(handle \<mapsto> []),
                    ie_pressed_keys := (ie_pressed_keys s)(handle \<mapsto> []),
                    ie_emulation := em_create B handle (ie_emulation s)\<rparr>))"

text \<open>Sending the events of \<^verbatim>\<open>release_inputs\<close>: all of them, with the first error remembered.\<close>

fun consume_all ::
    "('b, 'e) EmulationBackend \<Rightarrow> InputEvent list \<Rightarrow> EmulationHandle \<Rightarrow> 'e option \<Rightarrow> 'b InputEmulation
      \<Rightarrow> 'e option \<times> 'b InputEmulation" where
  "consume_all B [] handle first_error s = (first_error, s)"
| "consume_all B (event # events) handle first_error s =
     (case backend_consume B event handle s of
        (Inl e, s) \<Rightarrow> consume_all B events handle (if first_error = None then Some e else first_error) s
      | (Inr _, s) \<Rightarrow> consume_all B events handle first_error s)"

definition key_release :: "u32 \<Rightarrow> InputEvent" where "key_release k = Keyboard (Key 0 k 0)"
definition button_release :: "u32 \<Rightarrow> InputEvent" where "button_release b = Pointer (Button 0 b 0)"

definition drain :: "(EmulationHandle \<rightharpoonup> u32 list) \<Rightarrow> EmulationHandle \<Rightarrow> u32 list \<times> (EmulationHandle \<rightharpoonup> u32 list)" where
  "drain m handle = (case m handle of None \<Rightarrow> ([], m) | Some ks \<Rightarrow> (ks, m(handle \<mapsto> [])))"

definition release_inputs ::
    "('b, 'e) EmulationBackend \<Rightarrow> EmulationHandle \<Rightarrow> 'b InputEmulation \<Rightarrow> ('e + unit) \<times> 'b InputEmulation" where
  "release_inputs B handle s =
     (let (keys, m) = drain (ie_pressed_keys s) handle;
          (first_error, s) = consume_all B (map key_release keys) handle None (s\<lparr>ie_pressed_keys := m\<rparr>);
          (buttons, m) = drain (ie_pressed_buttons s) handle;
          (first_error, s) = consume_all B (map button_release buttons) handle first_error (s\<lparr>ie_pressed_buttons := m\<rparr>);
          (first_error, s) = consume_all B [Keyboard (Modifiers 0 0 0 0)] handle first_error s
      in (case first_error of Some e \<Rightarrow> Inl e | None \<Rightarrow> Inr (), s))"

definition emulation_destroy ::
    "('b, 'e) EmulationBackend \<Rightarrow> EmulationHandle \<Rightarrow> 'b InputEmulation \<Rightarrow> 'b InputEmulation" where
  "emulation_destroy B handle s =
     (let s = snd (release_inputs B handle s) in
      if handle \<in> set (ie_handles s) then
        s\<lparr>ie_handles := removeAll handle (ie_handles s),
          ie_pressed_buttons := (ie_pressed_buttons s)(handle := None),
          ie_pressed_keys := (ie_pressed_keys s)(handle := None),
          ie_emulation := em_destroy B handle (ie_emulation s)\<rparr>
      else s)"

definition emulation_terminate :: "('b, 'e) EmulationBackend \<Rightarrow> 'b InputEmulation \<Rightarrow> 'b InputEmulation" where
  "emulation_terminate B s =
     (let s = fold (emulation_destroy B) (ie_handles s) s
      in s\<lparr>ie_emulation := em_terminate B (ie_emulation s)\<rparr>)"

datatype EmulationOp =
    OpConsume InputEvent EmulationHandle
  | OpCenter EmulationHandle
  | OpCreate EmulationHandle
  | OpDestroy EmulationHandle
  | OpRelease EmulationHandle
  | OpTerminate

fun emulation_op :: "('b, 'e) EmulationBackend \<Rightarrow> EmulationOp \<Rightarrow> 'b InputEmulation \<Rightarrow> 'b InputEmulation" where
  "emulation_op B (OpConsume event handle) s = snd (emulation_consume B event handle s)"
| "emulation_op B (OpCenter handle) s = snd (emulation_center_pointer B handle s)"
| "emulation_op B (OpCreate handle) s = snd (emulation_create B handle s)"
| "emulation_op B (OpDestroy handle) s = emulation_destroy B handle s"
| "emulation_op B (OpRelease handle) s = snd (release_inputs B handle s)"
| "emulation_op B OpTerminate s = emulation_terminate B s"

end
