(* ===== verification/Emulation_Task.thy ===== *)
theory Emulation_Task
  imports Input_Emulation Input_Proto
begin

text \<open>
  The emulation worker and its proxy, \<^verbatim>\<open>lan-mouse/src/emulation.rs\<close>: the worker runs emulation sessions,
  one after the other, and gives every peer address a handle of the front end; the proxy remembers what
  the worker last reported and drops input while emulation is off. Channels between the two outlive
  both, so sending does not fail. What the worker awaits is an input of its step function; what it sends
  is the list of outputs.
\<close>

datatype IpAddr = IpV4 u32 | IpV6 u128

type_synonym SocketAddr = "IpAddr \<times> u16"

section \<open>The proxy\<close>

datatype ProxyRequest =
    PR_Input InputEvent SocketAddr
  | PR_CenterPointer SocketAddr
  | PR_Remove SocketAddr
  | PR_Terminate
  | PR_Reenable

text \<open>What the worker sends: readiness changes, and the result of centering for an address.\<close>

datatype WorkerOutput =
    EmulationEnabled bool bool u64
  | EmulationDisabled u64
  | CenterResult SocketAddr bool

record EmulationProxy =
  px_keyboard_ready :: bool
  px_pointer_ready :: bool
  px_session_epoch :: u64

definition EmulationProxy_new :: EmulationProxy where
  "EmulationProxy_new = \<lparr>px_keyboard_ready = False, px_pointer_ready = False, px_session_epoch = 0\<rparr>"

definition proxy_event :: "EmulationProxy \<Rightarrow> WorkerOutput \<Rightarrow> EmulationProxy" where
  "proxy_event p e = (case e of
     EmulationEnabled keyboard pointer epoch \<Rightarrow>
       p\<lparr>px_session_epoch := epoch, px_keyboard_ready := keyboard, px_pointer_ready := pointer\<rparr>
   | EmulationDisabled epoch \<Rightarrow>
       p\<lparr>px_session_epoch := epoch, px_keyboard_ready := False, px_pointer_ready := False\<rparr>
   | _ \<Rightarrow> p)"

definition proxy_readiness :: "EmulationProxy \<Rightarrow> ProtoEvent" where
  "proxy_readiness p = Readiness (px_keyboard_ready p) (px_pointer_ready p) (px_session_epoch p)"

definition control_ready :: "EmulationProxy \<Rightarrow> bool" where
  "control_ready p \<longleftrightarrow> px_keyboard_ready p \<and> px_pointer_ready p"

definition proxy_consume :: "EmulationProxy \<Rightarrow> InputEvent \<Rightarrow> SocketAddr \<Rightarrow> ProxyRequest list" where
  "proxy_consume p event addr = (if control_ready p then [PR_Input event addr] else [])"

text \<open>The request, or the immediate refusal.\<close>

definition request_center_pointer :: "EmulationProxy \<Rightarrow> SocketAddr \<Rightarrow> ProxyRequest list \<times> bool option" where
  "request_center_pointer p addr =
     (if \<not> control_ready p then ([], Some False) else ([PR_CenterPointer addr], None))"

section \<open>The worker\<close>

text \<open>
  Where the worker waits: for the backend to be created, for the front end to create the known handles,
  in a session, or between sessions, with or without a retry deadline. A session carries the epoch that
  its end announces; \<open>et_closed\<close> is the backend that the last session left behind when it terminated the
  front end.
\<close>

datatype 'b WorkerPhase =
    Creating
  | CreatingClients "EmulationHandle list" "'b InputEmulation" u64
  | InSession "'b InputEmulation" u64
  | Inactive bool
  | Ended
  | Crashed

record 'b EmulationTask =
  et_handles :: "(SocketAddr \<times> EmulationHandle) list"
  et_next_id :: EmulationHandle
  et_next_session_epoch :: u64
  et_exit_requested :: bool
  et_phase :: "'b WorkerPhase"
  et_closed :: "'b option"

text \<open>\<open>first_epoch\<close> is the random first epoch of \<^verbatim>\<open>EmulationProxy::new\<close>, at least one.\<close>

definition EmulationTask_new :: "u64 \<Rightarrow> 'b EmulationTask" where
  "EmulationTask_new first_epoch =
     \<lparr>et_handles = [], et_next_id = 0, et_next_session_epoch = max (drop_bit 1 first_epoch) 1,
      et_exit_requested = False, et_phase = Creating, et_closed = None\<rparr>"

datatype ('c, 'b, 'e) WorkerInput =
    BackendCreated "'c + 'b InputEmulation"
  | HandleCreated
  | BackendFailed 'e
  | RetryDeadline
  | WorkerRequest ProxyRequest
  | ExitRequested

definition backend_readiness :: "EmulationBackendKind \<Rightarrow> bool \<times> bool" where
  "backend_readiness backend = (let ready = backend \<noteq> DummyEmulation in (ready, ready))"

text \<open>The end of \<^verbatim>\<open>do_emulation\<close> in \<^verbatim>\<open>run\<close>.\<close>

definition after_emulation :: "bool \<Rightarrow> 'b EmulationTask \<Rightarrow> 'b EmulationTask" where
  "after_emulation retry t =
     t\<lparr>et_phase := (if et_exit_requested t then Ended else Inactive retry)\<rparr>"

text \<open>The end of a session: the front end is terminated, then the guard announces it.\<close>

definition session_end ::
    "('b, 'e) EmulationBackend \<Rightarrow> u64 \<Rightarrow> bool \<Rightarrow> 'b InputEmulation \<Rightarrow> 'b EmulationTask
      \<Rightarrow> 'b EmulationTask \<times> WorkerOutput list" where
  "session_end B disabled_epoch retry em t =
     (after_emulation retry (t\<lparr>et_closed := Some (ie_emulation (emulation_terminate B em))\<rparr>),
      [EmulationDisabled disabled_epoch])"

text \<open>The requests that \<^verbatim>\<open>wait_for_termination\<close> takes from the channel: whether it returns, and the refusal.\<close>

definition wait_for_termination :: "ProxyRequest \<Rightarrow> bool \<times> WorkerOutput list" where
  "wait_for_termination r = (case r of
     PR_Terminate \<Rightarrow> (True, [])
   | PR_CenterPointer addr \<Rightarrow> (False, [CenterResult addr False])
   | _ \<Rightarrow> (False, []))"

definition begin_emulation :: "'b InputEmulation \<Rightarrow> 'b EmulationTask \<Rightarrow> 'b EmulationTask \<times> WorkerOutput list" where
  "begin_emulation em t =
     (let (keyboard_ready, pointer_ready) = backend_readiness (ie_backend em);
          enabled_epoch = et_next_session_epoch t
      in case checked_add enabled_epoch 1 of
           None \<Rightarrow> (t\<lparr>et_phase := Crashed\<rparr>, [])
         | Some disabled_epoch \<Rightarrow>
             (case checked_add disabled_epoch 1 of
                None \<Rightarrow> (t\<lparr>et_phase := Crashed\<rparr>, [])
              | Some next \<Rightarrow>
                  (t\<lparr>et_next_session_epoch := next,
                     et_phase := (case map snd (et_handles t) of
                        [] \<Rightarrow> InSession em disabled_epoch
                      | hs \<Rightarrow> CreatingClients hs em disabled_epoch)\<rparr>,
                   [EmulationEnabled keyboard_ready pointer_ready enabled_epoch])))"

definition handle_for_addr ::
    "('b, 'e) EmulationBackend \<Rightarrow> SocketAddr \<Rightarrow> 'b EmulationTask \<Rightarrow> 'b InputEmulation
      \<Rightarrow> EmulationHandle \<times> 'b EmulationTask \<times> 'b InputEmulation" where
  "handle_for_addr B addr t em = (case map_of (et_handles t) addr of
     Some handle \<Rightarrow> (handle, t, em)
   | None \<Rightarrow>
       (let handle = et_next_id t in
        (handle, t\<lparr>et_next_id := handle + 1, et_handles := (addr, handle) # et_handles t\<rparr>,
         snd (emulation_create B handle em))))"

definition worker_request ::
    "('b, 'e) EmulationBackend \<Rightarrow> ('e \<Rightarrow> bool) \<Rightarrow> u64 \<Rightarrow> ProxyRequest \<Rightarrow> 'b InputEmulation \<Rightarrow> 'b EmulationTask
      \<Rightarrow> 'b EmulationTask \<times> WorkerOutput list" where
  "worker_request B transient disabled_epoch r em t = (case r of
     PR_Input event addr \<Rightarrow>
       (let (handle, t, em) = handle_for_addr B addr t em in
        case emulation_consume B event handle em of
          (Inr _, em) \<Rightarrow> (t\<lparr>et_phase := InSession em disabled_epoch\<rparr>, [])
        | (Inl e, em) \<Rightarrow> session_end B disabled_epoch (transient e) em t)
   | PR_CenterPointer addr \<Rightarrow>
       (let (handle, t, em) = handle_for_addr B addr t em in
        case emulation_center_pointer B handle em of
          (Inr _, em) \<Rightarrow> (t\<lparr>et_phase := InSession em disabled_epoch\<rparr>, [CenterResult addr True])
        | (Inl e, em) \<Rightarrow>
            (case session_end B disabled_epoch (transient e) em t of
               (t, out) \<Rightarrow> (t, CenterResult addr False # out)))
   | PR_Remove addr \<Rightarrow>
       (case map_of (et_handles t) addr of
          None \<Rightarrow> (t, [])
        | Some handle \<Rightarrow>
            (t\<lparr>et_handles := filter (\<lambda>(a, _). a \<noteq> addr) (et_handles t),
               et_phase := InSession (emulation_destroy B handle em) disabled_epoch\<rparr>, []))
   | PR_Terminate \<Rightarrow> session_end B disabled_epoch False em t
   | PR_Reenable \<Rightarrow> (t, []))"

definition inactive_request :: "ProxyRequest \<Rightarrow> 'b EmulationTask \<Rightarrow> 'b EmulationTask \<times> WorkerOutput list" where
  "inactive_request r t = (case r of
     PR_Reenable \<Rightarrow> (t\<lparr>et_phase := Creating\<rparr>, [])
   | PR_Terminate \<Rightarrow> (t\<lparr>et_phase := Ended\<rparr>, [])
   | PR_CenterPointer addr \<Rightarrow> (t, [CenterResult addr False])
   | _ \<Rightarrow> (t, []))"

text \<open>
  One step. An input that the phase does not wait for stays where it is: a request in the channel, a
  deadline that does not exist, a backend that is not there.
\<close>

fun worker_step ::
    "('b, 'e) EmulationBackend \<Rightarrow> ('c \<Rightarrow> bool) \<Rightarrow> ('e \<Rightarrow> bool) \<Rightarrow> 'b EmulationTask \<Rightarrow> ('c, 'b, 'e) WorkerInput
      \<Rightarrow> 'b EmulationTask \<times> WorkerOutput list" where
  "worker_step B transient_create transient t ExitRequested = (t\<lparr>et_exit_requested := True\<rparr>, [])"
| "worker_step B transient_create transient t (BackendCreated r) = (case et_phase t of
     Creating \<Rightarrow>
       (case r of
          Inl e \<Rightarrow> (after_emulation (transient_create e) t, [])
        | Inr em \<Rightarrow> begin_emulation em t)
   | _ \<Rightarrow> (t, []))"
| "worker_step B transient_create transient t HandleCreated = (case et_phase t of
     CreatingClients (h # hs) em d \<Rightarrow>
       (let em = snd (emulation_create B h em) in
        (t\<lparr>et_phase := (if hs = [] then InSession em d else CreatingClients hs em d)\<rparr>, []))
   | _ \<Rightarrow> (t, []))"
| "worker_step B transient_create transient t (BackendFailed e) = (case et_phase t of
     InSession em d \<Rightarrow> session_end B d (transient e) em t
   | _ \<Rightarrow> (t, []))"
| "worker_step B transient_create transient t RetryDeadline = (case et_phase t of
     Inactive True \<Rightarrow> (t\<lparr>et_phase := Creating\<rparr>, [])
   | _ \<Rightarrow> (t, []))"
| "worker_step B transient_create transient t (WorkerRequest r) = (case et_phase t of
     Creating \<Rightarrow>
       (case wait_for_termination r of
          (True, out) \<Rightarrow> (after_emulation False t, out)
        | (False, out) \<Rightarrow> (t, out))
   | CreatingClients hs em d \<Rightarrow>
       (case wait_for_termination r of
          (True, out) \<Rightarrow> (t\<lparr>et_phase := InSession em d\<rparr>, out)
        | (False, out) \<Rightarrow> (t, out))
   | InSession em d \<Rightarrow> worker_request B transient d r em t
   | Inactive _ \<Rightarrow> inactive_request r t
   | _ \<Rightarrow> (t, []))"

primrec worker_run ::
    "('b, 'e) EmulationBackend \<Rightarrow> ('c \<Rightarrow> bool) \<Rightarrow> ('e \<Rightarrow> bool) \<Rightarrow> 'b EmulationTask \<Rightarrow> ('c, 'b, 'e) WorkerInput list
      \<Rightarrow> 'b EmulationTask \<times> WorkerOutput list" where
  "worker_run B transient_create transient t [] = (t, [])"
| "worker_run B transient_create transient t (i # is) =
     (let (t, out) = worker_step B transient_create transient t i;
          (t, rest) = worker_run B transient_create transient t is
      in (t, out @ rest))"

end
