(* ===== verification/Input_Emulation_Props.thy ===== *)
theory Input_Emulation_Props
  imports Input_Emulation
begin

text \<open>
  The emulation front end knows what the backend holds, as long as the backend accepts the events, and
  so leaves nothing pressed when it destroys a handle.
\<close>

section \<open>What the backend holds\<close>

text \<open>
  A backend that records the events it accepted, newest first, around any backend. What it holds for a
  handle is what was pressed and not released since.
\<close>

type_synonym record_log = "(InputEvent \<times> EmulationHandle) list"

definition recording :: "('b, 'e) EmulationBackend \<Rightarrow> ('b \<times> record_log, 'e) EmulationBackend" where
  "recording B =
     \<lparr>em_consume = \<lambda>event handle (b, log).
        (case em_consume B event handle b of
           (Inr u, b) \<Rightarrow> (Inr u, b, (event, handle) # log)
         | (Inl e, b) \<Rightarrow> (Inl e, b, log)),
      em_create = \<lambda>handle (b, log). (em_create B handle b, log),
      em_destroy = \<lambda>handle (b, log). (em_destroy B handle b, log),
      em_terminate = \<lambda>(b, log). (em_terminate B b, log),
      em_center_pointer = \<lambda>handle (b, log). (case em_center_pointer B handle b of (r, b) \<Rightarrow> (r, b, log))\<rparr>"

fun held_keys :: "EmulationHandle \<Rightarrow> record_log \<Rightarrow> u32 set" where
  "held_keys h [] = {}"
| "held_keys h ((event, handle) # log) = (case event of
     Keyboard (Key _ k state) \<Rightarrow>
       if handle \<noteq> h then held_keys h log
       else if state = 0 then held_keys h log - {k} else insert k (held_keys h log)
   | _ \<Rightarrow> held_keys h log)"

fun held_buttons :: "EmulationHandle \<Rightarrow> record_log \<Rightarrow> u32 set" where
  "held_buttons h [] = {}"
| "held_buttons h ((event, handle) # log) = (case event of
     Pointer (Button _ k state) \<Rightarrow>
       if handle \<noteq> h then held_buttons h log
       else if state = 0 then held_buttons h log - {k} else insert k (held_buttons h log)
   | _ \<Rightarrow> held_buttons h log)"

abbreviation events_of :: "('b \<times> record_log) InputEmulation \<Rightarrow> record_log" where
  "events_of s \<equiv> snd (ie_emulation s)"

definition pressed :: "(EmulationHandle \<rightharpoonup> u32 list) \<Rightarrow> EmulationHandle \<Rightarrow> u32 set" where
  "pressed m h = (case m h of None \<Rightarrow> {} | Some ks \<Rightarrow> set ks)"

definition tracks :: "('b \<times> record_log) InputEmulation \<Rightarrow> bool" where
  "tracks s \<longleftrightarrow>
     (\<forall>h. held_keys h (events_of s) = pressed (ie_pressed_keys s) h)
   \<and> (\<forall>h. held_buttons h (events_of s) = pressed (ie_pressed_buttons s) h)
   \<and> (\<forall>h. ie_pressed_keys s h \<noteq> None \<longleftrightarrow> h \<in> set (ie_handles s))
   \<and> (\<forall>h. ie_pressed_buttons s h \<noteq> None \<longleftrightarrow> h \<in> set (ie_handles s))"

definition accepting :: "('b, 'e) EmulationBackend \<Rightarrow> bool" where
  "accepting B \<longleftrightarrow> (\<forall>event handle b. fst (em_consume B event handle b) = Inr ())"

section \<open>Every operation keeps track\<close>

lemma backend_consume_recording:
  assumes "accepting B"
  shows "\<exists>b. backend_consume (recording B) event handle s
    = (Inr (), s\<lparr>ie_emulation := (b, (event, handle) # events_of s)\<rparr>)"
proof -
  obtain b where "em_consume B event handle (fst (ie_emulation s)) = (Inr (), b)"
    using assms unfolding accepting_def by (metis prod.collapse)
  then show ?thesis
    by (cases "ie_emulation s") (auto simp: backend_consume_def recording_def)
qed

lemma consume_all_recording:
  assumes "accepting B"
  shows "\<exists>b. consume_all (recording B) events handle None s
    = (None, s\<lparr>ie_emulation := (b, rev (map (\<lambda>e. (e, handle)) events) @ events_of s)\<rparr>)"
proof (induction events arbitrary: s)
  case Nil
  have "s = s\<lparr>ie_emulation := (fst (ie_emulation s), events_of s)\<rparr>" by simp
  then show ?case by (metis append_Nil consume_all.simps(1) list.map(1) rev.simps(1))
next
  case (Cons event events)
  obtain b where b: "backend_consume (recording B) event handle s
      = (Inr (), s\<lparr>ie_emulation := (b, (event, handle) # events_of s)\<rparr>)"
    using backend_consume_recording [OF assms] by blast
  from Cons [of "s\<lparr>ie_emulation := (b, (event, handle) # events_of s)\<rparr>"] b show ?case by simp
qed

lemma held_release_keys:
  "held_keys h (rev (map (\<lambda>e. (e, handle)) (map key_release ks)) @ log)
     = (if h = handle then held_keys h log - set ks else held_keys h log)"
  "held_buttons h (rev (map (\<lambda>e. (e, handle)) (map key_release ks)) @ log) = held_buttons h log"
  by (induction ks rule: rev_induct) (auto simp: key_release_def)

lemma held_release_buttons:
  "held_buttons h (rev (map (\<lambda>e. (e, handle)) (map button_release ks)) @ log)
     = (if h = handle then held_buttons h log - set ks else held_buttons h log)"
  "held_keys h (rev (map (\<lambda>e. (e, handle)) (map button_release ks)) @ log) = held_keys h log"
  by (induction ks rule: rev_induct) (auto simp: button_release_def)

lemma drain_pressed:
  assumes "drain m handle = (ks, m')"
  shows "set ks = pressed m handle" "pressed m' handle = {}" "h \<noteq> handle \<Longrightarrow> pressed m' h = pressed m h"
    and "(m' h \<noteq> None) = (m h \<noteq> None)"
  using assms by (auto simp: drain_def pressed_def split: option.splits if_splits)

lemma release_inputs_tracks:
  fixes handle :: EmulationHandle
  assumes "accepting B" "tracks s"
  defines "s' \<equiv> snd (release_inputs (recording B) handle s)"
  shows "tracks s'" "ie_handles s' = ie_handles s"
    "held_keys handle (events_of s') = {}" "held_buttons handle (events_of s') = {}"
proof -
  obtain keys mk where k: "drain (ie_pressed_keys s) handle = (keys, mk)" by fastforce
  obtain buttons mb where b: "drain (ie_pressed_buttons s) handle = (buttons, mb)" by fastforce
  let ?log = "(Keyboard (Modifiers 0 0 0 0), handle) # rev (map (\<lambda>e. (e, handle)) (map button_release buttons))
      @ rev (map (\<lambda>e. (e, handle)) (map key_release keys)) @ events_of s"
  let ?log1 = "rev (map (\<lambda>e. (e, handle)) (map key_release keys)) @ events_of s"
  obtain b1 where b1: "consume_all (recording B) (map key_release keys) handle None (s\<lparr>ie_pressed_keys := mk\<rparr>)
      = (None, s\<lparr>ie_pressed_keys := mk, ie_emulation := (b1, ?log1)\<rparr>)"
    using consume_all_recording [OF assms(1), of "map key_release keys" handle "s\<lparr>ie_pressed_keys := mk\<rparr>"] by auto
  let ?s1 = "s\<lparr>ie_pressed_keys := mk, ie_emulation := (b1, ?log1), ie_pressed_buttons := mb\<rparr>"
  obtain b2 where b2: "consume_all (recording B) (map button_release buttons) handle None ?s1
      = (None, ?s1\<lparr>ie_emulation := (b2, rev (map (\<lambda>e. (e, handle)) (map button_release buttons)) @ ?log1)\<rparr>)"
    using consume_all_recording [OF assms(1), of "map button_release buttons" handle ?s1] by auto
  obtain b3 where b3: "backend_consume (recording B) (Keyboard (Modifiers 0 0 0 0)) handle
        (?s1\<lparr>ie_emulation := (b2, rev (map (\<lambda>e. (e, handle)) (map button_release buttons)) @ ?log1)\<rparr>)
      = (Inr (), ?s1\<lparr>ie_emulation := (b3, ?log)\<rparr>)"
    using backend_consume_recording [OF assms(1), of "Keyboard (Modifiers 0 0 0 0)" handle
        "?s1\<lparr>ie_emulation := (b2, rev (map (\<lambda>e. (e, handle)) (map button_release buttons)) @ ?log1)\<rparr>"]
    by auto
  have s': "s' = s\<lparr>ie_pressed_keys := mk, ie_pressed_buttons := mb, ie_emulation := (b3, ?log)\<rparr>"
    unfolding s'_def release_inputs_def using k b b1 b2 b3 by simp
  have keys: "held_keys h ?log = pressed mk h" for h
    using assms(2) drain_pressed(1,2) [OF k] drain_pressed(3) [OF k, of h]
    by (auto simp: held_release_keys held_release_buttons tracks_def simp del: map_map)
  have buttons: "held_buttons h ?log = pressed mb h" for h
    using assms(2) drain_pressed(1,2) [OF b] drain_pressed(3) [OF b, of h]
    by (auto simp: held_release_keys held_release_buttons tracks_def simp del: map_map)
  show "tracks s'" "ie_handles s' = ie_handles s"
    using assms(2) keys buttons drain_pressed(4) [OF k] drain_pressed(4) [OF b]
    by (simp_all add: s' tracks_def del: held_keys.simps held_buttons.simps)
  show "held_keys handle (events_of s') = {}" "held_buttons handle (events_of s') = {}"
    using keys [of handle] buttons [of handle] drain_pressed(2) [OF k] drain_pressed(2) [OF b]
    by (simp_all add: s' del: held_keys.simps held_buttons.simps)
qed


lemma tracks_destroyed:
  assumes "tracks s" "pressed (ie_pressed_keys s) handle = {}" "pressed (ie_pressed_buttons s) handle = {}"
    and "snd b = events_of s"
  shows "tracks (s\<lparr>ie_handles := removeAll handle (ie_handles s),
          ie_pressed_buttons := (ie_pressed_buttons s)(handle := None),
          ie_pressed_keys := (ie_pressed_keys s)(handle := None), ie_emulation := b\<rparr>)"
  using assms by (auto simp: tracks_def pressed_def)

lemma destroy_tracks:
  assumes "accepting B" "tracks s"
  shows "tracks (emulation_destroy (recording B) handle s)
    \<and> held_keys handle (events_of (emulation_destroy (recording B) handle s)) = {}
    \<and> held_buttons handle (events_of (emulation_destroy (recording B) handle s)) = {}
    \<and> set (ie_handles (emulation_destroy (recording B) handle s)) = set (ie_handles s) - {handle}"
proof -
  define s' where "s' = snd (release_inputs (recording B) handle s)"
  note rel = release_inputs_tracks [OF assms, of handle, folded s'_def]
  have held: "pressed (ie_pressed_keys s') handle = {}" "pressed (ie_pressed_buttons s') handle = {}"
    using rel by (simp_all add: tracks_def)
  have log: "snd (em_destroy (recording B) handle (ie_emulation s')) = events_of s'"
    by (cases "ie_emulation s'") (simp add: recording_def)
  show ?thesis
    using tracks_destroyed [OF rel(1) held log] rel log
    by (simp add: emulation_destroy_def Let_def s'_def [symmetric])
qed

lemma fold_destroy_tracks:
  assumes "accepting B" "tracks s"
  shows "tracks (fold (emulation_destroy (recording B)) hs s)
    \<and> set (ie_handles (fold (emulation_destroy (recording B)) hs s)) = set (ie_handles s) - set hs"
  using assms(2)
proof (induction hs arbitrary: s)
  case (Cons h hs)
  from destroy_tracks [OF assms(1) Cons(2), of h] Cons(1) show ?case by auto
qed simp

lemma terminate_tracks:
  assumes "accepting B" "tracks s"
  shows "tracks (emulation_terminate (recording B) s)" "ie_handles (emulation_terminate (recording B) s) = []"
proof -
  define s' where "s' = fold (emulation_destroy (recording B)) (ie_handles s) s"
  have s': "tracks s'" "set (ie_handles s') = {}"
    using fold_destroy_tracks [OF assms, of "ie_handles s"] by (auto simp: s'_def)
  have log: "snd (em_terminate (recording B) (ie_emulation s')) = events_of s'"
    by (cases "ie_emulation s'") (simp add: recording_def)
  show "tracks (emulation_terminate (recording B) s)" "ie_handles (emulation_terminate (recording B) s) = []"
    using s' log by (simp_all add: emulation_terminate_def Let_def s'_def [symmetric] tracks_def)
qed

lemma update_pressed_pressed:
  assumes "update_pressed m handle k released = (m', changed)"
  shows "changed \<Longrightarrow> pressed m' h = (if h \<noteq> handle then pressed m h
      else if released then pressed m h - {k} else insert k (pressed m h))"
    and "\<not> changed \<Longrightarrow> pressed m' h = pressed m h"
    and "(m' h \<noteq> None) = (m h \<noteq> None)"
  using assms by (auto simp: update_pressed_def pressed_def split: option.splits if_splits)

lemma consume_tracks:
  assumes "accepting B" "tracks s"
  shows "tracks (snd (emulation_consume (recording B) event handle s))"
proof -
  have plain: "tracks (snd (backend_consume (recording B) event handle s))"
    if "\<nexists>t k st. event = Keyboard (Key t k st)" "\<nexists>t k st. event = Pointer (Button t k st)"
  proof -
    obtain b where "backend_consume (recording B) event handle s
        = (Inr (), s\<lparr>ie_emulation := (b, (event, handle) # events_of s)\<rparr>)"
      using backend_consume_recording [OF assms(1)] by blast
    with assms(2) that show ?thesis
      by (cases event) (auto simp: tracks_def split: KeyboardEvent.splits PointerEvent.splits)
  qed
  consider t k st where "event = Keyboard (Key t k st)" | t k st where "event = Pointer (Button t k st)"
    | "\<nexists>t k st. event = Keyboard (Key t k st)" "\<nexists>t k st. event = Pointer (Button t k st)"
    by blast
  then show ?thesis
  proof cases
    case (1 t k st)
    obtain m changed where u: "update_pressed (ie_pressed_keys s) handle k (st = 0) = (m, changed)" by fastforce
    obtain b where "backend_consume (recording B) event handle (s\<lparr>ie_pressed_keys := m\<rparr>)
        = (Inr (), s\<lparr>ie_pressed_keys := m, ie_emulation := (b, (event, handle) # events_of s)\<rparr>)"
      using backend_consume_recording [OF assms(1), of event handle "s\<lparr>ie_pressed_keys := m\<rparr>"] by auto
    with assms(2) 1 u update_pressed_pressed [OF u] show ?thesis
      by (cases changed) (simp_all add: emulation_consume_def tracks_def)
  next
    case (2 t k st)
    obtain m changed where u: "update_pressed (ie_pressed_buttons s) handle k (st = 0) = (m, changed)" by fastforce
    obtain b where "backend_consume (recording B) event handle (s\<lparr>ie_pressed_buttons := m\<rparr>)
        = (Inr (), s\<lparr>ie_pressed_buttons := m, ie_emulation := (b, (event, handle) # events_of s)\<rparr>)"
      using backend_consume_recording [OF assms(1), of event handle "s\<lparr>ie_pressed_buttons := m\<rparr>"] by auto
    with assms(2) 2 u update_pressed_pressed [OF u] show ?thesis
      by (cases changed) (simp_all add: emulation_consume_def tracks_def)
  next
    case 3
    then have "emulation_consume (recording B) event handle s = backend_consume (recording B) event handle s"
      by (auto simp: emulation_consume_def split: InputEvent.splits KeyboardEvent.splits PointerEvent.splits)
    with plain [OF 3] show ?thesis by simp
  qed
qed

lemma create_tracks:
  assumes "tracks s"
  shows "tracks (snd (emulation_create (recording B) handle s))"
proof -
  have "snd (em_create (recording B) handle (ie_emulation s)) = events_of s"
    by (cases "ie_emulation s") (simp add: recording_def)
  with assms show ?thesis by (auto simp: emulation_create_def tracks_def pressed_def split: if_splits)
qed

lemma center_tracks:
  assumes "tracks s"
  shows "tracks (snd (emulation_center_pointer (recording B) handle s))"
proof -
  have "snd (snd (em_center_pointer (recording B) handle (ie_emulation s))) = events_of s"
    by (cases "ie_emulation s") (simp add: recording_def split: prod.splits)
  with assms show ?thesis
    by (auto simp: emulation_center_pointer_def tracks_def split: prod.splits)
qed

lemma op_tracks:
  assumes "accepting B" "tracks s"
  shows "tracks (emulation_op (recording B) operation s)"
  using assms
  by (cases operation)
    (simp_all add: consume_tracks center_tracks create_tracks destroy_tracks release_inputs_tracks terminate_tracks)

definition fresh_emulation :: "EmulationBackendKind \<Rightarrow> 'b \<Rightarrow> ('b \<times> record_log) InputEmulation" where
  "fresh_emulation k b = \<lparr>ie_backend = k, ie_emulation = (b, []), ie_handles = [],
     ie_pressed_buttons = Map.empty, ie_pressed_keys = Map.empty\<rparr>"

definition silent_backend :: "(unit, string) EmulationBackend" where
  "silent_backend = \<lparr>em_consume = \<lambda>_ _ b. (Inr (), b), em_create = \<lambda>_ b. b, em_destroy = \<lambda>_ b. b,
     em_terminate = \<lambda>b. b, em_center_pointer = \<lambda>_ b. (Inr (), b)\<rparr>"

end
