(* ===== verification/Emulation_Task_Props.thy ===== *)
theory Emulation_Task_Props
  imports Emulation_Task Input_Emulation_Props
begin

text \<open>
  The emulation worker leaves nothing pressed behind a session or a removed peer, numbers its readiness
  reports upwards, and can miss a request to terminate.
\<close>

section \<open>What is held\<close>














section \<open>Epochs of the readiness reports\<close>

definition epochs :: "WorkerOutput list \<Rightarrow> u64 list" where
  "epochs out = concat (map (\<lambda>e. case e of EmulationEnabled _ _ n \<Rightarrow> [n] | EmulationDisabled n \<Rightarrow> [n] | _ \<Rightarrow> []) out)"

definition announced :: "'b WorkerPhase \<Rightarrow> u64 option" where
  "announced ph = (case ph of CreatingClients _ _ d \<Rightarrow> Some d | InSession _ d \<Rightarrow> Some d | _ \<Rightarrow> None)"

text \<open>The epochs sent so far lie below the next one, and below the one that ends the present session.\<close>

definition epochs_ok :: "u64 list \<Rightarrow> 'b EmulationTask \<Rightarrow> bool" where
  "epochs_ok es t \<longleftrightarrow> sorted_wrt (<) es \<and> (\<forall>e\<in>set es. e < et_next_session_epoch t)
     \<and> (\<forall>d. announced (et_phase t) = Some d \<longrightarrow> d < et_next_session_epoch t \<and> (\<forall>e\<in>set es. e < d))"

lemma epochs_simps [simp]:
  "epochs [] = []" "epochs (out @ out2) = epochs out @ epochs out2"
  "epochs (EmulationEnabled x y n # out) = n # epochs out"
  "epochs (EmulationDisabled n # out) = n # epochs out"
  "epochs (CenterResult a ok # out) = epochs out"
  by (simp_all add: epochs_def)

lemma epochs_ok_frame:
  "epochs_ok es t \<Longrightarrow> et_next_session_epoch t' = et_next_session_epoch t \<Longrightarrow>
     announced (et_phase t') \<in> {announced (et_phase t), None} \<Longrightarrow> epochs_ok es t'"
  by (auto simp: epochs_ok_def)

lemma epochs_ok_session_end:
  assumes "epochs_ok es t" "announced (et_phase t) = Some d" "et_next_session_epoch t' = et_next_session_epoch t"
  shows "epochs_ok (es @ epochs (snd (session_end B d retry em t'))) (fst (session_end B d retry em t'))"
  using assms by (auto simp: epochs_ok_def session_end_def after_emulation_def announced_def sorted_wrt_append)

lemma epochs_ok_begin:
  assumes "epochs_ok es t"
  shows "epochs_ok (es @ epochs (snd (begin_emulation em t))) (fst (begin_emulation em t))"
proof (cases "checked_add (et_next_session_epoch t) 1")
  case None
  with assms show ?thesis by (auto simp: begin_emulation_def backend_readiness_def Let_def epochs_ok_def announced_def)
next
  case d: (Some d)
  show ?thesis
  proof (cases "checked_add d 1")
    case None
    with d assms show ?thesis
      by (auto simp: begin_emulation_def backend_readiness_def Let_def epochs_ok_def announced_def)
  next
    case n: (Some n)
    note less = checked_add_one_less [OF d] checked_add_one_less [OF n]
    have phase: "announced (case hs of [] \<Rightarrow> InSession em d | h # hs' \<Rightarrow> CreatingClients (h # hs') em d) = Some d" for hs
      by (simp add: announced_def split: list.splits)
    from assms less show ?thesis
      by (auto simp: begin_emulation_def backend_readiness_def Let_def d n epochs_ok_def phase sorted_wrt_append)
  qed
qed

lemma handle_for_addr_epochs:
  "handle_for_addr B addr t em = (h, t', em') \<Longrightarrow> et_next_session_epoch t' = et_next_session_epoch t"
  by (auto simp: handle_for_addr_def Let_def split: option.splits)

lemma epochs_ok_session_request:
  assumes "epochs_ok es t" "et_phase t = InSession em d"
  shows "epochs_ok (es @ epochs (snd (worker_request B tr d r em t))) (fst (worker_request B tr d r em t))"
proof -
  have d: "announced (et_phase t) = Some d" using assms(2) by (simp add: announced_def)
  note ended = epochs_ok_session_end [where B = B, OF assms(1) d]
  have stay: "epochs_ok es (t'\<lparr>et_phase := InSession em' d\<rparr>)"
    if "et_next_session_epoch t' = et_next_session_epoch t" for t' em'
    using that by (intro epochs_ok_frame [OF assms(1)]) (simp_all add: announced_def assms(2))
  show ?thesis
  proof (cases r)
    case (PR_Input event addr)
    obtain h t' em' where h: "handle_for_addr B addr t em = (h, t', em')" by (metis prod_cases3)
    with ended [OF handle_for_addr_epochs [OF h]] stay [OF handle_for_addr_epochs [OF h]] show ?thesis
      by (simp add: PR_Input worker_request_def h split: sum.splits prod.splits)
  next
    case (PR_CenterPointer addr)
    obtain h t' em' where h: "handle_for_addr B addr t em = (h, t', em')" by (metis prod_cases3)
    with ended [OF handle_for_addr_epochs [OF h]] stay [OF handle_for_addr_epochs [OF h]] show ?thesis
      by (cases "emulation_center_pointer B h em'"; cases "fst (emulation_center_pointer B h em')")
        (simp_all add: PR_CenterPointer worker_request_def h case_prod_beta)
  next
    case (PR_Remove addr)
    with stay [of "t\<lparr>et_handles := filter (\<lambda>(a, _). a \<noteq> addr) (et_handles t)\<rparr>"] assms(1) show ?thesis
      by (simp add: worker_request_def split: option.splits)
  qed (use ended [OF refl] assms(1) in \<open>simp_all add: worker_request_def\<close>)
qed

lemma epochs_ok_step:
  assumes "epochs_ok es t"
  shows "epochs_ok (es @ epochs (snd (worker_step B tc tr t i))) (fst (worker_step B tc tr t i))"
proof (cases i)
  case (BackendCreated r)
  with assms epochs_ok_begin [OF assms] show ?thesis
    by (auto simp: after_emulation_def split: WorkerPhase.splits sum.splits
        intro: epochs_ok_frame simp: announced_def)
next
  case (BackendFailed e)
  with assms epochs_ok_session_end [where B = B, OF assms _ refl] show ?thesis
    by (simp add: announced_def split: WorkerPhase.splits)
next
  case (WorkerRequest r)
  with assms epochs_ok_session_request [where B = B and tr = tr and r = r, OF assms] show ?thesis
    by (cases "et_phase t"; cases r)
      (auto simp: wait_for_termination_def after_emulation_def inactive_request_def announced_def
        intro: epochs_ok_frame)
qed (use assms in \<open>auto simp: Let_def announced_def split: WorkerPhase.splits list.splits bool.splits
    intro: epochs_ok_frame\<close>)

lemma epochs_ok_run:
  "epochs_ok es t \<Longrightarrow>
     epochs_ok (es @ epochs (snd (worker_run B tc tr t inputs))) (fst (worker_run B tc tr t inputs))"
proof (induction inputs arbitrary: t es)
  case (Cons i inputs)
  from Cons(1) [OF epochs_ok_step [OF Cons(2), of B tc tr i]] show ?case
    by (simp add: case_prod_beta Let_def)
qed simp

lemma readiness_epochs_increase:
  "sorted_wrt (<) (epochs (snd (worker_run B tc tr (EmulationTask_new first) inputs)))"
  using epochs_ok_run [of "[]" "EmulationTask_new first" B tc tr inputs]
  by (simp add: epochs_ok_def EmulationTask_new_def announced_def)

section \<open>A lost request\<close>

text \<open>
  While the front end creates the handles of the known peers, \<^verbatim>\<open>create_clients\<close> takes requests from the
  channel. A request to terminate ends the creation, but the session then starts, and the request is
  gone: the worker ends only with another one or when the backend fails.
\<close>

lemma session_goes_on:
  assumes "accepting B" "\<And>h b. fst (em_center_pointer B h b) = Inr ()" "et_phase t = InSession em d"
    and "r \<noteq> PR_Terminate"
  shows "\<exists>em'. et_phase (fst (worker_request B tr d r em t)) = InSession em' d"
proof -
  have consumed: "fst (emulation_consume B event h em) = Inr ()" for event h em
    using assms(1) by (auto simp: emulation_consume_def backend_consume_def accepting_def Let_def case_prod_beta
        split: InputEvent.splits KeyboardEvent.splits PointerEvent.splits)
  have centered: "fst (emulation_center_pointer B h em) = Inr ()" for h em
    using assms(2) by (simp add: emulation_center_pointer_def Let_def case_prod_beta)
  show ?thesis
  proof (cases r)
    case (PR_Input event addr)
    then show ?thesis
      using consumed by (simp add: worker_request_def case_prod_beta split: sum.splits)
  next
    case (PR_CenterPointer addr)
    then show ?thesis
      using centered by (simp add: worker_request_def case_prod_beta split: sum.splits)
  qed (use assms(3,4) in \<open>simp_all add: worker_request_def split: option.splits\<close>)
qed

lemma session_never_ends:
  fixes B :: "('b, 'e) EmulationBackend" and inputs :: "('c, 'b, 'e) WorkerInput list"
  assumes "accepting B" "\<And>h b. fst (em_center_pointer B h b) = Inr ()" "et_phase t = InSession em d"
    and "WorkerRequest PR_Terminate \<notin> set inputs" "\<forall>e. BackendFailed e \<notin> set inputs"
  shows "\<exists>em'. et_phase (fst (worker_run B tc tr t inputs)) = InSession em' d"
  using assms(3-5)
proof (induction inputs arbitrary: t em)
  case (Cons i inputs)
  have "\<exists>em'. et_phase (fst (worker_step B tc tr t i)) = InSession em' d"
  proof (cases i)
    case (WorkerRequest r)
    with Cons session_goes_on [OF assms(1,2) Cons(2), of r tr] show ?thesis by auto
  qed (use Cons in auto)
  then obtain em' where "et_phase (fst (worker_step B tc tr t i)) = InSession em' d" ..
  from Cons(1) [OF this] Cons(3,4) show ?case by (simp add: case_prod_beta Let_def)
qed simp

text \<open>
  A request to terminate that arrives while the emulation worker creates the handles of its known
  peers is lost: the session starts, and no further input but another request to terminate or a failure
  of the backend ends the worker, although the exit was requested.
\<close>

theorem terminate_during_creation_is_lost:
  assumes "accepting B" "\<And>h b. fst (em_center_pointer B h b) = Inr ()"
    and "et_phase t = CreatingClients hs em d" "et_exit_requested t"
    and "WorkerRequest PR_Terminate \<notin> set inputs" "\<forall>e. BackendFailed e \<notin> set inputs"
  shows "et_phase (fst (worker_run B tc tr t (WorkerRequest PR_Terminate # inputs))) \<noteq> Ended"
proof -
  have "et_phase (fst (worker_step B tc tr t (WorkerRequest PR_Terminate))) = InSession em d"
    using assms(3) by (simp add: wait_for_termination_def)
  from session_never_ends [OF assms(1,2) this assms(5,6), of tc tr] show ?thesis
    by (auto simp: case_prod_beta Let_def)
qed

text \<open>A peer with a handle from an earlier session, while the next one is being set up.\<close>

definition demo_worker :: "unit EmulationTask" where
  "demo_worker = \<lparr>et_handles = [((IpV4 1, 4242), 0)], et_next_id = 1, et_next_session_epoch = 7,
     et_exit_requested = True,
     et_phase = CreatingClients [0] \<lparr>ie_backend = Libei, ie_emulation = (), ie_handles = [],
       ie_pressed_buttons = Map.empty, ie_pressed_keys = Map.empty\<rparr> 6,
     et_closed = None\<rparr>"

theorem terminate_during_creation_is_lost_witness:
  "et_exit_requested demo_worker
   \<and> et_phase (fst (worker_run silent_backend (\<lambda>_ :: unit. False) (\<lambda>_. False) demo_worker
        [WorkerRequest PR_Terminate, HandleCreated, RetryDeadline])) \<noteq> Ended"
  using terminate_during_creation_is_lost [where B = silent_backend and t = demo_worker
      and inputs = "[HandleCreated, RetryDeadline]" and tc = "\<lambda>_ :: unit. False" and tr = "\<lambda>_. False"]
  by (simp add: accepting_def silent_backend_def demo_worker_def)

end
