(* ===== verification/Listen_Task.thy ===== *)
theory Listen_Task
  imports Emulation_Task
begin

text \<open>
  The receiving side of input, \<^verbatim>\<open>ListenTask\<close> of \<^verbatim>\<open>lan-mouse/src/emulation.rs\<close>: it answers the messages of
  the connected peers and lets a peer in only after the own capture is released and the pointer is
  centered. The listener (\<^verbatim>\<open>lan-mouse/src/listen.rs\<close>) is modelled as far as the task depends on it: the list
  of its connections and the events it reports. What the surroundings answer in a step (the clock, the
  certificate of a peer, whether a reply was sent) is a record of arguments.
\<close>

type_synonym Fingerprint = string

section \<open>Connections of the listener\<close>

datatype ListenEvent =
    LE_Msg ProtoEvent SocketAddr
  | LE_Accept SocketAddr Fingerprint
  | LE_Rejected Fingerprint
  | LE_Disconnected SocketAddr

text \<open>A connection has an identity besides its address, that of the shared pointer.\<close>

type_synonym connections = "(SocketAddr \<times> nat) list"

definition conn_find :: "connections \<Rightarrow> SocketAddr \<Rightarrow> nat option" where
  "conn_find conns addr = map_option snd (find (\<lambda>(a, _). a = addr) conns)"

definition conn_accept :: "connections \<Rightarrow> SocketAddr \<Rightarrow> nat \<Rightarrow> Fingerprint \<Rightarrow> connections \<times> ListenEvent list" where
  "conn_accept conns addr c fingerprint = (conns @ [(addr, c)], [LE_Accept addr fingerprint])"

text \<open>The end of \<^verbatim>\<open>read_loop\<close>: the address is only reported as gone with its last connection.\<close>

definition conn_closed :: "connections \<Rightarrow> SocketAddr \<Rightarrow> nat \<Rightarrow> connections \<times> ListenEvent list" where
  "conn_closed conns addr c =
     (if (addr, c) \<notin> set conns then (conns, [])
      else
        let conns = remove1 (addr, c) conns
        in (conns, if list_ex (\<lambda>(a, _). a = addr) conns then [] else [LE_Disconnected addr]))"

section \<open>State\<close>

datatype EmulationEvent =
    EE_Connected SocketAddr Fingerprint
  | EE_ConnectionAttempt Fingerprint
  | EE_Entered SocketAddr Position Fingerprint
  | EE_Disconnected SocketAddr
  | EE_PortChanged "string + u16"
  | EE_Worker WorkerOutput
  | EE_ReleaseCapture
  | EE_PeerHello SocketAddr "u8 list"
  | EE_ReleaseAcknowledged SocketAddr u64

datatype EmulationRequest =
    ER_Reenable
  | ER_Release SocketAddr u64
  | ER_ChangePort u16
  | ER_Terminate

definition ENTER_HANDOFF_TIMEOUT :: Duration where "ENTER_HANDOFF_TIMEOUT = 2 * 10 ^ 9"

text \<open>Waiting for the capture to be released, or for the pointer; the latter may be refused at once.\<close>

datatype PendingEnterStep = Releasing | Centering "bool option"

record PendingEnter =
  pe_addr :: SocketAddr
  pe_pos :: Position
  pe_fingerprint :: Fingerprint
  pe_step :: PendingEnterStep
  pe_deadline :: Instant

definition PendingEnter_new :: "Instant \<Rightarrow> SocketAddr \<Rightarrow> Position \<Rightarrow> Fingerprint \<Rightarrow> PendingEnter" where
  "PendingEnter_new now addr pos fingerprint =
     \<lparr>pe_addr = addr, pe_pos = pos, pe_fingerprint = fingerprint, pe_step = Releasing,
      pe_deadline = now + ENTER_HANDOFF_TIMEOUT\<rparr>"

datatype PendingEnterProgress = Released bool | Centered bool | TimedOut

datatype EnterDisposition = Start | WaitForPending | Acknowledge | RejectBusy

definition enter_disposition :: "SocketAddr set \<Rightarrow> PendingEnter option \<Rightarrow> SocketAddr \<Rightarrow> EnterDisposition" where
  "enter_disposition entered pending addr =
     (if addr \<in> entered then Acknowledge
      else case pending of
        Some p \<Rightarrow> if pe_addr p = addr then WaitForPending else RejectBusy
      | None \<Rightarrow> Start)"

text \<open>What \<^verbatim>\<open>wait_for_pending_enter\<close> can return at a time.\<close>

definition can_progress :: "Instant \<Rightarrow> PendingEnter \<Rightarrow> PendingEnterProgress \<Rightarrow> bool" where
  "can_progress now p progress = (case progress of
     Released _ \<Rightarrow> pe_step p = Releasing
   | Centered ok \<Rightarrow> pe_step p = Centering None \<or> pe_step p = Centering (Some ok)
   | TimedOut \<Rightarrow> pe_deadline p \<le> now)"

type_synonym PendingReleases = "SocketAddr \<rightharpoonup> u64"

definition releases_request :: "PendingReleases \<Rightarrow> SocketAddr \<Rightarrow> u64 \<Rightarrow> PendingReleases" where
  "releases_request r addr epoch = r(addr \<mapsto> epoch)"

definition releases_retry_epoch :: "PendingReleases \<Rightarrow> SocketAddr \<Rightarrow> u64 option" where
  "releases_retry_epoch r addr = r addr"

definition releases_acknowledge :: "PendingReleases \<Rightarrow> SocketAddr \<Rightarrow> u64 \<Rightarrow> bool \<times> PendingReleases" where
  "releases_acknowledge r addr epoch =
     (if r addr \<noteq> Some epoch then (False, r) else (True, r(addr := None)))"

definition releases_disconnected :: "PendingReleases \<Rightarrow> SocketAddr \<Rightarrow> PendingReleases" where
  "releases_disconnected r addr = r(addr := None)"

record ListenTask =
  lt_last_response :: "(SocketAddr \<times> Instant) list"
  lt_rejected :: "Fingerprint \<rightharpoonup> Instant"
  lt_pending_releases :: PendingReleases
  lt_pending_enter :: "PendingEnter option"
  lt_entered :: "SocketAddr set"
  lt_proxy :: EmulationProxy
  lt_running :: bool

definition ListenTask_new :: ListenTask where
  "ListenTask_new =
     \<lparr>lt_last_response = [], lt_rejected = Map.empty, lt_pending_releases = Map.empty,
      lt_pending_enter = None, lt_entered = {}, lt_proxy = EmulationProxy_new, lt_running = True\<rparr>"

datatype ListenOutput =
    Reply SocketAddr ProtoEvent
  | Broadcast ProtoEvent
  | DisconnectPeer SocketAddr
  | Emit EmulationEvent
  | ToWorker ProxyRequest
  | RequestPortChange u16
  | TerminateListener
  | TerminateWorker

record ListenEnv =
  en_now :: Instant
  en_fingerprint :: "SocketAddr \<Rightarrow> Fingerprint option"
  en_reply_sent :: "SocketAddr \<Rightarrow> ProtoEvent \<Rightarrow> bool"
  en_port_changed :: "string + u16"
  en_local_commit :: "u8 list"

section \<open>Handlers\<close>

definition map_insert :: "'k \<Rightarrow> 'v \<Rightarrow> ('k \<times> 'v) list \<Rightarrow> ('k \<times> 'v) list" where
  "map_insert k v m = (k, v) # filter (\<lambda>(a, _). a \<noteq> k) m"

definition map_remove :: "'k \<Rightarrow> ('k \<times> 'v) list \<Rightarrow> ('k \<times> 'v) list" where
  "map_remove k m = filter (\<lambda>(a, _). a \<noteq> k) m"

definition drop_pending :: "SocketAddr \<Rightarrow> PendingEnter option \<Rightarrow> PendingEnter option" where
  "drop_pending addr pending = (case pending of
     Some p \<Rightarrow> if pe_addr p = addr then None else Some p
   | None \<Rightarrow> None)"

definition handle_enter ::
    "ListenEnv \<Rightarrow> Position \<Rightarrow> SocketAddr \<Rightarrow> ListenTask \<Rightarrow> ListenTask \<times> ListenOutput list" where
  "handle_enter env pos addr t = (case en_fingerprint env addr of
     None \<Rightarrow> (t, [])
   | Some fingerprint \<Rightarrow>
       (case enter_disposition (lt_entered t) (lt_pending_enter t) addr of
          Acknowledge \<Rightarrow> (t, [Reply addr (Ack 0)])
        | WaitForPending \<Rightarrow> (t, [])
        | RejectBusy \<Rightarrow> (t, [])
        | Start \<Rightarrow>
            (t\<lparr>lt_pending_enter := Some (PendingEnter_new (en_now env) addr pos fingerprint)\<rparr>,
             [Emit EE_ReleaseCapture])))"

definition handle_msg ::
    "ListenEnv \<Rightarrow> ProtoEvent \<Rightarrow> SocketAddr \<Rightarrow> ListenTask \<Rightarrow> ListenTask \<times> ListenOutput list" where
  "handle_msg env event addr t =
     (let t = t\<lparr>lt_last_response := map_insert addr (en_now env) (lt_last_response t)\<rparr> in
      case event of
        Enter pos \<Rightarrow> handle_enter env pos addr t
      | Leave _ \<Rightarrow>
          (t\<lparr>lt_pending_enter := drop_pending addr (lt_pending_enter t), lt_entered := lt_entered t - {addr}\<rparr>,
           [ToWorker (PR_Remove addr), Reply addr (Ack 0)])
      | Input e \<Rightarrow> (t, map ToWorker (proxy_consume (lt_proxy t) e addr))
      | Ping \<Rightarrow>
          (t, [Reply addr (Pong (control_ready (lt_proxy t))), Reply addr (proxy_readiness (lt_proxy t))]
              @ (case releases_retry_epoch (lt_pending_releases t) addr of
                   Some epoch \<Rightarrow> [Reply addr (ReleaseRequest epoch)]
                 | None \<Rightarrow> []))
      | Hello commit \<Rightarrow>
          (t, [Reply addr (Hello (en_local_commit env)), Reply addr (proxy_readiness (lt_proxy t)),
               Emit (EE_PeerHello addr commit)])
      | ReleaseAck epoch \<Rightarrow>
          (case releases_acknowledge (lt_pending_releases t) addr epoch of
             (True, r) \<Rightarrow> (t\<lparr>lt_pending_releases := r\<rparr>, [Emit (EE_ReleaseAcknowledged addr epoch)])
           | (False, _) \<Rightarrow> (t, []))
      | _ \<Rightarrow> (t, []))"

definition handle_listen_event ::
    "ListenEnv \<Rightarrow> ListenEvent \<Rightarrow> ListenTask \<Rightarrow> ListenTask \<times> ListenOutput list" where
  "handle_listen_event env e t = (case e of
     LE_Msg event addr \<Rightarrow> handle_msg env event addr t
   | LE_Accept addr fingerprint \<Rightarrow> (t, [Emit (EE_Connected addr fingerprint)])
   | LE_Rejected fingerprint \<Rightarrow>
       (t\<lparr>lt_rejected := (lt_rejected t)(fingerprint \<mapsto> en_now env)\<rparr>,
        case lt_rejected t fingerprint of
          None \<Rightarrow> [Emit (EE_ConnectionAttempt fingerprint)]
        | Some i \<Rightarrow> if en_now env - i \<ge> 2 * 10 ^ 9 then [Emit (EE_ConnectionAttempt fingerprint)] else [])
   | LE_Disconnected addr \<Rightarrow>
       (t\<lparr>lt_last_response := map_remove addr (lt_last_response t),
          lt_pending_releases := releases_disconnected (lt_pending_releases t) addr,
          lt_pending_enter := drop_pending addr (lt_pending_enter t),
          lt_entered := lt_entered t - {addr}\<rparr>,
        [ToWorker (PR_Remove addr), Emit (EE_Disconnected addr)]))"

text \<open>
  Progress of the pending handoff. The \<^verbatim>\<open>expect\<close>s of the source cannot fail: without a pending handoff
  there is no progress.
\<close>

definition handle_progress ::
    "ListenEnv \<Rightarrow> PendingEnterProgress \<Rightarrow> PendingEnter \<Rightarrow> ListenTask \<Rightarrow> ListenTask \<times> ListenOutput list" where
  "handle_progress env progress p t = (case progress of
     Released True \<Rightarrow>
       (case request_center_pointer (lt_proxy t) (pe_addr p) of
          (requests, refusal) \<Rightarrow>
            (t\<lparr>lt_pending_enter := Some (p\<lparr>pe_step := Centering refusal\<rparr>)\<rparr>, map ToWorker requests))
   | Centered True \<Rightarrow>
       (let t = t\<lparr>lt_pending_enter := None\<rparr> in
        if en_reply_sent env (pe_addr p) (Ack 0)
        then (t\<lparr>lt_entered := insert (pe_addr p) (lt_entered t)\<rparr>,
              [Reply (pe_addr p) (Ack 0), Emit (EE_Entered (pe_addr p) (pe_pos p) (pe_fingerprint p))])
        else (t, [Reply (pe_addr p) (Ack 0), ToWorker (PR_Remove (pe_addr p)), DisconnectPeer (pe_addr p)]))
   | _ \<Rightarrow>
       (t\<lparr>lt_pending_enter := None\<rparr>, [ToWorker (PR_Remove (pe_addr p)), DisconnectPeer (pe_addr p)]))"

text \<open>Readiness reports of the worker; the result of centering travels in a channel of its own.\<close>

definition handle_worker_event :: "WorkerOutput \<Rightarrow> ListenTask \<Rightarrow> ListenTask \<times> ListenOutput list" where
  "handle_worker_event e t = (case e of
     CenterResult _ _ \<Rightarrow> (t, [])
   | _ \<Rightarrow>
       (let t = t\<lparr>lt_proxy := proxy_event (lt_proxy t) e\<rparr>
        in (t, [Broadcast (proxy_readiness (lt_proxy t)), Emit (EE_Worker e)])))"

definition handle_emulation_request ::
    "ListenEnv \<Rightarrow> EmulationRequest \<Rightarrow> ListenTask \<Rightarrow> ListenTask \<times> ListenOutput list" where
  "handle_emulation_request env r t = (case r of
     ER_Reenable \<Rightarrow> (t, [ToWorker PR_Reenable])
   | ER_Release addr epoch \<Rightarrow>
       (t\<lparr>lt_pending_releases := releases_request (lt_pending_releases t) addr epoch\<rparr>,
        [Reply addr (ReleaseRequest epoch)])
   | ER_ChangePort port \<Rightarrow> (t, [RequestPortChange port, Emit (EE_PortChanged (en_port_changed env))])
   | ER_Terminate \<Rightarrow> (t\<lparr>lt_running := False\<rparr>, [TerminateListener, TerminateWorker]))"

text \<open>The interval: peers that have been silent for more than a second are given up.\<close>

definition handle_tick :: "ListenEnv \<Rightarrow> ListenTask \<Rightarrow> ListenTask \<times> ListenOutput list" where
  "handle_tick env t =
     (let silent = (\<lambda>(_ :: SocketAddr, i). en_now env - i > 10 ^ 9);
          gone = map fst (filter silent (lt_last_response t))
      in (t\<lparr>lt_last_response := filter (\<lambda>x. \<not> silent x) (lt_last_response t),
            lt_pending_releases := fold (\<lambda>addr r. releases_disconnected r addr) gone (lt_pending_releases t)\<rparr>,
          concat (map (\<lambda>addr. [ToWorker (PR_Remove addr), Emit (EE_Disconnected addr)]) gone)))"

section \<open>The loop\<close>

datatype ListenInput =
    FromListener "ListenEvent option"
  | Progress PendingEnterProgress
  | FromWorker WorkerOutput
  | Requested EmulationRequest
  | Tick

definition listen_step :: "ListenEnv \<Rightarrow> ListenInput \<Rightarrow> ListenTask \<Rightarrow> ListenTask \<times> ListenOutput list" where
  "listen_step env i t =
     (if \<not> lt_running t then (t, [])
      else case i of
        FromListener (Some e) \<Rightarrow> handle_listen_event env e t
      | FromListener None \<Rightarrow> (t\<lparr>lt_running := False\<rparr>, [TerminateListener, TerminateWorker])
      | Progress progress \<Rightarrow>
          (case lt_pending_enter t of
             None \<Rightarrow> (t, [])
           | Some p \<Rightarrow>
               if can_progress (en_now env) p progress then handle_progress env progress p t else (t, []))
      | FromWorker e \<Rightarrow> handle_worker_event e t
      | Requested r \<Rightarrow> handle_emulation_request env r t
      | Tick \<Rightarrow> handle_tick env t)"

primrec listen_run :: "ListenTask \<Rightarrow> (ListenEnv \<times> ListenInput) list \<Rightarrow> ListenTask \<times> ListenOutput list" where
  "listen_run t [] = (t, [])"
| "listen_run t (x # xs) =
     (let (t, out) = listen_step (fst x) (snd x) t; (t, rest) = listen_run t xs in (t, out @ rest))"

end
