(* ===== verification/Listen_Task_Props.thy ===== *)
theory Listen_Task_Props
  imports Listen_Task
begin

text \<open>
  When a peer is let in: after the own capture was released and the pointer centered for it, unless its
  address was let in before and only the interval has given it up since.
\<close>

definition is_gone :: "SocketAddr \<Rightarrow> ListenInput \<Rightarrow> bool" where
  "is_gone addr i \<longleftrightarrow> i = FromListener (Some (LE_Disconnected addr)) \<or> (\<exists>n. i = FromListener (Some (LE_Msg (Leave n) addr)))"

lemma is_gone_simps [simp]:
  "\<not> is_gone addr Tick" "\<not> is_gone addr (Requested r)" "\<not> is_gone addr (FromWorker e)" "\<not> is_gone addr (Progress g)"
  by (simp_all add: is_gone_def)















section \<open>A silent peer\<close>

lemma tick_outputs:
  assumes "(addr, seen) \<in> set (lt_last_response t)" "en_now env - seen > 10 ^ 9" "lt_running t"
  shows "Emit (EE_Disconnected addr) \<in> set (snd (listen_step env Tick t))"
proof -
  let ?silent = "\<lambda>(_ :: SocketAddr, i). en_now env - i > 10 ^ 9"
  have "(addr, seen) \<in> set (filter ?silent (lt_last_response t))" using assms(1,2) by simp
  then have "addr \<in> set (map fst (filter ?silent (lt_last_response t)))" unfolding set_map by (rule image_eqI [rotated]) simp
  then show ?thesis using assms(3) unfolding listen_step_def handle_tick_def Let_def by auto
qed

text \<open>
  C39. The interval forgets a silent peer only in part: it reports the peer as disconnected and removes
  its input, but keeps it among the peers that were let in. When the same address then asks to enter
  again, it is acknowledged at once; the own capture is not released, and \<^verbatim>\<open>Entered\<close> is not reported.
\<close>

theorem silent_peer_enters_without_release:
  assumes "lt_running t" "addr \<in> lt_entered t" "(addr, seen) \<in> set (lt_last_response t)"
    and "en_now env - seen > 10 ^ 9" "en_fingerprint env' addr = Some fp"
  shows "Emit (EE_Disconnected addr) \<in> set (snd (listen_step env Tick t))
    \<and> snd (listen_step env' (FromListener (Some (LE_Msg (Enter pos) addr))) (fst (listen_step env Tick t)))
       = [Reply addr (Ack 0)]"
proof
  show "Emit (EE_Disconnected addr) \<in> set (snd (listen_step env Tick t))"
    using assms by (intro tick_outputs)
  show "snd (listen_step env' (FromListener (Some (LE_Msg (Enter pos) addr))) (fst (listen_step env Tick t)))
       = [Reply addr (Ack 0)]"
    using assms
    by (simp add: listen_step_def handle_tick_def handle_listen_event_def handle_msg_def handle_enter_def
        enter_disposition_def Let_def)
qed

text \<open>A peer that is let in and then silent for five seconds.\<close>

definition demo_addr :: SocketAddr where "demo_addr = (IpV4 1, 4242)"

definition demo_listen_env :: "Instant \<Rightarrow> ListenEnv" where
  "demo_listen_env now = \<lparr>en_now = now, en_fingerprint = (\<lambda>_. Some ''ab''), en_reply_sent = (\<lambda>_ _. True),
     en_port_changed = Inr 4242, en_local_commit = [0, 0, 0, 0, 0, 0, 0, 0]\<rparr>"

definition demo_listen :: "(ListenEnv \<times> ListenInput) list" where
  "demo_listen =
     [(demo_listen_env 0, FromWorker (EmulationEnabled True True 1)),
      (demo_listen_env 0, FromListener (Some (LE_Msg (Enter Left) demo_addr))),
      (demo_listen_env 0, Progress (Released True))]"

lemmas demo_listen_defs =
  demo_listen_def demo_listen_env_def demo_addr_def ListenTask_new_def EmulationProxy_new_def listen_step_def
  handle_worker_event_def proxy_event_def handle_listen_event_def handle_msg_def handle_enter_def
  enter_disposition_def PendingEnter_new_def handle_progress_def can_progress_def request_center_pointer_def
  control_ready_def map_insert_def


theorem silent_peer_enters_without_release_witness:
  "\<exists>t. listen_run ListenTask_new (demo_listen @ [(demo_listen_env 0, Progress (Centered True))]) = t
    \<and> Emit (EE_Disconnected demo_addr) \<in> set (snd (listen_step (demo_listen_env (5 * 10 ^ 9)) Tick (fst t)))
    \<and> snd (listen_step (demo_listen_env (5 * 10 ^ 9)) (FromListener (Some (LE_Msg (Enter Left) demo_addr)))
         (fst (listen_step (demo_listen_env (5 * 10 ^ 9)) Tick (fst t)))) = [Reply demo_addr (Ack 0)]"
proof -
  define t where "t = fst (listen_run ListenTask_new (demo_listen @ [(demo_listen_env 0, Progress (Centered True))]))"
  have "lt_running t" "demo_addr \<in> lt_entered t" "(demo_addr, 0) \<in> set (lt_last_response t)"
    by (simp_all add: t_def demo_listen_defs)
  from silent_peer_enters_without_release [OF this, of "demo_listen_env (5 * 10 ^ 9)" "demo_listen_env (5 * 10 ^ 9)" "''ab''" Left]
  show ?thesis by (simp add: t_def demo_listen_env_def)
qed

end
