(* ===== verification/Client_Manager.thy ===== *)
theory Client_Manager
  imports Switch_Gate Emulation_Task
begin

text \<open>
  The configured clients, \<^verbatim>\<open>lan-mouse/src/client.rs\<close>, with their configuration and state as in
  \<^verbatim>\<open>lan-mouse-ipc/src/lib.rs\<close>. The slab that holds them is a third-party container: it is a list of its
  live entries in the order of their keys, and the key of a new entry is chosen by the argument
  \<open>alloc\<close>, of which only \<open>slab_keys\<close> is assumed. The commit of the own build is an argument, too.
\<close>

section \<open>Configuration and state of a client\<close>

datatype IpcPosition = PosLeft | PosRight | PosTop | PosBottom

fun IpcPosition_opposite :: "IpcPosition \<Rightarrow> IpcPosition" where
  "IpcPosition_opposite PosLeft = PosRight"
| "IpcPosition_opposite PosRight = PosLeft"
| "IpcPosition_opposite PosTop = PosBottom"
| "IpcPosition_opposite PosBottom = PosTop"

fun IpcPosition_to_string :: "IpcPosition \<Rightarrow> string" where
  "IpcPosition_to_string PosLeft = ''left''"
| "IpcPosition_to_string PosRight = ''right''"
| "IpcPosition_to_string PosTop = ''top''"
| "IpcPosition_to_string PosBottom = ''bottom''"

text \<open>Both \<^verbatim>\<open>from_str\<close> and \<^verbatim>\<open>try_from\<close>; the error of the former carries the text.\<close>

definition IpcPosition_from_str :: "string \<Rightarrow> string + IpcPosition" where
  "IpcPosition_from_str s =
     (if s = ''left'' then Inr PosLeft
      else if s = ''right'' then Inr PosRight
      else if s = ''top'' then Inr PosTop
      else if s = ''bottom'' then Inr PosBottom
      else Inl s)"

fun to_ipc_pos :: "Position \<Rightarrow> IpcPosition" where
  "to_ipc_pos Position.Left = PosLeft"
| "to_ipc_pos Position.Right = PosRight"
| "to_ipc_pos Position.Top = PosTop"
| "to_ipc_pos Position.Bottom = PosBottom"

definition DEFAULT_PORT :: u16 where "DEFAULT_PORT = 4242"

record ClientConfig =
  cc_hostname :: "string option"
  cc_fix_ips :: "IpAddr list"
  cc_port :: u16
  cc_pos :: IpcPosition
  cc_switch_target :: "SwitchHost option"

definition ClientConfig_default :: ClientConfig where
  "ClientConfig_default = \<lparr>cc_hostname = None, cc_fix_ips = [], cc_port = DEFAULT_PORT, cc_pos = PosLeft,
     cc_switch_target = None\<rparr>"

record ClientState =
  cs_active :: bool
  cs_active_addr :: "SocketAddr option"
  cs_alive :: bool
  cs_keyboard_ready :: bool
  cs_pointer_ready :: bool
  cs_peer_session_epoch :: u64
  cs_dns_ips :: "IpAddr list"
  cs_ips :: "IpAddr set"
  cs_has_pressed_keys :: bool
  cs_resolving :: bool
  cs_peer_commit :: "u8 list option"

definition ClientState_default :: ClientState where
  "ClientState_default = \<lparr>cs_active = False, cs_active_addr = None, cs_alive = False, cs_keyboard_ready = False,
     cs_pointer_ready = False, cs_peer_session_epoch = 0, cs_dns_ips = [], cs_ips = {},
     cs_has_pressed_keys = False, cs_resolving = False, cs_peer_commit = None\<rparr>"

text \<open>A client of the configuration file.\<close>

record ConfigClient =
  cl_ips :: "IpAddr set"
  cl_hostname :: "string option"
  cl_port :: u16
  cl_pos :: IpcPosition
  cl_active :: bool
  cl_switch_target :: "SwitchHost option"

section \<open>The slab\<close>

type_synonym ClientManager = "(ClientHandle \<times> ClientConfig \<times> ClientState) list"

text \<open>
  The key of a new entry, given the live keys, or \<^const>\<open>None\<close> where the slab cannot grow and panics. The
  documentation of the slab promises a key that no live entry has; it is the index of a vector, so it is
  below half of the address range.
\<close>

type_synonym alloc = "ClientHandle list \<Rightarrow> ClientHandle option"

definition slab_keys :: "alloc \<Rightarrow> bool" where
  "slab_keys alloc \<longleftrightarrow> (\<forall>ks k. alloc ks = Some k \<longrightarrow> k \<notin> set ks \<and> k < 2 ^ 63)"

definition slab_get :: "ClientManager \<Rightarrow> ClientHandle \<Rightarrow> (ClientConfig \<times> ClientState) option" where
  "slab_get m handle = map_of m handle"

definition slab_modify ::
    "ClientHandle \<Rightarrow> (ClientConfig \<times> ClientState \<Rightarrow> ClientConfig \<times> ClientState) \<Rightarrow> ClientManager \<Rightarrow> ClientManager" where
  "slab_modify handle f m = map (\<lambda>(k, e). (k, if k = handle then f e else e)) m"

definition slab_insert ::
    "alloc \<Rightarrow> ClientConfig \<times> ClientState \<Rightarrow> ClientManager \<Rightarrow> (ClientHandle \<times> ClientManager) option" where
  "slab_insert alloc e m = map_option (\<lambda>k. (k, insort_key fst (k, e) m)) (alloc (map fst m))"

definition slab_remove :: "ClientHandle \<Rightarrow> ClientManager \<Rightarrow> ClientManager" where
  "slab_remove handle m = filter (\<lambda>(k, _). k \<noteq> handle) m"

section \<open>Operations of the manager\<close>

definition cm_clients :: "ClientManager \<Rightarrow> (ClientConfig \<times> ClientState) list" where
  "cm_clients m = map snd m"

definition cm_set_config :: "ClientHandle \<Rightarrow> ClientConfig \<Rightarrow> ClientManager \<Rightarrow> ClientManager" where
  "cm_set_config handle c = slab_modify handle (\<lambda>(_, s). (c, s))"

definition cm_set_state :: "ClientHandle \<Rightarrow> ClientState \<Rightarrow> ClientManager \<Rightarrow> ClientManager" where
  "cm_set_state handle s = slab_modify handle (\<lambda>(c, _). (c, s))"

definition cm_add_client :: "alloc \<Rightarrow> ClientManager \<Rightarrow> (ClientHandle \<times> ClientManager) option" where
  "cm_add_client alloc m = slab_insert alloc (ClientConfig_default, ClientState_default) m"

text \<open>The set of addresses becomes a vector in an arbitrary order, \<open>order\<close>.\<close>

definition cm_add_with_config ::
    "alloc \<Rightarrow> (IpAddr set \<Rightarrow> IpAddr list) \<Rightarrow> ConfigClient \<Rightarrow> ClientManager \<Rightarrow> (ClientHandle \<times> ClientManager) option" where
  "cm_add_with_config alloc order cl m =
     (let c = \<lparr>cc_hostname = cl_hostname cl, cc_fix_ips = order (cl_ips cl), cc_port = cl_port cl,
               cc_pos = cl_pos cl, cc_switch_target = cl_switch_target cl\<rparr>;
          s = ClientState_default\<lparr>cs_active := cl_active cl, cs_ips := set (cc_fix_ips c)\<rparr>
      in map_option (\<lambda>(handle, m). (handle, cm_set_state handle s (cm_set_config handle c m)))
           (cm_add_client alloc m))"

definition cm_activate_client :: "ClientHandle \<Rightarrow> ClientManager \<Rightarrow> bool \<times> ClientManager" where
  "cm_activate_client handle m = (case slab_get m handle of
     Some (_, s) \<Rightarrow>
       if \<not> cs_active s then (True, slab_modify handle (\<lambda>(c, s). (c, s\<lparr>cs_active := True\<rparr>)) m) else (False, m)
   | None \<Rightarrow> (False, m))"

definition cm_deactivate_client :: "ClientHandle \<Rightarrow> ClientManager \<Rightarrow> bool \<times> ClientManager" where
  "cm_deactivate_client handle m = (case slab_get m handle of
     Some (_, s) \<Rightarrow>
       if cs_active s then (True, slab_modify handle (\<lambda>(c, s). (c, s\<lparr>cs_active := False\<rparr>)) m) else (False, m)
   | None \<Rightarrow> (False, m))"

definition cm_get_client :: "ClientManager \<Rightarrow> SocketAddr \<Rightarrow> ClientHandle option" where
  "cm_get_client m addr = map_option fst (find (\<lambda>(_, _, s). cs_active s \<and> fst addr \<in> cs_ips s) m)"

definition cm_client_at :: "ClientManager \<Rightarrow> IpcPosition \<Rightarrow> ClientHandle option" where
  "cm_client_at m pos = map_option fst (find (\<lambda>(_, c, s). cs_active s \<and> cc_pos c = pos) m)"

definition cm_get_hostname :: "ClientManager \<Rightarrow> ClientHandle \<Rightarrow> string option" where
  "cm_get_hostname m handle = Option.bind (slab_get m handle) (\<lambda>(c, _). cc_hostname c)"

definition cm_get_pos :: "ClientManager \<Rightarrow> ClientHandle \<Rightarrow> IpcPosition option" where
  "cm_get_pos m handle = map_option (\<lambda>(c, _). cc_pos c) (slab_get m handle)"

definition cm_remove_client ::
    "ClientHandle \<Rightarrow> ClientManager \<Rightarrow> (ClientConfig \<times> ClientState) option \<times> ClientManager" where
  "cm_remove_client handle m = (slab_get m handle, slab_remove handle m)"

definition cm_get_state :: "ClientManager \<Rightarrow> ClientHandle \<Rightarrow> (ClientConfig \<times> ClientState) option" where
  "cm_get_state m handle = slab_get m handle"

definition cm_get_client_states :: "ClientManager \<Rightarrow> (ClientHandle \<times> ClientConfig \<times> ClientState) list" where
  "cm_get_client_states m = m"

definition cm_update_ips :: "ClientHandle \<Rightarrow> ClientManager \<Rightarrow> ClientManager" where
  "cm_update_ips handle = slab_modify handle (\<lambda>(c, s). (c, s\<lparr>cs_ips := set (cc_fix_ips c @ cs_dns_ips s)\<rparr>))"

definition cm_set_fix_ips :: "ClientHandle \<Rightarrow> IpAddr list \<Rightarrow> ClientManager \<Rightarrow> ClientManager" where
  "cm_set_fix_ips handle ips m =
     cm_update_ips handle (slab_modify handle (\<lambda>(c, s). (c\<lparr>cc_fix_ips := ips\<rparr>, s)) m)"

definition cm_set_dns_ips :: "ClientHandle \<Rightarrow> IpAddr list \<Rightarrow> ClientManager \<Rightarrow> ClientManager" where
  "cm_set_dns_ips handle ips m =
     cm_update_ips handle (slab_modify handle (\<lambda>(c, s). (c, s\<lparr>cs_dns_ips := ips\<rparr>)) m)"

definition cm_set_hostname :: "ClientHandle \<Rightarrow> string option \<Rightarrow> ClientManager \<Rightarrow> bool \<times> ClientManager" where
  "cm_set_hostname handle hostname m = (case slab_get m handle of
     None \<Rightarrow> (False, m)
   | Some (c, _) \<Rightarrow>
       if cc_hostname c \<noteq> hostname
       then (True, cm_update_ips handle
               (slab_modify handle
                  (\<lambda>(c, s). (c\<lparr>cc_hostname := hostname\<rparr>, s\<lparr>cs_active_addr := None, cs_dns_ips := []\<rparr>)) m))
       else (False, m))"

definition cm_set_port :: "ClientHandle \<Rightarrow> u16 \<Rightarrow> ClientManager \<Rightarrow> ClientManager" where
  "cm_set_port handle port = slab_modify handle (\<lambda>(c, s).
     if cc_port c \<noteq> port
     then (c\<lparr>cc_port := port\<rparr>, s\<lparr>cs_active_addr := map_option (\<lambda>a. (fst a, port)) (cs_active_addr s)\<rparr>)
     else (c, s))"

definition cm_set_pos :: "ClientHandle \<Rightarrow> IpcPosition \<Rightarrow> ClientManager \<Rightarrow> bool \<times> ClientManager" where
  "cm_set_pos handle pos m = (case slab_get m handle of
     Some (c, s) \<Rightarrow>
       if cc_pos c \<noteq> pos then (cs_active s, slab_modify handle (\<lambda>(c, s). (c\<lparr>cc_pos := pos\<rparr>, s)) m) else (False, m)
   | None \<Rightarrow> (False, m))"

definition cm_set_switch_target :: "ClientHandle \<Rightarrow> SwitchHost option \<Rightarrow> ClientManager \<Rightarrow> ClientManager" where
  "cm_set_switch_target handle target = slab_modify handle (\<lambda>(c, s). (c\<lparr>cc_switch_target := target\<rparr>, s))"

definition cm_set_resolving :: "ClientHandle \<Rightarrow> bool \<Rightarrow> ClientManager \<Rightarrow> ClientManager" where
  "cm_set_resolving handle status = slab_modify handle (\<lambda>(c, s). (c, s\<lparr>cs_resolving := status\<rparr>))"

definition cm_switch_target :: "ClientManager \<Rightarrow> ClientHandle \<Rightarrow> SwitchHost option" where
  "cm_switch_target m handle = Option.bind (slab_get m handle) (\<lambda>(c, _). cc_switch_target c)"

definition cm_registered_clients :: "ClientManager \<Rightarrow> ClientHandle list" where
  "cm_registered_clients m = map fst m"

definition cm_active_clients :: "ClientManager \<Rightarrow> ClientHandle list" where
  "cm_active_clients m = map fst (filter (\<lambda>(_, _, s). cs_active s) m)"

definition cm_set_active_addr :: "ClientHandle \<Rightarrow> SocketAddr option \<Rightarrow> ClientManager \<Rightarrow> ClientManager" where
  "cm_set_active_addr handle addr = slab_modify handle (\<lambda>(c, s). (c, s\<lparr>cs_active_addr := addr\<rparr>))"

definition cm_set_alive :: "ClientHandle \<Rightarrow> bool \<Rightarrow> ClientManager \<Rightarrow> ClientManager" where
  "cm_set_alive handle alive = slab_modify handle (\<lambda>(c, s). (c, s\<lparr>cs_alive := alive\<rparr>))"

definition cm_set_peer_commit :: "ClientHandle \<Rightarrow> u8 list option \<Rightarrow> ClientManager \<Rightarrow> bool \<times> ClientManager" where
  "cm_set_peer_commit handle commit m = (case slab_get m handle of
     None \<Rightarrow> (False, m)
   | Some (_, s) \<Rightarrow>
       if cs_peer_commit s = commit then (False, m)
       else (True, slab_modify handle (\<lambda>(c, s). (c, s\<lparr>cs_peer_commit := commit\<rparr>)) m))"

definition cm_set_peer_readiness ::
    "ClientHandle \<Rightarrow> bool \<Rightarrow> bool \<Rightarrow> u64 \<Rightarrow> ClientManager \<Rightarrow> bool \<times> ClientManager" where
  "cm_set_peer_readiness handle keyboard pointer epoch m = (case slab_get m handle of
     None \<Rightarrow> (False, m)
   | Some _ \<Rightarrow>
       if epoch = 0 \<and> (keyboard \<or> pointer) then (False, m)
       else (True, slab_modify handle (\<lambda>(c, s).
               (c, s\<lparr>cs_keyboard_ready := keyboard, cs_pointer_ready := pointer, cs_peer_session_epoch := epoch\<rparr>)) m))"

definition cm_clear_peer_readiness :: "ClientHandle \<Rightarrow> ClientManager \<Rightarrow> ClientManager" where
  "cm_clear_peer_readiness handle = slab_modify handle (\<lambda>(c, s).
     (c, s\<lparr>cs_keyboard_ready := False, cs_pointer_ready := False, cs_peer_session_epoch := 0\<rparr>))"

definition peer_protocol_compatible :: "u8 list \<Rightarrow> ClientState \<Rightarrow> bool" where
  "peer_protocol_compatible local_commit s \<longleftrightarrow> cs_peer_commit s = Some local_commit"

definition cm_peer_input_readiness ::
    "u8 list \<Rightarrow> ClientManager \<Rightarrow> ClientHandle \<Rightarrow> (bool \<times> bool \<times> bool \<times> u64) option" where
  "cm_peer_input_readiness local_commit m handle = map_option (\<lambda>(_, s).
     let compatible = peer_protocol_compatible local_commit s
     in (cs_alive s, compatible \<and> cs_keyboard_ready s, compatible \<and> cs_pointer_ready s, cs_peer_session_epoch s))
     (slab_get m handle)"

definition cm_peer_protocol_compatible :: "u8 list \<Rightarrow> ClientManager \<Rightarrow> ClientHandle \<Rightarrow> bool" where
  "cm_peer_protocol_compatible local_commit m handle =
     (case slab_get m handle of Some (_, s) \<Rightarrow> peer_protocol_compatible local_commit s | None \<Rightarrow> False)"

definition cm_active_addr :: "ClientManager \<Rightarrow> ClientHandle \<Rightarrow> SocketAddr option" where
  "cm_active_addr m handle = Option.bind (slab_get m handle) (\<lambda>(_, s). cs_active_addr s)"

definition cm_alive :: "ClientManager \<Rightarrow> ClientHandle \<Rightarrow> bool" where
  "cm_alive m handle = (case slab_get m handle of Some (_, s) \<Rightarrow> cs_alive s | None \<Rightarrow> False)"

definition cm_get_port :: "ClientManager \<Rightarrow> ClientHandle \<Rightarrow> u16 option" where
  "cm_get_port m handle = map_option (\<lambda>(c, _). cc_port c) (slab_get m handle)"

definition cm_get_ips :: "ClientManager \<Rightarrow> ClientHandle \<Rightarrow> IpAddr set option" where
  "cm_get_ips m handle = map_option (\<lambda>(_, s). cs_ips s) (slab_get m handle)"

end
