(* ===== verification/Connect_Task.thy ===== *)
theory Connect_Task
  imports Client_Manager
begin

text \<open>
  The outgoing connections, \<^verbatim>\<open>lan-mouse/src/connect.rs\<close>: who dials which peer, how a connection is
  watched, and what its datagrams do to the clients. Opening the socket and the DTLS handshake belong
  to the network libraries; their outcomes are arguments. The tasks run on one thread and hold a lock
  only between two awaits, so that taking a lock never waits. A connection is known by a number, as
  \<^verbatim>\<open>Arc::ptr_eq\<close> tells connections apart. The channel to the capture is open as long as the
  connections are used.
\<close>

section \<open>State\<close>

datatype LanMouseConnectionError = Webrtc | NotConnected | TargetEmulationDisabled | ConnectionTimeout

text \<open>The tasks, each at the await where it stands.\<close>

datatype ConnTask =
    Requested ClientHandle
  | Dialing ClientHandle "SocketAddr set"
  | Greeting ClientHandle SocketAddr nat
  | Pinging ClientHandle SocketAddr nat nat
  | Receiving ClientHandle SocketAddr nat "u8 list" "u64 option"

datatype ConnEffect = Transmit nat ProtoEvent | CloseConn nat | Deliver ClientHandle ProtoEvent

record LanMouseConnection =
  cn_clients :: ClientManager
  cn_conns :: "SocketAddr \<rightharpoonup> nat"
  cn_connecting :: "ClientHandle set"
  cn_ping_response :: "SocketAddr set"
  cn_tasks :: "ConnTask list"
  cn_next :: nat
  cn_log :: "ConnEffect list"

definition LanMouseConnection_new :: "ClientManager \<Rightarrow> LanMouseConnection" where
  "LanMouseConnection_new m = \<lparr>cn_clients = m, cn_conns = Map.empty, cn_connecting = {}, cn_ping_response = {},
     cn_tasks = [], cn_next = 0, cn_log = []\<rparr>"

definition effect :: "ConnEffect \<Rightarrow> LanMouseConnection \<Rightarrow> LanMouseConnection" where
  "effect e s = s\<lparr>cn_log := cn_log s @ [e]\<rparr>"

definition on_clients :: "(ClientManager \<Rightarrow> ClientManager) \<Rightarrow> LanMouseConnection \<Rightarrow> LanMouseConnection" where
  "on_clients f s = s\<lparr>cn_clients := f (cn_clients s)\<rparr>"

section \<open>The end of a connection\<close>

definition disconnect :: "ClientHandle \<Rightarrow> SocketAddr \<Rightarrow> nat \<Rightarrow> LanMouseConnection \<Rightarrow> bool \<times> LanMouseConnection" where
  "disconnect handle addr conn s =
     (if cn_conns s addr \<noteq> Some conn then (False, s)
      else (True, on_clients (\<lambda>m. cm_clear_peer_readiness handle (snd (cm_set_peer_commit handle None
              (cm_set_alive handle False (cm_set_active_addr handle None m)))))
            (s\<lparr>cn_conns := (cn_conns s)(addr := None)\<rparr>)))"

text \<open>Closing waits for the transport at most a second, whatever it answers.\<close>

definition fail_connection :: "ClientHandle \<Rightarrow> SocketAddr \<Rightarrow> nat \<Rightarrow> LanMouseConnection \<Rightarrow> LanMouseConnection" where
  "fail_connection handle addr conn s =
     (let (was_current, s) = disconnect handle addr conn (s\<lparr>cn_ping_response := cn_ping_response s - {addr}\<rparr>);
          s = (if was_current then effect (Deliver handle (Readiness False False 0)) s else s)
      in effect (CloseConn conn) s)"

section \<open>Sending\<close>

datatype SendOutcome = Sent | SendError | SendTimedOut

definition request_connection :: "ClientHandle \<Rightarrow> LanMouseConnection \<Rightarrow> LanMouseConnection" where
  "request_connection handle s =
     (if cm_active_addr (cn_clients s) handle \<noteq> None
         \<or> \<not> (case cm_get_state (cn_clients s) handle of Some (_, st) \<Rightarrow> cs_active st | None \<Rightarrow> False)
      then s
      else s\<lparr>cn_tasks := cn_tasks s @ [Requested handle]\<rparr>)"

definition connection_send ::
    "ProtoEvent \<Rightarrow> ClientHandle \<Rightarrow> SendOutcome \<Rightarrow> LanMouseConnection
      \<Rightarrow> (LanMouseConnectionError + unit) \<times> LanMouseConnection" where
  "connection_send event handle outcome s =
     (case Option.bind (cm_active_addr (cn_clients s) handle) (\<lambda>addr. map_option (Pair addr) (cn_conns s addr)) of
        Some (addr, conn) \<Rightarrow>
          if \<not> cm_alive (cn_clients s) handle then (Inl TargetEmulationDisabled, s)
          else (case outcome of
                  Sent \<Rightarrow> (Inr (), effect (Transmit conn event) s)
                | SendError \<Rightarrow> (Inl Webrtc, fail_connection handle addr conn s)
                | SendTimedOut \<Rightarrow> (Inl ConnectionTimeout, fail_connection handle addr conn s))
      | None \<Rightarrow> (Inl NotConnected, request_connection handle s))"

definition connection_maintenance :: "LanMouseConnection \<Rightarrow> LanMouseConnection" where
  "connection_maintenance s = fold request_connection (cm_active_clients (cn_clients s)) s"

section \<open>Dialing\<close>

text \<open>The start of the task of \<^verbatim>\<open>request_connection\<close>, up to the handshakes of \<^verbatim>\<open>connect_any\<close>.\<close>

definition begin_attempt :: "ClientHandle \<Rightarrow> LanMouseConnection \<Rightarrow> ConnTask list \<times> LanMouseConnection" where
  "begin_attempt handle s =
     (if handle \<in> cn_connecting s then ([], s)
      else case cm_get_ips (cn_clients s) handle of
        Some ips \<Rightarrow>
          (let port = (case cm_get_port (cn_clients s) handle of Some p \<Rightarrow> p | None \<Rightarrow> DEFAULT_PORT)
           in ([Dialing handle ((\<lambda>ip. (ip, port)) ` ips)], s\<lparr>cn_connecting := insert handle (cn_connecting s)\<rparr>))
      | None \<Rightarrow> ([], s))"

text \<open>The first address that answers, or none of them.\<close>

definition connected :: "ClientHandle \<Rightarrow> SocketAddr option \<Rightarrow> LanMouseConnection \<Rightarrow> ConnTask list \<times> LanMouseConnection" where
  "connected handle result s =
     (let done = s\<lparr>cn_connecting := cn_connecting s - {handle}\<rparr>
      in case result of
           None \<Rightarrow> ([], done)
         | Some addr \<Rightarrow>
             ([Greeting handle addr (cn_next s)],
              on_clients (cm_set_active_addr handle (Some addr))
                (done\<lparr>cn_conns := (cn_conns s)(addr \<mapsto> cn_next s), cn_next := Suc (cn_next s)\<rparr>)))"

text \<open>The greeting is sent once; then the connection is watched and read, even if that failed.\<close>

definition greeted ::
    "u8 list \<Rightarrow> ClientHandle \<Rightarrow> SocketAddr \<Rightarrow> nat \<Rightarrow> bool \<Rightarrow> LanMouseConnection \<Rightarrow> ConnTask list \<times> LanMouseConnection" where
  "greeted local_commit handle addr conn ok s =
     ([Pinging handle addr conn 0, Receiving handle addr conn (replicate MAX_EVENT_SIZE 0) None],
      if ok then effect (Transmit conn (Hello local_commit)) s else s)"

section \<open>Watching\<close>

definition ping_sent ::
    "ClientHandle \<Rightarrow> SocketAddr \<Rightarrow> nat \<Rightarrow> nat \<Rightarrow> bool \<Rightarrow> LanMouseConnection \<Rightarrow> ConnTask list \<times> LanMouseConnection" where
  "ping_sent handle addr conn n ok s =
     (if ok then ([Pinging handle addr conn (Suc n)], effect (Transmit conn Ping) s)
      else ([], fail_connection handle addr conn s))"

text \<open>After four pings one answer must have come.\<close>

definition ping_round ::
    "ClientHandle \<Rightarrow> SocketAddr \<Rightarrow> nat \<Rightarrow> LanMouseConnection \<Rightarrow> ConnTask list \<times> LanMouseConnection" where
  "ping_round handle addr conn s =
     (if addr \<in> cn_ping_response s
      then ([Pinging handle addr conn 0], s\<lparr>cn_ping_response := cn_ping_response s - {addr}\<rparr>)
      else ([], fail_connection handle addr conn s))"

section \<open>Reading\<close>

definition record_pong :: "ClientHandle \<Rightarrow> SocketAddr \<Rightarrow> LanMouseConnection \<Rightarrow> LanMouseConnection" where
  "record_pong handle addr = on_clients (\<lambda>m. cm_set_alive handle True (cm_set_active_addr handle (Some addr) m))"

definition accept_readiness_epoch :: "u64 option \<Rightarrow> bool \<Rightarrow> bool \<Rightarrow> u64 \<Rightarrow> bool \<times> u64 option" where
  "accept_readiness_epoch latest keyboard_ready pointer_ready candidate =
     (if candidate = 0 then (latest = None \<and> \<not> keyboard_ready \<and> \<not> pointer_ready, latest)
      else if (case latest of Some current \<Rightarrow> candidate < current | None \<Rightarrow> False) then (False, latest)
      else (True, Some candidate))"

definition handle_message ::
    "ClientHandle \<Rightarrow> SocketAddr \<Rightarrow> ProtoEvent \<Rightarrow> u64 option \<Rightarrow> LanMouseConnection \<Rightarrow> u64 option \<times> LanMouseConnection" where
  "handle_message handle addr event latest s = (case event of
     Pong _ \<Rightarrow>
       (latest, (record_pong handle addr s)\<lparr>cn_ping_response := insert addr (cn_ping_response s)\<rparr>)
   | Hello commit \<Rightarrow>
       (let (changed, m) = cm_set_peer_commit handle (Some commit) (cn_clients s);
            s = s\<lparr>cn_clients := m\<rparr>
        in (latest, if changed then effect (Deliver handle (Hello commit)) s else s))
   | Readiness keyboard_ready pointer_ready session_epoch \<Rightarrow>
       (let (accepted, latest) = accept_readiness_epoch latest keyboard_ready pointer_ready session_epoch
        in (latest,
            if \<not> accepted then s
            else effect (Deliver handle event)
                   (on_clients (\<lambda>m. snd (cm_set_peer_readiness handle keyboard_ready pointer_ready session_epoch m)) s)))
   | _ \<Rightarrow> (latest, effect (Deliver handle event) s))"

text \<open>A datagram overwrites the beginning of the buffer; a panic in a task ends that task.\<close>

definition overwrite :: "u8 list \<Rightarrow> u8 list \<Rightarrow> u8 list" where
  "overwrite buf data = take (length buf) (data @ drop (length data) buf)"

definition datagram_received ::
    "ClientHandle \<Rightarrow> SocketAddr \<Rightarrow> nat \<Rightarrow> u8 list \<Rightarrow> u64 option \<Rightarrow> u8 list option \<Rightarrow> LanMouseConnection
      \<Rightarrow> ConnTask list \<times> LanMouseConnection" where
  "datagram_received handle addr conn buf latest datagram s = (case datagram of
     None \<Rightarrow> ([], fail_connection handle addr conn s)
   | Some data \<Rightarrow>
       (let buf = overwrite buf data
        in if cn_conns s addr \<noteq> Some conn then ([], fail_connection handle addr conn s)
           else case ProtoEvent_try_from buf of
             Ok event \<Rightarrow>
               (let (latest, s) = handle_message handle addr event latest s
                in ([Receiving handle addr conn buf latest], s))
           | Err _ \<Rightarrow> ([Receiving handle addr conn buf latest], s)
           | Panic \<Rightarrow> ([], s)))"

section \<open>The tasks together\<close>

datatype TaskOutcome = Scheduled | Dialed "SocketAddr option" | SendResult bool | ReadResult "u8 list option"

text \<open>What a task does next; \<^const>\<open>None\<close> where it does not wait for this.\<close>

fun task_continue ::
    "u8 list \<Rightarrow> ConnTask \<Rightarrow> TaskOutcome \<Rightarrow> LanMouseConnection \<Rightarrow> (ConnTask list \<times> LanMouseConnection) option" where
  "task_continue lc (Requested handle) Scheduled s = Some (begin_attempt handle s)"
| "task_continue lc (Dialing handle addrs) (Dialed result) s =
     (if (case result of Some a \<Rightarrow> a \<in> addrs | None \<Rightarrow> True) then Some (connected handle result s) else None)"
| "task_continue lc (Greeting handle addr conn) (SendResult ok) s = Some (greeted lc handle addr conn ok s)"
| "task_continue lc (Pinging handle addr conn n) (SendResult ok) s =
     (if n < 4 then Some (ping_sent handle addr conn n ok s) else None)"
| "task_continue lc (Pinging handle addr conn n) Scheduled s = (if n < 4 then None else Some (ping_round handle addr conn s))"
| "task_continue lc (Receiving handle addr conn buf latest) (ReadResult r) s =
     Some (datagram_received handle addr conn buf latest r s)"
| "task_continue _ _ _ _ = None"

datatype ConnInput =
    Maintain
  | SendEvent ProtoEvent ClientHandle SendOutcome
  | RunTask nat TaskOutcome
  | ClientsChanged ClientManager

definition run_task :: "u8 list \<Rightarrow> nat \<Rightarrow> TaskOutcome \<Rightarrow> LanMouseConnection \<Rightarrow> LanMouseConnection option" where
  "run_task lc i outcome s =
     (if length (cn_tasks s) \<le> i then None
      else map_option (\<lambda>(next, s). s\<lparr>cn_tasks := take i (cn_tasks s) @ next @ drop (Suc i) (cn_tasks s)\<rparr>)
             (task_continue lc (cn_tasks s ! i) outcome s))"

text \<open>The service changes the clients that it shares with the connections.\<close>

fun conn_step :: "u8 list \<Rightarrow> ConnInput \<Rightarrow> LanMouseConnection \<Rightarrow> LanMouseConnection option" where
  "conn_step lc Maintain s = Some (connection_maintenance s)"
| "conn_step lc (SendEvent event handle outcome) s = Some (snd (connection_send event handle outcome s))"
| "conn_step lc (RunTask i outcome) s = run_task lc i outcome s"
| "conn_step lc (ClientsChanged m) s = Some (s\<lparr>cn_clients := m\<rparr>)"

primrec conn_run :: "u8 list \<Rightarrow> LanMouseConnection \<Rightarrow> ConnInput list \<Rightarrow> LanMouseConnection option" where
  "conn_run lc s [] = Some s"
| "conn_run lc s (x # xs) = Option.bind (conn_step lc x s) (\<lambda>s. conn_run lc s xs)"

end
