(* ===== verification/Connect_Inv.thy ===== *)
theory Connect_Inv
  imports Connect_Task Input_Proto_Props
begin

text \<open>
  The invariant of the outgoing connections: every connection in use is watched, at most one attempt
  per client is under way, and the receive buffers are whole, so that reading never panics.
\<close>

section \<open>Invariant\<close>

fun dialed :: "ConnTask \<Rightarrow> ClientHandle list" where
  "dialed (Dialing handle _) = [handle]"
| "dialed _ = []"

fun watches :: "SocketAddr \<Rightarrow> nat \<Rightarrow> ConnTask \<Rightarrow> bool" where
  "watches addr conn (Greeting _ a c) \<longleftrightarrow> a = addr \<and> c = conn"
| "watches addr conn (Pinging _ a c n) \<longleftrightarrow> a = addr \<and> c = conn \<and> n \<le> 4"
| "watches _ _ _ \<longleftrightarrow> False"

fun whole_buffer :: "ConnTask \<Rightarrow> bool" where
  "whole_buffer (Receiving _ _ _ buf _) \<longleftrightarrow> length buf = MAX_EVENT_SIZE"
| "whole_buffer _ \<longleftrightarrow> True"

definition conn_inv :: "LanMouseConnection \<Rightarrow> bool" where
  "conn_inv s \<longleftrightarrow> distinct (concat (map dialed (cn_tasks s))) \<and> cn_connecting s = set (concat (map dialed (cn_tasks s)))
     \<and> (\<forall>addr conn. cn_conns s addr = Some conn \<longrightarrow> list_ex (watches addr conn) (cn_tasks s))
     \<and> list_all whole_buffer (cn_tasks s)"

text \<open>What a piece of a task may change: the dialing handles it adds or drops, the connections it registers or removes.\<close>

lemma fail_connection_fields [simp]:
  "cn_connecting (fail_connection handle addr conn s) = cn_connecting s"
  "cn_tasks (fail_connection handle addr conn s) = cn_tasks s"
  "cn_next (fail_connection handle addr conn s) = cn_next s"
  "cn_conns (fail_connection handle addr conn s) =
     (if cn_conns s addr = Some conn then (cn_conns s)(addr := None) else cn_conns s)"
  by (simp_all add: fail_connection_def disconnect_def on_clients_def effect_def)

lemma handle_message_fields [simp]:
  "cn_connecting (snd (handle_message handle addr event latest s)) = cn_connecting s"
  "cn_tasks (snd (handle_message handle addr event latest s)) = cn_tasks s"
  "cn_conns (snd (handle_message handle addr event latest s)) = cn_conns s"
  by (simp_all add: handle_message_def record_pong_def on_clients_def effect_def Let_def case_prod_beta split: ProtoEvent.split)

lemma length_overwrite: "length (overwrite buf data) = length buf"
  by (simp add: overwrite_def)

lemma try_from_whole: "length buf = MAX_EVENT_SIZE \<Longrightarrow> ProtoEvent_try_from buf \<noteq> Panic"
proof -
  assume "length buf = MAX_EVENT_SIZE"
  then obtain n data where buf: "buf = n # data" "length data = 20" by (cases buf) (auto simp: MAX_EVENT_SIZE_def)
  have "decode_payload t data \<noteq> Panic" for t using decode_payload_total [OF buf(2), of t] by auto
  with buf(1) show ?thesis
    using EventType_try_from_cases [of n] by (auto simp: ProtoEvent_try_from_def split: outcome.splits)
qed

lemma conn_inv_request: "conn_inv s \<Longrightarrow> conn_inv (request_connection handle s)"
  by (simp add: conn_inv_def request_connection_def)

lemma conn_inv_fail: "conn_inv s \<Longrightarrow> conn_inv (fail_connection handle addr conn s)"
  by (auto simp: conn_inv_def)

lemma conn_inv_send: "conn_inv s \<Longrightarrow> conn_inv (snd (connection_send event handle outcome s))"
proof -
  assume inv: "conn_inv s"
  then have "conn_inv (effect e s)" for e by (simp add: conn_inv_def effect_def)
  with inv show ?thesis
    by (simp add: connection_send_def conn_inv_request conn_inv_fail split: option.split SendOutcome.split)
qed

lemma conn_inv_maintenance: "conn_inv s \<Longrightarrow> conn_inv (connection_maintenance s)"
proof -
  have "conn_inv (fold request_connection hs s)" if "conn_inv s" for hs s
    using that by (induction hs arbitrary: s) (simp_all add: conn_inv_request)
  then show "conn_inv s \<Longrightarrow> conn_inv (connection_maintenance s)" by (simp add: connection_maintenance_def)
qed

text \<open>The task at a place in the list makes one move.\<close>

lemma conn_inv_replace:
  assumes "conn_inv s" "cn_tasks s = pre @ t # post"
    "set (concat (map dialed ts)) \<inter> set (concat (map dialed (pre @ post))) = {}" "distinct (concat (map dialed ts))"
    "cn_connecting s' = cn_connecting s - set (dialed t) \<union> set (concat (map dialed ts))"
    "\<And>addr conn. cn_conns s' addr = Some conn \<Longrightarrow>
       list_ex (watches addr conn) ts \<or> cn_conns s addr = Some conn \<and> \<not> watches addr conn t"
    "list_all whole_buffer ts"
  shows "conn_inv (s'\<lparr>cn_tasks := pre @ ts @ post\<rparr>)"
proof -
  have d: "distinct (concat (map dialed (pre @ t # post)))" and c: "cn_connecting s = set (concat (map dialed (pre @ t # post)))"
    and w: "\<And>addr conn. cn_conns s addr = Some conn \<Longrightarrow> list_ex (watches addr conn) (pre @ t # post)"
    and b: "list_all whole_buffer (pre @ t # post)"
    using assms(1) unfolding conn_inv_def assms(2) by blast+
  have "list_ex (watches addr conn) (pre @ ts @ post)" if "cn_conns s' addr = Some conn" for addr conn
    using assms(6) [OF that] w [of addr conn] by auto
  moreover have "distinct (concat (map dialed (pre @ ts @ post)))" using d assms(3,4) by (simp add: Int_Un_distrib) blast
  moreover have "cn_connecting s' = set (concat (map dialed (pre @ ts @ post)))" using c d assms(5) by auto
  ultimately show ?thesis using b assms(7) by (simp add: conn_inv_def)
qed

text \<open>Most moves neither dial nor register anything.\<close>

lemma conn_inv_plain:
  assumes "conn_inv s" "cn_tasks s = pre @ t # post" "dialed t = []" "list_all (\<lambda>t. dialed t = []) ts"
    "cn_connecting s' = cn_connecting s"
    "\<And>addr conn. cn_conns s' addr = Some conn \<Longrightarrow> cn_conns s addr = Some conn \<and> (watches addr conn t \<longrightarrow> list_ex (watches addr conn) ts)"
    "list_all whole_buffer ts"
  shows "conn_inv (s'\<lparr>cn_tasks := pre @ ts @ post\<rparr>)"
proof (rule conn_inv_replace [OF assms(1,2) _ _ _ _ assms(7)])
  have none: "concat (map dialed ts) = []" using assms(4) by (simp add: list_all_iff)
  show "set (concat (map dialed ts)) \<inter> set (concat (map dialed (pre @ post))) = {}" "distinct (concat (map dialed ts))"
    unfolding none by simp_all
  show "cn_connecting s' = cn_connecting s - set (dialed t) \<union> set (concat (map dialed ts))"
    unfolding none using assms(3,5) by simp
  show "list_ex (watches addr conn) ts \<or> cn_conns s addr = Some conn \<and> \<not> watches addr conn t"
    if "cn_conns s' addr = Some conn" for addr conn
    using assms(6) [OF that] by blast
qed

lemma received_spec:
  assumes "length buf = MAX_EVENT_SIZE" "datagram_received handle addr conn buf latest r s = (ts, s')"
  shows "cn_tasks s' = cn_tasks s \<and> cn_connecting s' = cn_connecting s \<and> list_all whole_buffer ts
    \<and> list_all (\<lambda>t. dialed t = []) ts \<and> (\<forall>a c. cn_conns s' a = Some c \<longrightarrow> cn_conns s a = Some c)"
  using assms
  by (auto simp: datagram_received_def Let_def case_prod_beta length_overwrite split: option.splits if_splits outcome.splits)

lemma begin_attempt_inv:
  assumes "conn_inv s" "cn_tasks s = pre @ Requested handle # post" "begin_attempt handle s = (ts, s1)"
  shows "cn_tasks s1 = cn_tasks s \<and> conn_inv (s1\<lparr>cn_tasks := pre @ ts @ post\<rparr>)"
proof (cases "ts = []")
  case True
  then have "s1 = s" using assms(3) by (auto simp: begin_attempt_def Let_def split: if_splits option.splits)
  with True show ?thesis using conn_inv_plain [OF assms(1,2), of "[]" s] by simp
next
  case False
  then obtain addrs where new: "handle \<notin> cn_connecting s" "ts = [Dialing handle addrs]"
    "s1 = s\<lparr>cn_connecting := insert handle (cn_connecting s)\<rparr>"
    using assms(3) by (auto simp: begin_attempt_def Let_def split: if_splits option.splits)
  have "handle \<notin> set (concat (map dialed (pre @ post)))"
    using new(1) assms(1,2) by (simp add: conn_inv_def)
  then have "conn_inv (s1\<lparr>cn_tasks := pre @ ts @ post\<rparr>)"
    using new by (intro conn_inv_replace [OF assms(1,2)]) auto
  with new show ?thesis by simp
qed

lemma connected_inv:
  assumes "conn_inv s" "cn_tasks s = pre @ Dialing handle addrs # post" "connected handle result s = (ts, s1)"
  shows "cn_tasks s1 = cn_tasks s \<and> conn_inv (s1\<lparr>cn_tasks := pre @ ts @ post\<rparr>)"
proof (cases result)
  case None
  then have "ts = []" "s1 = s\<lparr>cn_connecting := cn_connecting s - {handle}\<rparr>" using assms(3) by (simp_all add: connected_def)
  then show ?thesis using conn_inv_replace [OF assms(1,2), of "[]" s1] by simp
next
  case (Some addr)
  then have new: "ts = [Greeting handle addr (cn_next s)]" "cn_tasks s1 = cn_tasks s" "cn_connecting s1 = cn_connecting s - {handle}"
    "cn_conns s1 = (cn_conns s)(addr \<mapsto> cn_next s)"
    using assms(3) by (auto simp: connected_def on_clients_def)
  have "conn_inv (s1\<lparr>cn_tasks := pre @ ts @ post\<rparr>)"
    by (rule conn_inv_replace [OF assms(1,2)]) (use new in \<open>auto split: if_splits\<close>)
  with new show ?thesis by simp
qed

lemma task_continue_inv:
  assumes "conn_inv s" "cn_tasks s = pre @ t # post" "whole_buffer t" "task_continue lc t outcome s = Some (ts, s1)"
  shows "cn_tasks s1 = cn_tasks s \<and> conn_inv (s1\<lparr>cn_tasks := pre @ ts @ post\<rparr>)"
proof (cases t)
  case (Requested handle)
  then have "begin_attempt handle s = (ts, s1)" using assms(4) by (cases outcome) simp_all
  then show ?thesis by (rule begin_attempt_inv [OF assms(1) assms(2) [unfolded Requested]])
next
  case (Dialing handle addrs)
  then obtain result where "connected handle result s = (ts, s1)" using assms(4) by (cases outcome) (auto split: if_splits)
  then show ?thesis by (rule connected_inv [OF assms(1) assms(2) [unfolded Dialing]])
next
  case (Greeting handle addr conn)
  then obtain ok where "greeted lc handle addr conn ok s = (ts, s1)" using assms(4) by (cases outcome) auto
  then have "cn_tasks s1 = cn_tasks s" "cn_connecting s1 = cn_connecting s" "cn_conns s1 = cn_conns s"
    "ts = [Pinging handle addr conn 0, Receiving handle addr conn (replicate MAX_EVENT_SIZE 0) None]"
    by (auto simp: greeted_def effect_def split: if_splits)
  then show ?thesis using conn_inv_plain [OF assms(1,2), of ts s1] Greeting by simp
next
  case (Pinging handle addr conn n)
  then consider ok where "n < 4" "ping_sent handle addr conn n ok s = (ts, s1)" | "ping_round handle addr conn s = (ts, s1)"
    using assms(4) by (cases outcome) (auto split: if_splits)
  then have moved: "cn_tasks s1 = cn_tasks s" "cn_connecting s1 = cn_connecting s"
    "ts = [] \<and> s1 = fail_connection handle addr conn s \<or> cn_conns s1 = cn_conns s \<and> (\<exists>k \<le> 4. ts = [Pinging handle addr conn k])"
    by (cases; auto simp: ping_sent_def ping_round_def effect_def split: if_splits)+
  have "conn_inv (s1\<lparr>cn_tasks := pre @ ts @ post\<rparr>)"
    by (rule conn_inv_plain [OF assms(1,2)]) (use moved Pinging in \<open>auto split: if_splits\<close>)
  with moved show ?thesis by simp
next
  case (Receiving handle addr conn buf latest)
  then obtain r where "datagram_received handle addr conn buf latest r s = (ts, s1)" using assms(4) by (cases outcome) auto
  with assms(3) Receiving have moved: "cn_tasks s1 = cn_tasks s \<and> cn_connecting s1 = cn_connecting s \<and> list_all whole_buffer ts
      \<and> list_all (\<lambda>t. dialed t = []) ts \<and> (\<forall>a c. cn_conns s1 a = Some c \<longrightarrow> cn_conns s a = Some c)"
    by (intro received_spec) simp_all
  have "conn_inv (s1\<lparr>cn_tasks := pre @ ts @ post\<rparr>)"
    by (rule conn_inv_plain [OF assms(1,2)]) (use moved Receiving in auto)
  with moved show ?thesis by simp
qed

lemma conn_inv_task:
  assumes "conn_inv s" "run_task lc i outcome s = Some s'"
  shows "conn_inv s'"
proof -
  let ?pre = "take i (cn_tasks s)" and ?post = "drop (Suc i) (cn_tasks s)"
  have i: "i < length (cn_tasks s)" using assms(2) by (simp add: run_task_def split: if_splits)
  have tasks: "cn_tasks s = ?pre @ cn_tasks s ! i # ?post" using i by (rule id_take_nth_drop)
  have buf: "whole_buffer (cn_tasks s ! i)" using assms(1) i by (simp add: conn_inv_def list_all_length)
  obtain ts s1 where c: "task_continue lc (cn_tasks s ! i) outcome s = Some (ts, s1)"
    and s': "s' = s1\<lparr>cn_tasks := take i (cn_tasks s1) @ ts @ drop (Suc i) (cn_tasks s1)\<rparr>"
    using assms(2) by (auto simp: run_task_def split: if_splits)
  have "cn_tasks s1 = cn_tasks s \<and> conn_inv (s1\<lparr>cn_tasks := ?pre @ ts @ ?post\<rparr>)"
    using task_continue_inv [OF assms(1) tasks buf c] .
  with s' show ?thesis by simp
qed

section \<open>Reachable states\<close>

definition conn_initial :: "LanMouseConnection \<Rightarrow> bool" where
  "conn_initial s \<longleftrightarrow> (\<exists>m. s = LanMouseConnection_new m)"

lemma conn_inv_step:
  assumes "conn_inv s" "conn_step lc x s = Some s'"
  shows "conn_inv s'"
proof (cases x)
  case (RunTask i outcome)
  then show ?thesis using conn_inv_task [OF assms(1)] assms(2) by simp
next
  case (ClientsChanged m)
  then show ?thesis using assms by (auto simp: conn_inv_def)
next
  case Maintain
  then show ?thesis using conn_inv_maintenance [OF assms(1)] assms(2) by simp
next
  case (SendEvent event handle outcome)
  then show ?thesis using conn_inv_send [OF assms(1), of event handle outcome] assms(2) by simp
qed

interpretation connections: guarded_system conn_initial "\<lambda>s x. conn_step lc x s" conn_inv for lc
proof
  show "conn_inv s" if "conn_initial s" for s
    using that by (auto simp: conn_initial_def LanMouseConnection_new_def conn_inv_def)
  show "conn_inv s'" if "conn_inv s" "conn_step lc x s = Some s'" for s x s'
    using that by (rule conn_inv_step)
qed

lemma conn_run_inv:
  assumes "conn_run lc (LanMouseConnection_new m) xs = Some s"
  shows "conn_inv s"
proof -
  have "conn_inv s'" if "conn_inv s" "conn_run lc s xs = Some s'" for s s'
    using that by (induction xs arbitrary: s) (auto simp: bind_eq_Some_conv intro: conn_inv_step)
  moreover have "conn_inv (LanMouseConnection_new m)" by (simp add: LanMouseConnection_new_def conn_inv_def)
  ultimately show ?thesis using assms by blast
qed

end
