(* ===== verification/Notifier.thy ===== *)
theory Notifier
  imports Switch_Client
begin

text \<open>
  What the user is told, \<^verbatim>\<open>lan-mouse/src/notification.rs\<close>, and the texts of the errors it is made of.
  Showing a notification belongs to the desktop; here it is a value.
\<close>

section \<open>Texts of errors\<close>

fun GateError_to_string :: "GateError \<Rightarrow> string" where
  "GateError_to_string Busy = ''input bundle is already reserved''"
| "GateError_to_string PeerNotReady = ''peer keyboard and pointer bundle is not ready''"
| "GateError_to_string InvalidIdentity = ''request or lease identity is invalid''"
| "GateError_to_string StaleIdentity = ''request, lease, or grant identity is stale''"
| "GateError_to_string Expired = ''bundle lease or grant expired''"
| "GateError_to_string InvalidState = ''gate transition is not valid in the current state''"

text \<open>All that the program uses of an error of the HTTP library: its text and two classifications.\<close>

datatype RequestError = RequestError (request_text: string) (request_timeout: bool) (request_connect: bool)

text \<open>An error of the client; the status of a response and an error of the JSON parser are their texts.\<close>

type_synonym ClientFailure = "(RequestError, string, string) SwitchClientError"

fun decimal :: "nat \<Rightarrow> string" where
  "decimal n = (if n < 10 then [char_of (48 + n)] else decimal (n div 10) @ [char_of (48 + n mod 10)])"

declare decimal.simps [simp del]

fun SwitchClientError_to_string :: "ClientFailure \<Rightarrow> string" where
  "SwitchClientError_to_string ClientCancelled = ''switch request was cancelled''"
| "SwitchClientError_to_string ClientTimeout = ''switch request deadline expired''"
| "SwitchClientError_to_string ResponseTooLarge = ''controller response exceeded the protocol size limit''"
| "SwitchClientError_to_string (ProtocolVersionMismatch v) =
     ''controller returned protocol version '' @ decimal (unat v)"
| "SwitchClientError_to_string ClientStaleIdentity = ''controller returned stale or conflicting identity''"
| "SwitchClientError_to_string (ClientDenied status reason) =
     ''controller denied request: '' @ status @ '': '' @ reason"
| "SwitchClientError_to_string (Http status code message) =
     ''controller returned HTTP '' @ status @ '': '' @ code @ '': '' @ message"
| "SwitchClientError_to_string InvalidBaseUrl = ''controller URL cannot accept path segments''"
| "SwitchClientError_to_string (RequestFailed e) = request_text e"
| "SwitchClientError_to_string (JsonFailed e) = e"

definition failure_detail :: "ClientFailure \<Rightarrow> string \<Rightarrow> string \<times> string" where
  "failure_detail = notification_detail request_timeout request_connect SwitchClientError_to_string"

section \<open>Notifications\<close>

record SystemNotifier =
  sn_enabled :: bool
  sn_local_host :: "SwitchHost option"
  sn_server_host :: SwitchHost

record Notification =
  nt_title :: string
  nt_body :: string

definition SystemNotifier_new :: "SwitchHost \<Rightarrow> SwitchHost \<Rightarrow> SystemNotifier" where
  "SystemNotifier_new local_host server_host =
     \<lparr>sn_enabled = (local_host = server_host), sn_local_host = Some local_host, sn_server_host = server_host\<rparr>"

definition SystemNotifier_disabled :: SystemNotifier where
  "SystemNotifier_disabled = \<lparr>sn_enabled = False, sn_local_host = None, sn_server_host = Controller\<rparr>"

fun host_label :: "SwitchHost \<Rightarrow> string" where
  "host_label Controller = ''controller''"
| "host_label Right = ''right client''"
| "host_label Left = ''left client''"

definition describe_reason :: "string \<Rightarrow> string" where
  "describe_reason reason =
     (if reason = ''switch_target_not_configured''
      then ''The edge has no configured switch target''
      else if reason = ''switch_controller_not_configured''
      then ''The switch controller is not configured''
      else if reason = ''controller_busy''
      then ''Another switch operation is already active''
      else if reason \<in> set [''peer_missing'', ''peer_missing_before_grant'', ''peer_missing_before_commit'', ''peer_missing_after_commit'', ''peer_missing_during_renewal'', ''peer_removed'']
      then ''The target lan-mouse peer is unavailable''
      else if reason = ''peer_bundle_not_ready'' \<or> reason = ''peer_readiness_lost''
      then ''The target keyboard and pointer bundle is not ready''
      else if reason = ''peer_offline''
      then ''No lan-mouse heartbeat was received; the target may be asleep, stopped, or unreachable''
      else if reason = ''peer_revision_mismatch''
      then ''The target lan-mouse revision does not match the server''
      else if reason = ''peer_readiness_handshake_missing''
      then ''The target did not publish a current input-readiness session''
      else if reason = ''peer_keyboard_unavailable''
      then ''The target keyboard emulation backend is unavailable''
      else if reason = ''peer_pointer_unavailable''
      then ''The target pointer emulation backend is unavailable''
      else if reason = ''peer_input_unavailable''
      then ''The target keyboard and pointer emulation backends are unavailable''
      else if reason = ''controller_timeout''
      then ''The TV controller did not respond before the deadline''
      else if reason = ''controller_unreachable''
      then ''The TV controller could not be reached''
      else if reason = ''controller_identity_race''
      then ''A stale or conflicting request/grant response was rejected''
      else if reason = ''prepare_failed''
      then ''TV switch preparation failed''
      else if reason = ''grant_rejected_locally'' \<or> reason = ''grant_deadline_missing'' \<or> reason = ''grant_expired_before_arm''
      then ''The TV grant was invalid or expired''
      else if reason = ''capture_permit_stale'' \<or> reason = ''capture_commit_rejected''
      then ''The input capture authorization became stale''
      else if reason = ''controller_commit_failed'' \<or> reason = ''commit_ack_rejected''
      then ''The controller did not confirm input ownership''
      else if reason = ''lease_renewal_failed'' \<or> reason = ''renewal_ack_rejected'' \<or> reason = ''local_lease_expired''
      then ''The active keyboard and pointer lease expired''
      else if reason = ''capture_backend_disabled''
      then ''The local input capture backend stopped''
      else if reason = ''peer_readiness_lost_during_capture''
      then ''The target input backend stopped during handoff''
      else if reason = ''peer_transport_failed_during_capture''
      then ''The target connection failed during handoff''
      else map (\<lambda>c. if c = CHR ''_'' then CHR '' '' else c) reason)"

definition switch_failure_notification :: "SwitchHost option \<Rightarrow> SwitchHost \<Rightarrow> string \<Rightarrow> string \<Rightarrow> Notification" where
  "switch_failure_notification target server_host reason detail =
     \<lparr>nt_title = ''Lan Mouse: switch to '' @ (case target of Some t \<Rightarrow> host_label t | None \<Rightarrow> ''target'') @ '' failed'',
      nt_body = detail @ ''. Input remains on '' @ host_label server_host @ ''. Reason: '' @ reason\<rparr>"

definition clipboard_permission_notification :: "SwitchHost \<Rightarrow> Notification" where
  "clipboard_permission_notification local_host =
     \<lparr>nt_title = ''Lan Mouse: clipboard access denied'',
      nt_body = ''Clipboard handoff is unavailable on '' @ host_label local_host
        @ ''. Input switching still works. Set Lan Mouse pasteboard access to Always Allow in System Settings.''\<rparr>"

definition switch_failed_with_detail ::
    "SystemNotifier \<Rightarrow> SwitchHost option \<Rightarrow> string \<Rightarrow> string \<Rightarrow> Notification list" where
  "switch_failed_with_detail n target reason detail =
     (if \<not> sn_enabled n then [] else [switch_failure_notification target (sn_server_host n) reason detail])"

definition switch_failed :: "SystemNotifier \<Rightarrow> SwitchHost option \<Rightarrow> string \<Rightarrow> Notification list" where
  "switch_failed n target reason = switch_failed_with_detail n target reason (describe_reason reason)"

definition clipboard_permission_denied :: "SystemNotifier \<Rightarrow> Notification list" where
  "clipboard_permission_denied n = (case sn_local_host n of
     None \<Rightarrow> [] | Some local_host \<Rightarrow> [clipboard_permission_notification local_host])"

end
