(* ===== verification/Service_State.thy ===== *)
theory Service_State
  imports Notifier Client_Manager Capture_Task Listen_Task Clipboard_Types
begin

text \<open>
  State and surroundings of the service, \<^verbatim>\<open>lan-mouse/src/service.rs\<close>. The calls that the service makes to
  its parts (capture, emulation, resolver, clipboard, controller, configuration file, desktop) are
  appended to \<open>sv_calls\<close> in their order. What the surroundings answer during an event (clock, random
  numbers, whether a channel took a message) is a record of arguments. A function that can panic
  returns \<^const>\<open>None\<close> then.
\<close>

section \<open>Partial results\<close>

text \<open>What holds of the result of a function unless it panics.\<close>

definition returns :: "('a \<Rightarrow> bool) \<Rightarrow> 'a option \<Rightarrow> bool" where
  "returns P r \<longleftrightarrow> (\<forall>x. r = Some x \<longrightarrow> P x)"

lemma returns_simps [simp]:
  "returns P None"
  "returns P (Some x) \<longleftrightarrow> P x"
  "returns P (Option.bind r f) \<longleftrightarrow> returns (\<lambda>x. returns P (f x)) r"
  "returns P (map_option g r) \<longleftrightarrow> returns (\<lambda>x. P (g x)) r"
  by (auto simp: returns_def split: bind_splits)

lemma returns_if [simp]: "returns P (if b then x else y) \<longleftrightarrow> (if b then returns P x else returns P y)"
  by simp

lemma returns_mono: "returns P r \<Longrightarrow> (\<And>x. P x \<Longrightarrow> Q x) \<Longrightarrow> returns Q r"
  by (simp add: returns_def)

section \<open>The controller as the service sees it\<close>

record SwitchController =
  sct_local_host :: SwitchHost
  sct_server_host :: SwitchHost
  sct_lease_ttl_ms :: u64
  sct_edge_double_tap_ms :: u64

text \<open>\<^verbatim>\<open>Duration::from_millis\<close>, in nanoseconds.\<close>

definition server_edge_intent_gate :: "SwitchController option \<Rightarrow> EdgeIntentGate option" where
  "server_edge_intent_gate controller = (case controller of
     Some c \<Rightarrow>
       if sct_local_host c = sct_server_host c
       then Some (EdgeIntentGate_new (unat (sct_edge_double_tap_ms c) * 10 ^ 6)) else None
   | None \<Rightarrow> None)"

text \<open>The operations that the service lets run beside its loop, one at a time.\<close>

datatype SwitchOp =
    PrepareOp GateContext PeerBundleReadiness
  | CommitOp GateContext GateGrantIdentity
  | RenewalOp GateContext
  | CleanupOp GateContext string "PeerBundleReadiness option"
  | ManualRecoveryOp SwitchHost string string

datatype SwitchTaskEvent =
    TaskPrepared u64 GateContext "ClientFailure + PreparedGrant"
  | TaskCommitted u64 GateContext GateGrantIdentity "ClientFailure + u64"
  | TaskRenewed u64 GateContext "ClientFailure + u64"
  | TaskCleanupFinished u64 string "ClientFailure + unit"
  | TaskManualRecoveryArmed u64 SwitchHost string string "ClientFailure + unit"

text \<open>What an operation with a task epoch can report.\<close>

fun reports :: "u64 \<Rightarrow> SwitchOp \<Rightarrow> SwitchTaskEvent \<Rightarrow> bool" where
  "reports e (PrepareOp c _) (TaskPrepared e' c' _) \<longleftrightarrow> e' = e \<and> c' = c"
| "reports e (CommitOp c g) (TaskCommitted e' c' g' _) \<longleftrightarrow> e' = e \<and> c' = c \<and> g' = g"
| "reports e (RenewalOp c) (TaskRenewed e' c' _) \<longleftrightarrow> e' = e \<and> c' = c"
| "reports e (CleanupOp c _ _) (TaskCleanupFinished e' i _) \<longleftrightarrow> e' = e \<and> i = gl_request_id (gc_lease c)"
| "reports e (ManualRecoveryOp t r d) (TaskManualRecoveryArmed e' t' r' d' _) \<longleftrightarrow>
     e' = e \<and> t' = t \<and> r' = r \<and> d' = d"
| "reports _ _ _ \<longleftrightarrow> False"

section \<open>Calls\<close>

datatype ClipboardTransitionId = Outgoing u64 | FallbackTransition u64

datatype ClipboardCall =
    BeginRemote u64 SwitchHost
  | CaptureProvisionally
  | BeginFallback u64 SwitchHost
  | Activate ClipboardTransitionId
  | CancelTransition ClipboardTransitionId ClipboardReason
  | CancelCurrent ClipboardReason
  | ShutdownRuntime
  | StartRuntime "SwitchHost option" "SwitchHost option" u16

datatype ServiceCall =
    CaptureCreate ClientHandle IpcPosition CaptureType
  | CaptureDestroy ClientHandle
  | CaptureArm ClientHandle u64 u64 u64
  | CaptureDisarm u64
  | CaptureRelease
  | CaptureReleaseWithCompletion
  | CaptureReenable
  | CaptureSetReleaseBind "Linux list"
  | CaptureTerminate
  | EmulationReenable
  | EmulationRequestRelease SocketAddr u64
  | EmulationChangePort u16
  | EmulationTerminate
  | ResolverResolve ClientHandle string
  | ResolverTerminate
  | ShowNotification Notification
  | ToClipboard ClipboardCall
  | SpawnTask u64 SwitchOp
  | AbortTask u64
  | CommitDecision bool
  | ControllerCancel GateContext string
  | WriteConfig "ConfigClient list" "string \<rightharpoonup> string"

section \<open>Frontends\<close>

datatype Status = Disabled | Enabled

datatype FrontendEvent =
    FE_Created ClientHandle ClientConfig ClientState
  | FE_NoSuchClient ClientHandle
  | FE_State ClientHandle ClientConfig ClientState
  | FE_Deleted ClientHandle
  | FE_PortChanged u16 "string option"
  | FE_Enumerate "(ClientHandle \<times> ClientConfig \<times> ClientState) list"
  | FE_Error string
  | FE_CaptureStatus Status
  | FE_EmulationStatus Status
  | FE_AuthorizedUpdated "string \<rightharpoonup> string"
  | FE_PublicKeyFingerprint string
  | FE_DeviceConnected SocketAddr string
  | FE_DeviceEntered string SocketAddr IpcPosition
  | FE_IncomingDisconnected SocketAddr
  | FE_ConnectionAttempt string

datatype FrontendRequest =
    FR_Activate ClientHandle bool
  | FR_Create
  | FR_ChangePort u16
  | FR_Delete ClientHandle
  | FR_Enumerate
  | FR_ResolveDns ClientHandle
  | FR_UpdateHostname ClientHandle "string option"
  | FR_UpdatePort ClientHandle u16
  | FR_UpdatePosition ClientHandle IpcPosition
  | FR_UpdateFixIps ClientHandle "IpAddr list"
  | FR_EnableCapture
  | FR_EnableEmulation
  | FR_Sync
  | FR_AuthorizeKey string string
  | FR_RemoveAuthorizedKey string
  | FR_UpdateSwitchTarget ClientHandle "SwitchHost option"
  | FR_SaveConfiguration

section \<open>State and surroundings\<close>

record Incoming =
  in_fingerprint :: string
  in_addr :: SocketAddr
  in_pos :: IpcPosition

record Service =
  sv_clients :: ClientManager
  sv_authorized_keys :: "string \<rightharpoonup> string"
  sv_port :: u16
  sv_public_key_fingerprint :: string
  sv_frontend_events :: "FrontendEvent list"
  sv_capture_status :: Status
  sv_emulation_status :: Status
  sv_incoming_conns :: "SocketAddr set"
  sv_incoming_conn_info :: "(ClientHandle \<times> Incoming) list"
  sv_next_trigger_handle :: u64
  sv_bundle_lease :: BundleLeaseManager
  sv_edge_intent_gate :: "EdgeIntentGate option"
  sv_switch_controller :: "SwitchController option"
  sv_system_notifier :: SystemNotifier
  sv_switch_deadline :: "u64 option"
  sv_switch_task :: "(u64 \<times> SwitchOp) option"
  sv_next_switch_task_epoch :: u64
  sv_active_switch_capture :: "(ClientHandle \<times> u64) option"
  sv_pending_switch_cleanup :: "(GateContext \<times> string) option"
  sv_next_release_epoch :: u64
  sv_pending_clipboard_fallback :: "(ClientHandle \<times> u64) option"
  sv_calls :: "ServiceCall list"

text \<open>
  \<open>se_clock i\<close> is the \<open>i\<close>-th reading of the controller's clock during the event, \<open>se_instant\<close> that of the
  system; \<open>se_request_random\<close> and \<open>se_lease_random\<close> are the random numbers; \<open>se_hook_queued\<close> tells
  whether the clipboard took a request, \<open>se_decision_taken\<close> whether the capture still waits for a decision.
\<close>

record ServiceEnv =
  se_local_commit :: "u8 list"
  se_clock :: "nat \<Rightarrow> u64"
  se_instant :: Instant
  se_request_random :: u128
  se_lease_random :: u128
  se_hook_queued :: bool
  se_decision_taken :: bool
  se_alloc :: alloc
  se_order :: "IpAddr set \<Rightarrow> IpAddr list"

definition call :: "ServiceCall \<Rightarrow> Service \<Rightarrow> Service" where
  "call c s = s\<lparr>sv_calls := sv_calls s @ [c]\<rparr>"

definition notify_frontend :: "FrontendEvent \<Rightarrow> Service \<Rightarrow> Service" where
  "notify_frontend e s = s\<lparr>sv_frontend_events := sv_frontend_events s @ [e]\<rparr>"

text \<open>A notification on the desktop, with the standard text or with a detail.\<close>

definition notify_failed :: "SwitchHost option \<Rightarrow> string \<Rightarrow> string option \<Rightarrow> Service \<Rightarrow> Service" where
  "notify_failed target reason detail s =
     fold (\<lambda>n. call (ShowNotification n))
       (case detail of
          Some d \<Rightarrow> switch_failed_with_detail (sv_system_notifier s) target reason d
        | None \<Rightarrow> switch_failed (sv_system_notifier s) target reason) s"

text \<open>\<^verbatim>\<open>{:032x}\<close>: 32 hexadecimal digits.\<close>

definition hex32 :: "u128 \<Rightarrow> string" where
  "hex32 w = map (\<lambda>i. ''0123456789abcdef'' ! (unat w div 16 ^ (31 - i) mod 16)) [0..<32]"

definition peer_readiness :: "ServiceEnv \<Rightarrow> Service \<Rightarrow> ClientHandle \<Rightarrow> PeerBundleReadiness option" where
  "peer_readiness env s handle = map_option
     (\<lambda>(online, keyboard, pointer, epoch).
        \<lparr>pb_online = online, pb_keyboard_ready = keyboard, pb_pointer_ready = pointer, pb_session_epoch = epoch\<rparr>)
     (cm_peer_input_readiness (se_local_commit env) (sv_clients s) handle)"

definition input_ready :: "PeerBundleReadiness \<Rightarrow> bool" where
  "input_ready r \<longleftrightarrow> pb_online r \<and> pb_keyboard_ready r \<and> pb_pointer_ready r"

definition controller_now_ms :: "ServiceEnv \<Rightarrow> nat \<Rightarrow> Service \<Rightarrow> u64" where
  "controller_now_ms env i s = (case sv_switch_controller s of Some _ \<Rightarrow> se_clock env i | None \<Rightarrow> - 1)"

end
