(* ===== verification/Service_Switch.thy ===== *)
theory Service_Switch
  imports Service_State
begin

text \<open>
  The part of \<^verbatim>\<open>lan-mouse/src/service.rs\<close> that moves the input bundle: it reserves the bundle when the
  pointer asks for another host, lets the controller prepare the display, arms the capture with the
  grant, authorizes the crossing, keeps the lease alive, and fails closed on every loss.
\<close>

section \<open>The operation beside the loop\<close>

text \<open>
  \<^verbatim>\<open>begin_switch_task\<close> and the spawning that follows it in every caller: \<^const>\<open>False\<close> when an operation is
  running; running out of task epochs is a panic.
\<close>

definition spawn_switch_task :: "SwitchOp \<Rightarrow> Service \<Rightarrow> (bool \<times> Service) option" where
  "spawn_switch_task op s =
     (if sv_switch_task s \<noteq> None then Some (False, s)
      else map_option
        (\<lambda>e. (True, call (SpawnTask e op) (s\<lparr>sv_next_switch_task_epoch := e, sv_switch_task := Some (e, op)\<rparr>)))
        (checked_add (sv_next_switch_task_epoch s) 1))"

definition finish_switch_task :: "u64 \<Rightarrow> Service \<Rightarrow> bool \<times> Service" where
  "finish_switch_task e s =
     (if map_option fst (sv_switch_task s) \<noteq> Some e then (False, s) else (True, s\<lparr>sv_switch_task := None\<rparr>))"

definition cancel_switch_task :: "Service \<Rightarrow> Service" where
  "cancel_switch_task s = (case sv_switch_task s of
     Some (e, _) \<Rightarrow> call (AbortTask e) (s\<lparr>sv_switch_task := None\<rparr>)
   | None \<Rightarrow> s)"

definition start_prepare_task :: "GateContext \<Rightarrow> PeerBundleReadiness \<Rightarrow> Service \<Rightarrow> (bool \<times> Service) option" where
  "start_prepare_task ctx readiness s =
     (if sv_switch_controller s = None then Some (False, s) else spawn_switch_task (PrepareOp ctx readiness) s)"

definition start_commit_task :: "GateContext \<Rightarrow> GateGrantIdentity \<Rightarrow> Service \<Rightarrow> (bool \<times> Service) option" where
  "start_commit_task ctx grant s =
     (if sv_switch_controller s = None then Some (False, s) else spawn_switch_task (CommitOp ctx grant) s)"

definition start_renewal_task :: "GateContext \<Rightarrow> Service \<Rightarrow> (bool \<times> Service) option" where
  "start_renewal_task ctx s =
     (if sv_switch_controller s = None then Some (False, s) else spawn_switch_task (RenewalOp ctx) s)"

definition start_cleanup_task :: "ServiceEnv \<Rightarrow> GateContext \<Rightarrow> string \<Rightarrow> Service \<Rightarrow> Service option" where
  "start_cleanup_task env ctx reason s =
     (if sv_switch_controller s = None then Some s
      else map_option snd (spawn_switch_task (CleanupOp ctx reason (peer_readiness env s (gc_handle ctx))) s))"

definition arm_manual_recovery_then_notify :: "SwitchHost \<Rightarrow> string \<Rightarrow> string \<Rightarrow> Service \<Rightarrow> Service option" where
  "arm_manual_recovery_then_notify target reason detail s =
     (if sv_switch_controller s = None then Some (notify_failed (Some target) reason (Some detail) s)
      else do {
        (started, s) \<leftarrow> spawn_switch_task (ManualRecoveryOp target reason detail) s;
        Some (if started then s else notify_failed (Some target) reason (Some detail) s)
      })"

section \<open>Deadline\<close>

text \<open>The deadline is the time in milliseconds that the timer sleeps.\<close>

definition reset_switch_deadline :: "ServiceEnv \<Rightarrow> nat \<Rightarrow> Service \<Rightarrow> Service" where
  "reset_switch_deadline env i s = s\<lparr>sv_switch_deadline :=
     map_option (\<lambda>d. saturating_sub d (controller_now_ms env i s)) (gate_deadline_ms (gate_state (sv_bundle_lease s)))\<rparr>"

section \<open>Failing closed\<close>

definition lease_context :: "Service \<Rightarrow> GateContext option" where
  "lease_context s = gate_context (sv_bundle_lease s)"

definition holds_lease :: "GateContext \<Rightarrow> Service \<Rightarrow> bool" where
  "holds_lease ctx s = (case lease_context s of Some current \<Rightarrow> same_identity current ctx | None \<Rightarrow> False)"

definition invalidate_lease :: "Service \<Rightarrow> Service" where
  "invalidate_lease s = s\<lparr>sv_bundle_lease := fst (gate_invalidate (sv_bundle_lease s))\<rparr>"

definition cancel_outgoing :: "GateContext \<Rightarrow> Service \<Rightarrow> Service" where
  "cancel_outgoing ctx = call (ToClipboard (CancelTransition (Outgoing (gl_lease_epoch (gc_lease ctx))) Canceled))"

text \<open>What \<^verbatim>\<open>fail_context_inner\<close> and \<^verbatim>\<open>defer_failure_until_capture_release\<close> begin with.\<close>

definition close_context :: "GateContext \<Rightarrow> Service \<Rightarrow> Service" where
  "close_context ctx s =
     (let s = cancel_outgoing ctx s;
          s = (if holds_lease ctx s then invalidate_lease s else s);
          s = call (CaptureDisarm (gl_lease_epoch (gc_lease ctx))) s;
          s = cancel_switch_task s
      in s\<lparr>sv_switch_deadline := None\<rparr>)"

definition fail_context_inner :: "ServiceEnv \<Rightarrow> GateContext \<Rightarrow> string \<Rightarrow> string option \<Rightarrow> Service \<Rightarrow> Service option" where
  "fail_context_inner env ctx reason detail s =
     (let s = notify_failed (Some (gc_target ctx)) reason detail (close_context ctx s)
      in if sv_active_switch_capture s = Some (gc_handle ctx, gl_lease_epoch (gc_lease ctx))
         then Some (call CaptureRelease (s\<lparr>sv_pending_switch_cleanup := Some (ctx, reason)\<rparr>))
         else start_cleanup_task env ctx reason s)"

definition fail_context :: "ServiceEnv \<Rightarrow> GateContext \<Rightarrow> string \<Rightarrow> Service \<Rightarrow> Service option" where
  "fail_context env ctx reason = fail_context_inner env ctx reason None"

definition fail_context_with_detail ::
    "ServiceEnv \<Rightarrow> GateContext \<Rightarrow> string \<Rightarrow> string \<Rightarrow> Service \<Rightarrow> Service option" where
  "fail_context_with_detail env ctx reason detail = fail_context_inner env ctx reason (Some detail)"

definition fail_gate :: "ServiceEnv \<Rightarrow> string \<Rightarrow> Service \<Rightarrow> Service option" where
  "fail_gate env reason s = (case lease_context s of
     Some ctx \<Rightarrow> fail_context env ctx reason (invalidate_lease s)
   | None \<Rightarrow> Some (invalidate_lease s))"

definition fail_gate_with_detail :: "ServiceEnv \<Rightarrow> string \<Rightarrow> string \<Rightarrow> Service \<Rightarrow> Service option" where
  "fail_gate_with_detail env reason detail s = (case lease_context s of
     Some ctx \<Rightarrow> fail_context_with_detail env ctx reason detail (invalidate_lease s)
   | None \<Rightarrow> Some (invalidate_lease s))"

definition defer_failure_until_capture_release :: "GateContext \<Rightarrow> string \<Rightarrow> Service \<Rightarrow> Service" where
  "defer_failure_until_capture_release ctx reason s =
     (let s = (close_context ctx s)\<lparr>sv_pending_switch_cleanup := Some (ctx, reason)\<rparr>
      in notify_failed (Some (gc_target ctx)) reason None s)"

definition release_gate_after_capture :: "ServiceEnv \<Rightarrow> string \<Rightarrow> bool \<Rightarrow> Service \<Rightarrow> Service option" where
  "release_gate_after_capture env reason notify s = (case lease_context s of
     None \<Rightarrow> Some (invalidate_lease s)
   | Some ctx \<Rightarrow>
       (let s = cancel_outgoing ctx (invalidate_lease s);
            s = (cancel_switch_task s)\<lparr>sv_switch_deadline := None\<rparr>;
            s = (if notify then notify_failed (Some (gc_target ctx)) reason None s else s)
        in start_cleanup_task env ctx reason s))"

definition complete_pending_switch_cleanup :: "ServiceEnv \<Rightarrow> Service \<Rightarrow> Service option" where
  "complete_pending_switch_cleanup env s = (case sv_pending_switch_cleanup s of
     Some (ctx, reason) \<Rightarrow> start_cleanup_task env ctx reason (s\<lparr>sv_pending_switch_cleanup := None\<rparr>)
   | None \<Rightarrow> Some s)"

definition handle_switch_deadline :: "ServiceEnv \<Rightarrow> Service \<Rightarrow> Service option" where
  "handle_switch_deadline env s =
     (let s = s\<lparr>sv_switch_deadline := None\<rparr>
      in case gate_expire (sv_bundle_lease s) (controller_now_ms env 0 s) of
           (m, Some ctx) \<Rightarrow> fail_context env ctx ''local_lease_expired'' (s\<lparr>sv_bundle_lease := m\<rparr>)
         | (m, None) \<Rightarrow> Some (reset_switch_deadline env 1 (s\<lparr>sv_bundle_lease := m\<rparr>)))"

section \<open>Readiness of the peer\<close>

definition peer_failure_detail ::
    "ServiceEnv \<Rightarrow> Service \<Rightarrow> ClientHandle \<Rightarrow> PeerBundleReadiness \<Rightarrow> string \<times> string" where
  "peer_failure_detail env s handle r =
     (if \<not> pb_online r then
        (''peer_offline'',
         ''No lan-mouse heartbeat was received; the target may be asleep, stopped, or unreachable'')
      else if \<not> cm_peer_protocol_compatible (se_local_commit env) (sv_clients s) handle then
        (''peer_revision_mismatch'', ''The target lan-mouse revision does not match the server'')
      else if pb_session_epoch r = 0 then
        (''peer_readiness_handshake_missing'', ''The target did not publish a current input-readiness session'')
      else case (pb_keyboard_ready r, pb_pointer_ready r) of
        (False, False) \<Rightarrow>
          (''peer_input_unavailable'', ''The target keyboard and pointer emulation backends are unavailable'')
      | (False, True) \<Rightarrow> (''peer_keyboard_unavailable'', ''The target keyboard emulation backend is unavailable'')
      | (True, False) \<Rightarrow> (''peer_pointer_unavailable'', ''The target pointer emulation backend is unavailable'')
      | (True, True) \<Rightarrow> (''peer_bundle_not_ready'', ''The target input bundle changed during reservation''))"

definition handle_peer_readiness_change :: "ServiceEnv \<Rightarrow> ClientHandle \<Rightarrow> Service \<Rightarrow> Service option" where
  "handle_peer_readiness_change env handle s = (case lease_context s of
     None \<Rightarrow> Some s
   | Some ctx \<Rightarrow>
       if gc_handle ctx \<noteq> handle then Some s
       else case peer_readiness env s handle of
         None \<Rightarrow> fail_context env ctx ''peer_removed'' s
       | Some r \<Rightarrow>
           if \<not> input_ready r \<or> pb_session_epoch r \<noteq> gl_peer_session_epoch (gc_lease ctx)
           then fail_context env ctx ''peer_readiness_lost'' s else Some s)"

section \<open>Reserving the bundle\<close>

text \<open>The double tap at the edge, where the input server asks for it.\<close>

definition edge_confirmed ::
    "ServiceEnv \<Rightarrow> ClientHandle \<Rightarrow> SwitchHost \<Rightarrow> PeerBundleReadiness option \<Rightarrow> Service \<Rightarrow> bool \<times> Service" where
  "edge_confirmed env handle target readiness s = (case sv_edge_intent_gate s of
     None \<Rightarrow> (True, s)
   | Some g \<Rightarrow>
       (let key = \<lparr>ek_handle = handle, ek_target = target,
                   ek_peer_session_epoch = (case readiness of Some r \<Rightarrow> pb_session_epoch r | None \<Rightarrow> 0)\<rparr>;
            (g, decision) = edge_candidate g key (se_instant env)
        in (decision = Confirmed, s\<lparr>sv_edge_intent_gate := Some g\<rparr>)))"

definition reserve_failed ::
    "ServiceEnv \<Rightarrow> ClientHandle \<Rightarrow> SwitchHost \<Rightarrow> PeerBundleReadiness \<Rightarrow> GateError \<Rightarrow> Service \<Rightarrow> Service option" where
  "reserve_failed env handle target r error s = (case error of
     PeerNotReady \<Rightarrow>
       (let (reason, detail) = peer_failure_detail env s handle r
        in arm_manual_recovery_then_notify target reason detail s)
   | Busy \<Rightarrow>
       Some (notify_failed (Some target) ''controller_busy'' (Some ''Another switch operation is already active'') s)
   | Expired \<Rightarrow>
       Some (notify_failed (Some target) ''local_lease_expired''
               (Some ''The local keyboard and pointer lease expired'') s)
   | _ \<Rightarrow>
       Some (notify_failed (Some target) ''local_gate_race''
               (Some (''A stale or conflicting local gate transition was rejected: '' @ GateError_to_string error)) s))"

definition reserve_bundle ::
    "ServiceEnv \<Rightarrow> ClientHandle \<Rightarrow> SwitchHost \<Rightarrow> SwitchController \<Rightarrow> PeerBundleReadiness \<Rightarrow> Service \<Rightarrow> Service option" where
  "reserve_bundle env handle target controller r s =
     (case gate_reserve (sv_bundle_lease s) handle target (''request-'' @ hex32 (se_request_random env))
             (''lease-'' @ hex32 (se_lease_random env)) (pb_session_epoch r)
             (input_ready r \<and> pb_session_epoch r \<noteq> 0) (se_clock env 0) (sct_lease_ttl_ms controller) of
        (m, Inl error) \<Rightarrow> reserve_failed env handle target r error (s\<lparr>sv_bundle_lease := m\<rparr>)
      | (m, Inr ctx) \<Rightarrow> do {
          let s = call (ToClipboard (BeginRemote (gl_lease_epoch (gc_lease ctx)) (gc_target ctx))) (s\<lparr>sv_bundle_lease := m\<rparr>);
          let s = reset_switch_deadline env 1 s;
          (started, s) \<leftarrow> start_prepare_task ctx r s;
          if started then Some s else fail_context env ctx ''controller_busy'' s
        })"

definition handle_capture_candidate :: "ServiceEnv \<Rightarrow> ClientHandle \<Rightarrow> Service \<Rightarrow> Service option" where
  "handle_capture_candidate env handle s = (case cm_switch_target (sv_clients s) handle of
     None \<Rightarrow> Some (notify_failed None ''switch_target_not_configured'' None s)
   | Some target \<Rightarrow>
       (case sv_switch_controller s of
          None \<Rightarrow> Some (notify_failed (Some target) ''switch_controller_not_configured'' None s)
        | Some controller \<Rightarrow>
            if target = sct_server_host controller then Some s
            else if sv_switch_task s \<noteq> None then Some s
            else
              (let readiness = peer_readiness env s handle;
                   (confirmed, s) = edge_confirmed env handle target readiness s
               in if \<not> confirmed then Some s
                  else case readiness of
                    None \<Rightarrow> arm_manual_recovery_then_notify target ''peer_missing''
                              ''The target lan-mouse peer is unavailable'' s
                  | Some r \<Rightarrow> reserve_bundle env handle target controller r s)))"

section \<open>Grant and crossing\<close>

text \<open>The end of \<^verbatim>\<open>handle_prepared\<close>: the capture is armed for what is left of the grant.\<close>

definition arm_capture :: "ServiceEnv \<Rightarrow> GateContext \<Rightarrow> Service \<Rightarrow> Service option" where
  "arm_capture env ctx s = (case gate_deadline_ms (gate_state (sv_bundle_lease s)) of
     None \<Rightarrow> fail_context env ctx ''grant_deadline_missing'' s
   | Some deadline_ms \<Rightarrow>
       (case checked_sub deadline_ms (se_clock env 2) of
          None \<Rightarrow> fail_context env ctx ''grant_expired_before_arm'' s
        | Some valid_for_ms \<Rightarrow>
            if valid_for_ms = 0 then fail_context env ctx ''grant_expired_before_arm'' s
            else Some (call (CaptureArm (gc_handle ctx) (gl_lease_epoch (gc_lease ctx))
                        (gl_peer_session_epoch (gc_lease ctx)) valid_for_ms) s)))"

definition handle_prepared ::
    "ServiceEnv \<Rightarrow> GateContext \<Rightarrow> ClientFailure + PreparedGrant \<Rightarrow> Service \<Rightarrow> Service option" where
  "handle_prepared env ctx result s =
     (if \<not> holds_lease ctx s then Some s
      else case result of
        Inl error \<Rightarrow>
          (let (reason, detail) = failure_detail error ''TV switch preparation failed''
           in fail_gate_with_detail env reason detail s)
      | Inr prepared \<Rightarrow>
          (case peer_readiness env s (gc_handle ctx) of
             None \<Rightarrow> fail_context env ctx ''peer_missing_before_grant'' s
           | Some r \<Rightarrow>
               (case gate_arm_grant (sv_bundle_lease s) ctx (pg_request_epoch prepared) (pg_grant_epoch prepared)
                       (pg_lease_expires_at_ms prepared) (pg_grant_expires_at_ms prepared) (input_ready r)
                       (pb_session_epoch r) (controller_now_ms env 0 s) of
                  (m, Inl error) \<Rightarrow>
                    fail_context_with_detail env ctx ''grant_rejected_locally''
                      (''A stale, conflicting, or expired TV grant was rejected: '' @ GateError_to_string error)
                      (s\<lparr>sv_bundle_lease := m\<rparr>)
                | (m, Inr (ctx, grant)) \<Rightarrow>
                    (let s = reset_switch_deadline env 1 (s\<lparr>sv_bundle_lease := m\<rparr>)
                     in case sv_switch_controller s of
                          None \<Rightarrow> fail_context env ctx ''controller_missing_after_grant'' s
                        | Some controller \<Rightarrow>
                            if gc_target ctx = sct_server_host controller
                            then do {
                              (started, s) \<leftarrow> start_commit_task ctx grant s;
                              if started then Some s else fail_context env ctx ''commit_task_busy'' s
                            }
                            else arm_capture env ctx s))))"

definition authorize_client_enter ::
    "ServiceEnv \<Rightarrow> ClientHandle \<Rightarrow> u64 \<Rightarrow> u64 \<Rightarrow> Service \<Rightarrow> (bool \<times> Service) option" where
  "authorize_client_enter env handle lease_epoch peer_session_epoch s = (case lease_context s of
     None \<Rightarrow> Some (False, s)
   | Some ctx \<Rightarrow>
       if gc_handle ctx \<noteq> handle \<or> gl_lease_epoch (gc_lease ctx) \<noteq> lease_epoch
          \<or> gl_peer_session_epoch (gc_lease ctx) \<noteq> peer_session_epoch
       then Some (False, defer_failure_until_capture_release ctx ''capture_permit_stale'' s)
       else case peer_readiness env s handle of
         None \<Rightarrow> Some (False, defer_failure_until_capture_release ctx ''peer_missing_before_commit'' s)
       | Some r \<Rightarrow>
           (case gate_commit (sv_bundle_lease s) handle lease_epoch (input_ready r) (pb_session_epoch r)
                   (controller_now_ms env 0 s) of
              (m, Inl error) \<Rightarrow>
                Some (False, defer_failure_until_capture_release ctx ''capture_commit_rejected'' (s\<lparr>sv_bundle_lease := m\<rparr>))
            | (m, Inr (ctx, grant)) \<Rightarrow> do {
                let s = call (ToClipboard (Activate (Outgoing (gl_lease_epoch (gc_lease ctx))))) (s\<lparr>sv_bundle_lease := m\<rparr>);
                let s = reset_switch_deadline env 1 s;
                (started, s) \<leftarrow> start_commit_task ctx grant s;
                if started then Some (True, s)
                else Some (False, defer_failure_until_capture_release ctx ''commit_task_busy'' s)
              }))"

section \<open>Commit and renewal\<close>

text \<open>
  \<^verbatim>\<open>expect("renewed lease has context")\<close> is the panic of the second branch.
\<close>

definition start_renewing :: "ServiceEnv \<Rightarrow> Service \<Rightarrow> Service option" where
  "start_renewing env s = (case lease_context s of
     None \<Rightarrow> None
   | Some ctx \<Rightarrow> do {
       (started, s) \<leftarrow> start_renewal_task ctx s;
       if started then Some s else fail_context env ctx ''renewal_task_busy'' s
     })"

definition handle_committed ::
    "ServiceEnv \<Rightarrow> GateContext \<Rightarrow> ClientFailure + u64 \<Rightarrow> Service \<Rightarrow> Service option" where
  "handle_committed env ctx result s =
     (if \<not> holds_lease ctx s then Some s
      else case result of
        Inl error \<Rightarrow>
          (let (reason, detail) = failure_detail error ''Input commit failed''
           in fail_gate_with_detail env reason detail s)
      | Inr renewed_until_ms \<Rightarrow>
          (case sv_switch_controller s of
             None \<Rightarrow> fail_context env ctx ''controller_missing_after_commit'' s
           | Some controller \<Rightarrow>
               if gc_target ctx = sct_server_host controller
               then Some ((invalidate_lease s)\<lparr>sv_switch_deadline := None\<rparr>)
               else case peer_readiness env s (gc_handle ctx) of
                 None \<Rightarrow> fail_context env ctx ''peer_missing_after_commit'' s
               | Some r \<Rightarrow>
                   (case gate_renew (sv_bundle_lease s) (gl_request_id (gc_lease ctx)) renewed_until_ms
                           (input_ready r) (pb_session_epoch r) (se_clock env 0) of
                      (m, Inl error) \<Rightarrow> fail_context env ctx ''commit_ack_rejected'' (s\<lparr>sv_bundle_lease := m\<rparr>)
                    | (m, Inr _) \<Rightarrow> start_renewing env (reset_switch_deadline env 1 (s\<lparr>sv_bundle_lease := m\<rparr>)))))"

definition handle_renewed ::
    "ServiceEnv \<Rightarrow> u64 \<Rightarrow> GateContext \<Rightarrow> ClientFailure + u64 \<Rightarrow> Service \<Rightarrow> Service option" where
  "handle_renewed env task_epoch ctx result s =
     (if \<not> holds_lease ctx s then Some (cancel_switch_task s)
      else case result of
        Inl error \<Rightarrow>
          (let (reason, detail) = failure_detail error ''Input lease renewal failed''
           in fail_gate_with_detail env reason detail (snd (finish_switch_task task_epoch s)))
      | Inr renewed_until_ms \<Rightarrow>
          (case peer_readiness env s (gc_handle ctx) of
             None \<Rightarrow> fail_context env ctx ''peer_missing_during_renewal'' (snd (finish_switch_task task_epoch s))
           | Some r \<Rightarrow>
               (case gate_renew (sv_bundle_lease s) (gl_request_id (gc_lease ctx)) renewed_until_ms
                       (input_ready r) (pb_session_epoch r) (controller_now_ms env 0 s) of
                  (m, Inl error) \<Rightarrow>
                    fail_context env ctx ''renewal_ack_rejected'' (snd (finish_switch_task task_epoch (s\<lparr>sv_bundle_lease := m\<rparr>)))
                | (m, Inr _) \<Rightarrow> Some (reset_switch_deadline env 1 (s\<lparr>sv_bundle_lease := m\<rparr>)))))"

definition manual_recovery_detail :: "string \<Rightarrow> ClientFailure + unit \<Rightarrow> string" where
  "manual_recovery_detail detail result = (case result of
     Inr _ \<Rightarrow> detail
   | Inl error \<Rightarrow> detail @ ''. Manual OLED recovery could not be authorized: '' @ SwitchClientError_to_string error)"

fun handle_switch_task_event :: "ServiceEnv \<Rightarrow> SwitchTaskEvent \<Rightarrow> Service \<Rightarrow> Service option" where
  "handle_switch_task_event env (TaskPrepared e ctx result) s =
     (let (finished, s) = finish_switch_task e s in if \<not> finished then Some s else handle_prepared env ctx result s)"
| "handle_switch_task_event env (TaskCommitted e ctx grant result) s =
     (let (finished, s) = finish_switch_task e s in if \<not> finished then Some s else handle_committed env ctx result s)"
| "handle_switch_task_event env (TaskRenewed e ctx result) s =
     (if map_option fst (sv_switch_task s) \<noteq> Some e then Some s else handle_renewed env e ctx result s)"
| "handle_switch_task_event env (TaskCleanupFinished e request_id result) s = Some (snd (finish_switch_task e s))"
| "handle_switch_task_event env (TaskManualRecoveryArmed e target reason detail result) s =
     (let (finished, s) = finish_switch_task e s
      in Some (if \<not> finished then s
               else notify_failed (Some target) reason (Some (manual_recovery_detail detail result)) s))"

end
