(* ===== verification/Service.thy ===== *)
theory Service
  imports Service_Switch
begin

text \<open>
  The rest of the service, \<^verbatim>\<open>lan-mouse/src/service.rs\<close>: clients and their capture barriers, incoming
  connections, requests of the frontends, and the events of capture, emulation, resolver and
  configuration, joined in the loop.
\<close>

section \<open>Clients\<close>

definition resolve :: "ClientHandle \<Rightarrow> Service \<Rightarrow> Service" where
  "resolve handle s = (case cm_get_hostname (sv_clients s) handle of
     Some hostname \<Rightarrow> call (ResolverResolve handle hostname) s
   | None \<Rightarrow> s)"

definition broadcast_client :: "ClientHandle \<Rightarrow> Service \<Rightarrow> Service" where
  "broadcast_client handle s = notify_frontend
     (case cm_get_state (sv_clients s) handle of Some (c, st) \<Rightarrow> FE_State handle c st | None \<Rightarrow> FE_NoSuchClient handle) s"

definition remove_intent :: "ClientHandle \<Rightarrow> Service \<Rightarrow> Service" where
  "remove_intent handle s =
     s\<lparr>sv_edge_intent_gate := map_option (\<lambda>g. edge_remove g handle) (sv_edge_intent_gate s)\<rparr>"

definition deactivate_client :: "ClientHandle \<Rightarrow> Service \<Rightarrow> Service" where
  "deactivate_client handle s =
     (let s = remove_intent handle s;
          (deactivated, m) = cm_deactivate_client handle (sv_clients s);
          s = s\<lparr>sv_clients := m\<rparr>
      in if deactivated then broadcast_client handle (call (CaptureDestroy handle) s) else s)"

definition activate_client :: "ClientHandle \<Rightarrow> Service \<Rightarrow> Service" where
  "activate_client handle s =
     (let s = resolve handle s
      in case cm_get_pos (sv_clients s) handle of
           None \<Rightarrow> s
         | Some pos \<Rightarrow>
             (let s = (case cm_client_at (sv_clients s) pos of
                         Some other \<Rightarrow> if other \<noteq> handle then deactivate_client other s else s
                       | None \<Rightarrow> s);
                  (activated, m) = cm_activate_client handle (sv_clients s);
                  s = s\<lparr>sv_clients := m\<rparr>
              in if activated then broadcast_client handle (call (CaptureCreate handle pos Default) s) else s))"

definition set_client_active :: "ClientHandle \<Rightarrow> bool \<Rightarrow> Service \<Rightarrow> Service" where
  "set_client_active handle active = (if active then activate_client handle else deactivate_client handle)"

text \<open>\<^verbatim>\<open>get_state(handle).unwrap()\<close>; a slab that cannot grow panics as well.\<close>

definition add_client :: "ServiceEnv \<Rightarrow> Service \<Rightarrow> Service option" where
  "add_client env s = do {
     (handle, m) \<leftarrow> cm_add_client (se_alloc env) (sv_clients s);
     (c, st) \<leftarrow> cm_get_state m handle;
     Some (notify_frontend (FE_Created handle c st) (s\<lparr>sv_clients := m\<rparr>))
   }"

definition remove_client :: "ClientHandle \<Rightarrow> Service \<Rightarrow> Service" where
  "remove_client handle s =
     (let s = remove_intent handle s;
          (removed, m) = cm_remove_client handle (sv_clients s);
          s = s\<lparr>sv_clients := m\<rparr>;
          s = (case removed of
                 Some (_, st) \<Rightarrow> if cs_active st then call (CaptureDestroy handle) s else s
               | None \<Rightarrow> s)
      in notify_frontend (FE_Deleted handle) s)"

definition update_fix_ips :: "ClientHandle \<Rightarrow> IpAddr list \<Rightarrow> Service \<Rightarrow> Service" where
  "update_fix_ips handle ips s = broadcast_client handle (s\<lparr>sv_clients := cm_set_fix_ips handle ips (sv_clients s)\<rparr>)"

definition update_hostname :: "ClientHandle \<Rightarrow> string option \<Rightarrow> Service \<Rightarrow> Service" where
  "update_hostname handle hostname s =
     (let (changed, m) = cm_set_hostname handle hostname (sv_clients s);
          s = s\<lparr>sv_clients := m\<rparr>
      in broadcast_client handle (if changed then resolve handle s else s))"

definition update_port :: "ClientHandle \<Rightarrow> u16 \<Rightarrow> Service \<Rightarrow> Service" where
  "update_port handle port s = broadcast_client handle (s\<lparr>sv_clients := cm_set_port handle port (sv_clients s)\<rparr>)"

definition update_pos :: "ClientHandle \<Rightarrow> IpcPosition \<Rightarrow> Service \<Rightarrow> Service" where
  "update_pos handle pos s =
     (let s = remove_intent handle s;
          (recapture, m) = cm_set_pos handle pos (sv_clients s);
          s = s\<lparr>sv_clients := m\<rparr>
      in broadcast_client handle (if recapture then activate_client handle (deactivate_client handle s) else s))"

definition update_switch_target :: "ClientHandle \<Rightarrow> SwitchHost option \<Rightarrow> Service \<Rightarrow> Service" where
  "update_switch_target handle target s =
     (let s = remove_intent handle s
      in broadcast_client handle (s\<lparr>sv_clients := cm_set_switch_target handle target (sv_clients s)\<rparr>))"

section \<open>Incoming connections\<close>

definition ENTER_HANDLE_BEGIN :: u64 where "ENTER_HANDLE_BEGIN = (- 1) div 2 + 1"

text \<open>An addition that overflows panics.\<close>

definition add_incoming :: "SocketAddr \<Rightarrow> IpcPosition \<Rightarrow> string \<Rightarrow> Service \<Rightarrow> Service option" where
  "add_incoming addr pos fingerprint s = do {
     handle \<leftarrow> checked_add ENTER_HANDLE_BEGIN (sv_next_trigger_handle s);
     next \<leftarrow> checked_add (sv_next_trigger_handle s) 1;
     let s = call (CaptureCreate handle pos EnterOnly) (s\<lparr>sv_next_trigger_handle := next\<rparr>);
     Some (s\<lparr>sv_incoming_conns := insert addr (sv_incoming_conns s),
             sv_incoming_conn_info := sv_incoming_conn_info s
               @ [(handle, \<lparr>in_fingerprint = fingerprint, in_addr = addr, in_pos = pos\<rparr>)]\<rparr>)
   }"

definition remove_incoming :: "SocketAddr \<Rightarrow> Service \<Rightarrow> SocketAddr option \<times> Service" where
  "remove_incoming addr s = (case find (\<lambda>(_, i). in_addr i = addr) (sv_incoming_conn_info s) of
     None \<Rightarrow> (None, s)
   | Some (handle, i) \<Rightarrow>
       (let s = call (CaptureDestroy handle) s
        in (Some (in_addr i),
            s\<lparr>sv_incoming_conns := sv_incoming_conns s - {addr},
              sv_incoming_conn_info := filter (\<lambda>(h, _). h \<noteq> handle) (sv_incoming_conn_info s)\<rparr>)))"

text \<open>\<^verbatim>\<open>expect("no such client")\<close>. A changed entry is removed at once, so that its update is not seen.\<close>

definition update_incoming :: "SocketAddr \<Rightarrow> IpcPosition \<Rightarrow> string \<Rightarrow> Service \<Rightarrow> Service option" where
  "update_incoming addr pos fingerprint s =
     (case find (\<lambda>(_, i). in_addr i = addr) (sv_incoming_conn_info s) of
        None \<Rightarrow> None
      | Some (_, i) \<Rightarrow>
          if in_fingerprint i \<noteq> fingerprint \<or> in_pos i \<noteq> pos
          then do {
            s \<leftarrow> add_incoming addr pos fingerprint (snd (remove_incoming addr s));
            Some (notify_frontend (FE_DeviceEntered fingerprint addr pos)
                    (notify_frontend (FE_IncomingDisconnected addr) s))
          }
          else Some s)"

section \<open>Frontends\<close>

definition enumerate_clients :: "Service \<Rightarrow> Service" where
  "enumerate_clients s = notify_frontend (FE_Enumerate (cm_get_client_states (sv_clients s))) s"

definition add_authorized_key :: "string \<Rightarrow> string \<Rightarrow> Service \<Rightarrow> Service" where
  "add_authorized_key desc fp s =
     (let keys = (sv_authorized_keys s)(fp \<mapsto> desc)
      in notify_frontend (FE_AuthorizedUpdated keys) (s\<lparr>sv_authorized_keys := keys\<rparr>))"

definition remove_authorized_key :: "string \<Rightarrow> Service \<Rightarrow> Service" where
  "remove_authorized_key fp s =
     (let keys = (sv_authorized_keys s)(fp := None)
      in notify_frontend (FE_AuthorizedUpdated keys) (s\<lparr>sv_authorized_keys := keys\<rparr>))"

definition change_port :: "u16 \<Rightarrow> Service \<Rightarrow> Service" where
  "change_port port s =
     (if sv_port s \<noteq> port then call (EmulationChangePort port) s
      else notify_frontend (FE_PortChanged (sv_port s) None) s)"

definition sync_frontend :: "Service \<Rightarrow> Service" where
  "sync_frontend s = fold notify_frontend
     [FE_EmulationStatus (sv_emulation_status s), FE_CaptureStatus (sv_capture_status s),
      FE_PortChanged (sv_port s) None, FE_PublicKeyFingerprint (sv_public_key_fingerprint s),
      FE_AuthorizedUpdated (sv_authorized_keys s)]
     (enumerate_clients s)"

definition save_config :: "Service \<Rightarrow> Service" where
  "save_config s = call (WriteConfig
     (map (\<lambda>(c, st). \<lparr>cl_ips = set (cc_fix_ips c), cl_hostname = cc_hostname c, cl_port = cc_port c,
                      cl_pos = cc_pos c, cl_active = cs_active st, cl_switch_target = cc_switch_target c\<rparr>)
       (cm_clients (sv_clients s)))
     (sv_authorized_keys s)) s"

fun handle_frontend_request :: "ServiceEnv \<Rightarrow> FrontendRequest \<Rightarrow> Service \<Rightarrow> Service option" where
  "handle_frontend_request env (FR_Activate handle active) s = Some (save_config (set_client_active handle active s))"
| "handle_frontend_request env (FR_AuthorizeKey desc fp) s = Some (save_config (add_authorized_key desc fp s))"
| "handle_frontend_request env (FR_ChangePort port) s = Some (change_port port s)"
| "handle_frontend_request env FR_Create s = map_option save_config (add_client env s)"
| "handle_frontend_request env (FR_Delete handle) s = Some (save_config (remove_client handle s))"
| "handle_frontend_request env FR_EnableCapture s = Some (call CaptureReenable s)"
| "handle_frontend_request env FR_EnableEmulation s = Some (call EmulationReenable s)"
| "handle_frontend_request env FR_Enumerate s = Some (enumerate_clients s)"
| "handle_frontend_request env (FR_UpdateFixIps handle ips) s = Some (save_config (update_fix_ips handle ips s))"
| "handle_frontend_request env (FR_UpdateHostname handle host) s = Some (save_config (update_hostname handle host s))"
| "handle_frontend_request env (FR_UpdatePort handle port) s = Some (save_config (update_port handle port s))"
| "handle_frontend_request env (FR_UpdatePosition handle pos) s = Some (save_config (update_pos handle pos s))"
| "handle_frontend_request env (FR_ResolveDns handle) s = Some (resolve handle s)"
| "handle_frontend_request env FR_Sync s = Some (sync_frontend s)"
| "handle_frontend_request env (FR_RemoveAuthorizedKey key) s = Some (save_config (remove_authorized_key key s))"
| "handle_frontend_request env (FR_UpdateSwitchTarget handle target) s =
     Some (save_config (update_switch_target handle target s))"
| "handle_frontend_request env FR_SaveConfiguration s = Some (save_config s)"

section \<open>Configuration\<close>

text \<open>
  The configuration file after a change: an error of the controller's configuration is its text.
  Starting the clipboard is a call with the hosts and the port; it takes its clients, keys and
  limits from the same file.
\<close>

record NewConfig =
  nc_switch_controller :: "string + SwitchController option"
  nc_clients :: "ConfigClient list"
  nc_release_bind :: "Linux list"
  nc_authorized_fingerprints :: "string \<rightharpoonup> string"

definition restart_clipboard :: "Service \<Rightarrow> Service" where
  "restart_clipboard s =
     (let s = call (ToClipboard ShutdownRuntime) (call (ToClipboard (CancelCurrent Canceled)) s);
          s = s\<lparr>sv_pending_clipboard_fallback := None\<rparr>
      in call (ToClipboard (StartRuntime (map_option sct_local_host (sv_switch_controller s))
                (map_option sct_server_host (sv_switch_controller s)) (sv_port s))) s)"

definition notifier_for :: "SwitchController option \<Rightarrow> SystemNotifier" where
  "notifier_for controller = (case controller of
     Some c \<Rightarrow> SystemNotifier_new (sct_local_host c) (sct_server_host c)
   | None \<Rightarrow> SystemNotifier_disabled)"

definition add_configured :: "ServiceEnv \<Rightarrow> ConfigClient \<Rightarrow> Service \<Rightarrow> Service option" where
  "add_configured env cl s = do {
     (handle, m) \<leftarrow> cm_add_with_config (se_alloc env) (se_order env) cl (sv_clients s);
     (c, st) \<leftarrow> cm_get_state m handle;
     let s = s\<lparr>sv_clients := m\<rparr>;
     let s = (if cs_active st
              then activate_client handle (s\<lparr>sv_clients := snd (cm_deactivate_client handle (sv_clients s))\<rparr>) else s);
     Some (notify_frontend (FE_Created handle c st) s)
   }"

fun add_all_configured :: "ServiceEnv \<Rightarrow> ConfigClient list \<Rightarrow> Service \<Rightarrow> Service option" where
  "add_all_configured env [] s = Some s"
| "add_all_configured env (cl # cls) s = Option.bind (add_configured env cl s) (add_all_configured env cls)"

definition handle_config_change :: "ServiceEnv \<Rightarrow> NewConfig \<Rightarrow> Service \<Rightarrow> Service option" where
  "handle_config_change env cfg s = do {
     s \<leftarrow> fail_gate env ''config_changed'' s;
     let controller = (case nc_switch_controller cfg of Inr c \<Rightarrow> c | Inl _ \<Rightarrow> None);
     let s = s\<lparr>sv_switch_controller := controller, sv_edge_intent_gate := server_edge_intent_gate controller,
               sv_system_notifier := notifier_for controller\<rparr>;
     let s = restart_clipboard s;
     let s = fold remove_client (cm_registered_clients (sv_clients s)) s;
     s \<leftarrow> add_all_configured env (nc_clients cfg) s;
     let s = call (CaptureSetReleaseBind (nc_release_bind cfg)) s;
     Some (sync_frontend (s\<lparr>sv_authorized_keys := nc_authorized_fingerprints cfg\<rparr>))
   }"

section \<open>Events\<close>

definition handle_disconnected :: "ServiceEnv \<Rightarrow> SocketAddr \<Rightarrow> Service \<Rightarrow> Service option" where
  "handle_disconnected env addr s = do {
     s \<leftarrow> (case cm_get_client (sv_clients s) addr of
            Some handle \<Rightarrow> handle_peer_readiness_change env handle
              (broadcast_client handle (s\<lparr>sv_clients := cm_clear_peer_readiness handle (sv_clients s)\<rparr>))
          | None \<Rightarrow> Some s);
     let (gone, s) = remove_incoming addr s;
     Some (case gone of Some a \<Rightarrow> notify_frontend (FE_IncomingDisconnected a) s | None \<Rightarrow> s)
   }"

definition handle_peer_hello :: "ServiceEnv \<Rightarrow> SocketAddr \<Rightarrow> u8 list \<Rightarrow> Service \<Rightarrow> Service option" where
  "handle_peer_hello env addr commit s = (case cm_get_client (sv_clients s) addr of
     None \<Rightarrow> Some s
   | Some handle \<Rightarrow>
       (let (changed, m) = cm_set_peer_commit handle (Some commit) (sv_clients s);
            s = s\<lparr>sv_clients := m\<rparr>
        in if changed then handle_peer_readiness_change env handle (broadcast_client handle s) else Some s))"

definition set_emulation_status :: "Status \<Rightarrow> Service \<Rightarrow> Service" where
  "set_emulation_status st s = notify_frontend (FE_EmulationStatus st) (s\<lparr>sv_emulation_status := st\<rparr>)"

fun handle_emulation_event :: "ServiceEnv \<Rightarrow> EmulationEvent \<Rightarrow> Service \<Rightarrow> Service option" where
  "handle_emulation_event env (EE_ConnectionAttempt fp) s = Some (notify_frontend (FE_ConnectionAttempt fp) s)"
| "handle_emulation_event env (EE_Entered addr pos fp) s =
     (if addr \<notin> sv_incoming_conns s
      then map_option (notify_frontend (FE_DeviceEntered fp addr (to_ipc_pos pos))) (add_incoming addr (to_ipc_pos pos) fp s)
      else update_incoming addr (to_ipc_pos pos) fp s)"
| "handle_emulation_event env (EE_Disconnected addr) s = handle_disconnected env addr s"
| "handle_emulation_event env (EE_PortChanged (Inr port)) s =
     (let s = (if sv_port s \<noteq> port then restart_clipboard (s\<lparr>sv_port := port\<rparr>) else s)
      in Some (notify_frontend (FE_PortChanged port None) s))"
| "handle_emulation_event env (EE_PortChanged (Inl e)) s = Some (notify_frontend (FE_PortChanged (sv_port s) (Some e)) s)"
| "handle_emulation_event env (EE_Worker (EmulationDisabled _)) s = Some (set_emulation_status Disabled s)"
| "handle_emulation_event env (EE_Worker (EmulationEnabled _ _ _)) s = Some (set_emulation_status Enabled s)"
| "handle_emulation_event env (EE_Worker (CenterResult _ _)) s = Some s"
| "handle_emulation_event env EE_ReleaseCapture s = Some (call CaptureReleaseWithCompletion s)"
| "handle_emulation_event env (EE_Connected addr fp) s = Some (notify_frontend (FE_DeviceConnected addr fp) s)"
| "handle_emulation_event env (EE_PeerHello addr commit) s = handle_peer_hello env addr commit s"
| "handle_emulation_event env (EE_ReleaseAcknowledged _ _) s = Some s"

text \<open>The pointer crossed into the zone of an incoming connection: its capture is to be released.\<close>

definition handle_capture_begin :: "ClientHandle \<Rightarrow> Service \<Rightarrow> Service option" where
  "handle_capture_begin handle s = (case map_of (sv_incoming_conn_info s) handle of
     None \<Rightarrow> Some s
   | Some i \<Rightarrow> do {
       epoch \<leftarrow> checked_add (sv_next_release_epoch s) 1;
       Some (call (EmulationRequestRelease (in_addr i) epoch)
              ((call (ToClipboard CaptureProvisionally) s)\<lparr>sv_next_release_epoch := epoch\<rparr>))
     })"

definition handle_capture_disabled :: "ServiceEnv \<Rightarrow> Service \<Rightarrow> Service option" where
  "handle_capture_disabled env s =
     (let s = call (ToClipboard (CancelCurrent BackendUnavailable)) s;
          s = s\<lparr>sv_pending_clipboard_fallback := None, sv_capture_status := Disabled,
                sv_edge_intent_gate := map_option edge_clear (sv_edge_intent_gate s)\<rparr>;
          s = (notify_frontend (FE_CaptureStatus Disabled) s)\<lparr>sv_active_switch_capture := None\<rparr>
      in if sv_pending_switch_cleanup s \<noteq> None then complete_pending_switch_cleanup env s
         else release_gate_after_capture env ''capture_backend_disabled'' True s)"

definition handle_commit_requested ::
    "ServiceEnv \<Rightarrow> ClientHandle \<Rightarrow> u64 \<Rightarrow> u64 \<Rightarrow> Service \<Rightarrow> Service option" where
  "handle_commit_requested env handle lease_epoch peer_session_epoch s = do {
     (authorized, s) \<leftarrow> authorize_client_enter env handle lease_epoch peer_session_epoch s;
     let s = (if authorized then s\<lparr>sv_active_switch_capture := Some (handle, lease_epoch)\<rparr> else s);
     let s = call (CommitDecision authorized) s;
     if \<not> se_decision_taken env \<and> authorized
     then (case lease_context s of
             Some ctx \<Rightarrow> fail_context env ctx ''capture_commit_decision_dropped'' s
           | None \<Rightarrow> Some s)
     else Some s
   }"

definition handle_commit_denied :: "ServiceEnv \<Rightarrow> ClientHandle \<Rightarrow> u64 \<Rightarrow> Service \<Rightarrow> Service option" where
  "handle_commit_denied env handle lease_epoch s =
     (let s = (if sv_active_switch_capture s = Some (handle, lease_epoch)
               then s\<lparr>sv_active_switch_capture := None\<rparr> else s)
      in if sv_pending_switch_cleanup s \<noteq> None then complete_pending_switch_cleanup env s
         else case lease_context s of
           Some ctx \<Rightarrow>
             if gc_handle ctx = handle \<and> gl_lease_epoch (gc_lease ctx) = lease_epoch
             then release_gate_after_capture env ''capture_commit_not_authorized'' True s else Some s
         | None \<Rightarrow> Some s)"

definition handle_client_released :: "ServiceEnv \<Rightarrow> ClientHandle \<Rightarrow> CaptureReleaseReason \<Rightarrow> Service \<Rightarrow> Service option" where
  "handle_client_released env handle reason s =
     (let s = (case sv_pending_clipboard_fallback s of
                 Some (h, epoch) \<Rightarrow>
                   if reason = PeerReleaseRequested \<and> h = handle
                   then call (ToClipboard (Activate (FallbackTransition epoch))) s else s
               | None \<Rightarrow> s);
          s = s\<lparr>sv_pending_clipboard_fallback := None, sv_active_switch_capture := None\<rparr>
      in if sv_pending_switch_cleanup s \<noteq> None then complete_pending_switch_cleanup env s
         else release_gate_after_capture env
                (case failure_reason reason of Some r \<Rightarrow> r | None \<Rightarrow> ''capture_released'')
                (failure_reason reason \<noteq> None) s)"

definition handle_peer_release_started :: "ServiceEnv \<Rightarrow> ClientHandle \<Rightarrow> u64 \<Rightarrow> Service \<Rightarrow> Service" where
  "handle_peer_release_started env handle epoch s = (case sv_switch_controller s of
     None \<Rightarrow> s
   | Some c \<Rightarrow>
       (let s = call (ToClipboard (BeginFallback epoch (sct_server_host c))) s
        in if se_hook_queued env then s\<lparr>sv_pending_clipboard_fallback := Some (handle, epoch)\<rparr> else s))"

fun service_capture_event :: "ServiceEnv \<Rightarrow> ICaptureEvent \<Rightarrow> Service \<Rightarrow> Service option" where
  "service_capture_event env (CaptureBegin handle) s = handle_capture_begin handle s"
| "service_capture_event env CaptureDisabled s = handle_capture_disabled env s"
| "service_capture_event env CaptureEnabled s =
     Some (notify_frontend (FE_CaptureStatus Enabled) (s\<lparr>sv_capture_status := Enabled\<rparr>))"
| "service_capture_event env (CaptureCandidate handle) s = handle_capture_candidate env handle s"
| "service_capture_event env (Retreated handle) s =
     Some (s\<lparr>sv_edge_intent_gate := map_option (\<lambda>g. fst (edge_retreat g handle (se_instant env))) (sv_edge_intent_gate s)\<rparr>)"
| "service_capture_event env (CommitRequested handle lease peer) s = handle_commit_requested env handle lease peer s"
| "service_capture_event env (CommitDeniedReleased handle lease) s = handle_commit_denied env handle lease s"
| "service_capture_event env (ClientReleased handle reason) s = handle_client_released env handle reason s"
| "service_capture_event env (PeerReadiness handle) s =
     handle_peer_readiness_change env handle (broadcast_client handle s)"
| "service_capture_event env (PeerReleaseStarted handle epoch) s = Some (handle_peer_release_started env handle epoch s)"

datatype DnsEvent = DnsResolving ClientHandle | DnsResolved ClientHandle string "string + IpAddr list"

fun handle_resolver_event :: "DnsEvent \<Rightarrow> Service \<Rightarrow> Service" where
  "handle_resolver_event (DnsResolving handle) s =
     broadcast_client handle (s\<lparr>sv_clients := cm_set_resolving handle True (sv_clients s)\<rparr>)"
| "handle_resolver_event (DnsResolved handle hostname ips) s =
     broadcast_client handle (s\<lparr>sv_clients := cm_set_dns_ips handle (case ips of Inr a \<Rightarrow> a | Inl _ \<Rightarrow> [])
       (cm_set_resolving handle False (sv_clients s))\<rparr>)"

definition handle_frontend_pending :: "Service \<Rightarrow> Service" where
  "handle_frontend_pending s = s\<lparr>sv_frontend_events := []\<rparr>"

section \<open>The loop\<close>

text \<open>What the connections to the peers do to the shared clients between two events.\<close>

datatype PeerUpdate =
    SetActiveAddr ClientHandle "SocketAddr option"
  | SetAlive ClientHandle bool
  | SetPeerCommit ClientHandle "u8 list option"
  | SetPeerReadiness ClientHandle bool bool u64
  | ClearPeerReadiness ClientHandle

fun peer_update :: "PeerUpdate \<Rightarrow> ClientManager \<Rightarrow> ClientManager" where
  "peer_update (SetActiveAddr handle addr) m = cm_set_active_addr handle addr m"
| "peer_update (SetAlive handle alive) m = cm_set_alive handle alive m"
| "peer_update (SetPeerCommit handle commit) m = snd (cm_set_peer_commit handle commit m)"
| "peer_update (SetPeerReadiness handle keyboard pointer epoch) m = snd (cm_set_peer_readiness handle keyboard pointer epoch m)"
| "peer_update (ClearPeerReadiness handle) m = cm_clear_peer_readiness handle m"

datatype ServiceInput =
    FromFrontend "FrontendRequest option"
  | FrontendPending
  | FromEmulation EmulationEvent
  | FromCapture ICaptureEvent
  | FromResolver DnsEvent
  | FromTask SwitchTaskEvent
  | Deadline
  | ConfigChanged NewConfig
  | FromPeers PeerUpdate

text \<open>Whether the loop can receive an input: an operation reports what it was spawned for, the timer is set.\<close>

definition service_enabled :: "ServiceInput \<Rightarrow> Service \<Rightarrow> bool" where
  "service_enabled i s = (case i of
     FromTask ev \<Rightarrow> list_ex (\<lambda>c. case c of SpawnTask e op \<Rightarrow> reports e op ev | _ \<Rightarrow> False) (sv_calls s)
   | Deadline \<Rightarrow> sv_switch_deadline s \<noteq> None
   | _ \<Rightarrow> True)"

fun service_step :: "ServiceEnv \<Rightarrow> ServiceInput \<Rightarrow> Service \<Rightarrow> Service option" where
  "service_step env (FromFrontend (Some request)) s = handle_frontend_request env request s"
| "service_step env (FromFrontend None) s = Some s"
| "service_step env FrontendPending s = Some (handle_frontend_pending s)"
| "service_step env (FromEmulation e) s = handle_emulation_event env e s"
| "service_step env (FromCapture e) s = service_capture_event env e s"
| "service_step env (FromResolver e) s = Some (handle_resolver_event e s)"
| "service_step env (FromTask e) s = handle_switch_task_event env e s"
| "service_step env Deadline s = handle_switch_deadline env s"
| "service_step env (ConfigChanged cfg) s = handle_config_change env cfg s"
| "service_step env (FromPeers u) s = Some (s\<lparr>sv_clients := peer_update u (sv_clients s)\<rparr>)"

text \<open>\<^verbatim>\<open>Service::new\<close> and the beginning of \<^verbatim>\<open>run\<close>: configured clients are activated one after the other.\<close>

fun add_initial :: "ServiceEnv \<Rightarrow> ConfigClient list \<Rightarrow> ClientManager \<Rightarrow> ClientManager option" where
  "add_initial env [] m = Some m"
| "add_initial env (cl # cls) m = do {
     (_, m) \<leftarrow> cm_add_with_config (se_alloc env) (se_order env) cl m;
     add_initial env cls m
   }"

definition Service_new :: "ServiceEnv \<Rightarrow> NewConfig \<Rightarrow> SwitchController option \<Rightarrow> u16 \<Rightarrow> string \<Rightarrow> Service option" where
  "Service_new env cfg controller port fingerprint = do {
     m \<leftarrow> add_initial env (nc_clients cfg) [];
     Some \<lparr>sv_clients = m, sv_authorized_keys = nc_authorized_fingerprints cfg, sv_port = port,
       sv_public_key_fingerprint = fingerprint, sv_frontend_events = [], sv_capture_status = Disabled,
       sv_emulation_status = Disabled, sv_incoming_conns = {}, sv_incoming_conn_info = [],
       sv_next_trigger_handle = 0, sv_bundle_lease = BundleLeaseManager_default,
       sv_edge_intent_gate = server_edge_intent_gate controller, sv_switch_controller = controller,
       sv_system_notifier = notifier_for controller, sv_switch_deadline = None, sv_switch_task = None,
       sv_next_switch_task_epoch = 0, sv_active_switch_capture = None, sv_pending_switch_cleanup = None,
       sv_next_release_epoch = 0, sv_pending_clipboard_fallback = None,
       sv_calls = [ToClipboard (StartRuntime (map_option sct_local_host controller)
                     (map_option sct_server_host controller) port)]\<rparr>
   }"

definition activate_configured :: "Service \<Rightarrow> Service" where
  "activate_configured s =
     (let active = cm_active_clients (sv_clients s);
          s = s\<lparr>sv_clients := fold (\<lambda>h m. snd (cm_deactivate_client h m)) active (sv_clients s)\<rparr>
      in fold activate_client active s)"

definition service_start ::
    "ServiceEnv \<Rightarrow> NewConfig \<Rightarrow> SwitchController option \<Rightarrow> u16 \<Rightarrow> string \<Rightarrow> Service option" where
  "service_start env cfg controller port fingerprint =
     map_option activate_configured (Service_new env cfg controller port fingerprint)"

text \<open>What \<^verbatim>\<open>run\<close> does when the loop has ended.\<close>

definition service_shutdown :: "Service \<Rightarrow> Service" where
  "service_shutdown s =
     (let s = call (ToClipboard ShutdownRuntime) (call (ToClipboard (CancelCurrent Canceled)) s);
          ctx = lease_context s;
          s = cancel_switch_task (call CaptureRelease (invalidate_lease s));
          s = (call CaptureTerminate (s\<lparr>sv_switch_deadline := None\<rparr>))\<lparr>sv_active_switch_capture := None\<rparr>;
          s = (case (sv_switch_controller s, ctx) of
                 (Some _, Some ctx) \<Rightarrow> call (ControllerCancel ctx ''service_shutdown'') s | _ \<Rightarrow> s)
      in call ResolverTerminate (call EmulationTerminate s))"

text \<open>A run: an input that the loop cannot receive is no input; a panic ends the run.\<close>

primrec service_run :: "Service \<Rightarrow> (ServiceEnv \<times> ServiceInput) list \<Rightarrow> Service option" where
  "service_run s [] = Some s"
| "service_run s (x # xs) =
     (if service_enabled (snd x) s then Option.bind (service_step (fst x) (snd x) s) (\<lambda>s. service_run s xs)
      else service_run s xs)"

end
