(* ===== verification/Service_Inv.thy ===== *)
theory Service_Inv
  imports Service
begin

text \<open>
  What the functions of the service leave alone and what they establish: the frames of the small
  operations, the consistency of the operations beside the loop, and the consistency of the
  reservation with the operation that serves it.
\<close>

section \<open>Calls of interest\<close>

text \<open>The operations spawned so far, and the calls that change barriers or decide about a crossing.\<close>

definition spawned :: "ServiceCall list \<Rightarrow> (u64 \<times> SwitchOp) list" where
  "spawned calls = concat (map (\<lambda>c. case c of SpawnTask e op \<Rightarrow> [(e, op)] | _ \<Rightarrow> []) calls)"

definition is_visible :: "ServiceCall \<Rightarrow> bool" where
  "is_visible c = (case c of CaptureCreate _ _ _ \<Rightarrow> True | CaptureDestroy _ \<Rightarrow> True | CommitDecision _ \<Rightarrow> True | _ \<Rightarrow> False)"

definition visible :: "ServiceCall list \<Rightarrow> ServiceCall list" where
  "visible calls = filter is_visible calls"

lemma spawned_append [simp]: "spawned (xs @ ys) = spawned xs @ spawned ys"
  by (simp add: spawned_def)

lemma spawned_Nil [simp]: "spawned [] = []"
  by (simp add: spawned_def)

lemma spawned_Cons [simp]: "spawned (c # cs) = (case c of SpawnTask e op \<Rightarrow> [(e, op)] | _ \<Rightarrow> []) @ spawned cs"
  by (simp add: spawned_def)

lemma spawned_notifications [simp]: "spawned (map ShowNotification ns) = []"
  by (simp add: spawned_def)

lemma visible_append [simp]: "visible (xs @ ys) = visible xs @ visible ys"
  by (simp add: visible_def)

lemma visible_Nil [simp]: "visible [] = []"
  by (simp add: visible_def)

lemma visible_Cons [simp]: "visible (c # cs) = (if is_visible c then c # visible cs else visible cs)"
  by (simp add: visible_def)

lemma visible_notifications [simp]: "visible (map ShowNotification ns) = []"
  by (simp add: visible_def is_visible_def)

section \<open>Frames\<close>

lemma call_fields [simp]:
  "sv_clients (call c s) = sv_clients s"
  "sv_authorized_keys (call c s) = sv_authorized_keys s"
  "sv_port (call c s) = sv_port s"
  "sv_public_key_fingerprint (call c s) = sv_public_key_fingerprint s"
  "sv_frontend_events (call c s) = sv_frontend_events s"
  "sv_capture_status (call c s) = sv_capture_status s"
  "sv_emulation_status (call c s) = sv_emulation_status s"
  "sv_incoming_conns (call c s) = sv_incoming_conns s"
  "sv_incoming_conn_info (call c s) = sv_incoming_conn_info s"
  "sv_next_trigger_handle (call c s) = sv_next_trigger_handle s"
  "sv_bundle_lease (call c s) = sv_bundle_lease s"
  "sv_edge_intent_gate (call c s) = sv_edge_intent_gate s"
  "sv_switch_controller (call c s) = sv_switch_controller s"
  "sv_system_notifier (call c s) = sv_system_notifier s"
  "sv_switch_deadline (call c s) = sv_switch_deadline s"
  "sv_switch_task (call c s) = sv_switch_task s"
  "sv_next_switch_task_epoch (call c s) = sv_next_switch_task_epoch s"
  "sv_active_switch_capture (call c s) = sv_active_switch_capture s"
  "sv_pending_switch_cleanup (call c s) = sv_pending_switch_cleanup s"
  "sv_next_release_epoch (call c s) = sv_next_release_epoch s"
  "sv_pending_clipboard_fallback (call c s) = sv_pending_clipboard_fallback s"
  "sv_calls (call c s) = sv_calls s @ [c]"
  by (simp_all add: call_def)

lemma notify_frontend_fields [simp]:
  "sv_clients (notify_frontend e s) = sv_clients s"
  "sv_authorized_keys (notify_frontend e s) = sv_authorized_keys s"
  "sv_port (notify_frontend e s) = sv_port s"
  "sv_public_key_fingerprint (notify_frontend e s) = sv_public_key_fingerprint s"
  "sv_capture_status (notify_frontend e s) = sv_capture_status s"
  "sv_emulation_status (notify_frontend e s) = sv_emulation_status s"
  "sv_incoming_conns (notify_frontend e s) = sv_incoming_conns s"
  "sv_incoming_conn_info (notify_frontend e s) = sv_incoming_conn_info s"
  "sv_next_trigger_handle (notify_frontend e s) = sv_next_trigger_handle s"
  "sv_bundle_lease (notify_frontend e s) = sv_bundle_lease s"
  "sv_edge_intent_gate (notify_frontend e s) = sv_edge_intent_gate s"
  "sv_switch_controller (notify_frontend e s) = sv_switch_controller s"
  "sv_system_notifier (notify_frontend e s) = sv_system_notifier s"
  "sv_switch_deadline (notify_frontend e s) = sv_switch_deadline s"
  "sv_switch_task (notify_frontend e s) = sv_switch_task s"
  "sv_next_switch_task_epoch (notify_frontend e s) = sv_next_switch_task_epoch s"
  "sv_active_switch_capture (notify_frontend e s) = sv_active_switch_capture s"
  "sv_pending_switch_cleanup (notify_frontend e s) = sv_pending_switch_cleanup s"
  "sv_next_release_epoch (notify_frontend e s) = sv_next_release_epoch s"
  "sv_pending_clipboard_fallback (notify_frontend e s) = sv_pending_clipboard_fallback s"
  "sv_calls (notify_frontend e s) = sv_calls s"
  by (simp_all add: notify_frontend_def)

lemma notify_failed_shows:
  obtains ns where "notify_failed target reason detail s = s\<lparr>sv_calls := sv_calls s @ map ShowNotification ns\<rparr>"
proof -
  have shown: "fold (\<lambda>n. call (ShowNotification n)) ns s = s\<lparr>sv_calls := sv_calls s @ map ShowNotification ns\<rparr>" for ns
    by (induction ns arbitrary: s) (simp_all add: call_def)
  show thesis by (rule that) (simp add: notify_failed_def shown)
qed

lemma notify_failed_fields [simp]:
  "sv_clients (notify_failed target reason detail s) = sv_clients s"
  "sv_authorized_keys (notify_failed target reason detail s) = sv_authorized_keys s"
  "sv_port (notify_failed target reason detail s) = sv_port s"
  "sv_public_key_fingerprint (notify_failed target reason detail s) = sv_public_key_fingerprint s"
  "sv_frontend_events (notify_failed target reason detail s) = sv_frontend_events s"
  "sv_capture_status (notify_failed target reason detail s) = sv_capture_status s"
  "sv_emulation_status (notify_failed target reason detail s) = sv_emulation_status s"
  "sv_incoming_conns (notify_failed target reason detail s) = sv_incoming_conns s"
  "sv_incoming_conn_info (notify_failed target reason detail s) = sv_incoming_conn_info s"
  "sv_next_trigger_handle (notify_failed target reason detail s) = sv_next_trigger_handle s"
  "sv_bundle_lease (notify_failed target reason detail s) = sv_bundle_lease s"
  "sv_edge_intent_gate (notify_failed target reason detail s) = sv_edge_intent_gate s"
  "sv_switch_controller (notify_failed target reason detail s) = sv_switch_controller s"
  "sv_system_notifier (notify_failed target reason detail s) = sv_system_notifier s"
  "sv_switch_deadline (notify_failed target reason detail s) = sv_switch_deadline s"
  "sv_switch_task (notify_failed target reason detail s) = sv_switch_task s"
  "sv_next_switch_task_epoch (notify_failed target reason detail s) = sv_next_switch_task_epoch s"
  "sv_active_switch_capture (notify_failed target reason detail s) = sv_active_switch_capture s"
  "sv_pending_switch_cleanup (notify_failed target reason detail s) = sv_pending_switch_cleanup s"
  "sv_next_release_epoch (notify_failed target reason detail s) = sv_next_release_epoch s"
  "sv_pending_clipboard_fallback (notify_failed target reason detail s) = sv_pending_clipboard_fallback s"
  by (rule notify_failed_shows [of target reason detail s], simp)+

lemma notify_failed_calls [simp]:
  "spawned (sv_calls (notify_failed target reason detail s)) = spawned (sv_calls s)"
  "visible (sv_calls (notify_failed target reason detail s)) = visible (sv_calls s)"
  by (rule notify_failed_shows [of target reason detail s], simp)+

lemma cancel_switch_task_fields [simp]:
  "sv_clients (cancel_switch_task s) = sv_clients s"
  "sv_authorized_keys (cancel_switch_task s) = sv_authorized_keys s"
  "sv_port (cancel_switch_task s) = sv_port s"
  "sv_public_key_fingerprint (cancel_switch_task s) = sv_public_key_fingerprint s"
  "sv_frontend_events (cancel_switch_task s) = sv_frontend_events s"
  "sv_capture_status (cancel_switch_task s) = sv_capture_status s"
  "sv_emulation_status (cancel_switch_task s) = sv_emulation_status s"
  "sv_incoming_conns (cancel_switch_task s) = sv_incoming_conns s"
  "sv_incoming_conn_info (cancel_switch_task s) = sv_incoming_conn_info s"
  "sv_next_trigger_handle (cancel_switch_task s) = sv_next_trigger_handle s"
  "sv_bundle_lease (cancel_switch_task s) = sv_bundle_lease s"
  "sv_edge_intent_gate (cancel_switch_task s) = sv_edge_intent_gate s"
  "sv_switch_controller (cancel_switch_task s) = sv_switch_controller s"
  "sv_system_notifier (cancel_switch_task s) = sv_system_notifier s"
  "sv_switch_deadline (cancel_switch_task s) = sv_switch_deadline s"
  "sv_next_switch_task_epoch (cancel_switch_task s) = sv_next_switch_task_epoch s"
  "sv_active_switch_capture (cancel_switch_task s) = sv_active_switch_capture s"
  "sv_pending_switch_cleanup (cancel_switch_task s) = sv_pending_switch_cleanup s"
  "sv_next_release_epoch (cancel_switch_task s) = sv_next_release_epoch s"
  "sv_pending_clipboard_fallback (cancel_switch_task s) = sv_pending_clipboard_fallback s"
  "sv_switch_task (cancel_switch_task s) = None"
  "spawned (sv_calls (cancel_switch_task s)) = spawned (sv_calls s)"
  "visible (sv_calls (cancel_switch_task s)) = visible (sv_calls s)"
  by (auto simp: cancel_switch_task_def is_visible_def split: option.splits)

section \<open>Operations beside the loop\<close>

abbreviation gate_of :: "Service \<Rightarrow> BundleGateState" where
  "gate_of s \<equiv> gate_state (sv_bundle_lease s)"

text \<open>Every operation has an epoch of its own, the newest is the largest, the running one was spawned.\<close>

definition tasks_ok :: "Service \<Rightarrow> bool" where
  "tasks_ok s \<longleftrightarrow> distinct (map fst (spawned (sv_calls s)))
     \<and> (\<forall>x \<in> set (spawned (sv_calls s)). fst x \<le> sv_next_switch_task_epoch s)
     \<and> (\<forall>x. sv_switch_task s = Some x \<longrightarrow> x \<in> set (spawned (sv_calls s)))"

lemma tasks_ok_frame:
  assumes "tasks_ok s" "spawned (sv_calls s') = spawned (sv_calls s)"
    "sv_next_switch_task_epoch s' = sv_next_switch_task_epoch s"
    "sv_switch_task s' = sv_switch_task s \<or> sv_switch_task s' = None"
  shows "tasks_ok s'"
  using assms by (auto simp: tasks_ok_def)

lemma tasks_ok_report:
  assumes "tasks_ok s" "service_enabled (FromTask ev) s" "sv_switch_task s = Some (e, op)"
    "\<And>e' op'. reports e' op' ev \<Longrightarrow> e' = e"
  shows "reports e op ev"
proof -
  obtain e' op' where r: "SpawnTask e' op' \<in> set (sv_calls s)" "reports e' op' ev"
  proof -
    obtain c where c: "c \<in> set (sv_calls s)" "case c of SpawnTask e op \<Rightarrow> reports e op ev | _ \<Rightarrow> False"
      using assms(2) by (auto simp: service_enabled_def list_ex_iff)
    have "\<exists>e op. c = SpawnTask e op \<and> reports e op ev" using c(2) by (simp split: ServiceCall.splits)
    then show thesis using c(1) that by blast
  qed
  then have "(e', op') \<in> set (spawned (sv_calls s))" by (force simp: spawned_def)
  moreover have "(e, op) \<in> set (spawned (sv_calls s))" using assms(1,3) by (simp add: tasks_ok_def)
  moreover have "e' = e" using assms(4) r(2) by blast
  ultimately have "op' = op"
    using assms(1) eq_key_imp_eq_value [of "spawned (sv_calls s)"] by (auto simp: tasks_ok_def)
  with r(2) \<open>e' = e\<close> show ?thesis by simp
qed

text \<open>What the functions of the switch leave alone.\<close>

definition switching :: "Service \<Rightarrow> Service \<Rightarrow> bool" where
  "switching s s' \<longleftrightarrow> sv_clients s' = sv_clients s \<and> sv_incoming_conns s' = sv_incoming_conns s
     \<and> sv_incoming_conn_info s' = sv_incoming_conn_info s \<and> sv_next_trigger_handle s' = sv_next_trigger_handle s
     \<and> sv_switch_controller s' = sv_switch_controller s \<and> visible (sv_calls s') = visible (sv_calls s)
     \<and> (tasks_ok s \<longrightarrow> tasks_ok s')"

lemma switching_trans: "switching a b \<Longrightarrow> switching b c \<Longrightarrow> switching a c"
  by (simp add: switching_def)

lemma switching_refl [simp]: "switching s s"
  by (simp add: switching_def)

lemma switchingI:
  assumes "sv_clients s' = sv_clients s" "sv_incoming_conns s' = sv_incoming_conns s"
    "sv_incoming_conn_info s' = sv_incoming_conn_info s" "sv_next_trigger_handle s' = sv_next_trigger_handle s"
    "sv_switch_controller s' = sv_switch_controller s" "visible (sv_calls s') = visible (sv_calls s)"
    "spawned (sv_calls s') = spawned (sv_calls s)" "sv_next_switch_task_epoch s' = sv_next_switch_task_epoch s"
    "sv_switch_task s' = sv_switch_task s \<or> sv_switch_task s' = None"
  shows "switching s s'"
  using assms tasks_ok_frame [of s s'] by (auto simp: switching_def)

lemma spawn_switch_task_spec:
  "returns (\<lambda>(started, s'). switching s s' \<and> (started \<longleftrightarrow> sv_switch_task s = None)
     \<and> (if started
        then \<exists>e. s' = call (SpawnTask e op) (s\<lparr>sv_next_switch_task_epoch := e, sv_switch_task := Some (e, op)\<rparr>)
        else s' = s)) (spawn_switch_task op s)"
proof (cases "sv_switch_task s")
  case None
  have "tasks_ok (call (SpawnTask e op) (s\<lparr>sv_next_switch_task_epoch := e, sv_switch_task := Some (e, op)\<rparr>))"
    if "tasks_ok s" "checked_add (sv_next_switch_task_epoch s) 1 = Some e" for e
    using that checked_add_one_less [OF that(2)] by (fastforce simp: tasks_ok_def)
  with None show ?thesis
    by (auto simp: spawn_switch_task_def returns_def switching_def is_visible_def)
qed (simp add: spawn_switch_task_def)

section \<open>Reservation and operation\<close>

text \<open>Which operation runs in which state of the reservation.\<close>

fun serves :: "BundleGateState \<Rightarrow> SwitchOp option \<Rightarrow> bool" where
  "serves Local op \<longleftrightarrow> (case op of None \<Rightarrow> True | Some (CleanupOp _ _ _) \<Rightarrow> True | Some (ManualRecoveryOp _ _ _) \<Rightarrow> True
     | _ \<Rightarrow> False)"
| "serves (Preparing ctx) op \<longleftrightarrow> (\<exists>r. op = Some (PrepareOp ctx r))"
| "serves (GrantArmed ctx grant) op \<longleftrightarrow> (case op of None \<Rightarrow> True | Some (CleanupOp _ _ _) \<Rightarrow> True | _ \<Rightarrow> False)"
| "serves (RemoteOwned ctx grant until) op \<longleftrightarrow>
     op = Some (CommitOp ctx grant) \<or> (\<exists>ctx'. op = Some (RenewalOp ctx') \<and> same_identity ctx ctx')"

text \<open>While the bundle is reserved the timer runs, and the target is not the host of the display server.\<close>

definition guarded :: "Service \<Rightarrow> bool" where
  "guarded s \<longleftrightarrow> (\<forall>ctx. lease_context s = Some ctx \<longrightarrow>
     sv_switch_deadline s \<noteq> None
     \<and> (\<exists>c. sv_switch_controller s = Some c \<and> gc_target ctx \<noteq> sct_server_host c))"

definition served :: "Service \<Rightarrow> bool" where
  "served s \<longleftrightarrow> serves (gate_of s) (map_option snd (sv_switch_task s)) \<and> guarded s"

lemma served_guarded: "served s \<Longrightarrow> guarded s"
  by (simp add: served_def)

lemma lease_context_None: "lease_context s = None \<longleftrightarrow> gate_of s = Local"
  by (cases "gate_of s") (simp_all add: lease_context_def gate_context_def)

lemma lease_context_Some:
  "lease_context s = Some ctx \<longleftrightarrow> gate_of s = Preparing ctx \<or> (\<exists>g. gate_of s = GrantArmed ctx g)
     \<or> (\<exists>g d. gate_of s = RemoteOwned ctx g d)"
  by (cases "gate_of s") (auto simp: lease_context_def gate_context_def)

lemma same_identity_refl [simp]: "same_identity ctx ctx"
  by (simp add: same_identity_def)

lemma same_identity_sym: "same_identity a b \<Longrightarrow> same_identity b a"
  by (simp add: same_identity_def)

lemma same_identity_trans: "same_identity a b \<Longrightarrow> same_identity b c \<Longrightarrow> same_identity a c"
  by (simp add: same_identity_def)

text \<open>A reservation that has ended is cleaned up: now, or as soon as the capture is released.\<close>

definition ended :: "GateContext \<Rightarrow> Service \<Rightarrow> bool" where
  "ended ctx s \<longleftrightarrow> gate_of s = Local \<and> sv_switch_deadline s = None
     \<and> ((\<exists>e c r q. sv_switch_task s = Some (e, CleanupOp c r q) \<and> same_identity c ctx)
        \<or> sv_switch_task s = None \<and> (\<exists>c r. sv_pending_switch_cleanup s = Some (c, r) \<and> same_identity c ctx))"

lemma ended_served: "ended ctx s \<Longrightarrow> served s"
  by (auto simp: ended_def served_def guarded_def lease_context_Some)

text \<open>What a function of the switch does to a consistent state.\<close>

definition moves :: "Service \<Rightarrow> Service \<Rightarrow> bool" where
  "moves s s' \<longleftrightarrow> switching s s' \<and> served s'
     \<and> (\<forall>ctx. lease_context s = Some ctx \<longrightarrow> holds_lease ctx s' \<or> ended ctx s')"

section \<open>Failing closed\<close>

lemma invalidate_lease_fields [simp]:
  "sv_bundle_lease (invalidate_lease s) = (sv_bundle_lease s)\<lparr>gate_state := Local\<rparr>"
  "sv_clients (invalidate_lease s) = sv_clients s"
  "sv_authorized_keys (invalidate_lease s) = sv_authorized_keys s"
  "sv_port (invalidate_lease s) = sv_port s"
  "sv_public_key_fingerprint (invalidate_lease s) = sv_public_key_fingerprint s"
  "sv_frontend_events (invalidate_lease s) = sv_frontend_events s"
  "sv_capture_status (invalidate_lease s) = sv_capture_status s"
  "sv_emulation_status (invalidate_lease s) = sv_emulation_status s"
  "sv_incoming_conns (invalidate_lease s) = sv_incoming_conns s"
  "sv_incoming_conn_info (invalidate_lease s) = sv_incoming_conn_info s"
  "sv_next_trigger_handle (invalidate_lease s) = sv_next_trigger_handle s"
  "sv_edge_intent_gate (invalidate_lease s) = sv_edge_intent_gate s"
  "sv_switch_controller (invalidate_lease s) = sv_switch_controller s"
  "sv_system_notifier (invalidate_lease s) = sv_system_notifier s"
  "sv_switch_deadline (invalidate_lease s) = sv_switch_deadline s"
  "sv_switch_task (invalidate_lease s) = sv_switch_task s"
  "sv_next_switch_task_epoch (invalidate_lease s) = sv_next_switch_task_epoch s"
  "sv_active_switch_capture (invalidate_lease s) = sv_active_switch_capture s"
  "sv_pending_switch_cleanup (invalidate_lease s) = sv_pending_switch_cleanup s"
  "sv_next_release_epoch (invalidate_lease s) = sv_next_release_epoch s"
  "sv_pending_clipboard_fallback (invalidate_lease s) = sv_pending_clipboard_fallback s"
  "sv_calls (invalidate_lease s) = sv_calls s"
  by (simp_all add: invalidate_lease_def gate_invalidate_def)

lemma close_context_spec:
  assumes "holds_lease ctx s \<or> gate_of s = Local"
  shows "switching s (close_context ctx s)" "gate_of (close_context ctx s) = Local"
    "sv_switch_task (close_context ctx s) = None" "sv_switch_deadline (close_context ctx s) = None"
    "sv_active_switch_capture (close_context ctx s) = sv_active_switch_capture s"
  using assms
  by (auto simp: close_context_def cancel_outgoing_def is_visible_def Let_def holds_lease_def lease_context_def
      intro!: switchingI)

lemma start_cleanup_task_spec:
  assumes "sv_switch_task s = None"
  shows "returns (\<lambda>s'. switching s s' \<and> sv_bundle_lease s' = sv_bundle_lease s
     \<and> sv_switch_deadline s' = sv_switch_deadline s
     \<and> (if sv_switch_controller s = None then s' = s
        else \<exists>e q. sv_switch_task s' = Some (e, CleanupOp ctx reason q))) (start_cleanup_task env ctx reason s)"
  using assms
  by (auto simp: start_cleanup_task_def intro!: returns_mono [OF spawn_switch_task_spec])

lemma fail_context_inner_ends:
  assumes "holds_lease ctx s \<or> gate_of s = Local" "sv_switch_controller s \<noteq> None"
  shows "returns (\<lambda>s'. switching s s' \<and> ended ctx s') (fail_context_inner env ctx reason detail s)"
proof -
  let ?s = "notify_failed (Some (gc_target ctx)) reason detail (close_context ctx s)"
  note closed = close_context_spec [OF assms(1)]
  have sw: "switching s ?s"
    by (rule switching_trans [OF closed(1)], rule switchingI) simp_all
  have "returns (\<lambda>s'. switching s s' \<and> ended ctx s') (start_cleanup_task env ctx reason ?s)"
  proof (rule returns_mono [OF start_cleanup_task_spec])
    show "sv_switch_task ?s = None" by (simp add: closed)
    show "switching s s' \<and> ended ctx s'"
      if "switching ?s s' \<and> sv_bundle_lease s' = sv_bundle_lease ?s \<and> sv_switch_deadline s' = sv_switch_deadline ?s
        \<and> (if sv_switch_controller ?s = None then s' = ?s
           else \<exists>e q. sv_switch_task s' = Some (e, CleanupOp ctx reason q))" for s'
      using that sw switching_trans [OF sw] assms(2) closed by (auto simp: ended_def switching_def)
  qed
  moreover have "switching s (call CaptureRelease (?s\<lparr>sv_pending_switch_cleanup := Some (ctx, reason)\<rparr>))
    \<and> ended ctx (call CaptureRelease (?s\<lparr>sv_pending_switch_cleanup := Some (ctx, reason)\<rparr>))"
    using closed by (auto simp: ended_def is_visible_def intro!: switching_trans [OF sw] switchingI)
  ultimately show ?thesis by (simp add: fail_context_inner_def Let_def)
qed

lemma same_identity_lease: "lease_context s = Some ctx \<Longrightarrow> holds_lease ctx s"
  by (simp add: holds_lease_def)

lemma ended_cong: "ended a s \<Longrightarrow> same_identity a b \<Longrightarrow> ended b s"
  unfolding ended_def by (meson same_identity_trans)

lemma moves_ended:
  assumes "switching s s'" "ended ctx s'" "holds_lease ctx s"
  shows "moves s s'"
proof -
  obtain cur where cur: "lease_context s = Some cur" "same_identity cur ctx"
    using assms(3) by (auto simp: holds_lease_def split: option.splits)
  then have "ended cur s'" using assms(2) ended_cong same_identity_sym by blast
  with assms(1) cur(1) show ?thesis by (simp add: moves_def ended_served)
qed


text \<open>A reservation that is held, or that the manager has already dropped.\<close>

lemma moves_fail_lease:
  assumes "guarded s" "holds_lease ctx s" "switching s s1" "holds_lease ctx s1 \<or> gate_of s1 = Local"
  shows "returns (moves s) (fail_context_inner env ctx reason detail s1)"
proof -
  have "sv_switch_controller s1 \<noteq> None"
    using assms(1-3) by (auto simp: guarded_def holds_lease_def switching_def split: option.splits)
  with assms(4) have "returns (\<lambda>s'. switching s1 s' \<and> ended ctx s') (fail_context_inner env ctx reason detail s1)"
    by (rule fail_context_inner_ends)
  then show ?thesis
    by (rule returns_mono) (use assms(2,3) moves_ended switching_trans in blast)
qed

lemma moves_fail_context_inner:
  "guarded s \<Longrightarrow> holds_lease ctx s \<Longrightarrow> returns (moves s) (fail_context_inner env ctx reason detail s)"
  by (simp add: moves_fail_lease)

lemma moves_fail_dropped:
  assumes "guarded s" "lease_context s = Some ctx" "switching s s1" "gate_of s1 = Local"
  shows "returns (moves s) (fail_context_inner env ctx reason detail s1)"
  using assms by (intro moves_fail_lease) (simp_all add: same_identity_lease)

lemma switching_invalidate: "switching s (invalidate_lease s)"
  by (rule switchingI) simp_all

lemma moves_fail_gate_with_detail:
  assumes "guarded s" "lease_context s = Some ctx"
  shows "returns (moves s) (fail_gate_with_detail env reason detail s)"
  using moves_fail_dropped [OF assms switching_invalidate] assms(2)
  by (simp add: fail_gate_with_detail_def fail_context_with_detail_def)

lemma defer_failure_spec:
  assumes "holds_lease ctx s \<or> gate_of s = Local"
  shows "switching s (defer_failure_until_capture_release ctx reason s)"
    and "ended ctx (defer_failure_until_capture_release ctx reason s)"
proof -
  note closed = close_context_spec [OF assms]
  show "switching s (defer_failure_until_capture_release ctx reason s)"
    unfolding defer_failure_until_capture_release_def Let_def
    by (rule switching_trans [OF closed(1)], rule switchingI) simp_all
  show "ended ctx (defer_failure_until_capture_release ctx reason s)"
    using closed by (simp add: defer_failure_until_capture_release_def ended_def)
qed

lemma moves_defer_failure:
  assumes "holds_lease ctx s" "switching s s1" "holds_lease ctx s1 \<or> gate_of s1 = Local"
  shows "moves s (defer_failure_until_capture_release ctx reason s1)"
  using defer_failure_spec [OF assms(3)] assms(1,2) moves_ended switching_trans by blast

lemma moves_release_gate_after_capture:
  assumes "served s"
  shows "returns (moves s) (release_gate_after_capture env reason notify s)"
proof (cases "lease_context s")
  case None
  then have "moves s (invalidate_lease s)"
    using assms switching_invalidate [of s]
    by (simp add: moves_def served_def guarded_def lease_context_None lease_context_Some)
  with None show ?thesis by (simp add: release_gate_after_capture_def)
next
  case (Some ctx)
  let ?s = "(cancel_switch_task (cancel_outgoing ctx (invalidate_lease s)))\<lparr>sv_switch_deadline := None\<rparr>"
  let ?n = "if notify then notify_failed (Some (gc_target ctx)) reason None ?s else ?s"
  have sw: "switching s ?n"
    by (rule switchingI) (simp_all add: cancel_outgoing_def is_visible_def)
  have ctl: "sv_switch_controller ?n \<noteq> None"
    using assms Some by (auto simp: served_def guarded_def cancel_outgoing_def)
  have "returns (moves s) (start_cleanup_task env ctx reason ?n)"
  proof (rule returns_mono [OF start_cleanup_task_spec])
    show "sv_switch_task ?n = None" by simp
    show "moves s s'" if "switching ?n s' \<and> sv_bundle_lease s' = sv_bundle_lease ?n
        \<and> sv_switch_deadline s' = sv_switch_deadline ?n
        \<and> (if sv_switch_controller ?n = None then s' = ?n
           else \<exists>e q. sv_switch_task s' = Some (e, CleanupOp ctx reason q))" for s'
    proof (rule moves_ended)
      show "switching s s'" using that sw switching_trans by blast
      show "ended ctx s'" using that ctl by (auto simp: ended_def cancel_outgoing_def)
      show "holds_lease ctx s" using Some by (rule same_identity_lease)
    qed
  qed
  with Some show ?thesis by (simp add: release_gate_after_capture_def Let_def)
qed

text \<open>The deferred clean-up: nothing is reserved, or a grant waits for a crossing.\<close>

lemma moves_refl: "served s \<Longrightarrow> moves s s"
  by (simp add: moves_def same_identity_lease)

text \<open>Changes that the reservation does not depend on.\<close>

lemma moves_frame:
  assumes "moves s s1" "switching s1 s'" "sv_bundle_lease s' = sv_bundle_lease s1"
    "sv_switch_task s' = sv_switch_task s1" "sv_switch_deadline s' = sv_switch_deadline s1"
    "sv_pending_switch_cleanup s' = sv_pending_switch_cleanup s1"
  shows "moves s s'"
  using assms switching_trans [of s s1 s']
  by (auto simp: moves_def served_def guarded_def holds_lease_def lease_context_def ended_def switching_def)

lemma moves_complete_pending:
  assumes "served s"
  shows "returns (moves s) (complete_pending_switch_cleanup env s)"
proof (cases "sv_pending_switch_cleanup s")
  case None
  with assms show ?thesis by (simp add: complete_pending_switch_cleanup_def moves_refl)
next
  case (Some p)
  then obtain ctx reason where p: "sv_pending_switch_cleanup s = Some (ctx, reason)" by (cases p) simp
  let ?s = "s\<lparr>sv_pending_switch_cleanup := None\<rparr>"
  have m: "moves s s'" if "switching ?s s'" "sv_bundle_lease s' = sv_bundle_lease ?s"
    "sv_switch_deadline s' = sv_switch_deadline ?s"
    "sv_switch_task s' = sv_switch_task s \<or> (sv_switch_task s = None \<and> (\<exists>e q. sv_switch_task s' = Some (e, CleanupOp ctx reason q)))" for s'
  proof -
    have sw: "switching s s'" using that(1) by (rule switching_trans [rotated], intro switchingI) simp_all
    have "serves (gate_of s) (map_option snd (sv_switch_task s'))"
      using that(4) assms by (cases "gate_of s") (auto simp: served_def)
    then show ?thesis
      using that sw assms
      by (auto simp: moves_def served_def guarded_def holds_lease_def lease_context_def switching_def)
  qed
  have "returns (\<lambda>x. moves s (snd x)) (spawn_switch_task (CleanupOp ctx reason q) ?s)" for q
  proof (rule returns_mono [OF spawn_switch_task_spec])
    fix x
    assume "case x of (started, s') \<Rightarrow> switching ?s s' \<and> started = (sv_switch_task ?s = None)
      \<and> (if started
         then \<exists>e. s' = call (SpawnTask e (CleanupOp ctx reason q))
                (?s\<lparr>sv_next_switch_task_epoch := e, sv_switch_task := Some (e, CleanupOp ctx reason q)\<rparr>)
         else s' = ?s)"
    then have "switching ?s (snd x)"
      "sv_bundle_lease (snd x) = sv_bundle_lease ?s \<and> sv_switch_deadline (snd x) = sv_switch_deadline ?s
       \<and> (sv_switch_task (snd x) = sv_switch_task s
         \<or> sv_switch_task s = None \<and> (\<exists>e q. sv_switch_task (snd x) = Some (e, CleanupOp ctx reason q)))"
      by (cases x; cases "fst x"; auto)+
    then show "moves s (snd x)" using m [of "snd x"] by simp
  qed
  then show ?thesis
    using p m [of ?s] by (simp add: complete_pending_switch_cleanup_def start_cleanup_task_def)
qed

section \<open>The handlers of the switch\<close>

lemma reset_switch_deadline_fields [simp]:
  "sv_clients (reset_switch_deadline env i s) = sv_clients s"
  "sv_authorized_keys (reset_switch_deadline env i s) = sv_authorized_keys s"
  "sv_port (reset_switch_deadline env i s) = sv_port s"
  "sv_public_key_fingerprint (reset_switch_deadline env i s) = sv_public_key_fingerprint s"
  "sv_frontend_events (reset_switch_deadline env i s) = sv_frontend_events s"
  "sv_capture_status (reset_switch_deadline env i s) = sv_capture_status s"
  "sv_emulation_status (reset_switch_deadline env i s) = sv_emulation_status s"
  "sv_incoming_conns (reset_switch_deadline env i s) = sv_incoming_conns s"
  "sv_incoming_conn_info (reset_switch_deadline env i s) = sv_incoming_conn_info s"
  "sv_next_trigger_handle (reset_switch_deadline env i s) = sv_next_trigger_handle s"
  "sv_bundle_lease (reset_switch_deadline env i s) = sv_bundle_lease s"
  "sv_edge_intent_gate (reset_switch_deadline env i s) = sv_edge_intent_gate s"
  "sv_switch_controller (reset_switch_deadline env i s) = sv_switch_controller s"
  "sv_system_notifier (reset_switch_deadline env i s) = sv_system_notifier s"
  "sv_switch_task (reset_switch_deadline env i s) = sv_switch_task s"
  "sv_next_switch_task_epoch (reset_switch_deadline env i s) = sv_next_switch_task_epoch s"
  "sv_active_switch_capture (reset_switch_deadline env i s) = sv_active_switch_capture s"
  "sv_pending_switch_cleanup (reset_switch_deadline env i s) = sv_pending_switch_cleanup s"
  "sv_next_release_epoch (reset_switch_deadline env i s) = sv_next_release_epoch s"
  "sv_pending_clipboard_fallback (reset_switch_deadline env i s) = sv_pending_clipboard_fallback s"
  "sv_calls (reset_switch_deadline env i s) = sv_calls s"
  "sv_switch_deadline (reset_switch_deadline env i s) = None \<longleftrightarrow> gate_of s = Local"
  by (cases "gate_of s"; simp add: reset_switch_deadline_def)+

lemma moves_handle_switch_deadline:
  assumes "served s"
  shows "returns (moves s) (handle_switch_deadline env s)"
proof -
  let ?s = "s\<lparr>sv_switch_deadline := None\<rparr>"
  let ?now = "controller_now_ms env 0 ?s"
  show ?thesis
  proof (cases "state_expired (gate_of s) ?now")
    case True
    then obtain ctx where ctx: "lease_context s = Some ctx"
      by (cases "gate_of s") (simp_all add: lease_context_Some)
    have "returns (moves s) (fail_context env ctx ''local_lease_expired''
        (?s\<lparr>sv_bundle_lease := (sv_bundle_lease s)\<lparr>gate_state := Local\<rparr>\<rparr>))"
      unfolding fail_context_def by (rule moves_fail_dropped [OF served_guarded [OF assms] ctx]) (auto intro!: switchingI)
    with True ctx show ?thesis
      by (simp add: handle_switch_deadline_def gate_expire_def gate_invalidate_def lease_context_def gate_context_def)
  next
    case False
    have "moves s (reset_switch_deadline env 1 ?s)"
      using assms
      by (auto simp: moves_def served_def guarded_def lease_context_def holds_lease_def lease_context_Some
          gate_context_def intro!: switchingI split: option.splits)
    with False show ?thesis by (simp add: handle_switch_deadline_def gate_expire_def)
  qed
qed

lemma moves_handle_peer_readiness_change:
  assumes "served s"
  shows "returns (moves s) (handle_peer_readiness_change env handle s)"
  using assms moves_fail_context_inner [OF served_guarded [OF assms]] same_identity_lease [of s]
  by (auto simp: handle_peer_readiness_change_def fail_context_def moves_refl split: option.split)

lemma moves_arm_manual_recovery:
  assumes "served s" "gate_of s = Local"
  shows "returns (moves s) (arm_manual_recovery_then_notify target reason detail s)"
proof -
  let ?op = "ManualRecoveryOp target reason detail"
  have nf: "moves s (notify_failed (Some target) reason d s')" if "moves s s'" for d s'
    by (rule moves_frame [OF that]) (auto intro!: switchingI)
  have "returns (\<lambda>x. moves s (if fst x then snd x else notify_failed (Some target) reason (Some detail) (snd x)))
    (spawn_switch_task ?op s)"
  proof (rule returns_mono [OF spawn_switch_task_spec])
    fix x
    assume x: "case x of (started, s') \<Rightarrow> switching s s' \<and> started = (sv_switch_task s = None)
      \<and> (if started
         then \<exists>e. s' = call (SpawnTask e ?op) (s\<lparr>sv_next_switch_task_epoch := e, sv_switch_task := Some (e, ?op)\<rparr>)
         else s' = s)"
    show "moves s (if fst x then snd x else notify_failed (Some target) reason (Some detail) (snd x))"
    proof (cases "fst x")
      case True
      with x assms show ?thesis
        by (cases x) (auto simp: moves_def served_def guarded_def lease_context_Some)
    next
      case False
      with x have "snd x = s" by (cases x) simp
      with False show ?thesis using nf [OF moves_refl [OF assms(1)]] by simp
    qed
  qed
  then show ?thesis
    using nf [OF moves_refl [OF assms(1)]]
    by (simp add: arm_manual_recovery_then_notify_def case_prod_beta)
qed

lemma moves_after:
  assumes "switching s s1" "\<And>ctx. lease_context s = Some ctx \<Longrightarrow> holds_lease ctx s1" "moves s1 s'"
  shows "moves s s'"
proof -
  have "holds_lease ctx s' \<or> ended ctx s'" if c: "lease_context s = Some ctx" for ctx
  proof -
    obtain c1 where c1: "lease_context s1 = Some c1" "same_identity c1 ctx"
      using assms(2) [OF c] by (auto simp: holds_lease_def split: option.splits)
    then consider "holds_lease c1 s'" | "ended c1 s'" using assms(3) by (auto simp: moves_def)
    then show ?thesis
      by cases (use c1(2) ended_cong same_identity_trans in \<open>auto simp: holds_lease_def split: option.splits\<close>)
  qed
  with assms show ?thesis using switching_trans [of s s1 s'] by (simp add: moves_def)
qed

subsection \<open>Reserving\<close>

lemma gate_reserve_result:
  assumes "gate_reserve m handle target rid lid session ready now ttl = (m', r)"
  shows "case r of Inl e \<Rightarrow> m' = m \<and> (e = PeerNotReady \<longrightarrow> gate_state m = Local)
    | Inr ctx \<Rightarrow> gate_state m = Local \<and> gate_state m' = Preparing ctx \<and> gc_target ctx = target"
  using assms by (auto simp: gate_reserve_def Let_def split: if_splits option.splits)

lemma moves_start_task:
  assumes "sv_switch_controller s \<noteq> None" "sv_switch_task s = None" "guarded s"
    "serves (gate_of s) (Some op)"
  shows "returns (\<lambda>x. fst x \<and> moves s (snd x) \<and> gate_of (snd x) = gate_of s
    \<and> (\<exists>e. sv_switch_task (snd x) = Some (e, op))) (spawn_switch_task op s)"
proof (rule returns_mono [OF spawn_switch_task_spec])
  fix x
  assume x: "case x of (started, s') \<Rightarrow> switching s s' \<and> started = (sv_switch_task s = None)
    \<and> (if started
       then \<exists>e. s' = call (SpawnTask e op) (s\<lparr>sv_next_switch_task_epoch := e, sv_switch_task := Some (e, op)\<rparr>)
       else s' = s)"
  then obtain e where e: "fst x" "switching s (snd x)"
    "snd x = call (SpawnTask e op) (s\<lparr>sv_next_switch_task_epoch := e, sv_switch_task := Some (e, op)\<rparr>)"
    using assms(2) by (cases x) auto
  then show "fst x \<and> moves s (snd x) \<and> gate_of (snd x) = gate_of s \<and> (\<exists>e. sv_switch_task (snd x) = Some (e, op))"
    using assms(3,4) by (auto simp: moves_def served_def guarded_def lease_context_def holds_lease_def)
qed

lemma moves_reserve_bundle:
  assumes "served s" "sv_switch_task s = None" "sv_switch_controller s = Some controller"
    "target \<noteq> sct_server_host controller"
  shows "returns (moves s) (reserve_bundle env handle target controller r s)"
proof -
  obtain m q where reserved: "gate_reserve (sv_bundle_lease s) handle target (''request-'' @ hex32 (se_request_random env))
      (''lease-'' @ hex32 (se_lease_random env)) (pb_session_epoch r) (input_ready r \<and> pb_session_epoch r \<noteq> 0)
      (se_clock env 0) (sct_lease_ttl_ms controller) = (m, q)" by fastforce
  note res = gate_reserve_result [OF reserved]
  show ?thesis
  proof (cases q)
    case (Inl e)
    have nf: "moves s (notify_failed t reason d s)" for t reason d
      by (rule moves_frame [OF moves_refl [OF assms(1)]]) (auto intro!: switchingI)
    have "returns (moves s) (reserve_failed env handle target r e s)"
      using res Inl nf moves_arm_manual_recovery [OF assms(1)]
      by (cases e) (simp_all add: reserve_failed_def case_prod_beta)
    with res Inl reserved show ?thesis by (simp add: reserve_bundle_def)
  next
    case (Inr ctx)
    let ?s = "reset_switch_deadline env 1 (call (ToClipboard (BeginRemote (gl_lease_epoch (gc_lease ctx)) (gc_target ctx)))
      (s\<lparr>sv_bundle_lease := m\<rparr>))"
    have local: "gate_of s = Local" and prep: "gate_state m = Preparing ctx" and target: "gc_target ctx = target"
      using res Inr by simp_all
    have guarded: "guarded ?s"
      using prep target assms(3,4) by (auto simp: guarded_def lease_context_Some)
    have sw: "switching s ?s" by (rule switchingI) (simp_all add: is_visible_def)
    have "returns (\<lambda>x. fst x \<and> moves ?s (snd x)) (start_prepare_task ctx r ?s)"
      unfolding start_prepare_task_def
      by (simp add: assms(3), rule returns_mono [OF moves_start_task])
        (use guarded assms(2,3) prep in simp_all)
    then have "returns (\<lambda>x. fst x \<and> moves s (snd x)) (start_prepare_task ctx r ?s)"
      by (rule returns_mono) (use moves_after [OF sw] local in \<open>auto simp: lease_context_Some\<close>)
    then have "returns (\<lambda>x. returns (moves s)
        (if fst x then Some (snd x) else fail_context env ctx ''controller_busy'' (snd x))) (start_prepare_task ctx r ?s)"
      by (rule returns_mono) simp
    with Inr reserved show ?thesis by (simp add: reserve_bundle_def Let_def case_prod_beta)
  qed
qed

lemma peer_readiness_None: "peer_readiness env s handle = None \<longleftrightarrow> slab_get (sv_clients s) handle = None"
  by (simp add: peer_readiness_def cm_peer_input_readiness_def)

lemma edge_confirmed_frame:
  "\<exists>g. snd (edge_confirmed env handle target r s) = s\<lparr>sv_edge_intent_gate := g\<rparr>"
proof (cases "sv_edge_intent_gate s")
  case None
  then show ?thesis
    by (intro exI [of _ "sv_edge_intent_gate s"]) (simp add: edge_confirmed_def)
next
  case (Some g)
  then show ?thesis by (auto simp: edge_confirmed_def case_prod_beta Let_def)
qed

lemma moves_handle_capture_candidate:
  assumes "served s"
  shows "returns (moves s) (handle_capture_candidate env handle s)"
proof -
  have nf: "moves s (notify_failed t reason d s)" for t reason d
    by (rule moves_frame [OF moves_refl [OF assms]]) (auto intro!: switchingI)
  have candidate: "returns (moves s) (let readiness = peer_readiness env s handle;
        (confirmed, s) = edge_confirmed env handle target readiness s
      in if \<not> confirmed then Some s
         else case readiness of
           None \<Rightarrow> arm_manual_recovery_then_notify target ''peer_missing'' ''The target lan-mouse peer is unavailable'' s
         | Some r \<Rightarrow> reserve_bundle env handle target controller r s)"
    if free: "sv_switch_controller s = Some controller" "target \<noteq> sct_server_host controller" "sv_switch_task s = None"
      and configured: "cm_switch_target (sv_clients s) handle = Some target" for controller target
  proof -
    obtain r where r: "peer_readiness env s handle = Some r"
      using configured peer_readiness_None [of env s handle] by (auto simp: cm_switch_target_def bind_eq_Some_conv)
    obtain b s1 where s1: "edge_confirmed env handle target (Some r) s = (b, s1)" by fastforce
    then obtain g where g: "s1 = s\<lparr>sv_edge_intent_gate := g\<rparr>"
      using edge_confirmed_frame [of env handle target "Some r" s] by (metis snd_conv)
    have m: "moves s s1"
      by (rule moves_frame [OF moves_refl [OF assms]]) (auto simp: g intro!: switchingI)
    then have "served s1" by (simp add: moves_def)
    then have "returns (moves s1) (reserve_bundle env handle target controller r s1)"
      using free by (intro moves_reserve_bundle) (simp_all add: g)
    moreover have "switching s s1" "\<And>ctx. lease_context s = Some ctx \<Longrightarrow> holds_lease ctx s1"
      using m by (simp_all add: moves_def g holds_lease_def lease_context_def)
    ultimately have "returns (moves s) (reserve_bundle env handle target controller r s1)"
      using moves_after by (metis returns_mono)
    with m s1 r show ?thesis by simp
  qed
  show ?thesis
    using nf moves_refl [OF assms] candidate
    by (cases "sv_switch_task s") (auto simp: handle_capture_candidate_def split: option.split)
qed

subsection \<open>Grant and crossing\<close>

lemma gate_arm_grant_result:
  assumes "gate_arm_grant m ctx re ge le gx ready session now = (m', r)" "gate_state m = Preparing ctx"
  shows "case r of Inl e \<Rightarrow> gate_state m' = Preparing ctx \<or> gate_state m' = Local
    | Inr (ctx', g) \<Rightarrow> gate_state m' = GrantArmed ctx' g \<and> same_identity ctx' ctx \<and> gc_target ctx' = gc_target ctx"
  using assms by (auto simp: gate_arm_grant_def Let_def same_identity_def split: if_splits)

lemma gate_commit_result:
  assumes "gate_commit m handle lease ready session now = (m', r)"
  shows "case r of Inl e \<Rightarrow> m' = m \<or> gate_state m' = Local
    | Inr (ctx, g) \<Rightarrow> gate_state m = GrantArmed ctx g
        \<and> (\<exists>d. gate_state m' = RemoteOwned ctx g d) \<and> ready \<and> gl_peer_session_epoch (gc_lease ctx) = session
        \<and> now < gl_expires_at_ms (gc_lease ctx) \<and> now < gg_expires_at_ms g"
  using assms by (auto simp: gate_commit_def split: if_splits BundleGateState.splits)

lemma gate_renew_result:
  assumes "gate_renew m rid until ready session now = (m', r)" "gate_state m = RemoteOwned ctx g d"
  shows "case r of Inl e \<Rightarrow> m' = m \<or> gate_state m' = Local
    | Inr _ \<Rightarrow> \<exists>ctx' d'. gate_state m' = RemoteOwned ctx' g d' \<and> same_identity ctx' ctx \<and> gc_target ctx' = gc_target ctx"
  using assms by (auto simp: gate_renew_def same_identity_def split: if_splits)

lemma holds_leaseI:
  "gate_of s = Preparing c \<or> gate_of s = GrantArmed c g \<or> gate_of s = RemoteOwned c g d \<Longrightarrow> same_identity c ctx
    \<Longrightarrow> holds_lease ctx s"
  by (auto simp: holds_lease_def lease_context_def gate_context_def)

lemma moves_arm_capture:
  assumes "guarded s" "gate_of s = GrantArmed ctx g" "sv_switch_task s = None"
  shows "returns (moves s) (arm_capture env ctx s)"
proof -
  have served: "served s" using assms by (simp add: served_def)
  have fail: "returns (moves s) (fail_context env ctx reason s)" for reason
    unfolding fail_context_def
    by (rule moves_fail_context_inner [OF assms(1)]) (simp add: holds_leaseI assms(2))
  have "moves s (call c s)" if "\<not> is_visible c" "spawned [c] = []" for c
    using that by (intro moves_frame [OF moves_refl [OF served]] switchingI) simp_all
  with fail assms(2) show ?thesis by (simp add: arm_capture_def is_visible_def split: option.split)
qed

lemma moves_handle_prepared:
  assumes "guarded s" "gate_of s = Preparing ctx" "sv_switch_task s = None"
  shows "returns (moves s) (handle_prepared env ctx result s)"
proof -
  have lease: "lease_context s = Some ctx" using assms(2) by (simp add: lease_context_Some)
  obtain c where c: "sv_switch_controller s = Some c" "gc_target ctx \<noteq> sct_server_host c"
    using assms(1) lease by (auto simp: guarded_def)
  have grant: "returns (moves s) (case gate_arm_grant (sv_bundle_lease s) ctx re ge le gx ready session now of
      (m, Inl error) \<Rightarrow> fail_context_with_detail env ctx reason (shown error) (s\<lparr>sv_bundle_lease := m\<rparr>)
    | (m, Inr (ctx, grant)) \<Rightarrow>
        (let s = reset_switch_deadline env 1 (s\<lparr>sv_bundle_lease := m\<rparr>)
         in case sv_switch_controller s of
              None \<Rightarrow> fail_context env ctx ''controller_missing_after_grant'' s
            | Some controller \<Rightarrow>
                if gc_target ctx = sct_server_host controller
                then do {
                  (started, s) \<leftarrow> start_commit_task ctx grant s;
                  if started then Some s else fail_context env ctx ''commit_task_busy'' s
                }
                else arm_capture env ctx s))" for re ge le gx ready session now reason shown
  proof -
    obtain m r where g: "gate_arm_grant (sv_bundle_lease s) ctx re ge le gx ready session now = (m, r)" by fastforce
    note res = gate_arm_grant_result [OF g assms(2)]
    show ?thesis
    proof (cases r)
      case (Inl e)
      let ?s = "s\<lparr>sv_bundle_lease := m\<rparr>"
      have sw: "switching s ?s" by (rule switchingI) simp_all
      have "returns (moves s) (fail_context_inner env ctx reason (Some (shown e)) ?s)"
      proof (cases "gate_state m = Local")
        case True
        then show ?thesis using moves_fail_dropped [OF assms(1) lease sw] by simp
      next
        case False
        then have held: "holds_lease ctx ?s" using res Inl by (intro holds_leaseI) auto
        moreover have "guarded ?s"
          using False res Inl assms(1) lease by (auto simp: guarded_def lease_context_Some)
        ultimately have "returns (moves ?s) (fail_context_inner env ctx reason (Some (shown e)) ?s)"
          by (intro moves_fail_context_inner)
        then show ?thesis
          by (rule returns_mono) (rule moves_after [OF sw], use lease held in simp_all)
      qed
      with g Inl show ?thesis by (simp add: fail_context_with_detail_def)
    next
      case (Inr p)
      then obtain ctx' grant where p: "r = Inr (ctx', grant)" by (cases p) simp
      let ?s = "reset_switch_deadline env 1 (s\<lparr>sv_bundle_lease := m\<rparr>)"
      have armed: "gate_state m = GrantArmed ctx' grant" "same_identity ctx' ctx" "gc_target ctx' = gc_target ctx"
        using res p by simp_all
      have sw: "switching s ?s" by (rule switchingI) simp_all
      have "guarded ?s" using armed c by (simp add: guarded_def lease_context_Some)
      then have "returns (moves ?s) (arm_capture env ctx' ?s)"
        using armed assms(3) by (intro moves_arm_capture) simp_all
      then have "returns (moves s) (arm_capture env ctx' ?s)"
        by (rule returns_mono) (rule moves_after [OF sw], use lease armed in \<open>auto intro: holds_leaseI\<close>)
      with g p c armed(3) show ?thesis by (simp add: Let_def)
    qed
  qed
  show ?thesis
    using grant moves_fail_gate_with_detail [OF assms(1) lease] moves_fail_context_inner [OF assms(1) same_identity_lease [OF lease]]
      same_identity_lease [OF lease] moves_refl
    by (auto simp: handle_prepared_def fail_context_def case_prod_beta split: sum.split option.split)
qed

text \<open>A crossing is authorized only with an armed grant and a ready peer, and the commit is under way.\<close>

definition authorized :: "ServiceEnv \<Rightarrow> ClientHandle \<Rightarrow> u64 \<Rightarrow> u64 \<Rightarrow> Service \<Rightarrow> Service \<Rightarrow> bool" where
  "authorized env handle lease peer s s' \<longleftrightarrow> (\<exists>ctx g d r e. gate_of s = GrantArmed ctx g
     \<and> gate_of s' = RemoteOwned ctx g d \<and> sv_switch_task s' = Some (e, CommitOp ctx g)
     \<and> gc_handle ctx = handle \<and> gl_lease_epoch (gc_lease ctx) = lease \<and> gl_peer_session_epoch (gc_lease ctx) = peer
     \<and> peer_readiness env s handle = Some r \<and> input_ready r \<and> pb_session_epoch r = peer
     \<and> controller_now_ms env 0 s < gl_expires_at_ms (gc_lease ctx) \<and> controller_now_ms env 0 s < gg_expires_at_ms g)"

lemma authorize_client_enter_spec:
  assumes "served s"
  shows "returns (\<lambda>x. moves s (snd x) \<and> (fst x \<longrightarrow> authorized env handle lease peer s (snd x)))
    (authorize_client_enter env handle lease peer s)"
proof (cases "lease_context s")
  case None
  with assms show ?thesis by (simp add: authorize_client_enter_def moves_refl)
next
  case (Some ctx)
  note held = same_identity_lease [OF Some]
  have deferred: "moves s (defer_failure_until_capture_release ctx reason s)" for reason
    using held by (intro moves_defer_failure) simp_all
  show ?thesis
  proof (cases "peer_readiness env s handle")
    case None
    with Some deferred show ?thesis by (simp add: authorize_client_enter_def)
  next
    case ready: (Some r)
    obtain m q where commit: "gate_commit (sv_bundle_lease s) handle lease (input_ready r) (pb_session_epoch r)
        (controller_now_ms env 0 s) = (m, q)" by fastforce
    note res = gate_commit_result [OF commit]
    show ?thesis
    proof (cases q)
      case (Inl e)
      have "moves s (defer_failure_until_capture_release ctx reason (s\<lparr>sv_bundle_lease := m\<rparr>))" for reason
        using held res Inl
        by (intro moves_defer_failure) (auto simp: holds_lease_def lease_context_def intro!: switchingI)
      with Some ready commit Inl deferred show ?thesis by (simp add: authorize_client_enter_def)
    next
      case (Inr p)
      then obtain c g where p: "q = Inr (c, g)" by (cases p) simp
      then obtain d where gate: "gate_of s = GrantArmed c g" "gate_state m = RemoteOwned c g d" using res by auto
      then have c: "c = ctx" using Some by (auto simp: lease_context_Some)
      obtain ctl where ctl: "sv_switch_controller s = Some ctl" "gc_target ctx \<noteq> sct_server_host ctl"
        using assms Some by (auto simp: served_def guarded_def)
      let ?s = "reset_switch_deadline env 1 (call (ToClipboard (Activate (Outgoing (gl_lease_epoch (gc_lease ctx)))))
        (s\<lparr>sv_bundle_lease := m\<rparr>))"
      have sw: "switching s ?s" by (rule switchingI) (simp_all add: is_visible_def)
      have held': "holds_lease ctx ?s" using gate c by (auto intro: holds_leaseI)
      have guarded: "guarded ?s" using gate c ctl by (auto simp: guarded_def lease_context_Some)
      have "returns (\<lambda>x. if fst x then moves s (snd x) \<and> gate_of (snd x) = RemoteOwned ctx g d
            \<and> (\<exists>e. sv_switch_task (snd x) = Some (e, CommitOp ctx g))
          else snd x = ?s) (start_commit_task ctx g ?s)"
      proof (cases "sv_switch_task s")
        case None
        have "returns (\<lambda>x. fst x \<and> moves ?s (snd x) \<and> gate_of (snd x) = gate_of ?s
            \<and> (\<exists>e. sv_switch_task (snd x) = Some (e, CommitOp ctx g))) (spawn_switch_task (CommitOp ctx g) ?s)"
          using None guarded ctl gate c by (intro moves_start_task) simp_all
        then have "returns (\<lambda>x. fst x \<and> moves s (snd x) \<and> gate_of (snd x) = gate_of ?s
            \<and> (\<exists>e. sv_switch_task (snd x) = Some (e, CommitOp ctx g))) (spawn_switch_task (CommitOp ctx g) ?s)"
          by (rule returns_mono) (use moves_after [OF sw] Some held' in auto)
        then show ?thesis
          unfolding start_commit_task_def using ctl gate c by (auto elim!: returns_mono)
      next
        case (Some t)
        with ctl show ?thesis by (simp add: start_commit_task_def spawn_switch_task_def)
      qed
      moreover have "moves s (defer_failure_until_capture_release ctx reason ?s)" for reason
        using held sw held' by (intro moves_defer_failure) simp_all
      ultimately have "returns (\<lambda>x. (fst x \<longrightarrow> moves s (snd x) \<and> authorized env handle lease peer s (snd x))
          \<and> (\<not> fst x \<longrightarrow> moves s (defer_failure_until_capture_release ctx ''commit_task_busy'' (snd x))))
          (start_commit_task ctx g ?s)"
        if "gc_handle ctx = handle" "gl_lease_epoch (gc_lease ctx) = lease" "gl_peer_session_epoch (gc_lease ctx) = peer"
        using that res p ready gate c
        by (auto simp: authorized_def elim!: returns_mono)
      with Some ready commit p c deferred show ?thesis
        by (auto simp: authorize_client_enter_def case_prod_beta Let_def)
    qed
  qed
qed

subsection \<open>Commit and renewal\<close>

lemma moves_start_renewing:
  assumes "guarded s" "sv_switch_task s = None" "gate_of s = RemoteOwned ctx g d"
  shows "returns (moves s) (start_renewing env s)"
proof -
  have lease: "lease_context s = Some ctx" using assms(3) by (simp add: lease_context_Some)
  then obtain ctl where ctl: "sv_switch_controller s = Some ctl" using assms(1) by (auto simp: guarded_def)
  have "returns (\<lambda>x. fst x \<and> moves s (snd x) \<and> gate_of (snd x) = gate_of s
      \<and> (\<exists>e. sv_switch_task (snd x) = Some (e, RenewalOp ctx))) (spawn_switch_task (RenewalOp ctx) s)"
    using assms ctl by (intro moves_start_task) simp_all
  then have "returns (\<lambda>x. (fst x \<longrightarrow> moves s (snd x))
      \<and> (\<not> fst x \<longrightarrow> returns (moves s) (fail_context env ctx ''renewal_task_busy'' (snd x))))
      (spawn_switch_task (RenewalOp ctx) s)"
    by (rule returns_mono) simp
  with lease ctl show ?thesis by (simp add: start_renewing_def start_renewal_task_def case_prod_beta)
qed

lemma moves_handle_committed:
  assumes "guarded s" "sv_switch_task s = None" "gate_of s = RemoteOwned ctx g d"
  shows "returns (moves s) (handle_committed env ctx result s)"
proof -
  have lease: "lease_context s = Some ctx" using assms(3) by (simp add: lease_context_Some)
  note held = same_identity_lease [OF lease]
  obtain ctl where ctl: "sv_switch_controller s = Some ctl" "gc_target ctx \<noteq> sct_server_host ctl"
    using assms(1) lease by (auto simp: guarded_def)
  have renew: "returns (moves s) (case gate_renew (sv_bundle_lease s) (gl_request_id (gc_lease ctx)) until ready session now of
      (m, Inl error) \<Rightarrow> fail_context env ctx reason (s\<lparr>sv_bundle_lease := m\<rparr>)
    | (m, Inr _) \<Rightarrow> start_renewing env (reset_switch_deadline env 1 (s\<lparr>sv_bundle_lease := m\<rparr>)))"
    for until ready session now reason
  proof -
    obtain m q where renewal: "gate_renew (sv_bundle_lease s) (gl_request_id (gc_lease ctx)) until ready session now = (m, q)"
      by fastforce
    note res = gate_renew_result [OF renewal assms(3)]
    show ?thesis
    proof (cases q)
      case (Inl e)
      have "returns (moves s) (fail_context_inner env ctx reason None (s\<lparr>sv_bundle_lease := m\<rparr>))"
        using res Inl held
        by (intro moves_fail_lease [OF assms(1) held]) (auto simp: holds_lease_def lease_context_def intro!: switchingI)
      with renewal Inl show ?thesis by (simp add: fail_context_def)
    next
      case (Inr u)
      let ?s = "reset_switch_deadline env 1 (s\<lparr>sv_bundle_lease := m\<rparr>)"
      obtain ctx' d' where gate: "gate_of ?s = RemoteOwned ctx' g d'" "same_identity ctx' ctx" "gc_target ctx' = gc_target ctx"
        using res Inr by auto
      have sw: "switching s ?s" by (rule switchingI) simp_all
      have "guarded ?s" using gate ctl by (auto simp: guarded_def lease_context_Some)
      then have "returns (moves ?s) (start_renewing env ?s)"
        by (rule moves_start_renewing) (use assms(2) gate(1) in simp_all)
      then have "returns (moves s) (start_renewing env ?s)"
        by (rule returns_mono) (rule moves_after [OF sw], use lease gate in \<open>auto intro: holds_leaseI\<close>)
      with renewal Inr show ?thesis by simp
    qed
  qed
  show ?thesis
    using renew moves_fail_gate_with_detail [OF assms(1) lease] moves_fail_context_inner [OF assms(1) held] held ctl
    by (auto simp: handle_committed_def fail_context_def case_prod_beta split: sum.split option.split)
qed

lemma finish_switch_task_eq:
  "finish_switch_task e s = (map_option fst (sv_switch_task s) = Some e,
     if map_option fst (sv_switch_task s) = Some e then s\<lparr>sv_switch_task := None\<rparr> else s)"
  by (simp add: finish_switch_task_def)

lemma moves_handle_renewed:
  assumes "guarded s" "sv_switch_task s = Some (e, RenewalOp ctx)" "gate_of s = RemoteOwned cur g d" "same_identity cur ctx"
  shows "returns (moves s) (handle_renewed env e ctx result s)"
proof -
  let ?idle = "\<lambda>s. s\<lparr>sv_switch_task := None\<rparr>"
  have lease: "lease_context s = Some cur" using assms(3) by (simp add: lease_context_Some)
  then have held: "holds_lease ctx s" using assms(4) by (simp add: holds_lease_def)
  have idle: "returns (moves s) (fail_context_inner env ctx reason detail (?idle (s\<lparr>sv_bundle_lease := m\<rparr>)))"
    if "m = sv_bundle_lease s \<or> gate_state m = Local" for reason detail m
    using that held
    by (intro moves_fail_lease [OF assms(1) held]) (auto simp: holds_lease_def lease_context_def intro!: switchingI)
  have gate: "returns (moves s) (fail_gate_with_detail env reason detail (?idle s))" for reason detail
    using moves_fail_dropped [OF assms(1) lease, of "invalidate_lease (?idle s)"] lease
    by (simp add: fail_gate_with_detail_def fail_context_with_detail_def lease_context_def switchingI)
  have renew: "returns (moves s) (case gate_renew (sv_bundle_lease s) (gl_request_id (gc_lease ctx)) until ready session now of
      (m, Inl error) \<Rightarrow> fail_context env ctx reason (?idle (s\<lparr>sv_bundle_lease := m\<rparr>))
    | (m, Inr _) \<Rightarrow> Some (reset_switch_deadline env 1 (s\<lparr>sv_bundle_lease := m\<rparr>)))"
    for until ready session now reason
  proof -
    obtain m q where renewal: "gate_renew (sv_bundle_lease s) (gl_request_id (gc_lease ctx)) until ready session now = (m, q)"
      by fastforce
    note res = gate_renew_result [OF renewal assms(3)]
    show ?thesis
    proof (cases q)
      case (Inl e)
      then have "m = sv_bundle_lease s \<or> gate_state m = Local" using res by simp
      with renewal Inl show ?thesis by (simp add: fail_context_def idle)
    next
      case (Inr u)
      let ?s = "reset_switch_deadline env 1 (s\<lparr>sv_bundle_lease := m\<rparr>)"
      obtain ctx' d' where gate: "gate_of ?s = RemoteOwned ctx' g d'" "same_identity ctx' cur" "gc_target ctx' = gc_target cur"
        using res Inr by auto
      have "switching s ?s" by (rule switchingI) simp_all
      moreover have "served ?s"
        using gate assms lease same_identity_trans [OF gate(2) assms(4)]
        by (auto simp: served_def guarded_def lease_context_Some)
      moreover have "holds_lease cur ?s" using gate by (auto intro: holds_leaseI)
      ultimately have "moves s ?s" using lease by (simp add: moves_def)
      with renewal Inr show ?thesis by simp
    qed
  qed
  have "returns (moves s) (fail_context_inner env ctx reason None (?idle s))" for reason
    using idle [of "sv_bundle_lease s"] by simp
  then show ?thesis
    using renew gate held assms(2)
    by (auto simp: handle_renewed_def fail_context_def finish_switch_task_eq case_prod_beta split: sum.split option.split)
qed

fun event_epoch :: "SwitchTaskEvent \<Rightarrow> u64" where
  "event_epoch (TaskPrepared e _ _) = e"
| "event_epoch (TaskCommitted e _ _ _) = e"
| "event_epoch (TaskRenewed e _ _) = e"
| "event_epoch (TaskCleanupFinished e _ _) = e"
| "event_epoch (TaskManualRecoveryArmed e _ _ _ _) = e"

lemma reports_epoch: "reports e op ev \<Longrightarrow> e = event_epoch ev"
  by (cases op; cases ev) auto

lemma current_report:
  assumes "tasks_ok s" "service_enabled (FromTask ev) s" "map_option fst (sv_switch_task s) = Some (event_epoch ev)"
  obtains op where "sv_switch_task s = Some (event_epoch ev, op)" "reports (event_epoch ev) op ev"
proof -
  obtain op where t: "sv_switch_task s = Some (event_epoch ev, op)" using assms(3) by auto
  then have "reports (event_epoch ev) op ev"
    by (rule tasks_ok_report [OF assms(1,2)]) (rule reports_epoch)
  with t show thesis by (rule that)
qed

text \<open>What the report of the running operation says about the reservation.\<close>

lemma served_report:
  assumes "served s" "sv_switch_task s = Some (e, op)" "reports e op ev"
  shows "case ev of TaskPrepared _ ctx _ \<Rightarrow> gate_of s = Preparing ctx
    | TaskCommitted _ ctx g _ \<Rightarrow> \<exists>d. gate_of s = RemoteOwned ctx g d
    | TaskRenewed _ ctx _ \<Rightarrow> op = RenewalOp ctx \<and> (\<exists>cur g d. gate_of s = RemoteOwned cur g d \<and> same_identity cur ctx)
    | TaskCleanupFinished _ _ _ \<Rightarrow> serves (gate_of s) None
    | TaskManualRecoveryArmed _ _ _ _ _ \<Rightarrow> serves (gate_of s) None"
  using assms by (cases op; cases ev; cases "gate_of s") (auto simp: served_def)

lemma moves_current_report:
  assumes "served s" "sv_switch_task s = Some (event_epoch ev, op)" "reports (event_epoch ev) op ev"
  shows "returns (moves s) (handle_switch_task_event env ev s)"
proof -
  let ?s = "s\<lparr>sv_switch_task := None\<rparr>"
  note current = served_report [OF assms]
  have idle: "guarded ?s" using assms(1) by (simp add: served_def guarded_def lease_context_def)
  have sw: "switching s ?s" by (rule switchingI) simp_all
  have from_idle: "returns (moves s) r" if "returns (moves ?s) r" for r
    using that by (rule returns_mono) (rule moves_after [OF sw], simp_all add: holds_lease_def lease_context_def)
  have stay: "moves s ?s" if "serves (gate_of s) None"
    using that sw idle by (simp add: moves_def served_def holds_lease_def lease_context_def)
  show ?thesis
  proof (cases ev)
    case (TaskPrepared e ctx result)
    then have "returns (moves s) (handle_prepared env ctx result ?s)"
      using current by (intro from_idle moves_handle_prepared idle) simp_all
    with assms(2) TaskPrepared show ?thesis by (simp add: finish_switch_task_eq)
  next
    case (TaskCommitted e ctx grant result)
    then obtain d where "gate_of ?s = RemoteOwned ctx grant d" using current by auto
    then have "returns (moves s) (handle_committed env ctx result ?s)"
      by (intro from_idle moves_handle_committed idle) simp_all
    with assms(2) TaskCommitted show ?thesis by (simp add: finish_switch_task_eq)
  next
    case (TaskRenewed e ctx result)
    then obtain cur g d where "gate_of s = RemoteOwned cur g d" "same_identity cur ctx" "op = RenewalOp ctx"
      using current by auto
    then have "returns (moves s) (handle_renewed env e ctx result s)"
      using assms(1,2) TaskRenewed by (intro moves_handle_renewed served_guarded) simp_all
    with assms(2) TaskRenewed show ?thesis by simp
  next
    case (TaskCleanupFinished e i result)
    with current stay assms(2) show ?thesis by (simp add: finish_switch_task_eq)
  next
    case (TaskManualRecoveryArmed e t r d result)
    then have "moves s (notify_failed (Some t) r x ?s)" for x
      using current by (intro moves_frame [OF stay]) (auto intro!: switchingI)
    with assms(2) TaskManualRecoveryArmed show ?thesis by (simp add: finish_switch_task_eq)
  qed
qed

lemma moves_handle_switch_task_event:
  assumes "served s" "tasks_ok s" "service_enabled (FromTask ev) s"
  shows "returns (moves s) (handle_switch_task_event env ev s)"
proof (cases "map_option fst (sv_switch_task s) = Some (event_epoch ev)")
  case True
  then obtain op where "sv_switch_task s = Some (event_epoch ev, op)" "reports (event_epoch ev) op ev"
    by (rule current_report [OF assms(2,3)])
  with assms(1) show ?thesis by (rule moves_current_report)
next
  case False
  with moves_refl [OF assms(1)] show ?thesis by (cases ev) (auto simp: finish_switch_task_eq)
qed
end
