(* ===== verification/Service_Clients.thy ===== *)
theory Service_Clients
  imports Service_Inv
begin

text \<open>
  Clients, incoming connections and their barriers: which calls to the capture the operations of the
  service make, and that the barriers in force are those of the active clients and of the incoming
  connections.
\<close>

section \<open>The edge of a client\<close>

fun edge_of :: "ClientConfig \<times> ClientState \<Rightarrow> IpcPosition option" where
  "edge_of (c, st) = (if cs_active st then Some (cc_pos c) else None)"

definition edges :: "ClientManager \<Rightarrow> ClientHandle \<rightharpoonup> IpcPosition" where
  "edges m handle = Option.bind (slab_get m handle) edge_of"

definition slab_ok :: "ClientManager \<Rightarrow> bool" where
  "slab_ok m \<longleftrightarrow> distinct (map fst m) \<and> (\<forall>k \<in> set (map fst m). k < 2 ^ 63)"

lemma slab_get_modify: "slab_get (slab_modify handle f m) k = (if k = handle then map_option f (slab_get m k) else slab_get m k)"
  by (induction m) (auto simp: slab_get_def slab_modify_def)

lemma slab_get_remove: "slab_get (slab_remove handle m) = (slab_get m)(handle := None)"
  by (induction m) (auto simp: slab_get_def slab_remove_def fun_eq_iff)

lemma slab_keys_modify [simp]: "map fst (slab_modify handle f m) = map fst m"
  by (induction m) (auto simp: slab_modify_def)

lemma slab_ok_modify [simp]: "slab_ok (slab_modify handle f m) = slab_ok m"
  by (simp add: slab_ok_def)

lemma slab_ok_remove: "slab_ok m \<Longrightarrow> slab_ok (slab_remove handle m)"
  by (auto simp: slab_ok_def slab_remove_def distinct_map_filter)

lemma slab_get_key: "slab_get m k \<noteq> None \<longleftrightarrow> k \<in> fst ` set m"
  by (simp add: slab_get_def map_of_eq_None_iff)

lemma slab_insert_key:
  assumes "slab_insert alloc e m = Some (k, m')" "slab_keys alloc"
  shows "k \<notin> fst ` set m" "k < 2 ^ 63" "m' = insort_key fst (k, e) m"
proof -
  have "alloc (map fst m) = Some k" and m: "m' = insort_key fst (k, e) m"
    using assms(1) by (auto simp: slab_insert_def)
  then have "k \<notin> set (map fst m) \<and> k < 2 ^ 63" using assms(2) unfolding slab_keys_def by blast
  with m show "k \<notin> fst ` set m" "k < 2 ^ 63" "m' = insort_key fst (k, e) m" by simp_all
qed

lemma slab_get_insert:
  assumes "slab_insert alloc e m = Some (k, m')" "slab_keys alloc"
  shows "slab_get m' = (slab_get m)(k \<mapsto> e) \<and> slab_get m k = None"
proof -
  have "slab_get (insort_key fst (k, e) xs) = (slab_get xs)(k \<mapsto> e)" if "k \<notin> fst ` set xs" for xs
    using that by (induction xs) (auto simp: slab_get_def fun_eq_iff)
  with slab_insert_key [OF assms] slab_get_key [of m k] show ?thesis by auto
qed

lemma map_fst_insort: "map fst (insort_key fst x xs) = insort_key id (fst x) (map fst xs)"
  by (induction xs) simp_all

lemma slab_ok_insert:
  assumes "slab_insert alloc e m = Some (k, m')" "slab_keys alloc" "slab_ok m"
  shows "slab_ok m'"
  using slab_insert_key [OF assms(1,2)] assms(3)
  by (auto simp: slab_ok_def map_fst_insort set_insort_key distinct_insort)

lemma edges_modify_same: "(\<And>e. edge_of (f e) = edge_of e) \<Longrightarrow> edges (slab_modify handle f m) = edges m"
  by (auto simp: edges_def slab_get_modify fun_eq_iff bind_map_option comp_def)

lemma edges_key: "edges m k = Some p \<Longrightarrow> slab_get m k \<noteq> None"
  by (auto simp: edges_def bind_eq_Some_conv)

lemma slab_ok_edges: "slab_ok m \<Longrightarrow> edges m k = Some p \<Longrightarrow> k < 2 ^ 63"
  using edges_key [of m k p] slab_get_key [of m k] by (auto simp: slab_ok_def)

lemma cm_deactivate_client_spec:
  "fst (cm_deactivate_client handle m) \<longleftrightarrow> edges m handle \<noteq> None"
  "edges (snd (cm_deactivate_client handle m)) = (edges m)(handle := None)"
  "map fst (snd (cm_deactivate_client handle m)) = map fst m"
  by (auto simp: cm_deactivate_client_def edges_def slab_get_modify fun_eq_iff split: option.split)

lemma cm_activate_client_spec:
  assumes "slab_get m handle = Some (c, st)"
  shows "fst (cm_activate_client handle m) \<longleftrightarrow> edges m handle = None"
    "edges (snd (cm_activate_client handle m)) = (edges m)(handle \<mapsto> cc_pos c)"
    "map fst (snd (cm_activate_client handle m)) = map fst m"
  using assms by (auto simp: cm_activate_client_def edges_def slab_get_modify fun_eq_iff)

lemma cm_client_at_spec:
  assumes "slab_ok m"
  shows "case cm_client_at m pos of Some k \<Rightarrow> edges m k = Some pos | None \<Rightarrow> \<forall>k. edges m k \<noteq> Some pos"
proof -
  have get: "slab_get m k = Some e \<longleftrightarrow> (k, e) \<in> set m" for k e
    using assms by (simp add: slab_ok_def slab_get_def map_of_eq_Some_iff)
  show ?thesis
    by (auto simp: cm_client_at_def find_None_iff find_Some_iff edges_def get bind_eq_Some_conv in_set_conv_nth
        split: option.split)
      (metis nth_mem)
qed

lemma cm_set_pos_spec:
  "fst (cm_set_pos handle pos m) \<Longrightarrow> edges m handle \<noteq> None"
  "edges (snd (cm_set_pos handle pos m)) =
     (if fst (cm_set_pos handle pos m) then (edges m)(handle \<mapsto> pos) else edges m)"
  "map fst (snd (cm_set_pos handle pos m)) = map fst m"
  by (cases "slab_get m handle"; auto simp: cm_set_pos_def edges_def slab_get_modify fun_eq_iff split: if_splits)+

text \<open>Everything else keeps the keys and the edges.\<close>

definition same_edges :: "ClientManager \<Rightarrow> ClientManager \<Rightarrow> bool" where
  "same_edges m m' \<longleftrightarrow> map fst m' = map fst m \<and> edges m' = edges m"

lemma same_edges_refl [simp]: "same_edges m m"
  by (simp add: same_edges_def)

lemma same_edges_trans: "same_edges a b \<Longrightarrow> same_edges b c \<Longrightarrow> same_edges a c"
  by (simp add: same_edges_def)

lemma same_edges_modify: "(\<And>c st. edge_of (f (c, st)) = edge_of (c, st)) \<Longrightarrow> same_edges m (slab_modify handle f m)"
  by (simp del: edge_of.simps add: same_edges_def edges_modify_same split_paired_all)

lemma same_edges_operations [simp]:
  "same_edges m (cm_update_ips handle m)"
  "same_edges m (cm_set_port handle port m)"
  "same_edges m (cm_set_switch_target handle target m)"
  "same_edges m (cm_set_resolving handle status m)"
  "same_edges m (cm_set_active_addr handle addr m)"
  "same_edges m (cm_set_alive handle alive m)"
  "same_edges m (snd (cm_set_peer_commit handle commit m))"
  "same_edges m (snd (cm_set_peer_readiness handle kb pt epoch m))"
  "same_edges m (cm_clear_peer_readiness handle m)"
  by (auto simp: cm_update_ips_def cm_set_port_def cm_set_switch_target_def cm_set_resolving_def cm_set_active_addr_def
      cm_set_alive_def cm_set_peer_commit_def cm_set_peer_readiness_def cm_clear_peer_readiness_def
      intro!: same_edges_modify split: option.split)

lemma same_edges_ips [simp]:
  "same_edges m (cm_set_fix_ips handle ips m)"
  "same_edges m (cm_set_dns_ips handle ips m)"
  "same_edges m (snd (cm_set_hostname handle hostname m))"
  by (auto simp: cm_set_fix_ips_def cm_set_dns_ips_def cm_set_hostname_def
      intro!: same_edges_trans [OF _ same_edges_operations(1)] same_edges_modify split: option.split)

lemma same_edges_peer_update [simp]: "same_edges m (peer_update u m)"
  by (cases u) simp_all

section \<open>Barriers\<close>

text \<open>The barriers that the calls to the capture leave in force.\<close>

type_synonym barrier_map = "ClientHandle \<rightharpoonup> IpcPosition \<times> CaptureType"

fun barrier_call :: "ServiceCall \<Rightarrow> barrier_map \<Rightarrow> barrier_map" where
  "barrier_call (CaptureCreate handle pos type) b = b(handle \<mapsto> (pos, type))"
| "barrier_call (CaptureDestroy handle) b = b(handle := None)"
| "barrier_call _ b = b"

definition barriers :: "ServiceCall list \<Rightarrow> barrier_map" where
  "barriers calls = fold barrier_call calls Map.empty"

lemma barriers_snoc [simp]: "barriers (calls @ [c]) = barrier_call c (barriers calls)"
  by (simp add: barriers_def)

lemma fold_barrier_visible: "fold barrier_call (visible calls) b = fold barrier_call calls b"
proof (induction calls arbitrary: b)
  case (Cons c calls)
  have "barrier_call c b = b" if "\<not> is_visible c" using that by (cases c) (simp_all add: is_visible_def)
  with Cons show ?case by simp
qed simp

lemma barriers_visible: "visible calls = visible calls' \<Longrightarrow> barriers calls = barriers calls'"
  unfolding barriers_def by (metis fold_barrier_visible)

text \<open>The answers given to the requests for a crossing.\<close>

definition decisions :: "ServiceCall list \<Rightarrow> bool list" where
  "decisions calls = concat (map (\<lambda>c. case c of CommitDecision d \<Rightarrow> [d] | _ \<Rightarrow> []) calls)"

lemma decisions_append [simp]: "decisions (xs @ ys) = decisions xs @ decisions ys"
  by (simp add: decisions_def)

lemma decisions_Cons [simp]: "decisions (c # cs) = (case c of CommitDecision d \<Rightarrow> [d] | _ \<Rightarrow> []) @ decisions cs"
  by (simp add: decisions_def)

lemma decisions_Nil [simp]: "decisions [] = []"
  by (simp add: decisions_def)

lemma decisions_of_visible: "decisions (visible calls) = decisions calls"
proof (induction calls)
  case (Cons c calls)
  have "(case c of CommitDecision d \<Rightarrow> [d] | _ \<Rightarrow> []) = []" if "\<not> is_visible c"
    using that by (cases c) (simp_all add: is_visible_def)
  with Cons show ?case by simp
qed simp

lemma decisions_visible: "visible calls = visible calls' \<Longrightarrow> decisions calls = decisions calls'"
  by (metis decisions_of_visible)

text \<open>The barriers that the clients and the incoming connections ask for.\<close>

definition wanted :: "Service \<Rightarrow> barrier_map" where
  "wanted s handle = (case map_of (sv_incoming_conn_info s) handle of
     Some i \<Rightarrow> Some (in_pos i, EnterOnly)
   | None \<Rightarrow> map_option (\<lambda>p. (p, Default)) (edges (sv_clients s) handle))"

definition exclusive :: "(ClientHandle \<rightharpoonup> IpcPosition) \<Rightarrow> bool" where
  "exclusive e \<longleftrightarrow> (\<forall>h h' p. e h = Some p \<longrightarrow> e h' = Some p \<longrightarrow> h = h')"

definition incoming_ok :: "Service \<Rightarrow> bool" where
  "incoming_ok s \<longleftrightarrow> distinct (map fst (sv_incoming_conn_info s)) \<and> distinct (map (in_addr \<circ> snd) (sv_incoming_conn_info s))
     \<and> sv_incoming_conns s = (in_addr \<circ> snd) ` set (sv_incoming_conn_info s)
     \<and> (\<forall>h \<in> fst ` set (sv_incoming_conn_info s). 2 ^ 63 \<le> unat h \<and> unat h < 2 ^ 63 + unat (sv_next_trigger_handle s))"

definition placed :: "Service \<Rightarrow> bool" where
  "placed s \<longleftrightarrow> slab_ok (sv_clients s) \<and> incoming_ok s \<and> exclusive (edges (sv_clients s))
     \<and> barriers (sv_calls s) = wanted s"

lemma incoming_not_client:
  assumes "slab_ok (sv_clients s)" "incoming_ok s" "slab_get (sv_clients s) h \<noteq> None"
  shows "map_of (sv_incoming_conn_info s) h = None"
proof -
  have "h < 2 ^ 63" using assms(1,3) slab_get_key [of "sv_clients s" h] by (auto simp: slab_ok_def)
  then have "unat h < 2 ^ 63" by (simp add: word_less_nat_alt)
  with assms(2) have "h \<notin> fst ` set (sv_incoming_conn_info s)" by (auto simp: incoming_ok_def)
  then show ?thesis by (simp add: map_of_eq_None_iff)
qed

section \<open>What an operation leaves alone\<close>

text \<open>The reservation, and the incoming connections.\<close>

definition aside :: "Service \<Rightarrow> Service \<Rightarrow> bool" where
  "aside s s' \<longleftrightarrow> sv_bundle_lease s' = sv_bundle_lease s \<and> sv_switch_task s' = sv_switch_task s
     \<and> sv_switch_deadline s' = sv_switch_deadline s \<and> sv_switch_controller s' = sv_switch_controller s
     \<and> sv_pending_switch_cleanup s' = sv_pending_switch_cleanup s
     \<and> sv_next_switch_task_epoch s' = sv_next_switch_task_epoch s \<and> spawned (sv_calls s') = spawned (sv_calls s)
     \<and> decisions (sv_calls s') = decisions (sv_calls s)"

definition same_incoming :: "Service \<Rightarrow> Service \<Rightarrow> bool" where
  "same_incoming s s' \<longleftrightarrow> sv_incoming_conns s' = sv_incoming_conns s \<and> sv_incoming_conn_info s' = sv_incoming_conn_info s
     \<and> sv_next_trigger_handle s' = sv_next_trigger_handle s"

lemma aside_refl [simp]: "aside s s"
  by (simp add: aside_def)

lemma aside_trans [trans]: "aside a b \<Longrightarrow> aside b c \<Longrightarrow> aside a c"
  by (simp add: aside_def)

lemma same_incoming_ok: "same_incoming s s' \<Longrightarrow> incoming_ok s' = incoming_ok s"
  by (simp add: same_incoming_def incoming_ok_def)

lemma placed_frame:
  assumes "placed s" "same_edges (sv_clients s) (sv_clients s')" "same_incoming s s'"
    "visible (sv_calls s') = visible (sv_calls s)"
  shows "placed s'"
proof -
  have "wanted s' = wanted s"
    using assms(2,3) by (intro ext) (simp add: wanted_def same_edges_def same_incoming_def split: option.split)
  moreover have "slab_ok (sv_clients s') = slab_ok (sv_clients s)" "edges (sv_clients s') = edges (sv_clients s)"
    using assms(2) by (simp_all only: slab_ok_def same_edges_def)
  ultimately show ?thesis
    using assms(1) barriers_visible [OF assms(4)] same_incoming_ok [OF assms(3)] by (simp add: placed_def)
qed

lemma placed_switching: "switching s s' \<Longrightarrow> placed s \<Longrightarrow> placed s'"
  by (erule placed_frame) (simp_all add: switching_def same_incoming_def)

lemma placed_moves: "moves s s' \<Longrightarrow> placed s \<Longrightarrow> placed s'"
  using placed_switching [of s s'] by (simp add: moves_def)

section \<open>Clients\<close>

lemma resolve_fields [simp]:
  "sv_clients (resolve handle s) = sv_clients s"
  "sv_authorized_keys (resolve handle s) = sv_authorized_keys s"
  "sv_port (resolve handle s) = sv_port s"
  "sv_public_key_fingerprint (resolve handle s) = sv_public_key_fingerprint s"
  "sv_frontend_events (resolve handle s) = sv_frontend_events s"
  "sv_capture_status (resolve handle s) = sv_capture_status s"
  "sv_emulation_status (resolve handle s) = sv_emulation_status s"
  "sv_incoming_conns (resolve handle s) = sv_incoming_conns s"
  "sv_incoming_conn_info (resolve handle s) = sv_incoming_conn_info s"
  "sv_next_trigger_handle (resolve handle s) = sv_next_trigger_handle s"
  "sv_bundle_lease (resolve handle s) = sv_bundle_lease s"
  "sv_edge_intent_gate (resolve handle s) = sv_edge_intent_gate s"
  "sv_switch_controller (resolve handle s) = sv_switch_controller s"
  "sv_system_notifier (resolve handle s) = sv_system_notifier s"
  "sv_switch_deadline (resolve handle s) = sv_switch_deadline s"
  "sv_switch_task (resolve handle s) = sv_switch_task s"
  "sv_next_switch_task_epoch (resolve handle s) = sv_next_switch_task_epoch s"
  "sv_active_switch_capture (resolve handle s) = sv_active_switch_capture s"
  "sv_pending_switch_cleanup (resolve handle s) = sv_pending_switch_cleanup s"
  "sv_next_release_epoch (resolve handle s) = sv_next_release_epoch s"
  "sv_pending_clipboard_fallback (resolve handle s) = sv_pending_clipboard_fallback s"
  "visible (sv_calls (resolve handle s)) = visible (sv_calls s)"
  "spawned (sv_calls (resolve handle s)) = spawned (sv_calls s)"
  "decisions (sv_calls (resolve handle s)) = decisions (sv_calls s)"
  by (auto simp: resolve_def is_visible_def split: option.split)

lemma broadcast_client_fields [simp]:
  "sv_clients (broadcast_client handle s) = sv_clients s"
  "sv_authorized_keys (broadcast_client handle s) = sv_authorized_keys s"
  "sv_port (broadcast_client handle s) = sv_port s"
  "sv_public_key_fingerprint (broadcast_client handle s) = sv_public_key_fingerprint s"
  "sv_capture_status (broadcast_client handle s) = sv_capture_status s"
  "sv_emulation_status (broadcast_client handle s) = sv_emulation_status s"
  "sv_incoming_conns (broadcast_client handle s) = sv_incoming_conns s"
  "sv_incoming_conn_info (broadcast_client handle s) = sv_incoming_conn_info s"
  "sv_next_trigger_handle (broadcast_client handle s) = sv_next_trigger_handle s"
  "sv_bundle_lease (broadcast_client handle s) = sv_bundle_lease s"
  "sv_edge_intent_gate (broadcast_client handle s) = sv_edge_intent_gate s"
  "sv_switch_controller (broadcast_client handle s) = sv_switch_controller s"
  "sv_system_notifier (broadcast_client handle s) = sv_system_notifier s"
  "sv_switch_deadline (broadcast_client handle s) = sv_switch_deadline s"
  "sv_switch_task (broadcast_client handle s) = sv_switch_task s"
  "sv_next_switch_task_epoch (broadcast_client handle s) = sv_next_switch_task_epoch s"
  "sv_active_switch_capture (broadcast_client handle s) = sv_active_switch_capture s"
  "sv_pending_switch_cleanup (broadcast_client handle s) = sv_pending_switch_cleanup s"
  "sv_next_release_epoch (broadcast_client handle s) = sv_next_release_epoch s"
  "sv_pending_clipboard_fallback (broadcast_client handle s) = sv_pending_clipboard_fallback s"
  "sv_calls (broadcast_client handle s) = sv_calls s"
  by (simp_all add: broadcast_client_def)

lemma remove_intent_fields [simp]:
  "sv_clients (remove_intent handle s) = sv_clients s"
  "sv_authorized_keys (remove_intent handle s) = sv_authorized_keys s"
  "sv_port (remove_intent handle s) = sv_port s"
  "sv_public_key_fingerprint (remove_intent handle s) = sv_public_key_fingerprint s"
  "sv_frontend_events (remove_intent handle s) = sv_frontend_events s"
  "sv_capture_status (remove_intent handle s) = sv_capture_status s"
  "sv_emulation_status (remove_intent handle s) = sv_emulation_status s"
  "sv_incoming_conns (remove_intent handle s) = sv_incoming_conns s"
  "sv_incoming_conn_info (remove_intent handle s) = sv_incoming_conn_info s"
  "sv_next_trigger_handle (remove_intent handle s) = sv_next_trigger_handle s"
  "sv_bundle_lease (remove_intent handle s) = sv_bundle_lease s"
  "sv_switch_controller (remove_intent handle s) = sv_switch_controller s"
  "sv_system_notifier (remove_intent handle s) = sv_system_notifier s"
  "sv_switch_deadline (remove_intent handle s) = sv_switch_deadline s"
  "sv_switch_task (remove_intent handle s) = sv_switch_task s"
  "sv_next_switch_task_epoch (remove_intent handle s) = sv_next_switch_task_epoch s"
  "sv_active_switch_capture (remove_intent handle s) = sv_active_switch_capture s"
  "sv_pending_switch_cleanup (remove_intent handle s) = sv_pending_switch_cleanup s"
  "sv_next_release_epoch (remove_intent handle s) = sv_next_release_epoch s"
  "sv_pending_clipboard_fallback (remove_intent handle s) = sv_pending_clipboard_fallback s"
  "sv_calls (remove_intent handle s) = sv_calls s"
  by (simp_all add: remove_intent_def)

lemma deactivate_client_spec:
  "aside s (deactivate_client handle s)" "same_incoming s (deactivate_client handle s)"
  "sv_clients (deactivate_client handle s) = snd (cm_deactivate_client handle (sv_clients s))"
  "barriers (sv_calls (deactivate_client handle s)) =
     (if edges (sv_clients s) handle = None then barriers (sv_calls s) else (barriers (sv_calls s))(handle := None))"
  using cm_deactivate_client_spec(1) [of handle "sv_clients s"]
  by (auto simp: deactivate_client_def case_prod_beta Let_def same_incoming_def aside_def)


lemma placed_deactivate:
  assumes "slab_ok (sv_clients s)" "incoming_ok s" "exclusive ((edges (sv_clients s))(handle := None))"
    "\<And>h. h \<noteq> handle \<Longrightarrow> barriers (sv_calls s) h = wanted s h"
    "edges (sv_clients s) handle = None \<Longrightarrow> barriers (sv_calls s) handle = wanted s handle"
  shows "placed (deactivate_client handle s)"
proof -
  let ?s = "deactivate_client handle s"
  note spec = deactivate_client_spec [where s = s and handle = handle] cm_deactivate_client_spec [of handle "sv_clients s"]
  have clients: "slab_ok (sv_clients ?s)" "edges (sv_clients ?s) = (edges (sv_clients s))(handle := None)"
    using assms(1) spec by (simp_all add: slab_ok_def spec del: set_map)
  have info: "sv_incoming_conn_info ?s = sv_incoming_conn_info s" using spec(2) by (simp add: same_incoming_def)
  have "barriers (sv_calls ?s) h = wanted ?s h" for h
  proof (cases "edges (sv_clients s) handle")
    case None
    then have "wanted ?s h = wanted s h" by (simp add: wanted_def info clients split: option.split)
    with None assms(4,5) show ?thesis by (cases "h = handle") (simp_all add: spec)
  next
    case (Some p)
    then have "map_of (sv_incoming_conn_info s) handle = None"
      using incoming_not_client assms(1,2) edges_key by blast
    with Some assms(4) show ?thesis by (auto simp: spec wanted_def info clients split: option.split)
  qed
  then show ?thesis
    using clients assms(2,3) same_incoming_ok [OF spec(2)] by (auto simp: placed_def)
qed

lemma placed_deactivate_client: "placed s \<Longrightarrow> placed (deactivate_client handle s)"
  by (rule placed_deactivate) (auto simp: placed_def exclusive_def)

text \<open>A client goes to its edge when no other client has it.\<close>

lemma placed_activate:
  assumes "placed s" "slab_get (sv_clients s) handle = Some (c, st)"
    "\<And>h. edges (sv_clients s) h = Some (cc_pos c) \<Longrightarrow> h = handle"
  shows "placed (let (activated, m) = cm_activate_client handle (sv_clients s); s = s\<lparr>sv_clients := m\<rparr>
     in if activated then broadcast_client handle (call (CaptureCreate handle (cc_pos c) Default) s) else s)"
proof (cases "edges (sv_clients s) handle")
  case None
  note spec = cm_activate_client_spec [OF assms(2)]
  let ?m = "snd (cm_activate_client handle (sv_clients s))"
  let ?s = "broadcast_client handle (call (CaptureCreate handle (cc_pos c) Default) (s\<lparr>sv_clients := ?m\<rparr>))"
  have "map_of (sv_incoming_conn_info s) handle = None"
    using incoming_not_client assms(1,2) by (auto simp: placed_def)
  then have "barriers (sv_calls ?s) h = wanted ?s h" for h
    using assms(1) by (auto simp: placed_def wanted_def spec split: option.split)
  moreover have "exclusive (edges ?m)"
    using assms(1,3) by (auto simp: placed_def exclusive_def spec)
  moreover have "slab_ok ?m" "incoming_ok ?s"
    using assms(1) spec(3) by (simp_all add: placed_def slab_ok_def incoming_ok_def del: set_map)
  ultimately have "placed ?s" by (auto simp: placed_def)
  with None show ?thesis by (simp add: case_prod_beta Let_def spec(1))
next
  case (Some p)
  then have "cm_activate_client handle (sv_clients s) = (False, sv_clients s)"
    using assms(2) by (auto simp: cm_activate_client_def edges_def split: if_splits)
  with assms(1) show ?thesis by simp
qed

definition free_edge :: "IpcPosition \<Rightarrow> ClientHandle \<Rightarrow> Service \<Rightarrow> Service" where
  "free_edge pos handle s = (case cm_client_at (sv_clients s) pos of
     Some other \<Rightarrow> if other \<noteq> handle then deactivate_client other s else s
   | None \<Rightarrow> s)"

lemma free_edge_spec:
  assumes "placed s" "slab_get (sv_clients s) handle = Some (c, st)"
  shows "placed (free_edge pos handle s)" "\<exists>st'. slab_get (sv_clients (free_edge pos handle s)) handle = Some (c, st')"
    "edges (sv_clients (free_edge pos handle s)) h = Some pos \<Longrightarrow> h = handle"
proof -
  have ok: "slab_ok (sv_clients s)" and ex: "exclusive (edges (sv_clients s))" using assms(1) by (simp_all add: placed_def)
  note at = cm_client_at_spec [OF ok, of pos]
  show "placed (free_edge pos handle s)"
    using assms(1) placed_deactivate_client by (simp add: free_edge_def split: option.split)
  have "slab_get (snd (cm_deactivate_client other (sv_clients s))) handle = slab_get (sv_clients s) handle"
    if "other \<noteq> handle" for other
    using that by (simp add: cm_deactivate_client_def slab_get_modify split: option.split)
  with assms(2) show "\<exists>st'. slab_get (sv_clients (free_edge pos handle s)) handle = Some (c, st')"
    by (auto simp: free_edge_def deactivate_client_spec(3) split: option.split)
  show "h = handle" if "edges (sv_clients (free_edge pos handle s)) h = Some pos"
    using that at ex
    by (auto simp: free_edge_def deactivate_client_spec(3) cm_deactivate_client_spec(2) exclusive_def
        split: option.splits if_splits)
qed

lemma activate_client_eq:
  "activate_client handle s = (case cm_get_pos (sv_clients s) handle of
     None \<Rightarrow> resolve handle s
   | Some pos \<Rightarrow>
       (let s = free_edge pos handle (resolve handle s);
            (activated, m) = cm_activate_client handle (sv_clients s); s = s\<lparr>sv_clients := m\<rparr>
        in if activated then broadcast_client handle (call (CaptureCreate handle pos Default) s) else s))"
  unfolding activate_client_def free_edge_def Let_def by (simp cong: option.case_cong)

lemma placed_activate_client:
  assumes "placed s"
  shows "placed (activate_client handle s)"
proof (cases "slab_get (sv_clients s) handle")
  case None
  have "placed (resolve handle s)"
    by (rule placed_frame [OF assms]) (simp_all add: same_incoming_def)
  with None show ?thesis by (simp add: activate_client_eq cm_get_pos_def)
next
  case (Some e)
  obtain c st where e: "e = (c, st)" by (cases e)
  let ?r = "resolve handle s"
  have r: "placed ?r" by (rule placed_frame [OF assms]) (simp_all add: same_incoming_def)
  have get: "slab_get (sv_clients ?r) handle = Some (c, st)" using Some e by simp
  note free = free_edge_spec [OF r get, of "cc_pos c"]
  from free(2) obtain st' where "slab_get (sv_clients (free_edge (cc_pos c) handle ?r)) handle = Some (c, st')" ..
  then show ?thesis
    using placed_activate [OF free(1) _ free(3)] Some e by (simp add: activate_client_eq cm_get_pos_def Let_def)
qed

lemma aside_activate_client [simp]: "aside s (activate_client handle s)"
proof -
  have create: "aside s' (let (activated, m) = cm_activate_client handle (sv_clients s'); s = s'\<lparr>sv_clients := m\<rparr>
      in if activated then broadcast_client handle (call (CaptureCreate handle pos Default) s) else s)" for s' pos
    by (simp add: aside_def case_prod_beta Let_def)
  have free: "aside s' (free_edge pos handle s')" for s' pos
    by (simp add: free_edge_def deactivate_client_spec(1) split: option.split)
  have "aside s (resolve handle s)" by (simp add: aside_def)
  then show ?thesis
    using aside_trans [OF _ aside_trans [OF free create]]
    by (simp add: activate_client_eq Let_def split: option.split)
qed

lemma same_incoming_activate_client [simp]: "same_incoming s (activate_client handle s)"
  using deactivate_client_spec(2)
  by (auto simp: activate_client_def same_incoming_def case_prod_beta Let_def split: option.split)

text \<open>An operation that touches neither the reservation nor any barrier.\<close>

definition quiet :: "Service \<Rightarrow> Service \<Rightarrow> bool" where
  "quiet s s' \<longleftrightarrow> aside s s' \<and> same_edges (sv_clients s) (sv_clients s') \<and> same_incoming s s'
     \<and> visible (sv_calls s') = visible (sv_calls s)"

lemma quiet_placed: "quiet s s' \<Longrightarrow> placed s \<Longrightarrow> placed s'"
  by (rule placed_frame) (simp_all add: quiet_def)

lemma quiet_aside: "quiet s s' \<Longrightarrow> aside s s'"
  by (simp add: quiet_def)

lemma quiet_refl [simp]: "quiet s s"
  by (simp add: quiet_def same_incoming_def)

lemma quiet_trans [trans]: "quiet a b \<Longrightarrow> quiet b c \<Longrightarrow> quiet a c"
  by (auto simp: quiet_def same_incoming_def intro: aside_trans same_edges_trans)

lemma quiet_primitives [simp]:
  "quiet s (resolve handle s)" "quiet s (broadcast_client handle s)" "quiet s (remove_intent handle s)"
  "quiet s (notify_frontend e s)" "same_edges (sv_clients s) m \<Longrightarrow> quiet s (s\<lparr>sv_clients := m\<rparr>)"
  "\<not> is_visible c \<Longrightarrow> spawned [c] = [] \<Longrightarrow> quiet s (call c s)"
  using decisions_visible [of "sv_calls s @ [c]" "sv_calls s"] by (simp_all add: quiet_def aside_def same_incoming_def)

lemma quiet_after:
  "quiet s s' \<Longrightarrow> quiet s (broadcast_client handle s')"
  "quiet s s' \<Longrightarrow> quiet s (resolve handle s')"
  "quiet s s' \<Longrightarrow> quiet s (notify_frontend e s')"
  "quiet s s' \<Longrightarrow> \<not> is_visible c \<Longrightarrow> spawned [c] = [] \<Longrightarrow> quiet s (call c s')"
  "quiet s s' \<Longrightarrow> same_edges (sv_clients s') m \<Longrightarrow> quiet s (s'\<lparr>sv_clients := m\<rparr>)"
  "quiet s s' \<Longrightarrow> quiet s (remove_intent handle s')"
  by (erule quiet_trans, simp)+

text \<open>A change of one edge with its barrier.\<close>

lemma placed_upd:
  assumes "placed s" "same_incoming s s'" "slab_ok (sv_clients s')" "exclusive (edges (sv_clients s'))"
    "edges (sv_clients s') = (edges (sv_clients s))(h := x)"
    "barriers (sv_calls s') = (barriers (sv_calls s))(h := map_option (\<lambda>p. (p, Default)) x)"
    "map_of (sv_incoming_conn_info s) h = None"
  shows "placed s'"
proof -
  have "wanted s' = (wanted s)(h := map_option (\<lambda>p. (p, Default)) x)"
    using assms(2,5,7) by (intro ext) (simp add: wanted_def same_incoming_def split: option.split)
  with assms same_incoming_ok [OF assms(2)] show ?thesis by (simp add: placed_def)
qed

lemma placed_same:
  assumes "placed s" "same_incoming s s'" "slab_ok (sv_clients s')"
    "edges (sv_clients s') = edges (sv_clients s)" "barriers (sv_calls s') = barriers (sv_calls s)"
  shows "placed s'"
proof -
  have "wanted s' = wanted s"
    using assms(2,4) by (intro ext) (simp add: wanted_def same_incoming_def split: option.split)
  with assms same_incoming_ok [OF assms(2)] show ?thesis by (simp add: placed_def)
qed

text \<open>An operation on the clients or on the connections keeps the barriers in order.\<close>

definition orderly :: "Service \<Rightarrow> Service \<Rightarrow> bool" where
  "orderly s s' \<longleftrightarrow> aside s s' \<and> (placed s \<longrightarrow> placed s')"

lemma orderly_trans [trans]: "orderly a b \<Longrightarrow> orderly b c \<Longrightarrow> orderly a c"
  by (auto simp: orderly_def intro: aside_trans)

lemma quiet_orderly: "quiet s s' \<Longrightarrow> orderly s s'"
  by (auto simp: orderly_def quiet_aside quiet_placed)

lemma orderly_refl [simp]: "orderly s s"
  by (simp add: orderly_def)

lemma orderly_set_client_active: "orderly s (set_client_active handle active s)"
  by (simp add: orderly_def set_client_active_def placed_activate_client placed_deactivate_client deactivate_client_spec(1))

lemma orderly_add_client:
  assumes "slab_keys (se_alloc env)"
  shows "returns (orderly s) (add_client env s)"
proof -
  have "orderly s (notify_frontend e (s\<lparr>sv_clients := m\<rparr>))"
    if "cm_add_client (se_alloc env) (sv_clients s) = Some (handle, m)" for handle m e
  proof -
    have ins: "slab_insert (se_alloc env) (ClientConfig_default, ClientState_default) (sv_clients s) = Some (handle, m)"
      using that by (simp add: cm_add_client_def)
    have "edges m = edges (sv_clients s)"
      using slab_get_insert [OF ins assms] by (auto simp: edges_def fun_eq_iff ClientState_default_def)
    then have "placed (notify_frontend e (s\<lparr>sv_clients := m\<rparr>))" if "placed s"
      using that slab_ok_insert [OF ins assms] by (intro placed_same [OF that]) (simp_all add: placed_def same_incoming_def)
    then show ?thesis by (simp add: orderly_def aside_def)
  qed
  then show ?thesis by (auto simp: add_client_def returns_def bind_eq_Some_conv)
qed

lemma remove_client_spec:
  "aside s (remove_client handle s)" "same_incoming s (remove_client handle s)"
  "sv_clients (remove_client handle s) = slab_remove handle (sv_clients s)"
  "barriers (sv_calls (remove_client handle s)) =
     (if edges (sv_clients s) handle = None then barriers (sv_calls s) else (barriers (sv_calls s))(handle := None))"
  by (simp_all add: remove_client_def cm_remove_client_def edges_def aside_def same_incoming_def Let_def split: option.split)

lemma orderly_remove_client: "orderly s (remove_client handle s)"
proof -
  note spec = remove_client_spec [where s = s and handle = handle]
  have edges: "edges (sv_clients (remove_client handle s)) = (edges (sv_clients s))(handle := None)"
    by (auto simp: spec edges_def slab_get_remove fun_eq_iff)
  have ok: "slab_ok (sv_clients (remove_client handle s))" if "placed s"
    using that by (simp add: spec placed_def slab_ok_remove)
  have "placed (remove_client handle s)" if p: "placed s"
  proof (cases "edges (sv_clients s) handle")
    case None
    then have "edges (sv_clients (remove_client handle s)) = edges (sv_clients s)"
      unfolding edges by (rule fun_upd_idem)
    with None p show ?thesis
      by (intro placed_same [OF p spec(2) ok]) (simp_all add: spec)
  next
    case (Some q)
    then have "map_of (sv_incoming_conn_info s) handle = None"
      using incoming_not_client [of s handle] p edges_key by (auto simp: placed_def)
    with Some p show ?thesis
      by (intro placed_upd [OF p spec(2) ok _ edges]) (auto simp: spec(4) edges placed_def exclusive_def)
  qed
  with spec(1) show ?thesis by (simp add: orderly_def)
qed

lemma orderly_update_pos: "orderly s (update_pos handle pos s)"
proof -
  let ?r = "remove_intent handle s"
  let ?m = "snd (cm_set_pos handle pos (sv_clients s))"
  let ?s = "?r\<lparr>sv_clients := ?m\<rparr>"
  note spec = cm_set_pos_spec [of handle pos "sv_clients s"]
  have "aside s ?s" by (simp add: aside_def)
  moreover have "aside ?s (broadcast_client handle x)" if "aside ?s x" for x
    using that quiet_aside [OF quiet_primitives(2)] aside_trans by blast
  moreover have "aside ?s (activate_client handle (deactivate_client handle ?s))"
    using aside_trans deactivate_client_spec(1) aside_activate_client by blast
  ultimately have "aside s (update_pos handle pos s)"
    by (auto simp: update_pos_def Let_def case_prod_beta intro: aside_trans)
  moreover have "placed (update_pos handle pos s)" if p: "placed s"
  proof (cases "fst (cm_set_pos handle pos (sv_clients s))")
    case True
    have "placed (deactivate_client handle ?s)"
      using p True spec
      by (intro placed_deactivate)
        (auto simp: placed_def exclusive_def wanted_def slab_ok_def incoming_ok_def split: option.split simp del: set_map)
    then have "placed (activate_client handle (deactivate_client handle ?s))" by (rule placed_activate_client)
    then have "placed (broadcast_client handle (activate_client handle (deactivate_client handle ?s)))"
      by (rule quiet_placed [OF quiet_primitives(2)])
    with True show ?thesis by (simp add: update_pos_def Let_def case_prod_beta)
  next
    case False
    then have "same_edges (sv_clients s) ?m" using spec by (simp add: same_edges_def)
    then have "quiet s (broadcast_client handle ?s)"
      using quiet_after(5) [OF quiet_primitives(3)] by (intro quiet_after(1)) simp
    with False p show ?thesis
      by (simp add: update_pos_def Let_def case_prod_beta quiet_placed)
  qed
  ultimately show ?thesis by (simp add: orderly_def)
qed

lemma quiet_updates [simp]:
  "quiet s (update_fix_ips handle ips s)"
  "quiet s (update_hostname handle hostname s)"
  "quiet s (update_port handle port s)"
  "quiet s (update_switch_target handle target s)"
  by (auto simp: update_fix_ips_def update_hostname_def update_port_def update_switch_target_def Let_def case_prod_beta
      intro!: quiet_after)

section \<open>Incoming connections\<close>

lemma ENTER_HANDLE_BEGIN_unat: "unat ENTER_HANDLE_BEGIN = 2 ^ 63"
  by (simp add: ENTER_HANDLE_BEGIN_def unat_div_distrib unat_word_ariths)

lemma incoming_is_not_edge:
  assumes "slab_ok (sv_clients s)" "2 ^ 63 \<le> unat h"
  shows "edges (sv_clients s) h = None"
proof (rule ccontr)
  assume "edges (sv_clients s) h \<noteq> None"
  then have "h < 2 ^ 63" using slab_ok_edges assms(1) by blast
  with assms(2) show False by (simp add: word_less_nat_alt)
qed

lemma add_incoming_spec:
  assumes "add_incoming addr pos fp s = Some s'"
  obtains h where "unat h = 2 ^ 63 + unat (sv_next_trigger_handle s)"
    "unat (sv_next_trigger_handle s') = unat (sv_next_trigger_handle s) + 1"
    "sv_incoming_conn_info s' = sv_incoming_conn_info s @ [(h, \<lparr>in_fingerprint = fp, in_addr = addr, in_pos = pos\<rparr>)]"
    "sv_incoming_conns s' = insert addr (sv_incoming_conns s)" "sv_clients s' = sv_clients s"
    "barriers (sv_calls s') = (barriers (sv_calls s))(h \<mapsto> (pos, EnterOnly))" "aside s s'"
  using assms
  by (auto simp: add_incoming_def bind_eq_Some_conv ENTER_HANDLE_BEGIN_unat Let_def aside_def
      dest!: checked_add_SomeD)

lemma placed_add_incoming:
  assumes "placed s" "add_incoming addr pos fp s = Some s'" "addr \<notin> sv_incoming_conns s"
  shows "placed s'"
proof -
  from assms(2) obtain h where h: "unat h = 2 ^ 63 + unat (sv_next_trigger_handle s)"
    "unat (sv_next_trigger_handle s') = unat (sv_next_trigger_handle s) + 1"
    "sv_incoming_conn_info s' = sv_incoming_conn_info s @ [(h, \<lparr>in_fingerprint = fp, in_addr = addr, in_pos = pos\<rparr>)]"
    "sv_incoming_conns s' = insert addr (sv_incoming_conns s)" "sv_clients s' = sv_clients s"
    "barriers (sv_calls s') = (barriers (sv_calls s))(h \<mapsto> (pos, EnterOnly))"
    by (rule add_incoming_spec)
  have inc: "incoming_ok s" using assms(1) by (simp add: placed_def)
  then have new: "h \<notin> fst ` set (sv_incoming_conn_info s)" using h(1) by (auto simp: incoming_ok_def)
  then have "map_of (sv_incoming_conn_info s) h = None" by (simp add: map_of_eq_None_iff)
  then have "wanted s' = (wanted s)(h \<mapsto> (pos, EnterOnly))"
    by (intro ext) (simp add: wanted_def h map_add_def split: option.split)
  moreover have "incoming_ok s'"
    using inc new assms(3) h by (fastforce simp: incoming_ok_def)
  ultimately show ?thesis using assms(1) h by (simp add: placed_def)
qed

lemma find_incoming:
  "find (\<lambda>(_, i). in_addr i = addr) info = Some (h, i) \<Longrightarrow> (h, i) \<in> set info \<and> in_addr i = addr"
  "find (\<lambda>(_, i). in_addr i = addr) info = None \<longleftrightarrow> addr \<notin> (in_addr \<circ> snd) ` set info"
  by (induction info) (auto split: if_splits)

lemma map_of_filter_key: "map_of (filter (\<lambda>(k, _). k \<noteq> h) xs) k = (if k = h then None else map_of xs k)"
  by (induction xs) auto

lemma placed_remove_incoming:
  assumes "placed s"
  shows "placed (snd (remove_incoming addr s))" "addr \<notin> sv_incoming_conns (snd (remove_incoming addr s))"
    "aside s (snd (remove_incoming addr s))"
proof -
  have inc: "incoming_ok s" and slab: "slab_ok (sv_clients s)" using assms by (simp_all add: placed_def)
  let ?s = "snd (remove_incoming addr s)"
  have "placed ?s \<and> addr \<notin> sv_incoming_conns ?s"
  proof (cases "find (\<lambda>(_, i). in_addr i = addr) (sv_incoming_conn_info s)")
    case None
    then have "addr \<notin> sv_incoming_conns s" using inc by (simp add: find_incoming(2) incoming_ok_def)
    with None assms show ?thesis by (simp add: remove_incoming_def)
  next
    case (Some p)
    obtain h i where p: "p = (h, i)" by (cases p)
    let ?info = "filter (\<lambda>(k, _). k \<noteq> h) (sv_incoming_conn_info s)"
    have hi: "(h, i) \<in> set (sv_incoming_conn_info s)" "in_addr i = addr" using find_incoming(1) [of addr "sv_incoming_conn_info s"] Some p by auto
    have eq: "sv_incoming_conn_info ?s = ?info" "sv_incoming_conns ?s = sv_incoming_conns s - {addr}"
      "sv_clients ?s = sv_clients s" "barriers (sv_calls ?s) = (barriers (sv_calls s))(h := None)"
      "sv_next_trigger_handle ?s = sv_next_trigger_handle s"
      using Some p by (simp_all add: remove_incoming_def)
    have inj: "inj_on (in_addr \<circ> snd) (set (sv_incoming_conn_info s))" "inj_on fst (set (sv_incoming_conn_info s))"
      using inc by (simp_all add: incoming_ok_def distinct_map)
    have keys: "(k, j) \<in> set (sv_incoming_conn_info s) \<and> k = h \<longleftrightarrow> (k, j) = (h, i)" for k j
      using inj_onD [OF inj(2), of "(k, j)" "(h, i)"] hi by auto
    have "sv_incoming_conns s - {addr} = (in_addr \<circ> snd) ` set ?info"
    proof -
      have "set ?info = set (sv_incoming_conn_info s) - {(h, i)}" using keys by auto
      then show ?thesis
        using inc hi inj_on_image_set_diff [OF inj(1), of "set (sv_incoming_conn_info s)" "{(h, i)}"]
        by (simp add: incoming_ok_def)
    qed
    then have "incoming_ok ?s"
      using inc eq by (auto simp: incoming_ok_def distinct_map_filter)
    moreover have "edges (sv_clients s) h = None"
      using inc hi(1) by (intro incoming_is_not_edge [OF slab]) (force simp: incoming_ok_def)
    then have "wanted ?s = (wanted s)(h := None)"
      by (intro ext) (simp add: wanted_def eq map_of_filter_key split: option.split)
    ultimately show ?thesis using assms eq by (simp add: placed_def)
  qed
  then show "placed ?s" "addr \<notin> sv_incoming_conns ?s" by simp_all
  show "aside s ?s" by (simp add: remove_incoming_def aside_def split: option.split)
qed

lemma orderly_entered:
  assumes "placed s"
  shows "returns (orderly s) (handle_emulation_event env (EE_Entered addr pos fp) s)"
proof -
  have add: "returns (\<lambda>s'. placed s' \<and> aside a s') (add_incoming addr q fp a)"
    if "placed a" "addr \<notin> sv_incoming_conns a" for a q
    using placed_add_incoming [OF that(1) _ that(2)] unfolding returns_def by (blast elim: add_incoming_spec)
  note gone = placed_remove_incoming [OF assms, of addr]
  have note_ok: "orderly s (notify_frontend e s')" if "placed s'" "aside s s'" for e s'
    using that quiet_placed [OF quiet_primitives(4)] quiet_aside [OF quiet_primitives(4)] aside_trans
    by (auto simp: orderly_def)
  have "returns (\<lambda>s'. orderly s (notify_frontend e s')) (add_incoming addr q fp s)" if "addr \<notin> sv_incoming_conns s" for e q
    by (rule returns_mono [OF add [OF assms that]]) (use note_ok in blast)
  moreover have "returns (\<lambda>s'. orderly s (notify_frontend e (notify_frontend e' s')))
      (add_incoming addr q fp (snd (remove_incoming addr s)))" for e e' q
  proof (rule returns_mono [OF add [OF gone(1,2)]])
    fix s'
    assume "placed s' \<and> aside (snd (remove_incoming addr s)) s'"
    then have "orderly s (notify_frontend e' s')" using gone(3) note_ok aside_trans by blast
    then show "orderly s (notify_frontend e (notify_frontend e' s'))"
      using quiet_orderly [OF quiet_primitives(4)] orderly_trans by blast
  qed
  moreover have "\<not> find (\<lambda>(_, i). in_addr i = addr) (sv_incoming_conn_info s) = None" if "addr \<in> sv_incoming_conns s"
    using that assms by (simp add: placed_def incoming_ok_def find_incoming(2))
  ultimately show ?thesis
    by (auto simp: update_incoming_def split: option.split)
qed
end
