(* ===== verification/Service_Loop.thy ===== *)
theory Service_Loop
  imports Service_Clients
begin

text \<open>
  The loop of the service as a transition system: every event keeps the reservation served by its
  operation, the barriers in line with the clients, and no reservation ends without its clean-up.
\<close>

section \<open>Consistent states\<close>

definition consistent :: "Service \<Rightarrow> bool" where
  "consistent s \<longleftrightarrow> served s \<and> tasks_ok s \<and> placed s"

text \<open>One event: what it answers, and what becomes of a reservation.\<close>

definition stepped :: "bool list \<Rightarrow> Service \<Rightarrow> Service \<Rightarrow> bool" where
  "stepped ds s s' \<longleftrightarrow> consistent s' \<and> decisions (sv_calls s') = decisions (sv_calls s) @ ds
     \<and> (\<forall>ctx. lease_context s = Some ctx \<longrightarrow> holds_lease ctx s' \<or> ended ctx s')"

lemma aside_served: "aside s s' \<Longrightarrow> served s' = served s"
  by (simp add: aside_def served_def guarded_def lease_context_def)

lemma aside_tasks_ok: "aside s s' \<Longrightarrow> tasks_ok s \<Longrightarrow> tasks_ok s'"
  by (rule tasks_ok_frame) (auto simp: aside_def)

lemma orderly_consistent: "orderly s s' \<Longrightarrow> consistent s \<Longrightarrow> consistent s'"
  using aside_served [of s s'] aside_tasks_ok [of s s'] by (simp add: orderly_def consistent_def)

lemma moves_consistent: "moves s s' \<Longrightarrow> consistent s \<Longrightarrow> consistent s'"
  using placed_moves [of s s'] by (simp add: consistent_def moves_def switching_def)

lemma aside_lease:
  assumes "aside s s'"
  shows "lease_context s' = lease_context s" "holds_lease ctx s' = holds_lease ctx s" "ended ctx s' = ended ctx s"
    "decisions (sv_calls s') = decisions (sv_calls s)"
  using assms by (simp_all add: aside_def lease_context_def holds_lease_def ended_def)

lemma stepped_orderly:
  assumes "stepped ds s s1" "orderly s1 s'"
  shows "stepped ds s s'"
  using assms orderly_consistent [OF assms(2)] aside_lease [of s1 s'] by (auto simp: stepped_def orderly_def)

lemma stepped_refl: "consistent s \<Longrightarrow> stepped [] s s"
  by (simp add: stepped_def same_identity_lease)

lemma orderly_stepped: "consistent s \<Longrightarrow> orderly s s' \<Longrightarrow> stepped [] s s'"
  using stepped_orderly stepped_refl by blast

lemma quiet_stepped: "consistent s \<Longrightarrow> quiet s s' \<Longrightarrow> stepped [] s s'"
  using orderly_stepped quiet_orderly by blast

lemma moves_stepped:
  assumes "consistent s" "orderly s s1" "moves s1 s'"
  shows "stepped [] s s'"
proof -
  have c: "consistent s1" using assms(1,2) orderly_consistent by blast
  have "decisions (sv_calls s') = decisions (sv_calls s1)"
    using assms(3) by (intro decisions_visible) (simp add: moves_def switching_def)
  then show ?thesis
    using moves_consistent [OF assms(3) c] assms(2,3) aside_lease [of s s1] by (auto simp: stepped_def moves_def orderly_def)
qed

lemma returns_moves_stepped:
  assumes "consistent s" "orderly s s1" "served s1 \<Longrightarrow> returns (moves s1) r"
  shows "returns (stepped [] s) r"
proof -
  have "served s1" using orderly_consistent [OF assms(2,1)] by (simp add: consistent_def)
  from assms(3) [OF this] show ?thesis
    by (rule returns_mono) (use moves_stepped [OF assms(1,2)] in blast)
qed

section \<open>Requests and configuration\<close>

lemma orderly_frontend_request:
  assumes "slab_keys (se_alloc env)"
  shows "returns (orderly s) (handle_frontend_request env request s)"
proof -
  have save: "orderly s (save_config s')" if "orderly s s'" for s'
    using that by (rule orderly_trans) (auto simp: save_config_def is_visible_def intro!: quiet_orderly)
  have create: "returns (orderly s) (map_option save_config (add_client env s))"
    using orderly_add_client [OF assms, of s] save by (auto simp: returns_def)
  have q: "quiet s (enumerate_clients s)" "quiet s (add_authorized_key desc fp s)"
    "quiet s (remove_authorized_key fp s)" "quiet s (change_port port s)" "quiet s (sync_frontend s)" for desc fp port
    by (simp_all add: enumerate_clients_def add_authorized_key_def remove_authorized_key_def change_port_def sync_frontend_def
        quiet_def aside_def same_incoming_def is_visible_def Let_def)
  show ?thesis
    using create
    by (cases request)
      (simp_all add: save q quiet_orderly orderly_set_client_active orderly_remove_client orderly_update_pos is_visible_def)
qed

lemma aside_folded: "(\<And>x s. orderly s (f x s)) \<Longrightarrow> orderly s (fold f xs s)"
  by (induction xs arbitrary: s) (auto intro: orderly_trans)

lemma orderly_configured:
  assumes "slab_keys (se_alloc env)"
    "cm_add_with_config (se_alloc env) (se_order env) cl (sv_clients s) = Some (handle, m)" "cm_get_state m handle = Some (c, st)"
  shows "orderly s (notify_frontend ev (if cs_active st
      then activate_client handle (s\<lparr>sv_clients := snd (cm_deactivate_client handle m)\<rparr>) else s\<lparr>sv_clients := m\<rparr>))"
proof -
  obtain m0 c' st' where ins: "slab_insert (se_alloc env) (ClientConfig_default, ClientState_default) (sv_clients s) = Some (handle, m0)"
    and m: "m = cm_set_state handle st' (cm_set_config handle c' m0)"
    using assms(2) unfolding cm_add_with_config_def cm_add_client_def Let_def by (auto simp: map_option_eq_Some)
  have get: "slab_get m = (slab_get (sv_clients s))(handle \<mapsto> (c, st))" and new: "slab_get (sv_clients s) handle = None"
    using slab_get_insert [OF ins assms(1)] assms(3) m
    by (auto simp: cm_get_state_def cm_set_state_def cm_set_config_def slab_get_modify fun_eq_iff)
  have keys: "map fst m = map fst m0" using m by (simp add: cm_set_state_def cm_set_config_def)
  define m' where "m' = (if cs_active st then snd (cm_deactivate_client handle m) else m)"
  have "edges m' = edges (sv_clients s)"
  proof -
    have "edges m' = (edges m)(handle := None)"
      by (cases "cs_active st") (simp_all add: m'_def cm_deactivate_client_spec(2), auto simp: edges_def get)
    also have "\<dots> = edges (sv_clients s)" by (auto simp: edges_def get new fun_eq_iff)
    finally show ?thesis .
  qed
  moreover have "map fst m' = map fst m0" by (simp add: m'_def cm_deactivate_client_spec(3) keys)
  then have "slab_ok m'" if "slab_ok (sv_clients s)"
    using slab_ok_insert [OF ins assms(1) that] by (simp add: slab_ok_def del: set_map)
  ultimately have "placed (s\<lparr>sv_clients := m'\<rparr>)" if "placed s"
    using that by (intro placed_same [OF that]) (simp_all add: placed_def same_incoming_def)
  then have "orderly s (s\<lparr>sv_clients := m'\<rparr>)" by (simp add: orderly_def aside_def)
  then have "orderly s (if cs_active st then activate_client handle (s\<lparr>sv_clients := m'\<rparr>) else s\<lparr>sv_clients := m'\<rparr>)"
    using orderly_trans [OF _ orderly_set_client_active [of _ handle True]] by (simp add: set_client_active_def)
  then show ?thesis
    using orderly_trans [OF _ quiet_orderly [OF quiet_primitives(4)]] by (cases "cs_active st") (simp_all add: m'_def)
qed

lemma orderly_add_configured:
  assumes "slab_keys (se_alloc env)"
  shows "returns (orderly s) (add_configured env cl s)"
  by (auto simp: add_configured_def returns_def bind_eq_Some_conv Let_def orderly_configured [OF assms]
      cong: if_cong split del: if_split)

lemma orderly_add_all_configured:
  assumes "slab_keys (se_alloc env)"
  shows "returns (orderly s) (add_all_configured env cls s)"
proof (induction cls arbitrary: s)
  case (Cons cl cls)
  have "returns (\<lambda>s1. returns (orderly s) (add_all_configured env cls s1)) (add_configured env cl s)"
  proof (rule returns_mono [OF orderly_add_configured [OF assms]])
    fix s1
    assume "orderly s s1"
    then show "returns (orderly s) (add_all_configured env cls s1)"
      by (intro returns_mono [OF Cons]) (rule orderly_trans)
  qed
  then show ?case by simp
qed simp

lemma fail_gate_local:
  assumes "consistent s"
  shows "returns (\<lambda>s'. stepped [] s s' \<and> gate_of s' = Local \<and> (\<forall>ctx. lease_context s = Some ctx \<longrightarrow> ended ctx s'))
    (fail_gate env reason s)"
proof (cases "lease_context s")
  case None
  have served: "served s" using assms by (simp add: consistent_def)
  have "moves s (invalidate_lease s)"
    using None served switching_invalidate [of s]
    by (simp add: moves_def served_def guarded_def lease_context_None lease_context_Some)
  then have "stepped [] s (invalidate_lease s)" using moves_stepped assms orderly_refl by blast
  with None show ?thesis by (simp add: fail_gate_def)
next
  case (Some ctx)
  have served: "served s" using assms by (simp add: consistent_def)
  have "sv_switch_controller (invalidate_lease s) \<noteq> None"
    using served Some by (auto simp: served_def guarded_def)
  then have "returns (\<lambda>s'. switching (invalidate_lease s) s' \<and> ended ctx s') (fail_context_inner env ctx reason None (invalidate_lease s))"
    by (intro fail_context_inner_ends) simp_all
  then have "returns (\<lambda>s'. stepped [] s s' \<and> gate_of s' = Local \<and> ended ctx s') (fail_context_inner env ctx reason None (invalidate_lease s))"
  proof (rule returns_mono)
    fix s'
    assume s': "switching (invalidate_lease s) s' \<and> ended ctx s'"
    then have "moves s s'"
      using moves_ended [OF switching_trans [OF switching_invalidate]] same_identity_lease [OF Some] by blast
    then show "stepped [] s s' \<and> gate_of s' = Local \<and> ended ctx s'"
      using s' moves_stepped [OF assms orderly_refl] by (simp add: ended_def)
  qed
  with Some show ?thesis by (simp add: fail_gate_def fail_context_def)
qed

text \<open>Without a reservation the controller may be replaced.\<close>

lemma stepped_replace:
  assumes "stepped [] s s1" "gate_of s1 = Local" "\<And>ctx. lease_context s = Some ctx \<Longrightarrow> ended ctx s1"
    "sv_bundle_lease s' = sv_bundle_lease s1" "sv_switch_task s' = sv_switch_task s1"
    "sv_switch_deadline s' = sv_switch_deadline s1" "sv_pending_switch_cleanup s' = sv_pending_switch_cleanup s1"
    "sv_next_switch_task_epoch s' = sv_next_switch_task_epoch s1" "spawned (sv_calls s') = spawned (sv_calls s1)"
    "visible (sv_calls s') = visible (sv_calls s1)" "sv_clients s' = sv_clients s1" "same_incoming s1 s'"
  shows "stepped [] s s'"
proof -
  have "served s'" using assms(1,2,4,5) by (simp add: stepped_def consistent_def served_def guarded_def lease_context_Some)
  moreover have "tasks_ok s'" using assms(1,5,8,9) by (auto simp: stepped_def consistent_def intro: tasks_ok_frame)
  moreover have "placed s'"
    using assms(1) by (auto simp: stepped_def consistent_def assms(10-12) intro: placed_frame)
  moreover have "ended ctx s'" if "lease_context s = Some ctx" for ctx
    using assms(3) [OF that] by (simp add: ended_def assms(4-7))
  ultimately show ?thesis
    using assms(1) decisions_visible [OF assms(10)] by (simp add: stepped_def consistent_def)
qed

lemma stepped_config_change:
  assumes "consistent s" "slab_keys (se_alloc env)"
  shows "returns (stepped [] s) (handle_config_change env cfg s)"
proof -
  define controller where "controller = (case nc_switch_controller cfg of Inr c \<Rightarrow> c | Inl _ \<Rightarrow> None)"
  let ?new = "\<lambda>s. restart_clipboard (s\<lparr>sv_switch_controller := controller,
    sv_edge_intent_gate := server_edge_intent_gate controller, sv_system_notifier := notifier_for controller\<rparr>)"
  let ?removed = "\<lambda>s. fold remove_client (cm_registered_clients (sv_clients (?new s))) (?new s)"
  let ?final = "\<lambda>s. sync_frontend ((call (CaptureSetReleaseBind (nc_release_bind cfg)) s)
    \<lparr>sv_authorized_keys := nc_authorized_fingerprints cfg\<rparr>)"
  have fin: "orderly s (?final s)" for s
    by (rule quiet_orderly) (simp add: sync_frontend_def enumerate_clients_def quiet_def aside_def same_incoming_def is_visible_def)
  have "returns (\<lambda>s1. returns (\<lambda>s2. stepped [] s (?final s2)) (add_all_configured env (nc_clients cfg) (?removed s1)))
      (fail_gate env ''config_changed'' s)"
  proof (rule returns_mono [OF fail_gate_local [OF assms(1)]])
    fix s1
    assume s1: "stepped [] s s1 \<and> gate_of s1 = Local \<and> (\<forall>ctx. lease_context s = Some ctx \<longrightarrow> ended ctx s1)"
    have "stepped [] s (?new s1)"
      by (rule stepped_replace [of s s1])
        (use s1 in blast, use s1 in blast, use s1 in blast, simp_all add: restart_clipboard_def Let_def is_visible_def same_incoming_def)
    then have "stepped [] s (?removed s1)"
      by (rule stepped_orderly) (rule aside_folded, rule orderly_remove_client)
    then show "returns (\<lambda>s2. stepped [] s (?final s2)) (add_all_configured env (nc_clients cfg) (?removed s1))"
      by (intro returns_mono [OF orderly_add_all_configured [OF assms(2)]]) (blast intro: stepped_orderly fin)
  qed
  then show ?thesis by (simp add: handle_config_change_def controller_def Let_def)
qed

section \<open>Events\<close>

lemma stepped_readiness_change:
  assumes "consistent s" "same_edges (sv_clients s) m"
  shows "returns (stepped [] s) (handle_peer_readiness_change env handle (broadcast_client handle (s\<lparr>sv_clients := m\<rparr>)))"
  by (rule returns_moves_stepped [OF assms(1) _ moves_handle_peer_readiness_change])
    (use assms(2) in \<open>auto intro!: quiet_orderly quiet_after\<close>)

lemma stepped_disconnected:
  assumes "consistent s"
  shows "returns (stepped [] s) (handle_disconnected env addr s)"
proof -
  have "returns (stepped [] s) (case cm_get_client (sv_clients s) addr of
      Some handle \<Rightarrow> handle_peer_readiness_change env handle
        (broadcast_client handle (s\<lparr>sv_clients := cm_clear_peer_readiness handle (sv_clients s)\<rparr>))
    | None \<Rightarrow> Some s)"
    using stepped_refl [OF assms] stepped_readiness_change [OF assms] by (simp split: option.split)
  then have "returns (\<lambda>s1. stepped [] s (case fst (remove_incoming addr s1) of
        Some a \<Rightarrow> notify_frontend (FE_IncomingDisconnected a) (snd (remove_incoming addr s1))
      | None \<Rightarrow> snd (remove_incoming addr s1)))
    (case cm_get_client (sv_clients s) addr of
      Some handle \<Rightarrow> handle_peer_readiness_change env handle
        (broadcast_client handle (s\<lparr>sv_clients := cm_clear_peer_readiness handle (sv_clients s)\<rparr>))
    | None \<Rightarrow> Some s)"
  proof (rule returns_mono)
    fix s1
    assume s1: "stepped [] s s1"
    then have "placed s1" by (simp add: stepped_def consistent_def)
    then have "orderly s1 (snd (remove_incoming addr s1))" using placed_remove_incoming by (simp add: orderly_def)
    then have "stepped [] s (snd (remove_incoming addr s1))" using s1 stepped_orderly by blast
    moreover have "stepped [] s (notify_frontend e (snd (remove_incoming addr s1)))" for e
      using calculation stepped_orderly quiet_orderly quiet_primitives(4) by blast
    ultimately show "stepped [] s (case fst (remove_incoming addr s1) of
        Some a \<Rightarrow> notify_frontend (FE_IncomingDisconnected a) (snd (remove_incoming addr s1))
      | None \<Rightarrow> snd (remove_incoming addr s1))" by (simp split: option.split)
  qed
  then show ?thesis by (simp add: handle_disconnected_def case_prod_beta Let_def)
qed

lemma stepped_emulation_event:
  assumes "consistent s"
  shows "returns (stepped [] s) (handle_emulation_event env ev s)"
proof -
  have q: "stepped [] s s'" if "quiet s s'" for s' using assms that by (rule quiet_stepped)
  have entered: "returns (stepped [] s) (handle_emulation_event env (EE_Entered addr pos fp) s)" for addr pos fp
    using orderly_stepped [OF assms] assms by (intro returns_mono [OF orderly_entered]) (simp_all add: consistent_def)
  have hello: "returns (stepped [] s) (handle_peer_hello env addr commit s)" for addr commit
    using stepped_refl [OF assms] stepped_readiness_change [OF assms]
    by (simp add: handle_peer_hello_def Let_def case_prod_beta q split: option.split)
  have port: "quiet s (notify_frontend e (restart_clipboard (s\<lparr>sv_port := port\<rparr>)))" for e port
    by (simp add: restart_clipboard_def Let_def quiet_def aside_def same_incoming_def is_visible_def)
  have status: "quiet s (set_emulation_status st s)" for st
    by (simp add: set_emulation_status_def quiet_def aside_def same_incoming_def)
  show ?thesis
  proof (cases ev)
    case (EE_PortChanged r)
    then show ?thesis using port by (cases r) (simp_all add: q)
  next
    case (EE_Worker w)
    then show ?thesis using stepped_refl [OF assms] by (cases w) (simp_all add: q status)
  next
    case (EE_Entered addr pos fp)
    show ?thesis unfolding EE_Entered by (rule entered)
  next
    case (EE_Disconnected addr)
    then show ?thesis using stepped_disconnected [OF assms] by simp
  next
    case (EE_PeerHello addr commit)
    then show ?thesis using hello by simp
  qed (simp_all add: q is_visible_def)
qed

subsection \<open>Capture\<close>

lemma stepped_then:
  assumes "stepped ds s s1" "\<And>ctx. lease_context s = Some ctx \<Longrightarrow> holds_lease ctx s1" "moves s1 s'"
  shows "stepped ds s s'"
proof -
  have c: "consistent s1" using assms(1) by (simp add: stepped_def)
  have "decisions (sv_calls s') = decisions (sv_calls s1)"
    using assms(3) by (intro decisions_visible) (simp add: moves_def switching_def)
  moreover have "holds_lease ctx s' \<or> ended ctx s'" if l: "lease_context s = Some ctx" for ctx
  proof -
    obtain c1 where c1: "lease_context s1 = Some c1" "same_identity c1 ctx"
      using assms(2) [OF l] by (auto simp: holds_lease_def split: option.splits)
    then consider "holds_lease c1 s'" | "ended c1 s'" using assms(3) by (auto simp: moves_def)
    then show ?thesis
      by cases (use c1(2) ended_cong same_identity_trans in \<open>auto simp: holds_lease_def split: option.splits\<close>)
  qed
  ultimately show ?thesis
    using moves_consistent [OF assms(3) c] assms(1) by (simp add: stepped_def)
qed

lemma stepped_decide:
  assumes "stepped [] s s1"
  shows "stepped [b] s (call (CommitDecision b) (s1\<lparr>sv_active_switch_capture := a\<rparr>))" (is "stepped _ _ ?s")
proof -
  have c: "served s1" "tasks_ok s1" "placed s1" using assms by (simp_all add: stepped_def consistent_def)
  have "served ?s" using c(1) by (simp add: served_def guarded_def lease_context_def)
  moreover have "tasks_ok ?s" by (rule tasks_ok_frame [OF c(2)]) simp_all
  moreover have "placed ?s"
    by (rule placed_same [OF c(3)]) (use c(3) in \<open>simp_all add: placed_def same_incoming_def\<close>)
  ultimately show ?thesis
    using assms by (simp add: stepped_def consistent_def lease_context_def holds_lease_def ended_def)
qed

text \<open>When a crossing may be answered with yes.\<close>

definition may_cross :: "ServiceEnv \<Rightarrow> ClientHandle \<Rightarrow> u64 \<Rightarrow> u64 \<Rightarrow> Service \<Rightarrow> bool" where
  "may_cross env handle lease peer s \<longleftrightarrow> (\<exists>ctx g r. gate_of s = GrantArmed ctx g \<and> gc_handle ctx = handle
     \<and> gl_lease_epoch (gc_lease ctx) = lease \<and> gl_peer_session_epoch (gc_lease ctx) = peer
     \<and> peer_readiness env s handle = Some r \<and> input_ready r \<and> pb_session_epoch r = peer
     \<and> controller_now_ms env 0 s < gl_expires_at_ms (gc_lease ctx) \<and> controller_now_ms env 0 s < gg_expires_at_ms g)"

lemma stepped_commit_requested:
  assumes "consistent s"
  shows "returns (\<lambda>s'. \<exists>b. stepped [b] s s' \<and> (b \<longrightarrow> may_cross env handle lease peer s))
    (handle_commit_requested env handle lease peer s)"
proof -
  let ?mark = "\<lambda>b s. s\<lparr>sv_active_switch_capture := if b then Some (handle, lease) else sv_active_switch_capture s\<rparr>"
  let ?ok = "\<lambda>s'. \<exists>b. stepped [b] s s' \<and> (b \<longrightarrow> may_cross env handle lease peer s)"
  have mark: "(if b then s\<lparr>sv_active_switch_capture := Some (handle, lease)\<rparr> else s) = ?mark b s" for b s by simp
  have "returns (\<lambda>x. returns ?ok (let s2 = call (CommitDecision (fst x)) (?mark (fst x) (snd x)) in
      if \<not> se_decision_taken env \<and> fst x
      then (case lease_context s2 of Some ctx \<Rightarrow> fail_context env ctx ''capture_commit_decision_dropped'' s2 | None \<Rightarrow> Some s2)
      else Some s2)) (authorize_client_enter env handle lease peer s)"
  proof (rule returns_mono [OF authorize_client_enter_spec])
    show "served s" using assms by (simp add: consistent_def)
    fix x
    assume x: "moves s (snd x) \<and> (fst x \<longrightarrow> authorized env handle lease peer s (snd x))"
    let ?s2 = "call (CommitDecision (fst x)) (?mark (fst x) (snd x))"
    have "stepped [] s (snd x)" using x moves_stepped [OF assms orderly_refl] by blast
    then have s2: "stepped [fst x] s ?s2" by (rule stepped_decide)
    then have "served ?s2" by (simp add: stepped_def consistent_def)
    have cross: "may_cross env handle lease peer s" if "fst x"
      using x that by (auto simp: may_cross_def authorized_def)
    have dropped: "returns (stepped [fst x] s) (fail_context env ctx reason ?s2)"
      if "fst x" "lease_context ?s2 = Some ctx" for ctx reason
    proof -
      have failed: "returns (moves ?s2) (fail_context env ctx reason ?s2)"
        unfolding fail_context_def
        using \<open>served ?s2\<close> that(2) by (intro moves_fail_context_inner served_guarded same_identity_lease)
      have held: "holds_lease c ?s2" if "lease_context s = Some c" for c
        using x \<open>fst x\<close> that by (auto simp: authorized_def lease_context_Some intro!: holds_leaseI)
      show ?thesis by (rule returns_mono [OF failed], rule stepped_then [OF s2 held])
    qed
    show "returns ?ok (let s2 = ?s2 in if \<not> se_decision_taken env \<and> fst x
      then (case lease_context s2 of Some ctx \<Rightarrow> fail_context env ctx ''capture_commit_decision_dropped'' s2 | None \<Rightarrow> Some s2)
      else Some s2)"
    proof (cases "\<not> se_decision_taken env \<and> fst x")
      case True
      then have "returns ?ok (fail_context env ctx reason ?s2)" if "lease_context ?s2 = Some ctx" for ctx reason
        using that cross by (intro returns_mono [OF dropped]) auto
      with True s2 cross show ?thesis by (auto simp: Let_def split: option.split)
    next
      case False
      then show ?thesis using s2 cross by (auto simp: Let_def)
    qed
  qed
  then show ?thesis by (simp only: handle_commit_requested_def case_prod_beta Let_def mark returns_simps)
qed

lemma stepped_capture_event:
  assumes "consistent s" "\<And>handle lease peer. ev \<noteq> CommitRequested handle lease peer"
  shows "returns (stepped [] s) (service_capture_event env ev s)"
proof -
  have q: "stepped [] s s'" if "quiet s s'" for s' using assms(1) that by (rule quiet_stepped)
  note quiet_simps = quiet_def aside_def same_incoming_def is_visible_def
  have release: "returns (stepped [] s) (if sv_pending_switch_cleanup s1 \<noteq> None then complete_pending_switch_cleanup env s1
      else release_gate_after_capture env reason notify s1)" if "quiet s s1" for s1 reason notify
    using that moves_complete_pending moves_release_gate_after_capture
    by (intro returns_moves_stepped [OF assms(1), of s1]) (simp_all add: quiet_orderly)
  show ?thesis
  proof (cases ev)
    case (CaptureBegin handle)
    then show ?thesis
      by (auto simp: handle_capture_begin_def returns_def bind_eq_Some_conv quiet_simps intro!: q split: option.splits)
  next
    case CaptureDisabled
    then show ?thesis
      unfolding handle_capture_disabled_def service_capture_event.simps Let_def CaptureDisabled
      by (intro release) (simp add: quiet_simps)
  next
    case (CaptureCandidate handle)
    then show ?thesis
      using returns_moves_stepped [OF assms(1) orderly_refl moves_handle_capture_candidate] by simp
  next
    case (CommitDeniedReleased handle lease)
    let ?s = "if sv_active_switch_capture s = Some (handle, lease) then s\<lparr>sv_active_switch_capture := None\<rparr> else s"
    have "quiet s ?s" by (simp add: quiet_simps)
    then show ?thesis
      using release [of ?s] CommitDeniedReleased q
      by (auto simp: handle_commit_denied_def Let_def split: option.split)
  next
    case (ClientReleased handle reason)
    then show ?thesis
      unfolding handle_client_released_def service_capture_event.simps Let_def ClientReleased
      by (intro release) (auto simp: quiet_simps split: option.split)
  next
    case (PeerReadiness handle)
    then show ?thesis
      using stepped_readiness_change [OF assms(1), of "sv_clients s"] by simp
  next
    case (PeerReleaseStarted handle epoch)
    then show ?thesis
      by (auto simp: handle_peer_release_started_def quiet_simps Let_def intro!: q split: option.split)
  qed (use assms(2) in \<open>auto simp: quiet_simps intro!: q\<close>)
qed

section \<open>The loop\<close>

lemma stepped_service_step:
  assumes "consistent s" "slab_keys (se_alloc env)" "service_enabled i s"
    "\<And>handle lease peer. i \<noteq> FromCapture (CommitRequested handle lease peer)"
  shows "returns (stepped [] s) (service_step env i s)"
proof (cases i)
  case (FromFrontend r)
  then show ?thesis
    using stepped_refl [OF assms(1)] returns_mono [OF orderly_frontend_request [OF assms(2)] orderly_stepped [OF assms(1)]]
    by (cases r) simp_all
next
  case (FromTask ev)
  then show ?thesis
    using assms(1,3)
    by (auto simp: consistent_def intro!: returns_moves_stepped [OF assms(1) orderly_refl] moves_handle_switch_task_event)
next
  case Deadline
  then show ?thesis
    using returns_moves_stepped [OF assms(1) orderly_refl moves_handle_switch_deadline] by simp
next
  case (FromResolver ev)
  have "quiet s (handle_resolver_event ev s)"
    using same_edges_trans [OF same_edges_operations(4) same_edges_ips(2)]
    by (cases ev) (auto intro!: quiet_after)
  with FromResolver show ?thesis using quiet_stepped [OF assms(1)] by simp
next
  case (FromCapture ev)
  then show ?thesis using stepped_capture_event [OF assms(1)] assms(4) by simp
next
  case FrontendPending
  then show ?thesis
    by (auto simp: handle_frontend_pending_def quiet_def aside_def same_incoming_def intro!: quiet_stepped [OF assms(1)])
qed (use stepped_emulation_event [OF assms(1)] stepped_config_change [OF assms(1,2)] in
    \<open>auto intro: quiet_stepped [OF assms(1)]\<close>)

lemma service_step_spec:
  assumes "consistent s" "slab_keys (se_alloc env)" "service_enabled i s"
  shows "returns (\<lambda>s'. \<exists>ds. stepped ds s s' \<and> (True \<in> set ds \<longrightarrow>
      (\<exists>handle lease peer. i = FromCapture (CommitRequested handle lease peer) \<and> may_cross env handle lease peer s)))
    (service_step env i s)"
proof (cases "\<exists>handle lease peer. i = FromCapture (CommitRequested handle lease peer)")
  case True
  then obtain handle lease peer where i: "i = FromCapture (CommitRequested handle lease peer)" by blast
  have "returns (\<lambda>s'. \<exists>ds. stepped ds s s' \<and> (True \<in> set ds \<longrightarrow> may_cross env handle lease peer s))
      (handle_commit_requested env handle lease peer s)"
    by (rule returns_mono [OF stepped_commit_requested [OF assms(1)]]) fastforce
  with i show ?thesis by simp
next
  case False
  then have "returns (stepped [] s) (service_step env i s)"
    using stepped_service_step [OF assms] by blast
  then show ?thesis by (rule returns_mono) (rule exI [of _ "[]"], simp)
qed

subsection \<open>The start\<close>

lemma slab_ok_add_initial:
  "slab_keys (se_alloc env) \<Longrightarrow> slab_ok m \<Longrightarrow> add_initial env cls m = Some m' \<Longrightarrow> slab_ok m'"
proof (induction cls arbitrary: m)
  case (Cons cl cls)
  then obtain handle m1 where m1: "cm_add_with_config (se_alloc env) (se_order env) cl m = Some (handle, m1)"
    "add_initial env cls m1 = Some m'"
    by (auto simp: bind_eq_Some_conv)
  then obtain m0 where "slab_insert (se_alloc env) (ClientConfig_default, ClientState_default) m = Some (handle, m0)"
    "map fst m1 = map fst m0"
    unfolding cm_add_with_config_def cm_add_client_def Let_def
    by (auto simp: map_option_eq_Some cm_set_state_def cm_set_config_def)
  then have "slab_ok m1" using slab_ok_insert Cons.prems(1,2) by (fastforce simp: slab_ok_def simp del: set_map)
  then show ?case using Cons.IH [OF Cons.prems(1)] m1(2) by blast
qed simp

lemma deactivate_all:
  "map fst (fold (\<lambda>h m. snd (cm_deactivate_client h m)) hs m) = map fst m"
  "edges (fold (\<lambda>h m. snd (cm_deactivate_client h m)) hs m) k = (if k \<in> set hs then None else edges m k)"
  by (induction hs arbitrary: m) (auto simp: cm_deactivate_client_spec)

lemma consistent_start:
  assumes "slab_keys (se_alloc env)" "service_start env cfg controller port fingerprint = Some s"
  shows "consistent s"
proof -
  obtain s0 where s0: "Service_new env cfg controller port fingerprint = Some s0" "s = activate_configured s0"
    using assms(2) by (auto simp: service_start_def)
  obtain m where m: "add_initial env (nc_clients cfg) [] = Some m" "sv_clients s0 = m"
    using s0(1) by (auto simp: Service_new_def bind_eq_Some_conv)
  have ok: "slab_ok m" using slab_ok_add_initial [OF assms(1) _ m(1)] by (simp add: slab_ok_def)
  let ?hs = "cm_active_clients m"
  let ?m = "fold (\<lambda>h m. snd (cm_deactivate_client h m)) ?hs m"
  have "k \<in> set ?hs" if "edges m k = Some p" for k p
    using that by (force simp: edges_def cm_active_clients_def slab_get_def bind_eq_Some_conv dest: map_of_SomeD split: if_splits)
  then have none: "edges ?m k = None" for k by (cases "edges m k") (auto simp: deactivate_all(2))
  have "slab_ok ?m" using ok deactivate_all(1) [of ?hs m] by (simp add: slab_ok_def del: set_map)
  then have "consistent (s0\<lparr>sv_clients := ?m\<rparr>)"
    using s0(1) none
    by (auto simp: Service_new_def bind_eq_Some_conv consistent_def served_def guarded_def lease_context_def gate_context_def
        BundleLeaseManager_default_def tasks_ok_def placed_def incoming_ok_def exclusive_def wanted_def barriers_def fun_eq_iff)
  moreover have "orderly (s0\<lparr>sv_clients := ?m\<rparr>) (fold activate_client ?hs (s0\<lparr>sv_clients := ?m\<rparr>))"
    by (rule aside_folded) (simp add: orderly_def placed_activate_client)
  ultimately show ?thesis
    using orderly_consistent s0(2) m(2) by (auto simp: activate_configured_def Let_def)
qed

definition service_initial :: "Service \<Rightarrow> bool" where
  "service_initial s \<longleftrightarrow> (\<exists>env cfg controller port fingerprint. slab_keys (se_alloc env)
     \<and> service_start env cfg controller port fingerprint = Some s)"

definition service_next :: "Service \<Rightarrow> ServiceEnv \<times> ServiceInput \<Rightarrow> Service option" where
  "service_next s x = (if slab_keys (se_alloc (fst x)) \<and> service_enabled (snd x) s then service_step (fst x) (snd x) s else None)"

interpretation services: guarded_system service_initial service_next consistent
proof
  show "consistent s" if "service_initial s" for s
    using that consistent_start by (auto simp: service_initial_def)
  show "consistent s'" if "consistent s" "service_next s x = Some s'" for s x s'
    using service_step_spec [OF that(1)] that(2) by (fastforce simp: service_next_def returns_def stepped_def split: if_splits)
qed

lemma service_run_reachable:
  assumes "services.reachable s" "service_run s xs = Some s'" "\<forall>x \<in> set xs. slab_keys (se_alloc (fst x))"
  shows "services.reachable s'"
  using assms
proof (induction xs arbitrary: s)
  case (Cons x xs)
  show ?case
  proof (cases "service_enabled (snd x) s")
    case True
    then obtain s1 where s1: "service_step (fst x) (snd x) s = Some s1" "service_run s1 xs = Some s'"
      using Cons.prems(2) by (auto simp: bind_eq_Some_conv)
    then have "service_next s x = Some s1" using True Cons.prems(3) by (simp add: service_next_def)
    then have "services.reachable s1" by (rule services.reachable.step [OF Cons.prems(1)])
    then show ?thesis using Cons s1(2) by simp
  next
    case False
    then show ?thesis using Cons by simp
  qed
qed simp

lemma service_run_consistent:
  assumes "slab_keys (se_alloc env)" "service_start env cfg controller port fingerprint = Some s"
    "service_run s xs = Some s'" "\<forall>x \<in> set xs. slab_keys (se_alloc (fst x))"
  shows "consistent s'"
proof (rule services.reachable_inv)
  have "services.reachable s"
    using assms(1,2) by (intro services.reachable.start) (unfold service_initial_def, blast)
  then show "services.reachable s'" using service_run_reachable assms(3,4) by blast
qed
end
