(* ===== verification/Service_Total.thy ===== *)
theory Service_Total
  imports Service_Loop
begin

text \<open>
  The panics of the service: the expectations that the code states with \<^verbatim>\<open>expect\<close> and \<^verbatim>\<open>unwrap\<close> hold in every
  consistent state, so that only an exhausted counter or a full slab can end the loop.
\<close>

section \<open>Room for operations\<close>

definition safe :: "'a option \<Rightarrow> bool" where
  "safe r \<longleftrightarrow> r \<noteq> None"

lemma safe_simps [simp]:
  "safe (Some x)" "\<not> safe None" "safe (map_option g r) \<longleftrightarrow> safe r"
  by (simp_all add: safe_def)

lemma safe_bind: "safe r \<Longrightarrow> (\<And>x. r = Some x \<Longrightarrow> safe (f x)) \<Longrightarrow> safe (Option.bind r f)"
  by (cases r) simp_all

text \<open>So many more operations can be given an epoch.\<close>

definition room :: "nat \<Rightarrow> Service \<Rightarrow> bool" where
  "room k s \<longleftrightarrow> unat (sv_next_switch_task_epoch s) + k < 2 ^ 64"

lemma room_cong: "sv_next_switch_task_epoch s' = sv_next_switch_task_epoch s \<Longrightarrow> room k s' = room k s"
  by (simp add: room_def)

lemma spawn_switch_task_total:
  assumes "room 1 s"
  shows "\<exists>b s'. spawn_switch_task op s = Some (b, s') \<and> (room (Suc k) s \<longrightarrow> room k s') \<and> (\<not> b \<longrightarrow> s' = s)"
proof -
  obtain e where e: "checked_add (sv_next_switch_task_epoch s) 1 = Some e"
    using assms by (simp add: room_def checked_add_def)
  then have "unat e = unat (sv_next_switch_task_epoch s) + 1" by (simp add: checked_add_SomeD)
  with e show ?thesis by (cases "sv_switch_task s") (auto simp: spawn_switch_task_def room_def)
qed

lemma spawn_total: "room 1 s \<Longrightarrow> safe (spawn_switch_task op s)"
  using spawn_switch_task_total [of s op 0] by auto

lemma start_cleanup_task_total: "room 1 s \<Longrightarrow> safe (start_cleanup_task env ctx reason s)"
  using spawn_total by (simp add: start_cleanup_task_def)

lemma close_context_epoch [simp]: "sv_next_switch_task_epoch (close_context ctx s) = sv_next_switch_task_epoch s"
  by (simp add: close_context_def cancel_outgoing_def Let_def)

lemma fail_context_inner_total: "room 1 s \<Longrightarrow> safe (fail_context_inner env ctx reason detail s)"
  using start_cleanup_task_total by (simp add: fail_context_inner_def Let_def room_def)

lemma fail_total:
  assumes "room 1 s"
  shows "safe (fail_context env ctx reason s)" "safe (fail_context_with_detail env ctx reason detail s)"
    "safe (fail_gate env reason s)" "safe (fail_gate_with_detail env reason detail s)"
  using fail_context_inner_total assms
  by (auto simp: fail_context_def fail_context_with_detail_def fail_gate_def fail_gate_with_detail_def room_def
      split: option.splits)

lemma release_gate_after_capture_total: "room 1 s \<Longrightarrow> safe (release_gate_after_capture env reason notify s)"
  using start_cleanup_task_total
  by (simp add: release_gate_after_capture_def Let_def room_def cancel_outgoing_def split: option.split)

lemma complete_pending_total: "room 1 s \<Longrightarrow> safe (complete_pending_switch_cleanup env s)"
  using start_cleanup_task_total by (simp add: complete_pending_switch_cleanup_def room_def split: option.split)

lemma handle_switch_deadline_total: "room 1 s \<Longrightarrow> safe (handle_switch_deadline env s)"
  using fail_total(1) by (simp add: handle_switch_deadline_def Let_def room_def split: prod.split option.split)

lemma handle_peer_readiness_change_total: "room 1 s \<Longrightarrow> safe (handle_peer_readiness_change env handle s)"
  using fail_total(1) by (simp add: handle_peer_readiness_change_def split: option.split)

lemma arm_manual_recovery_total: "room 1 s \<Longrightarrow> safe (arm_manual_recovery_then_notify target reason detail s)"
  by (auto simp: arm_manual_recovery_then_notify_def spawn_total intro!: safe_bind)

section \<open>Handlers\<close>

text \<open>An operation that cannot start leaves the room to fail.\<close>

lemma start_total:
  assumes "room 1 s" "\<And>s. room 1 s \<Longrightarrow> safe (g s)"
  shows "safe (Option.bind (spawn_switch_task op s) (\<lambda>(started, s). if started then Some s else g s))"
  using spawn_switch_task_total [OF assms(1), of op 0] assms by auto

lemma reserve_bundle_total:
  assumes "room 1 s"
  shows "safe (reserve_bundle env handle target controller r s)"
proof -
  have "safe (reserve_failed env handle target r e s')" if "room 1 s'" for e s'
    using that arm_manual_recovery_total by (simp add: reserve_failed_def case_prod_beta split: GateError.split)
  moreover have "safe (start_prepare_task ctx r s' \<bind> (\<lambda>(started, s). if started then Some s else fail_context env ctx reason s))"
    if "room 1 s'" for ctx reason s'
    unfolding start_prepare_task_def using that start_total [of s' "fail_context env ctx reason"] fail_total(1) by simp
  ultimately show ?thesis
    using assms by (simp add: reserve_bundle_def Let_def room_def split: prod.split sum.split)
qed

lemma handle_capture_candidate_total:
  assumes "room 1 s"
  shows "safe (handle_capture_candidate env handle s)"
proof -
  have "room 1 (snd (edge_confirmed env handle target r s))" for target r
    using edge_confirmed_frame [of env handle target r s] assms by (auto simp: room_def)
  then show ?thesis
    using reserve_bundle_total arm_manual_recovery_total
    by (simp add: handle_capture_candidate_def Let_def case_prod_beta split: option.split)
qed

lemma arm_capture_total: "room 1 s \<Longrightarrow> safe (arm_capture env ctx s)"
  using fail_total(1) by (simp add: arm_capture_def split: option.split)

lemma start_commit_total:
  assumes "room 1 s" "\<And>s. room 1 s \<Longrightarrow> safe (g s)"
  shows "safe (Option.bind (start_commit_task ctx grant s) (\<lambda>(started, s). if started then Some s else g s))"
  unfolding start_commit_task_def using start_total [OF assms(1), of g] assms by simp

lemma handle_prepared_total: "room 1 s \<Longrightarrow> safe (handle_prepared env ctx result s)"
  using fail_total arm_capture_total start_commit_total [OF _ fail_total(1)]
  by (simp add: handle_prepared_def Let_def case_prod_beta room_def split: sum.split option.split)

lemma room_deferred [simp]: "room k (defer_failure_until_capture_release ctx reason s) = room k s"
  by (simp add: defer_failure_until_capture_release_def room_def)

lemma room_updates [simp]:
  "room k (reset_switch_deadline env i s) = room k s" "room k (call c s) = room k s" "room k (s\<lparr>sv_bundle_lease := m\<rparr>) = room k s"
  by (simp_all add: room_def)

lemma authorize_client_enter_total:
  assumes "room 2 s"
  shows "\<exists>b s'. authorize_client_enter env handle lease peer s = Some (b, s') \<and> room 1 s'"
proof -
  have "\<exists>b s''. start_commit_task ctx g s' = Some (b, s'') \<and> room 1 s''" if "room 2 s'" for ctx g s'
  proof -
    have "room 1 s'" using that by (simp add: room_def)
    then show ?thesis
      using spawn_switch_task_total [of s' "CommitOp ctx g" 1] that by (auto simp: start_commit_task_def numeral_2_eq_2)
  qed
  note commit = this
  have started: "\<exists>b s''. start_commit_task ctx g s' \<bind> (\<lambda>(started, s). if started then Some (True, s)
      else Some (False, defer_failure_until_capture_release ctx reason s)) = Some (b, s'') \<and> room 1 s''" if "room 2 s'" for ctx g s' reason
    using commit [OF that, of ctx g] by auto
  have "room 1 s" using assms by (simp add: room_def)
  then show ?thesis
    using assms started by (auto simp: authorize_client_enter_def Let_def split: option.split prod.split sum.split)
qed

lemma handle_commit_requested_total:
  assumes "room 2 s"
  shows "safe (handle_commit_requested env handle lease peer s)"
proof -
  obtain b s' where "authorize_client_enter env handle lease peer s = Some (b, s')" "room 1 s'"
    using authorize_client_enter_total [OF assms] by blast
  then show ?thesis
    using fail_total(1) by (simp add: handle_commit_requested_def Let_def room_def split: option.split)
qed

text \<open>A renewal that is accepted leaves a context, as \<^verbatim>\<open>expect("renewed lease has context")\<close> says.\<close>

lemma handle_committed_total:
  assumes "room 1 s"
  shows "safe (handle_committed env ctx result s)"
proof -
  have "safe (start_renewing env (reset_switch_deadline env 1 (s\<lparr>sv_bundle_lease := m\<rparr>)))"
    if "snd (gate_renew (sv_bundle_lease s) rid until ready session now) = Inr ()"
      and m: "m = fst (gate_renew (sv_bundle_lease s) rid until ready session now)" for m rid until ready session now
  proof -
    let ?s = "reset_switch_deadline env 1 (s\<lparr>sv_bundle_lease := m\<rparr>)"
    have "\<exists>c g d. gate_state m = RemoteOwned c g d"
      using that(1) unfolding m by (auto simp: gate_renew_def split: BundleGateState.splits if_splits)
    then obtain c where "lease_context ?s = Some c" by (auto simp: lease_context_def gate_context_def)
    moreover have "room 1 ?s" using assms by (simp add: room_def)
    ultimately show ?thesis
      using start_total [of ?s "fail_context env c reason" for reason] fail_total(1)
      by (simp add: start_renewing_def start_renewal_task_def)
  qed
  then show ?thesis
    using fail_total assms
    by (simp add: handle_committed_def Let_def case_prod_beta room_def split: sum.split option.split prod.split)
qed

lemma handle_renewed_total: "room 1 s \<Longrightarrow> safe (handle_renewed env e ctx result s)"
  using fail_total
  by (simp add: handle_renewed_def finish_switch_task_eq Let_def case_prod_beta room_def split: sum.split option.split prod.split)

lemma handle_switch_task_event_total: "room 1 s \<Longrightarrow> safe (handle_switch_task_event env ev s)"
  using handle_prepared_total handle_committed_total handle_renewed_total
  by (cases ev) (simp_all add: finish_switch_task_eq room_def)

section \<open>The loop\<close>

text \<open>
  What the loop needs to go on: two more task epochs, one more handle for an incoming connection, one
  more release epoch, and a slab that takes the new clients.
\<close>

definition new_clients :: "ServiceInput \<Rightarrow> nat" where
  "new_clients i = (case i of FromFrontend (Some FR_Create) \<Rightarrow> 1 | ConfigChanged cfg \<Rightarrow> length (nc_clients cfg) | _ \<Rightarrow> 0)"

definition headroom :: "ServiceEnv \<Rightarrow> ServiceInput \<Rightarrow> Service \<Rightarrow> bool" where
  "headroom env i s \<longleftrightarrow> room 2 s \<and> unat (sv_next_trigger_handle s) + 1 < 2 ^ 63 \<and> unat (sv_next_release_epoch s) + 1 < 2 ^ 64
     \<and> (\<forall>ks. length ks < length (sv_clients s) + new_clients i \<longrightarrow> se_alloc env ks \<noteq> None)"

lemma length_slab:
  "length (slab_modify handle f m) = length m" "length (slab_remove handle m) \<le> length m"
  "slab_insert alloc e m = Some (k, m') \<Longrightarrow> length m' = Suc (length m)"
  by (auto simp: slab_modify_def slab_remove_def slab_insert_def)

lemma add_client_total:
  assumes "slab_keys (se_alloc env)" "se_alloc env (map fst (sv_clients s)) \<noteq> None"
  shows "safe (add_client env s)"
proof -
  obtain k m where ins: "slab_insert (se_alloc env) (ClientConfig_default, ClientState_default) (sv_clients s) = Some (k, m)"
    using assms(2) by (auto simp: slab_insert_def)
  then show ?thesis
    using slab_get_insert [OF ins assms(1)] by (simp add: add_client_def cm_add_client_def cm_get_state_def)
qed

lemma length_deactivate [simp]: "length (snd (cm_deactivate_client handle m)) = length m"
  by (simp add: cm_deactivate_client_def length_slab split: option.split)

lemma length_activate_client [simp]: "length (sv_clients (activate_client handle s)) = length (sv_clients s)"
proof -
  have "length (snd (cm_activate_client handle m)) = length m" for m
    by (simp add: cm_activate_client_def length_slab split: option.split)
  then show ?thesis
    by (simp add: activate_client_eq free_edge_def Let_def case_prod_beta deactivate_client_spec(3) split: option.split)
qed

lemma add_configured_total:
  assumes "slab_keys (se_alloc env)" "se_alloc env (map fst (sv_clients s)) \<noteq> None"
  shows "\<exists>s'. add_configured env cl s = Some s' \<and> length (sv_clients s') = Suc (length (sv_clients s))"
proof -
  obtain k m where ins: "slab_insert (se_alloc env) (ClientConfig_default, ClientState_default) (sv_clients s) = Some (k, m)"
    using assms(2) by (auto simp: slab_insert_def)
  then obtain c st where add: "cm_add_with_config (se_alloc env) (se_order env) cl (sv_clients s) =
      Some (k, cm_set_state k st (cm_set_config k c m))"
    by (simp add: cm_add_with_config_def cm_add_client_def Let_def)
  have "cm_get_state (cm_set_state k st (cm_set_config k c m)) k = Some (c, st)"
    using slab_get_insert [OF ins assms(1)]
    by (simp add: cm_get_state_def cm_set_state_def cm_set_config_def slab_get_modify)
  then show ?thesis
    using length_slab(3) [OF ins]
    by (simp add: add_configured_def add Let_def cm_set_state_def cm_set_config_def length_slab)
qed

lemma add_all_configured_total:
  assumes "slab_keys (se_alloc env)"
  shows "(\<And>ks. length ks < length (sv_clients s) + length cls \<Longrightarrow> se_alloc env ks \<noteq> None) \<Longrightarrow> safe (add_all_configured env cls s)"
proof (induction cls arbitrary: s)
  case (Cons cl cls)
  then have "se_alloc env (map fst (sv_clients s)) \<noteq> None" by simp
  then obtain s' where s': "add_configured env cl s = Some s'" "length (sv_clients s') = Suc (length (sv_clients s))"
    using add_configured_total [OF assms] by blast
  have "safe (add_all_configured env cls s')"
    by (rule Cons.IH) (use Cons.prems s'(2) in simp)
  with s'(1) show ?case by simp
qed simp

lemma add_incoming_total:
  assumes "unat (sv_next_trigger_handle s) + 1 < 2 ^ 63"
  shows "safe (add_incoming addr pos fp s)"
proof -
  obtain h n where "checked_add ENTER_HANDLE_BEGIN (sv_next_trigger_handle s) = Some h"
    "checked_add (sv_next_trigger_handle s) 1 = Some n"
    using assms by (simp add: checked_add_def ENTER_HANDLE_BEGIN_unat)
  then show ?thesis by (simp add: add_incoming_def Let_def)
qed

lemma remove_incoming_next [simp]: "sv_next_trigger_handle (snd (remove_incoming addr s)) = sv_next_trigger_handle s"
  by (simp add: remove_incoming_def split: option.split)

text \<open>\<^verbatim>\<open>expect("no such client")\<close> holds: the address is among the known connections.\<close>

lemma entered_total:
  assumes "placed s" "unat (sv_next_trigger_handle s) + 1 < 2 ^ 63"
  shows "safe (handle_emulation_event env (EE_Entered addr pos fp) s)"
proof -
  have "find (\<lambda>(_, i). in_addr i = addr) (sv_incoming_conn_info s) \<noteq> None" if "addr \<in> sv_incoming_conns s"
    using that assms(1) by (simp add: placed_def incoming_ok_def find_incoming(2))
  moreover have "safe (add_incoming addr p fp s')" if "sv_next_trigger_handle s' = sv_next_trigger_handle s" for s' p
    using that assms(2) by (intro add_incoming_total) simp
  ultimately show ?thesis
    by (auto simp: update_incoming_def split: option.split intro!: safe_bind)
qed

lemma emulation_event_total:
  assumes "placed s" "headroom env (FromEmulation ev) s"
  shows "safe (handle_emulation_event env ev s)"
proof -
  have r: "room 1 s" using assms(2) by (simp add: headroom_def room_def)
  have ready: "safe (handle_peer_readiness_change env handle (broadcast_client handle (s\<lparr>sv_clients := m\<rparr>)))" for handle m
    using r by (intro handle_peer_readiness_change_total) (simp add: room_def)
  show ?thesis
  proof (cases ev)
    case (EE_Entered addr pos fp)
    show ?thesis
      unfolding EE_Entered using assms by (intro entered_total) (simp_all add: headroom_def)
  next
    case (EE_Disconnected addr)
    then show ?thesis
      using ready by (auto simp: handle_disconnected_def case_prod_beta Let_def split: option.split intro!: safe_bind)
  next
    case (EE_PeerHello addr commit)
    then show ?thesis
      using ready by (simp add: handle_peer_hello_def case_prod_beta Let_def split: option.split)
  next
    case (EE_PortChanged x)
    then show ?thesis by (cases x) simp_all
  next
    case (EE_Worker x)
    then show ?thesis by (cases x) simp_all
  qed simp_all
qed

lemma capture_event_total:
  assumes "headroom env (FromCapture ev) s"
  shows "safe (service_capture_event env ev s)"
proof -
  have r: "room 1 s" "room 2 s" using assms by (simp_all add: headroom_def room_def)
  have release: "safe (if sv_pending_switch_cleanup s1 \<noteq> None then complete_pending_switch_cleanup env s1
      else release_gate_after_capture env reason notify s1)"
    if "sv_next_switch_task_epoch s1 = sv_next_switch_task_epoch s" for s1 reason notify
    using r(1) room_cong [OF that] complete_pending_total release_gate_after_capture_total by simp
  show ?thesis
  proof (cases ev)
    case (CaptureBegin handle)
    obtain e where "checked_add (sv_next_release_epoch s) 1 = Some e"
      using assms by (simp add: headroom_def checked_add_def)
    with CaptureBegin show ?thesis by (simp add: handle_capture_begin_def split: option.split)
  next
    case CaptureDisabled
    then show ?thesis
      unfolding handle_capture_disabled_def service_capture_event.simps Let_def CaptureDisabled by (intro release) simp
  next
    case (ClientReleased handle reason)
    then show ?thesis
      unfolding handle_client_released_def service_capture_event.simps Let_def ClientReleased
      by (intro release) (simp split: option.split)
  next
    case (CommitDeniedReleased handle lease)
    let ?s = "if sv_active_switch_capture s = Some (handle, lease) then s\<lparr>sv_active_switch_capture := None\<rparr> else s"
    show ?thesis
      using release [of ?s] CommitDeniedReleased
      by (auto simp: handle_commit_denied_def Let_def split: option.split)
  next
    case (PeerReadiness handle)
    then show ?thesis using r(1) handle_peer_readiness_change_total by (simp add: room_def)
  qed (use r handle_capture_candidate_total handle_commit_requested_total in simp_all)
qed

lemma fail_gate_clients: "returns (\<lambda>s'. sv_clients s' = sv_clients s) (fail_gate env reason s)"
proof -
  have spawned: "returns (\<lambda>x. sv_clients (snd x) = sv_clients a) (spawn_switch_task op a)" for op a
    by (rule returns_mono [OF spawn_switch_task_spec]) (auto simp: switching_def)
  have closed: "sv_clients (close_context ctx a) = sv_clients a" for ctx a
    by (simp add: close_context_def cancel_outgoing_def Let_def)
  have "returns (\<lambda>s'. sv_clients s' = sv_clients a) (fail_context_inner env ctx reason detail a)" for ctx detail a
    using spawned [of "notify_failed (Some (gc_target ctx)) reason detail (close_context ctx a)"]
    by (simp add: fail_context_inner_def start_cleanup_task_def closed Let_def)
  from this [of "invalidate_lease s"] show ?thesis
    by (simp add: fail_gate_def fail_context_def split: option.split)
qed

lemma length_remove_clients: "length (sv_clients (fold remove_client hs s)) \<le> length (sv_clients s)"
proof (induction hs arbitrary: s)
  case (Cons h hs)
  have "length (sv_clients (fold remove_client hs (remove_client h s))) \<le> length (sv_clients (remove_client h s))" by (rule Cons)
  also have "\<dots> \<le> length (sv_clients s)" by (simp add: remove_client_spec(3) length_slab(2))
  finally show ?case by simp
qed simp

lemma config_change_total:
  assumes "slab_keys (se_alloc env)" "headroom env (ConfigChanged cfg) s"
  shows "safe (handle_config_change env cfg s)"
proof -
  let ?controller = "case nc_switch_controller cfg of Inr c \<Rightarrow> c | Inl _ \<Rightarrow> None"
  let ?new = "\<lambda>s. restart_clipboard (s\<lparr>sv_switch_controller := ?controller,
    sv_edge_intent_gate := server_edge_intent_gate ?controller, sv_system_notifier := notifier_for ?controller\<rparr>)"
  have "room 1 s" using assms(2) by (simp add: headroom_def room_def)
  then obtain s1 where s1: "fail_gate env ''config_changed'' s = Some s1"
    using fail_total(3) [of s env "''config_changed''"] by (auto simp: safe_def)
  then have "sv_clients (?new s1) = sv_clients s"
    using fail_gate_clients [of s env "''config_changed''"] by (simp add: returns_def restart_clipboard_def Let_def)
  then have "length (sv_clients (fold remove_client (cm_registered_clients (sv_clients (?new s1))) (?new s1))) \<le> length (sv_clients s)"
    using length_remove_clients [of "cm_registered_clients (sv_clients s)" "?new s1"] by simp
  then have "safe (add_all_configured env (nc_clients cfg) (fold remove_client (cm_registered_clients (sv_clients (?new s1))) (?new s1)))"
    using assms(2) by (intro add_all_configured_total [OF assms(1)]) (simp add: headroom_def new_clients_def)
  with s1 show ?thesis by (auto simp: handle_config_change_def Let_def intro!: safe_bind)
qed

lemma service_step_total:
  assumes "consistent s" "slab_keys (se_alloc env)" "headroom env i s"
  shows "safe (service_step env i s)"
proof (cases i)
  case (FromFrontend r)
  have "safe (add_client env s)" if "r = Some FR_Create"
    using assms(2,3) that FromFrontend by (intro add_client_total) (simp_all add: headroom_def new_clients_def)
  then show ?thesis
  proof (cases r)
    case (Some request)
    with FromFrontend \<open>r = Some FR_Create \<Longrightarrow> safe (add_client env s)\<close> show ?thesis by (cases request) simp_all
  qed (simp add: FromFrontend)
next
  case (FromEmulation ev)
  then show ?thesis using emulation_event_total assms(1,3) by (simp add: consistent_def)
next
  case (FromCapture ev)
  then show ?thesis using capture_event_total assms(3) by simp
next
  case (ConfigChanged cfg)
  then show ?thesis using config_change_total assms(2,3) by simp
next
  case (FromTask ev)
  then show ?thesis using handle_switch_task_event_total assms(3) by (simp add: headroom_def room_def)
next
  case Deadline
  then show ?thesis using handle_switch_deadline_total assms(3) by (simp add: headroom_def room_def)
qed simp_all
end
