(* ===== verification/Service_Props.thy ===== *)
theory Service_Props
  imports Service_Total
begin

text \<open>
  The properties of the service as a whole, over all runs of its loop, and the course of a switch that
  succeeds.
\<close>

section \<open>The course of a switch\<close>

text \<open>The peer is ready, and the clock stays below a bound.\<close>

definition favourable :: "ServiceEnv \<Rightarrow> ClientHandle \<Rightarrow> PeerBundleReadiness \<Rightarrow> u64 \<Rightarrow> Service \<Rightarrow> bool" where
  "favourable env handle r bound s \<longleftrightarrow> peer_readiness env s handle = Some r \<and> input_ready r \<and> pb_session_epoch r \<noteq> 0
     \<and> (\<forall>j. se_clock env j < bound)"

lemma favourable_cong: "sv_clients s' = sv_clients s \<Longrightarrow> favourable env handle r bound s' = favourable env handle r bound s"
  by (simp add: favourable_def peer_readiness_def)

lemma spawn_switch_task_idle:
  assumes "sv_switch_task s = None" "room (Suc k) s"
  obtains e where "room k (call (SpawnTask e op) (s\<lparr>sv_next_switch_task_epoch := e, sv_switch_task := Some (e, op)\<rparr>))"
    "spawn_switch_task op s = Some (True, call (SpawnTask e op) (s\<lparr>sv_next_switch_task_epoch := e, sv_switch_task := Some (e, op)\<rparr>))"
proof -
  obtain e where e: "checked_add (sv_next_switch_task_epoch s) 1 = Some e"
    using assms(2) by (auto simp: room_def checked_add_def)
  then have "unat e = unat (sv_next_switch_task_epoch s) + 1" by (simp add: checked_add_SomeD)
  with that [of e] e assms show thesis by (auto simp: spawn_switch_task_def room_def)
qed

lemma candidate_prepares:
  assumes "gate_of s = Local" "sv_switch_task s = None" "fst (edge_confirmed env handle t (Some r) s)"
    "sv_switch_controller s = Some c" "cm_switch_target (sv_clients s) handle = Some t" "t \<noteq> sct_server_host c"
    "favourable env handle r bound s" "checked_add (se_clock env 0) (sct_lease_ttl_ms c) = Some x" "sct_lease_ttl_ms c \<noteq> 0"
    "room (Suc k) s" "unat (next_lease_epoch (sv_bundle_lease s)) + 1 < 2 ^ 64"
  obtains s' ctx e where "service_step env (FromCapture (CaptureCandidate handle)) s = Some s'"
    "gate_of s' = Preparing ctx" "sv_switch_task s' = Some (e, PrepareOp ctx r)" "SpawnTask e (PrepareOp ctx r) \<in> set (sv_calls s')"
    "gc_handle ctx = handle" "gc_target ctx = t" "gl_peer_session_epoch (gc_lease ctx) = pb_session_epoch r"
    "gl_expires_at_ms (gc_lease ctx) = x" "sv_clients s' = sv_clients s" "sv_switch_controller s' = Some c" "room k s'"
proof -
  obtain n where n: "checked_add (next_lease_epoch (sv_bundle_lease s)) 1 = Some n"
    using assms(11) by (simp add: checked_add_def)
  let ?ctx = "\<lparr>gc_handle = handle, gc_target = t,
    gc_lease = \<lparr>gl_request_id = ''request-'' @ hex32 (se_request_random env), gl_lease_id = ''lease-'' @ hex32 (se_lease_random env),
      gl_lease_epoch = n, gl_peer_session_epoch = pb_session_epoch r, gl_expires_at_ms = x\<rparr>\<rparr>"
  let ?m = "(sv_bundle_lease s)\<lparr>next_lease_epoch := n, gate_state := Preparing ?ctx\<rparr>"
  obtain i where i: "edge_confirmed env handle t (Some r) s = (True, s\<lparr>sv_edge_intent_gate := i\<rparr>)"
    using edge_confirmed_frame [of env handle t "Some r" s] assms(3) by (metis prod.collapse)
  let ?s = "reset_switch_deadline env 1 (call (ToClipboard (BeginRemote n t)) (s\<lparr>sv_edge_intent_gate := i, sv_bundle_lease := ?m\<rparr>))"
  obtain e where e: "room k (call (SpawnTask e (PrepareOp ?ctx r)) (?s\<lparr>sv_next_switch_task_epoch := e, sv_switch_task := Some (e, PrepareOp ?ctx r)\<rparr>))"
    "spawn_switch_task (PrepareOp ?ctx r) ?s = Some (True, call (SpawnTask e (PrepareOp ?ctx r))
      (?s\<lparr>sv_next_switch_task_epoch := e, sv_switch_task := Some (e, PrepareOp ?ctx r)\<rparr>))"
    by (rule spawn_switch_task_idle [of ?s k "PrepareOp ?ctx r"]) (use assms(2,10) in \<open>simp_all add: room_def\<close>)
  have "service_step env (FromCapture (CaptureCandidate handle)) s =
      Some (call (SpawnTask e (PrepareOp ?ctx r)) (?s\<lparr>sv_next_switch_task_epoch := e, sv_switch_task := Some (e, PrepareOp ?ctx r)\<rparr>))"
    using assms n e(2) i
    by (simp add: handle_capture_candidate_def favourable_def reserve_bundle_def gate_reserve_def Let_def
        start_prepare_task_def)
  then show thesis by (rule that [of _ ?ctx e]) (use e(1) assms in \<open>simp_all add: room_def\<close>)
qed


lemma leD_of: "a < b \<Longrightarrow> b \<le> c \<Longrightarrow> \<not> c \<le> a" for a b c :: u64
  by simp

lemma prepared_arms:
  assumes "gate_of s = Preparing ctx" "sv_switch_task s = Some (e, PrepareOp ctx r)"
    "sv_switch_controller s = Some c" "gc_target ctx \<noteq> sct_server_host c"
    "favourable env (gc_handle ctx) r bound s" "gl_peer_session_epoch (gc_lease ctx) = pb_session_epoch r"
    "bound \<le> gl_expires_at_ms (gc_lease ctx)" "bound \<le> pg_lease_expires_at_ms pg" "bound \<le> pg_grant_expires_at_ms pg"
    "pg_request_epoch pg \<noteq> 0" "pg_grant_epoch pg \<noteq> 0" "room k s"
  obtains s' armed g v where "service_step env (FromTask (TaskPrepared e ctx (Inr pg))) s = Some s'"
    "gate_of s' = GrantArmed armed g" "sv_switch_task s' = None" "gc_handle armed = gc_handle ctx" "gc_target armed = gc_target ctx"
    "gl_lease_epoch (gc_lease armed) = gl_lease_epoch (gc_lease ctx)"
    "gl_peer_session_epoch (gc_lease armed) = gl_peer_session_epoch (gc_lease ctx)"
    "bound \<le> gl_expires_at_ms (gc_lease armed)" "gg_expires_at_ms g = pg_grant_expires_at_ms pg"
    "CaptureArm (gc_handle ctx) (gl_lease_epoch (gc_lease ctx)) (gl_peer_session_epoch (gc_lease ctx)) v \<in> set (sv_calls s')" "0 < v"
    "sv_clients s' = sv_clients s" "sv_switch_controller s' = Some c" "room k s'"
proof -
  let ?g = "\<lparr>gg_request_epoch = pg_request_epoch pg, gg_grant_epoch = pg_grant_epoch pg, gg_expires_at_ms = pg_grant_expires_at_ms pg\<rparr>"
  let ?armed = "ctx\<lparr>gc_lease := (gc_lease ctx)\<lparr>gl_expires_at_ms := min (gl_expires_at_ms (gc_lease ctx)) (pg_lease_expires_at_ms pg)\<rparr>\<rparr>"
  let ?m = "(sv_bundle_lease s)\<lparr>gate_state := GrantArmed ?armed ?g\<rparr>"
  let ?s = "reset_switch_deadline env 1 (s\<lparr>sv_switch_task := None, sv_bundle_lease := ?m\<rparr>)"
  have clock: "se_clock env j < bound" for j using assms(5) by (simp add: favourable_def)
  note before = leD_of [OF clock assms(7)] leD_of [OF clock assms(8)] leD_of [OF clock assms(9)]
  obtain d where d: "gate_deadline_ms (GrantArmed ?armed ?g) = Some d" "bound \<le> d"
    using assms(7-9) by (simp add: min_def)
  then have valid: "checked_sub d (se_clock env 2) = Some (d - se_clock env 2)" "d - se_clock env 2 \<noteq> 0"
    using less_le_trans [OF clock d(2), of 2] by (auto simp: checked_sub_def)
  then have positive: "0 < d - se_clock env 2" by (simp only: word_neq_0_conv)
  have ready: "peer_readiness env (s\<lparr>sv_switch_task := None\<rparr>) (gc_handle ctx) = Some r"
    using assms(5) by (simp add: favourable_def peer_readiness_def)
  have "service_step env (FromTask (TaskPrepared e ctx (Inr pg))) s = Some (call (CaptureArm (gc_handle ctx)
      (gl_lease_epoch (gc_lease ctx)) (gl_peer_session_epoch (gc_lease ctx)) (d - se_clock env 2)) ?s)"
    using assms before valid d(1) ready
    by (simp add: finish_switch_task_eq handle_prepared_def holds_lease_def lease_context_def gate_context_def
        gate_arm_grant_def favourable_def controller_now_ms_def Let_def arm_capture_def)
  then show thesis
    by (rule that [of _ ?armed ?g "d - se_clock env 2"])
      (use assms positive in \<open>simp_all add: room_def\<close>)
qed

lemma request_crosses:
  assumes "gate_of s = GrantArmed ctx g" "sv_switch_task s = None"
    "sv_switch_controller s = Some c" "favourable env (gc_handle ctx) r bound s"
    "gl_peer_session_epoch (gc_lease ctx) = pb_session_epoch r" "bound \<le> gl_expires_at_ms (gc_lease ctx)"
    "bound \<le> gg_expires_at_ms g" "room (Suc k) s" "se_decision_taken env"
  obtains s' d e where "service_step env (FromCapture (CommitRequested (gc_handle ctx) (gl_lease_epoch (gc_lease ctx))
      (gl_peer_session_epoch (gc_lease ctx)))) s = Some s'"
    "gate_of s' = RemoteOwned ctx g d" "sv_switch_task s' = Some (e, CommitOp ctx g)" "SpawnTask e (CommitOp ctx g) \<in> set (sv_calls s')"
    "last (sv_calls s') = CommitDecision True" "sv_active_switch_capture s' = Some (gc_handle ctx, gl_lease_epoch (gc_lease ctx))"
    "sv_clients s' = sv_clients s" "sv_switch_controller s' = Some c" "room k s'"
proof -
  let ?m = "(sv_bundle_lease s)\<lparr>gate_state := RemoteOwned ctx g (min (gl_expires_at_ms (gc_lease ctx)) (gg_expires_at_ms g))\<rparr>"
  let ?s = "reset_switch_deadline env 1 (call (ToClipboard (Activate (Outgoing (gl_lease_epoch (gc_lease ctx))))) (s\<lparr>sv_bundle_lease := ?m\<rparr>))"
  let ?t = "\<lambda>e. call (SpawnTask e (CommitOp ctx g)) (?s\<lparr>sv_next_switch_task_epoch := e, sv_switch_task := Some (e, CommitOp ctx g)\<rparr>)"
  have clock: "se_clock env j < bound" for j using assms(4) by (simp add: favourable_def)
  note before = leD_of [OF clock assms(6)] leD_of [OF clock assms(7)]
  obtain e where e: "room k (?t e)" "spawn_switch_task (CommitOp ctx g) ?s = Some (True, ?t e)"
    by (rule spawn_switch_task_idle [of ?s k "CommitOp ctx g"]) (use assms(2,8) in simp_all)
  have "service_step env (FromCapture (CommitRequested (gc_handle ctx) (gl_lease_epoch (gc_lease ctx))
      (gl_peer_session_epoch (gc_lease ctx)))) s
    = Some (call (CommitDecision True) ((?t e)\<lparr>sv_active_switch_capture := Some (gc_handle ctx, gl_lease_epoch (gc_lease ctx))\<rparr>))"
    using assms before e(2)
    by (simp add: handle_commit_requested_def authorize_client_enter_def lease_context_def gate_context_def favourable_def
        gate_commit_def controller_now_ms_def Let_def start_commit_task_def)
  then show thesis by (rule that [of _ _ e]) (use e(1) assms in \<open>auto simp: room_def\<close>)
qed

lemma commit_renews:
  assumes "gate_of s = RemoteOwned ctx g d" "sv_switch_task s = Some (e, CommitOp ctx g)"
    "sv_switch_controller s = Some c" "gc_target ctx \<noteq> sct_server_host c" "favourable env (gc_handle ctx) r bound s"
    "gl_peer_session_epoch (gc_lease ctx) = pb_session_epoch r" "bound \<le> gl_expires_at_ms (gc_lease ctx)"
    "bound \<le> until" "room 1 s"
  obtains s' ctx' e' where "service_step env (FromTask (TaskCommitted e ctx g (Inr until))) s = Some s'"
    "gate_of s' = RemoteOwned ctx' g until" "sv_switch_task s' = Some (e', RenewalOp ctx')" "same_identity ctx' ctx"
proof -
  let ?ctx = "ctx\<lparr>gc_lease := (gc_lease ctx)\<lparr>gl_expires_at_ms := until\<rparr>\<rparr>"
  let ?m = "(sv_bundle_lease s)\<lparr>gate_state := RemoteOwned ?ctx g until\<rparr>"
  let ?s = "reset_switch_deadline env 1 (s\<lparr>sv_switch_task := None, sv_bundle_lease := ?m\<rparr>)"
  let ?t = "\<lambda>e. call (SpawnTask e (RenewalOp ?ctx)) (?s\<lparr>sv_next_switch_task_epoch := e, sv_switch_task := Some (e, RenewalOp ?ctx)\<rparr>)"
  have clock: "se_clock env j < bound" for j using assms(5) by (simp add: favourable_def)
  note before = leD_of [OF clock assms(7)] leD_of [OF clock assms(8)]
  obtain e' where e': "room 0 (?t e')" "spawn_switch_task (RenewalOp ?ctx) ?s = Some (True, ?t e')"
    by (rule spawn_switch_task_idle [of ?s 0 "RenewalOp ?ctx"]) (use assms(9) in \<open>simp_all add: room_def\<close>)
  have ready: "peer_readiness env (s\<lparr>sv_switch_task := None\<rparr>) (gc_handle ctx) = Some r"
    using assms(5) by (simp add: favourable_def peer_readiness_def)
  have "service_step env (FromTask (TaskCommitted e ctx g (Inr until))) s = Some (?t e')"
    using assms before e'(2) ready
    by (simp add: finish_switch_task_eq handle_committed_def holds_lease_def lease_context_def gate_context_def favourable_def
        gate_renew_def start_renewing_def start_renewal_task_def)
  then show thesis by (rule that [of _ ?ctx e']) (simp_all add: same_identity_def)
qed

section \<open>A service at work\<close>

text \<open>A slab that reuses the lowest vacant key, and an input server with one client at its right edge.\<close>

definition lowest_key :: alloc where
  "lowest_key ks = find (\<lambda>k. k \<notin> set ks \<and> k < 2 ^ 63) (map word_of_nat [0..<Suc (length ks)])"

lemma slab_keys_lowest: "slab_keys lowest_key"
  by (auto simp: slab_keys_def lowest_key_def find_Some_iff)

definition sample_env :: "u64 \<Rightarrow> Instant \<Rightarrow> ServiceEnv" where
  "sample_env now instant = \<lparr>se_local_commit = [1, 2], se_clock = (\<lambda>_. now), se_instant = instant, se_request_random = 5,
     se_lease_random = 6, se_hook_queued = True, se_decision_taken = True, se_alloc = lowest_key, se_order = (\<lambda>_. [])\<rparr>"

definition sample_controller :: SwitchController where
  "sample_controller = \<lparr>sct_local_host = SwitchHost.Left, sct_server_host = SwitchHost.Left, sct_lease_ttl_ms = 5000, sct_edge_double_tap_ms = 500\<rparr>"

definition sample_config :: NewConfig where
  "sample_config = \<lparr>nc_switch_controller = Inr (Some sample_controller),
     nc_clients = [\<lparr>cl_ips = {}, cl_hostname = None, cl_port = 4242, cl_pos = PosRight, cl_active = True,
                    cl_switch_target = Some SwitchHost.Right\<rparr>],
     nc_release_bind = [], nc_authorized_fingerprints = Map.empty\<rparr>"

definition sample_start :: "Service option" where
  "sample_start = service_start (sample_env 1000 0) sample_config (Some sample_controller) 4242 ''fp''"

definition sample_approach :: "(ServiceEnv \<times> ServiceInput) list" where
  "sample_approach = [(sample_env 1000 0, FromPeers (SetAlive 0 True)),
     (sample_env 1000 0, FromPeers (SetPeerCommit 0 (Some [1, 2]))),
     (sample_env 1000 0, FromPeers (SetPeerReadiness 0 True True 7)),
     (sample_env 1000 0, FromCapture (CaptureCandidate 0)),
     (sample_env 1000 1000000, FromCapture (Retreated 0))]"

definition sample_service :: Service where
  "sample_service = \<lparr>sv_clients = [(0, \<lparr>cc_hostname = None, cc_fix_ips = [], cc_port = 4242, cc_pos = PosRight,
       cc_switch_target = Some SwitchHost.Right\<rparr>, ClientState_default\<lparr>cs_active := True\<rparr>)],
     sv_authorized_keys = Map.empty, sv_port = 4242, sv_public_key_fingerprint = ''fp'',
     sv_frontend_events = [FE_State 0 \<lparr>cc_hostname = None, cc_fix_ips = [], cc_port = 4242, cc_pos = PosRight,
       cc_switch_target = Some SwitchHost.Right\<rparr> (ClientState_default\<lparr>cs_active := True\<rparr>)],
     sv_capture_status = Disabled, sv_emulation_status = Disabled, sv_incoming_conns = {}, sv_incoming_conn_info = [],
     sv_next_trigger_handle = 0, sv_bundle_lease = BundleLeaseManager_default,
     sv_edge_intent_gate = server_edge_intent_gate (Some sample_controller), sv_switch_controller = Some sample_controller,
     sv_system_notifier = notifier_for (Some sample_controller), sv_switch_deadline = None, sv_switch_task = None,
     sv_next_switch_task_epoch = 0, sv_active_switch_capture = None, sv_pending_switch_cleanup = None,
     sv_next_release_epoch = 0, sv_pending_clipboard_fallback = None,
     sv_calls = [ToClipboard (StartRuntime (Some SwitchHost.Left) (Some SwitchHost.Left) 4242), CaptureCreate 0 PosRight Default]\<rparr>"

lemmas sample_defs = cm_add_with_config_def cm_add_client_def slab_insert_def cm_set_state_def cm_set_config_def slab_modify_def
  cm_active_clients_def cm_deactivate_client_def slab_get_def cm_activate_client_def cm_client_at_def cm_get_pos_def cm_get_state_def
  cm_get_hostname_def cm_set_alive_def cm_set_peer_commit_def cm_set_peer_readiness_def cm_switch_target_def cm_peer_input_readiness_def
  peer_protocol_compatible_def ClientState_default_def ClientConfig_default_def

lemma sample_started: "sample_start = Some sample_service"
  by (simp add: sample_start_def service_start_def Service_new_def sample_config_def sample_defs sample_env_def lowest_key_def
    activate_configured_def activate_client_def resolve_def broadcast_client_def notify_frontend_def call_def sample_service_def sample_controller_def)

text \<open>The first touch of the edge and the retreat, and then the touch that reserves the bundle.\<close>

lemmas sample_steps = sample_defs service_enabled_def sample_env_def sample_controller_def peer_readiness_def input_ready_def
  handle_capture_candidate_def edge_confirmed_def server_edge_intent_gate_def EdgeIntentGate_new_def edge_candidate_def
  edge_expire_def edge_prime_def edge_retreat_def Instant_checked_add_def BundleLeaseManager_default_def checked_add_def
  reserve_bundle_def gate_reserve_def start_prepare_task_def spawn_switch_task_def

definition sample_context :: GateContext where
  "sample_context = \<lparr>gc_handle = 0, gc_target = SwitchHost.Right, gc_lease = \<lparr>gl_request_id = ''request-'' @ hex32 5,
     gl_lease_id = ''lease-'' @ hex32 6, gl_lease_epoch = 1, gl_peer_session_epoch = 7, gl_expires_at_ms = 6000\<rparr>\<rparr>"

definition sample_grant :: PreparedGrant where
  "sample_grant = \<lparr>pg_request_epoch = 3, pg_grant_epoch = 4, pg_lease_expires_at_ms = 5500, pg_grant_expires_at_ms = 4000\<rparr>"

definition sample_reserve :: "(ServiceEnv \<times> ServiceInput) list" where
  "sample_reserve = sample_approach @ [(sample_env 1000 2000000, FromCapture (CaptureCandidate 0))]"

definition sample_arm :: "(ServiceEnv \<times> ServiceInput) list" where
  "sample_arm = sample_reserve @ [(sample_env 1100 3000000, FromTask (TaskPrepared 1 sample_context (Inr sample_grant)))]"

lemma sample_reserves:
  "case service_run sample_service sample_reserve of Some s \<Rightarrow> lease_context s = Some sample_context | None \<Rightarrow> False"
  by (simp add: sample_reserve_def sample_approach_def sample_service_def sample_steps Let_def sample_context_def lease_context_def
      gate_context_def call_def reset_switch_deadline_def)

lemma sample_arms:
  "case service_run sample_service sample_arm of Some s \<Rightarrow> may_cross (sample_env 1200 0) 0 1 7 s \<and> sv_switch_task s = None | None \<Rightarrow> False"
  by (simp add: sample_arm_def sample_reserve_def sample_approach_def sample_service_def sample_steps Let_def sample_context_def lease_context_def
      gate_context_def call_def reset_switch_deadline_def finish_switch_task_def handle_prepared_def holds_lease_def same_identity_def sample_grant_def
      gate_arm_grant_def controller_now_ms_def arm_capture_def checked_sub_def may_cross_def)

lemma sample_slab: "slab_keys (se_alloc (sample_env now instant))"
  by (simp add: sample_env_def slab_keys_lowest)

lemma sample_reachable:
  assumes "service_run sample_service xs = Some s" "\<forall>x \<in> set xs. \<exists>now instant. fst x = sample_env now instant"
  shows "services.reachable s"
proof (rule service_run_reachable [OF _ assms(1)])
  have "service_initial sample_service"
    using sample_started sample_slab unfolding service_initial_def sample_start_def by blast
  then show "services.reachable sample_service" by (rule services.reachable.start)
  show "\<forall>x \<in> set xs. slab_keys (se_alloc (fst x))" using assms(2) sample_slab by fastforce
qed

lemma sample_reserve_reached:
  obtains s where "service_run sample_service sample_reserve = Some s" "services.reachable s" "lease_context s = Some sample_context"
proof -
  obtain s where s: "service_run sample_service sample_reserve = Some s" "lease_context s = Some sample_context"
    using sample_reserves by (auto split: option.splits)
  have "services.reachable s"
    by (rule sample_reachable [OF s(1)]) (auto simp: sample_reserve_def sample_approach_def)
  with s show thesis using that by blast
qed

lemma sample_arm_reached:
  obtains s where "service_run sample_service sample_arm = Some s" "services.reachable s" "may_cross (sample_env 1200 0) 0 1 7 s"
proof -
  obtain s where s: "service_run sample_service sample_arm = Some s" "may_cross (sample_env 1200 0) 0 1 7 s"
    using sample_arms by (auto split: option.splits)
  have "services.reachable s"
    by (rule sample_reachable [OF s(1)]) (auto simp: sample_arm_def sample_reserve_def sample_approach_def)
  with s show thesis using that by blast
qed

lemmas sample_arm_steps = sample_arm_def sample_reserve_def sample_approach_def sample_service_def sample_steps Let_def
  sample_context_def lease_context_def gate_context_def call_def reset_switch_deadline_def finish_switch_task_def handle_prepared_def
  holds_lease_def same_identity_def sample_grant_def gate_arm_grant_def controller_now_ms_def arm_capture_def checked_sub_def

lemma sample_approaches:
  "case service_run sample_service sample_approach of None \<Rightarrow> False | Some s \<Rightarrow> gate_of s = Local \<and> sv_switch_task s = None
     \<and> fst (edge_confirmed (sample_env 1000 2000000) 0 SwitchHost.Right (Some \<lparr>pb_online = True, pb_keyboard_ready = True,
         pb_pointer_ready = True, pb_session_epoch = 7\<rparr>) s)
     \<and> sv_switch_controller s = Some sample_controller \<and> cm_switch_target (sv_clients s) 0 = Some SwitchHost.Right
     \<and> room 3 s \<and> next_lease_epoch (sv_bundle_lease s) = 0
     \<and> (\<forall>now instant. peer_readiness (sample_env now instant) s 0 = Some \<lparr>pb_online = True, pb_keyboard_ready = True,
         pb_pointer_ready = True, pb_session_epoch = 7\<rparr>)"
  by (simp add: sample_approach_def sample_service_def sample_steps Let_def room_def)

lemma sample_crosses:
  "case service_run sample_service sample_arm of None \<Rightarrow> False | Some s \<Rightarrow>
     (case service_step (sample_env 1200 0) (FromCapture (CommitRequested 0 1 7)) s of None \<Rightarrow> False
      | Some s' \<Rightarrow> True \<in> set (drop (length (decisions (sv_calls s))) (decisions (sv_calls s'))))"
  by (simp add: sample_arm_steps handle_commit_requested_def authorize_client_enter_def gate_commit_def start_commit_task_def)

section \<open>The reservation\<close>

text \<open>
  C7. In every state that the loop reaches, the reservation of the bundle is served by the right
  operation: while the display is prepared, and only then, its preparation runs; while the peer has
  the input, the commit or the renewal of that very reservation runs; an armed grant or no
  reservation at all leaves at most a clean-up or a recovery running. A reservation always has its
  timer set and a controller that is not its own target.
\<close>
theorem reservation_is_served:
  assumes "services.reachable s"
  shows "serves (gate_of s) (map_option snd (sv_switch_task s))
     \<and> (\<forall>ctx. lease_context s = Some ctx \<longrightarrow> sv_switch_deadline s \<noteq> None
          \<and> (\<exists>c. sv_switch_controller s = Some c \<and> gc_target ctx \<noteq> sct_server_host c))"
  using services.reachable_inv [OF assms] by (simp add: consistent_def served_def guarded_def)

theorem reservation_is_served_witness:
  "\<exists>s. service_run sample_service sample_reserve = Some s \<and> lease_context s = Some sample_context
     \<and> serves (gate_of s) (map_option snd (sv_switch_task s)) \<and> sv_switch_deadline s \<noteq> None"
proof -
  obtain s where s: "service_run sample_service sample_reserve = Some s" "services.reachable s" "lease_context s = Some sample_context"
    by (rule sample_reserve_reached)
  with reservation_is_served [OF s(2)] show ?thesis by blast
qed

text \<open>
  C6. No reservation is lost: whatever event the loop receives, the reservation is still held after
  it, or it has ended in order. Then the input is local, the timer is off, and the clean-up of that
  reservation at the controller runs or waits for the release of the capture.
\<close>
theorem reservation_never_leaks:
  assumes "services.reachable s" "slab_keys (se_alloc env)" "service_enabled i s" "service_step env i s = Some s'"
    "lease_context s = Some ctx"
  shows "holds_lease ctx s' \<or> ended ctx s'"
  using service_step_spec [OF services.reachable_inv [OF assms(1)] assms(2,3)] assms(4,5)
  by (auto simp: returns_def stepped_def)

theorem reservation_never_leaks_witness:
  "\<exists>s s'. service_run sample_service sample_reserve = Some s \<and> lease_context s = Some sample_context
     \<and> service_step (sample_env 6000 0) Deadline s = Some s' \<and> (holds_lease sample_context s' \<or> ended sample_context s')"
proof -
  obtain s where s: "service_run sample_service sample_reserve = Some s" "services.reachable s" "lease_context s = Some sample_context"
    by (rule sample_reserve_reached)
  have on: "service_enabled Deadline s"
    using services.reachable_inv [OF s(2)] s(3) by (simp add: service_enabled_def consistent_def served_def guarded_def)
  have "case service_run sample_service sample_reserve of Some s \<Rightarrow> room 1 s | None \<Rightarrow> False"
    by (simp add: sample_reserve_def sample_approach_def sample_service_def sample_steps Let_def call_def
        reset_switch_deadline_def room_def)
  then obtain s' where s': "service_step (sample_env 6000 0) Deadline s = Some s'"
    using handle_switch_deadline_total [of s "sample_env 6000 0"] s(1) by (auto simp: safe_def)
  then show ?thesis
    using s reservation_never_leaks [OF s(2) sample_slab on s' s(3)] by blast
qed

text \<open>
  C5. The pointer is let across only with a grant: the service answers yes to no event but a
  request for a crossing, and then the grant for exactly that client, lease and peer session is armed,
  that session of the peer is ready for keyboard and pointer, and neither the lease nor the grant has
  expired.
\<close>
theorem crossing_needs_grant:
  assumes "services.reachable s" "slab_keys (se_alloc env)" "service_enabled i s" "service_step env i s = Some s'"
    "True \<in> set (drop (length (decisions (sv_calls s))) (decisions (sv_calls s')))"
  shows "\<exists>handle lease peer. i = FromCapture (CommitRequested handle lease peer) \<and> may_cross env handle lease peer s"
  using service_step_spec [OF services.reachable_inv [OF assms(1)] assms(2,3)] assms(4,5)
  by (auto simp: returns_def stepped_def)

theorem crossing_needs_grant_witness:
  "\<exists>s s'. service_run sample_service sample_arm = Some s
     \<and> service_step (sample_env 1200 0) (FromCapture (CommitRequested 0 1 7)) s = Some s'
     \<and> True \<in> set (drop (length (decisions (sv_calls s))) (decisions (sv_calls s')))
     \<and> may_cross (sample_env 1200 0) 0 1 7 s"
proof -
  obtain s s' where s: "service_run sample_service sample_arm = Some s"
      "service_step (sample_env 1200 0) (FromCapture (CommitRequested 0 1 7)) s = Some s'"
      "True \<in> set (drop (length (decisions (sv_calls s))) (decisions (sv_calls s')))"
    using sample_crosses by (auto split: option.splits)
  have "services.reachable s"
    by (rule sample_reachable [OF s(1)]) (auto simp: sample_arm_def sample_reserve_def sample_approach_def)
  from crossing_needs_grant [OF this sample_slab _ s(2,3)] have "may_cross (sample_env 1200 0) 0 1 7 s"
    by (simp add: service_enabled_def)
  with s show ?thesis by blast
qed

section \<open>Barriers\<close>

text \<open>
  C14. The barriers at the edges of the screen are exactly those that the clients and the connections
  ask for: in every state that the loop reaches, the calls made to the capture so far leave one
  barrier for each active client, at its position, and one for each incoming connection, at the edge
  it came from, and no other. No two active clients share an edge.
\<close>
theorem barriers_match_clients:
  assumes "services.reachable s"
  shows "barriers (sv_calls s) = wanted s \<and> exclusive (edges (sv_clients s))"
  using services.reachable_inv [OF assms] by (simp add: consistent_def placed_def)

definition sample_move :: "(ServiceEnv \<times> ServiceInput) list" where
  "sample_move = [(sample_env 1 0, FromFrontend (Some (FR_UpdatePosition 0 PosTop)))]"

lemma sample_moves:
  "case service_run sample_service sample_move of Some s \<Rightarrow> edges (sv_clients s) 0 = Some PosTop \<and> sv_incoming_conn_info s = []
     | None \<Rightarrow> False"
  by (simp add: sample_move_def sample_service_def sample_defs service_enabled_def update_pos_def cm_set_pos_def save_config_def
      activate_client_def deactivate_client_def resolve_def Let_def edges_def)

theorem barriers_match_clients_witness:
  "\<exists>s. service_run sample_service sample_move = Some s \<and> barriers (sv_calls s) 0 = Some (PosTop, Default)"
proof -
  obtain s where s: "service_run sample_service sample_move = Some s" "edges (sv_clients s) 0 = Some PosTop"
      "sv_incoming_conn_info s = []"
    using sample_moves by (auto split: option.splits)
  have "services.reachable s" by (rule sample_reachable [OF s(1)]) (auto simp: sample_move_def)
  from barriers_match_clients [OF this] s show ?thesis by (simp add: wanted_def)
qed

section \<open>Panics\<close>

text \<open>
  C15. The service does not panic: in every state that the loop reaches it handles every event, as
  long as the counters for operations, release requests and incoming connections are not exhausted and
  the slab takes the clients that the event adds. The expectations stated in the code, that a known
  address has its connection and that a renewed lease has its context, always hold.
\<close>
theorem service_goes_on:
  assumes "services.reachable s" "slab_keys (se_alloc env)" "headroom env i s"
  shows "\<exists>s'. service_step env i s = Some s'"
  using service_step_total [OF services.reachable_inv [OF assms(1)] assms(2,3)] by (auto simp: safe_def)

theorem service_goes_on_witness:
  "\<exists>s s'. service_run sample_service sample_arm = Some s
     \<and> service_step (sample_env 1200 0) (FromFrontend (Some FR_Create)) s = Some s'"
proof -
  let ?i = "FromFrontend (Some FR_Create)"
  obtain s where s: "service_run sample_service sample_arm = Some s" "services.reachable s" by (rule sample_arm_reached)
  have "case service_run sample_service sample_arm of Some s \<Rightarrow> room 2 s \<and> sv_next_trigger_handle s = 0
      \<and> sv_next_release_epoch s = 0 \<and> length (sv_clients s) = 1 | None \<Rightarrow> False"
    by (simp add: sample_arm_steps room_def)
  moreover have "lowest_key ks \<noteq> None" if "length ks < 2" for ks
  proof -
    have "\<exists>k \<in> {0, 1}. k \<notin> set ks" using that by (cases ks) auto
    with that show ?thesis by (cases ks) (auto simp: lowest_key_def find_None_iff)
  qed
  ultimately have "headroom (sample_env 1200 0) ?i s"
    using s(1) by (simp add: headroom_def new_clients_def sample_env_def)
  from service_goes_on [OF s(2) sample_slab this] s(1) show ?thesis by blast
qed

section \<open>A switch that succeeds\<close>

text \<open>
  C12. A switch completes: from any idle state of the service, with a client whose target is another
  host, a peer that is ready throughout, and a touch of the edge that counts, the reservation is made and
  its preparation started; the controller's grant arms the capture for exactly this lease; the request
  for the crossing is answered with yes and the commit started; and its acknowledgement leaves the
  input with the peer and the renewal of the same reservation running. The clocks need only stay
  below the deadlines.
\<close>
theorem service_switch_completes:
  assumes "gate_of s = Local" "sv_switch_task s = None" "fst (edge_confirmed e1 handle t (Some r) s)"
    "sv_switch_controller s = Some c" "cm_switch_target (sv_clients s) handle = Some t" "t \<noteq> sct_server_host c"
    and favourable: "favourable e1 handle r bound s" "favourable e2 handle r bound s" "favourable e3 handle r bound s"
      "favourable e4 handle r bound s"
    and ttl: "checked_add (se_clock e1 0) (sct_lease_ttl_ms c) = Some x" "sct_lease_ttl_ms c \<noteq> 0" "bound \<le> x"
    and grant: "bound \<le> pg_lease_expires_at_ms pg" "bound \<le> pg_grant_expires_at_ms pg" "bound \<le> until"
      "pg_request_epoch pg \<noteq> 0" "pg_grant_epoch pg \<noteq> 0"
    and free: "room 3 s" "unat (next_lease_epoch (sv_bundle_lease s)) + 1 < 2 ^ 64" "se_decision_taken e3"
  shows "\<exists>s1 s2 s3 s4 k1 k2 k3 ctx armed g v renewed.
     service_step e1 (FromCapture (CaptureCandidate handle)) s = Some s1
     \<and> service_enabled (FromTask (TaskPrepared k1 ctx (Inr pg))) s1
     \<and> service_step e2 (FromTask (TaskPrepared k1 ctx (Inr pg))) s1 = Some s2
     \<and> CaptureArm handle (gl_lease_epoch (gc_lease ctx)) (pb_session_epoch r) v \<in> set (sv_calls s2) \<and> 0 < v
     \<and> service_step e3 (FromCapture (CommitRequested handle (gl_lease_epoch (gc_lease ctx)) (pb_session_epoch r))) s2 = Some s3
     \<and> last (sv_calls s3) = CommitDecision True
     \<and> service_enabled (FromTask (TaskCommitted k2 armed g (Inr until))) s3
     \<and> service_step e4 (FromTask (TaskCommitted k2 armed g (Inr until))) s3 = Some s4
     \<and> gate_of s4 = RemoteOwned renewed g until \<and> sv_switch_task s4 = Some (k3, RenewalOp renewed)
     \<and> same_identity renewed armed"
proof -
  have "room (Suc 2) s" using free(1) by (simp add: room_def)
  then obtain s1 ctx k1 where s1: "service_step e1 (FromCapture (CaptureCandidate handle)) s = Some s1"
    "gate_of s1 = Preparing ctx" "sv_switch_task s1 = Some (k1, PrepareOp ctx r)" "SpawnTask k1 (PrepareOp ctx r) \<in> set (sv_calls s1)"
    "gc_handle ctx = handle" "gc_target ctx = t" "gl_peer_session_epoch (gc_lease ctx) = pb_session_epoch r"
    "gl_expires_at_ms (gc_lease ctx) = x" "sv_clients s1 = sv_clients s" "sv_switch_controller s1 = Some c" "room 2 s1"
    by (rule candidate_prepares [OF assms(1-6) favourable(1) ttl(1,2) _ free(2)])
  have p2: "gc_target ctx \<noteq> sct_server_host c" "favourable e2 (gc_handle ctx) r bound s1" "bound \<le> gl_expires_at_ms (gc_lease ctx)"
    using favourable(2) favourable_cong [OF s1(9)] s1(5,6,8) assms(6) ttl(3) by simp_all
  obtain s2 armed g v where s2: "service_step e2 (FromTask (TaskPrepared k1 ctx (Inr pg))) s1 = Some s2"
    "gate_of s2 = GrantArmed armed g" "sv_switch_task s2 = None" "gc_handle armed = gc_handle ctx" "gc_target armed = gc_target ctx"
    "gl_lease_epoch (gc_lease armed) = gl_lease_epoch (gc_lease ctx)"
    "gl_peer_session_epoch (gc_lease armed) = gl_peer_session_epoch (gc_lease ctx)"
    "bound \<le> gl_expires_at_ms (gc_lease armed)" "gg_expires_at_ms g = pg_grant_expires_at_ms pg"
    "CaptureArm (gc_handle ctx) (gl_lease_epoch (gc_lease ctx)) (gl_peer_session_epoch (gc_lease ctx)) v \<in> set (sv_calls s2)" "0 < v"
    "sv_clients s2 = sv_clients s1" "sv_switch_controller s2 = Some c" "room 2 s2"
    by (rule prepared_arms [OF s1(2,3,10) p2(1,2) s1(7) p2(3) grant(1,2,4,5) s1(11)])
  have p3: "favourable e3 (gc_handle armed) r bound s2" "room (Suc 1) s2" "gl_peer_session_epoch (gc_lease armed) = pb_session_epoch r"
    "bound \<le> gg_expires_at_ms g"
    using favourable(3) favourable_cong [of s2 s] s1(5,7,9) s2(4,7,9,12,14) grant(2) by (simp_all add: numeral_2_eq_2)
  obtain s3 d k2 where s3: "service_step e3 (FromCapture (CommitRequested (gc_handle armed) (gl_lease_epoch (gc_lease armed))
      (gl_peer_session_epoch (gc_lease armed)))) s2 = Some s3"
    "gate_of s3 = RemoteOwned armed g d" "sv_switch_task s3 = Some (k2, CommitOp armed g)" "SpawnTask k2 (CommitOp armed g) \<in> set (sv_calls s3)"
    "last (sv_calls s3) = CommitDecision True" "sv_active_switch_capture s3 = Some (gc_handle armed, gl_lease_epoch (gc_lease armed))"
    "sv_clients s3 = sv_clients s2" "sv_switch_controller s3 = Some c" "room 1 s3"
    by (rule request_crosses [OF s2(2,3,13) p3(1,3) s2(8) p3(4,2) free(3)])
  have p4: "gc_target armed \<noteq> sct_server_host c" "favourable e4 (gc_handle armed) r bound s3"
    using favourable(4) favourable_cong [of s3 s] s1(5,9) s2(4,5,12) s3(7) p2(1) by simp_all
  obtain s4 renewed k3 where s4: "service_step e4 (FromTask (TaskCommitted k2 armed g (Inr until))) s3 = Some s4"
    "gate_of s4 = RemoteOwned renewed g until" "sv_switch_task s4 = Some (k3, RenewalOp renewed)" "same_identity renewed armed"
    by (rule commit_renews [OF s3(2,3,8) p4 p3(3) s2(8) grant(3) s3(9)])
  have "service_enabled (FromTask (TaskPrepared k1 ctx (Inr pg))) s1" "service_enabled (FromTask (TaskCommitted k2 armed g (Inr until))) s3"
    using s1(4) s3(4) by (force simp: service_enabled_def list_ex_iff)+
  with s1(1,5,7) s2(1,4,6,7,10,11) s3(1,5) s4 have "service_step e1 (FromCapture (CaptureCandidate handle)) s = Some s1
     \<and> service_enabled (FromTask (TaskPrepared k1 ctx (Inr pg))) s1
     \<and> service_step e2 (FromTask (TaskPrepared k1 ctx (Inr pg))) s1 = Some s2
     \<and> CaptureArm handle (gl_lease_epoch (gc_lease ctx)) (pb_session_epoch r) v \<in> set (sv_calls s2) \<and> 0 < v
     \<and> service_step e3 (FromCapture (CommitRequested handle (gl_lease_epoch (gc_lease ctx)) (pb_session_epoch r))) s2 = Some s3
     \<and> last (sv_calls s3) = CommitDecision True
     \<and> service_enabled (FromTask (TaskCommitted k2 armed g (Inr until))) s3
     \<and> service_step e4 (FromTask (TaskCommitted k2 armed g (Inr until))) s3 = Some s4
     \<and> gate_of s4 = RemoteOwned renewed g until \<and> sv_switch_task s4 = Some (k3, RenewalOp renewed)
     \<and> same_identity renewed armed" by simp
  then show ?thesis by (intro exI)
qed

theorem service_switch_completes_witness:
  "\<exists>s s1 s2 s3 s4 k1 k2 k3 ctx armed g v renewed. service_run sample_service sample_approach = Some s
     \<and> service_step (sample_env 1000 2000000) (FromCapture (CaptureCandidate 0)) s = Some s1
     \<and> service_step (sample_env 1100 3000000) (FromTask (TaskPrepared k1 ctx (Inr sample_grant))) s1 = Some s2
     \<and> CaptureArm 0 (gl_lease_epoch (gc_lease ctx)) 7 v \<in> set (sv_calls s2)
     \<and> service_step (sample_env 1200 4000000) (FromCapture (CommitRequested 0 (gl_lease_epoch (gc_lease ctx)) 7)) s2 = Some s3
     \<and> service_step (sample_env 1300 5000000) (FromTask (TaskCommitted k2 armed g (Inr 9000))) s3 = Some s4
     \<and> gate_of s4 = RemoteOwned renewed g 9000 \<and> sv_switch_task s4 = Some (k3, RenewalOp renewed)"
proof -
  let ?r = "\<lparr>pb_online = True, pb_keyboard_ready = True, pb_pointer_ready = True, pb_session_epoch = 7\<rparr>"
  obtain s where s: "service_run sample_service sample_approach = Some s" "gate_of s = Local" "sv_switch_task s = None"
    "fst (edge_confirmed (sample_env 1000 2000000) 0 SwitchHost.Right (Some ?r) s)" "sv_switch_controller s = Some sample_controller"
    "cm_switch_target (sv_clients s) 0 = Some SwitchHost.Right" "room 3 s" "next_lease_epoch (sv_bundle_lease s) = 0"
    "\<And>now instant. peer_readiness (sample_env now instant) s 0 = Some ?r"
    using sample_approaches by (auto split: option.splits)
  have fav: "favourable (sample_env now instant) 0 ?r 2000 s" if "now < 2000" for now instant
    using s(9) that by (simp add: favourable_def input_ready_def sample_env_def)
  have "\<exists>s1 s2 s3 s4 k1 k2 k3 ctx armed g v renewed.
     service_step (sample_env 1000 2000000) (FromCapture (CaptureCandidate 0)) s = Some s1
     \<and> service_enabled (FromTask (TaskPrepared k1 ctx (Inr sample_grant))) s1
     \<and> service_step (sample_env 1100 3000000) (FromTask (TaskPrepared k1 ctx (Inr sample_grant))) s1 = Some s2
     \<and> CaptureArm 0 (gl_lease_epoch (gc_lease ctx)) (pb_session_epoch ?r) v \<in> set (sv_calls s2) \<and> 0 < v
     \<and> service_step (sample_env 1200 4000000) (FromCapture (CommitRequested 0 (gl_lease_epoch (gc_lease ctx)) (pb_session_epoch ?r))) s2 = Some s3
     \<and> last (sv_calls s3) = CommitDecision True
     \<and> service_enabled (FromTask (TaskCommitted k2 armed g (Inr 9000))) s3
     \<and> service_step (sample_env 1300 5000000) (FromTask (TaskCommitted k2 armed g (Inr 9000))) s3 = Some s4
     \<and> gate_of s4 = RemoteOwned renewed g 9000 \<and> sv_switch_task s4 = Some (k3, RenewalOp renewed)
     \<and> same_identity renewed armed"
    by (rule service_switch_completes [OF s(2-6) _ fav fav fav fav, where x = 6000])
      (simp_all add: sample_controller_def sample_env_def sample_grant_def checked_add_def s(7,8))
  with s(1) show ?thesis by (simp only: PeerBundleReadiness.simps) blast
qed
end
