(* ===== verification/Connect_Props.thy ===== *)
theory Connect_Props
  imports Connect_Inv Service_Props
begin

text \<open>
  What the outgoing connections guarantee: every connection in use is watched, a silent peer is
  dropped, and the loss of a peer takes the input back. A connection outlives the addresses of its
  client, however, and claims the client again with the next answer of the old peer.
\<close>

section \<open>The loss of a peer\<close>

lemma fail_connection_current:
  assumes "cn_conns s addr = Some conn"
  shows "cn_clients (fail_connection handle addr conn s) =
      fold peer_update [SetActiveAddr handle None, SetAlive handle False, SetPeerCommit handle None, ClearPeerReadiness handle] (cn_clients s)"
    "cn_log (fail_connection handle addr conn s) = cn_log s @ [Deliver handle (Readiness False False 0), CloseConn conn]"
  using assms by (simp_all add: fail_connection_def disconnect_def on_clients_def effect_def)

lemma peer_lost_state:
  assumes "slab_get m handle = Some (c, st)"
  shows "slab_get (fold peer_update [SetActiveAddr handle None, SetAlive handle False, SetPeerCommit handle None,
      ClearPeerReadiness handle] m) handle = Some (c, st\<lparr>cs_active_addr := None, cs_alive := False, cs_peer_commit := None,
        cs_keyboard_ready := False, cs_pointer_ready := False, cs_peer_session_epoch := 0\<rparr>)"
  using assms by (simp add: cm_clear_peer_readiness_def cm_set_peer_commit_def cm_set_alive_def cm_set_active_addr_def slab_get_modify)

text \<open>The four pings of a round, all sent and none answered, and the end of the round.\<close>

lemma ping_step:
  assumes "i < length (cn_tasks s)" "cn_tasks s ! i = Pinging handle addr conn n" "n < 4"
  shows "conn_step lc (RunTask i (SendResult True)) s =
    Some (s\<lparr>cn_log := cn_log s @ [Transmit conn Ping], cn_tasks := (cn_tasks s)[i := Pinging handle addr conn (Suc n)]\<rparr>)"
  using assms by (simp add: run_task_def ping_sent_def effect_def upd_conv_take_nth_drop)

definition silent_round :: "nat \<Rightarrow> ConnInput list" where
  "silent_round i = replicate 4 (RunTask i (SendResult True)) @ [RunTask i Scheduled]"

lemma silent_round_fails:
  assumes "i < length (cn_tasks s)" "cn_tasks s ! i = Pinging handle addr conn 0" "addr \<notin> cn_ping_response s"
  shows "conn_run lc s (silent_round i) = Some ((fail_connection handle addr conn
      (s\<lparr>cn_log := cn_log s @ replicate 4 (Transmit conn Ping), cn_tasks := (cn_tasks s)[i := Pinging handle addr conn 4]\<rparr>))
        \<lparr>cn_tasks := take i (cn_tasks s) @ drop (Suc i) (cn_tasks s)\<rparr>)"
  using assms
  by (simp add: silent_round_def numeral_eq_Suc ping_step del: conn_step.simps)
     (simp add: run_task_def ping_round_def)

text \<open>The service after the peer of a reservation is lost.\<close>

definition peer_lost :: "ServiceEnv \<Rightarrow> ClientHandle \<Rightarrow> (ServiceEnv \<times> ServiceInput) list" where
  "peer_lost env handle = map (Pair env) [FromPeers (SetActiveAddr handle None), FromPeers (SetAlive handle False),
     FromPeers (SetPeerCommit handle None), FromPeers (ClearPeerReadiness handle), FromCapture (PeerReadiness handle)]"

lemma readiness_lost_ends:
  assumes "lease_context s = Some ctx" "sv_switch_controller s \<noteq> None" "room 1 s"
    "\<And>r. peer_readiness env s (gc_handle ctx) = Some r \<Longrightarrow> \<not> input_ready r"
  obtains s' where "handle_peer_readiness_change env (gc_handle ctx) s = Some s'" "ended ctx s'" "sv_clients s' = sv_clients s"
proof -
  obtain reason where fails: "handle_peer_readiness_change env (gc_handle ctx) s = fail_context_inner env ctx reason None s"
    using assms(1,4) by (cases "peer_readiness env s (gc_handle ctx)") (auto simp: handle_peer_readiness_change_def fail_context_def)
  obtain s' where s': "fail_context_inner env ctx reason None s = Some s'"
    using fail_context_inner_total [OF assms(3), of env ctx reason None] by (auto simp: safe_def)
  with fail_context_inner_ends [OF disjI1 [OF same_identity_lease [OF assms(1)]] assms(2), of env reason None]
  have "ended ctx s'" "sv_clients s' = sv_clients s" by (simp_all add: switching_def)
  with fails s' show thesis using that by simp
qed

lemma peer_lost_ends:
  assumes "lease_context v = Some ctx" "sv_switch_controller v \<noteq> None" "room 1 v"
  obtains v' where "service_run v (peer_lost env (gc_handle ctx)) = Some v'" "ended ctx v'"
    "sv_clients v' = fold peer_update [SetActiveAddr (gc_handle ctx) None, SetAlive (gc_handle ctx) False,
       SetPeerCommit (gc_handle ctx) None, ClearPeerReadiness (gc_handle ctx)] (sv_clients v)"
proof -
  define m where "m = fold peer_update [SetActiveAddr (gc_handle ctx) None, SetAlive (gc_handle ctx) False,
     SetPeerCommit (gc_handle ctx) None, ClearPeerReadiness (gc_handle ctx)] (sv_clients v)"
  let ?v = "broadcast_client (gc_handle ctx) (v\<lparr>sv_clients := m\<rparr>)"
  have held: "lease_context ?v = Some ctx" "sv_switch_controller ?v \<noteq> None" "room 1 ?v"
    using assms by (simp_all add: lease_context_def room_def)
  have offline: "\<not> input_ready r" if r: "peer_readiness env ?v (gc_handle ctx) = Some r" for r
  proof (cases "slab_get (sv_clients v) (gc_handle ctx)")
    case None
    then have "slab_get m (gc_handle ctx) = None"
      by (simp add: m_def cm_clear_peer_readiness_def cm_set_peer_commit_def cm_set_alive_def cm_set_active_addr_def slab_get_modify)
    with r show ?thesis by (simp add: peer_readiness_def cm_peer_input_readiness_def)
  next
    case (Some a)
    obtain c st where a: "a = (c, st)" by fastforce
    from r peer_lost_state [OF Some [unfolded a], folded m_def] show ?thesis
      by (auto simp: peer_readiness_def cm_peer_input_readiness_def input_ready_def Let_def)
  qed
  obtain v' where v': "handle_peer_readiness_change env (gc_handle ctx) ?v = Some v'" "ended ctx v'" "sv_clients v' = sv_clients ?v"
    using readiness_lost_ends [OF held offline] .
  have "service_run v (peer_lost env (gc_handle ctx)) = Some v'"
    using v'(1) by (simp add: peer_lost_def service_enabled_def m_def)
  with v' show thesis by (intro that [of v']) (simp_all add: m_def)
qed

section \<open>Connections at work\<close>

definition sample_peers :: ClientManager where
  "sample_peers = [(0, ClientConfig_default\<lparr>cc_hostname := Some ''left''\<rparr>, ClientState_default\<lparr>cs_active := True, cs_ips := {IpV4 1}\<rparr>)]"

definition sample_dial :: "ConnInput list" where
  "sample_dial = [Maintain, RunTask 0 Scheduled, RunTask 0 (Dialed (Some (IpV4 1, 4242))), RunTask 0 (SendResult True)]"

definition sample_connected :: LanMouseConnection where
  "sample_connected = \<lparr>cn_clients = [(0, ClientConfig_default\<lparr>cc_hostname := Some ''left''\<rparr>,
       ClientState_default\<lparr>cs_active := True, cs_ips := {IpV4 1}, cs_active_addr := Some (IpV4 1, 4242)\<rparr>)],
     cn_conns = [(IpV4 1, 4242) \<mapsto> 0], cn_connecting = {}, cn_ping_response = {},
     cn_tasks = [Pinging 0 (IpV4 1, 4242) 0 0, Receiving 0 (IpV4 1, 4242) 0 (replicate MAX_EVENT_SIZE 0) None],
     cn_next = 1, cn_log = [Transmit 0 (Hello [1, 2])]\<rparr>"

lemma sample_dials: "conn_run [1, 2] (LanMouseConnection_new sample_peers) sample_dial = Some sample_connected"
  by (simp add: sample_dial_def sample_peers_def LanMouseConnection_new_def connection_maintenance_def cm_active_clients_def
      request_connection_def cm_active_addr_def cm_get_state_def slab_get_def ClientState_default_def ClientConfig_default_def
      run_task_def begin_attempt_def cm_get_ips_def cm_get_port_def connected_def on_clients_def cm_set_active_addr_def
      slab_modify_def greeted_def effect_def DEFAULT_PORT_def sample_connected_def)

section \<open>Properties\<close>

text \<open>
  C25. Every outgoing connection in use is watched: in whatever order the tasks run and whatever the
  network answers, some task stands before the greeting or between two pings of it, so that a silent
  peer is noticed. No client is dialed twice at a time, the set of clients being dialed is exactly
  that of the attempts under way, and no datagram makes a reader panic.
\<close>
theorem connection_is_watched:
  assumes "conn_run lc (LanMouseConnection_new m) xs = Some s"
  shows "(\<forall>addr conn. cn_conns s addr = Some conn \<longrightarrow> (\<exists>t \<in> set (cn_tasks s). watches addr conn t))
    \<and> distinct (concat (map dialed (cn_tasks s))) \<and> cn_connecting s = set (concat (map dialed (cn_tasks s)))
    \<and> (\<forall>handle addr conn buf latest data. Receiving handle addr conn buf latest \<in> set (cn_tasks s)
         \<longrightarrow> ProtoEvent_try_from (overwrite buf data) \<noteq> Panic)"
proof -
  have inv: "conn_inv s" using assms by (rule conn_run_inv)
  have "ProtoEvent_try_from (overwrite buf data) \<noteq> Panic"
    if "Receiving handle addr conn buf latest \<in> set (cn_tasks s)" for handle addr conn buf latest data
  proof -
    have "whole_buffer (Receiving handle addr conn buf latest)"
      using inv that unfolding conn_inv_def list_all_iff by blast
    then show ?thesis by (intro try_from_whole) (simp add: length_overwrite)
  qed
  with inv show ?thesis by (auto simp: conn_inv_def list_ex_iff)
qed

theorem connection_is_watched_witness:
  "conn_run [1, 2] (LanMouseConnection_new sample_peers) sample_dial = Some sample_connected
   \<and> (\<exists>t \<in> set (cn_tasks sample_connected). watches (IpV4 1, 4242) 0 t)"
proof -
  have "cn_conns sample_connected (IpV4 1, 4242) = Some 0" by (simp add: sample_connected_def)
  with connection_is_watched [OF sample_dials] sample_dials show ?thesis by blast
qed

text \<open>
  C26. A silent peer is dropped: when the four pings of a round are sent and none is answered, the round
  ends with the connection out of use and closed, its client offline and without an address, and the
  capture told that the peer is not ready.
\<close>
theorem silent_peer_is_dropped:
  assumes "i < length (cn_tasks s)" "cn_tasks s ! i = Pinging handle addr conn 0" "addr \<notin> cn_ping_response s"
    "cn_conns s addr = Some conn"
  shows "\<exists>s'. conn_run lc s (silent_round i) = Some s' \<and> cn_conns s' = (cn_conns s)(addr := None)
    \<and> cm_active_addr (cn_clients s') handle = None \<and> \<not> cm_alive (cn_clients s') handle
    \<and> cn_log s' = cn_log s @ replicate 4 (Transmit conn Ping) @ [Deliver handle (Readiness False False 0), CloseConn conn]"
proof -
  have "cm_active_addr (fold peer_update [SetActiveAddr handle None, SetAlive handle False, SetPeerCommit handle None,
      ClearPeerReadiness handle] m) handle = None \<and> \<not> cm_alive (fold peer_update [SetActiveAddr handle None,
      SetAlive handle False, SetPeerCommit handle None, ClearPeerReadiness handle] m) handle" for m
    by (simp add: cm_active_addr_def cm_alive_def cm_clear_peer_readiness_def cm_set_peer_commit_def cm_set_alive_def
        cm_set_active_addr_def slab_get_modify split: option.split)
  then show ?thesis
    unfolding silent_round_fails [OF assms(1-3)] using assms(4)
    by (simp add: fail_connection_current del: fold.simps)
qed

theorem silent_peer_is_dropped_witness:
  "\<exists>s'. conn_run [1, 2] sample_connected (silent_round 0) = Some s' \<and> cn_conns s' (IpV4 1, 4242) = None
     \<and> Deliver 0 (Readiness False False 0) \<in> set (cn_log s')"
  using silent_peer_is_dropped [of 0 sample_connected 0 "(IpV4 1, 4242)" 0 "[1, 2]"]
  by (auto simp: sample_connected_def)

text \<open>
  C13. The loss of the peer takes the input back. When the connection that serves the client of a
  reservation fails, the clients change exactly as the service sees them change, and the notice that
  the capture passes on makes the service end the reservation: the input is local, the timer is off,
  and the clean-up of that reservation runs or waits for the release of the capture.
\<close>
theorem lost_peer_ends_reservation:
  assumes "services.reachable v" "room 1 v" "lease_context v = Some ctx"
    "sv_clients v = cn_clients s" "cn_conns s addr = Some conn"
  shows "\<exists>v'. service_run v (peer_lost env (gc_handle ctx)) = Some v' \<and> ended ctx v'
    \<and> sv_clients v' = cn_clients (fail_connection (gc_handle ctx) addr conn s)
    \<and> Deliver (gc_handle ctx) (Readiness False False 0) \<in> set (cn_log (fail_connection (gc_handle ctx) addr conn s))"
proof -
  have "sv_switch_controller v \<noteq> None"
    using services.reachable_inv [OF assms(1)] assms(3) by (auto simp: consistent_def served_def guarded_def)
  then obtain v' where "service_run v (peer_lost env (gc_handle ctx)) = Some v'" "ended ctx v'"
    "sv_clients v' = fold peer_update [SetActiveAddr (gc_handle ctx) None, SetAlive (gc_handle ctx) False,
       SetPeerCommit (gc_handle ctx) None, ClearPeerReadiness (gc_handle ctx)] (sv_clients v)"
    using peer_lost_ends [OF assms(3) _ assms(2)] by blast
  with assms(4) show ?thesis by (simp add: fail_connection_current [OF assms(5)])
qed

theorem lost_peer_ends_reservation_witness:
  "\<exists>v v'. service_run sample_service sample_reserve = Some v \<and> lease_context v = Some sample_context
     \<and> service_run v (peer_lost (sample_env 1000 0) 0) = Some v' \<and> ended sample_context v'"
proof -
  obtain v where v: "service_run sample_service sample_reserve = Some v" "services.reachable v" "lease_context v = Some sample_context"
    by (rule sample_reserve_reached)
  have "case service_run sample_service sample_reserve of Some s \<Rightarrow> room 1 s | None \<Rightarrow> False"
    by (simp add: sample_reserve_def sample_approach_def sample_service_def sample_steps Let_def call_def
        reset_switch_deadline_def room_def)
  with v(1) have "room 1 v" by simp
  from lost_peer_ends_reservation [OF v(2) this v(3), of "sample_connected\<lparr>cn_clients := sv_clients v\<rparr>" "(IpV4 1, 4242)" 0]
    v(1,3) show ?thesis by (auto simp: sample_connected_def sample_context_def)
qed

text \<open>
  C40. An old peer claims its client again: after the host name of a client has changed, which takes its
  address away so that the new host is dialed, the next answer of the old peer makes the old address
  the one in use although it is not among the addresses of the client, and the new host is not dialed.
\<close>
theorem old_peer_reclaims_client:
  assumes "cn_conns s addr = Some conn" "slab_get (cn_clients s) handle = Some (c, st)" "cc_hostname c \<noteq> hostname"
    "fst addr \<notin> set (cc_fix_ips c)" "ProtoEvent_try_from (overwrite buf data) = Ok (Pong b)"
    "s1 = s\<lparr>cn_clients := snd (cm_set_hostname handle hostname (cn_clients s))\<rparr>"
  shows "cm_active_addr (cn_clients s1) handle = None
    \<and> (\<exists>ts s2 ips. datagram_received handle addr conn buf latest (Some data) s1 = (ts, s2)
        \<and> cm_get_ips (cn_clients s2) handle = Some ips \<and> fst addr \<notin> ips
        \<and> cm_active_addr (cn_clients s2) handle = Some addr \<and> cm_alive (cn_clients s2) handle
        \<and> request_connection handle s2 = s2)"
  using assms
  by (simp add: cm_set_hostname_def cm_update_ips_def slab_get_modify datagram_received_def handle_message_def record_pong_def
      on_clients_def cm_set_alive_def cm_set_active_addr_def cm_active_addr_def cm_alive_def cm_get_ips_def request_connection_def)

theorem old_peer_reclaims_client_witness:
  "\<exists>ts s2. datagram_received 0 (IpV4 1, 4242) 0 (replicate MAX_EVENT_SIZE 0) None (Some [7, 1])
       (sample_connected\<lparr>cn_clients := snd (cm_set_hostname 0 (Some ''right'') (cn_clients sample_connected))\<rparr>) = (ts, s2)
     \<and> cm_active_addr (cn_clients s2) 0 = Some (IpV4 1, 4242) \<and> request_connection 0 s2 = s2"
proof -
  have pong: "ProtoEvent_try_from (overwrite (replicate MAX_EVENT_SIZE 0) [7, 1]) = Ok (Pong True)"
    by code_simp
  obtain c st where "cn_conns sample_connected (IpV4 1, 4242) = Some 0" "slab_get (cn_clients sample_connected) 0 = Some (c, st)"
      "cc_hostname c \<noteq> Some ''right''" "fst (IpV4 1, 4242 :: u16) \<notin> set (cc_fix_ips c)"
    by (simp add: sample_connected_def slab_get_def ClientConfig_default_def)
  from old_peer_reclaims_client [OF this pong refl] show ?thesis by blast
qed

end
