(* ===== verification/Spec2Isabelle.thy ===== *)
theory Spec2Isabelle
  imports Display_Coordinator_Props Switch_Props Scancode Input_Proto_Props Capture_Task_Props Clipboard_Frame_Props
    Clipboard_Coordinator_Props Clipboard_Actor_Props Emulation_Task_Props Listen_Task_Props Connect_Props
begin

text \<open>
  Verification of displaymux. One keyboard and one pointer serve several hosts that share a television.
  \<^verbatim>\<open>tv-multiview\<close> is the controller of the television: it switches the display to a host, checks that it
  arrived, and grants that host the input for the time of a lease. \<^verbatim>\<open>lan-mouse\<close> runs on every host: it
  captures the local input at the edge of the screen, asks the controller for a grant, sends the input
  to the peer that holds the grant, emulates the input that peers send, and hands the clipboard over.

  \<^bold>\<open>Shared theories.\<close> \<^verbatim>\<open>DM_Prelude\<close> has the machine integers of Rust as words with their saturating and
  checked operations, results that are a value, an error or a panic, and the contract \<^verbatim>\<open>guarded_system\<close>
  of a transition system with an invariant, which is interpreted on every stateful component below.
  \<^verbatim>\<open>Wire_Bytes\<close> has big-endian integers and the contract \<^verbatim>\<open>fixed_codec\<close>.

  \<^bold>\<open>Television controller\<close> (\<^verbatim>\<open>tv-multiview/src\<close>).
  \<^item> \<^verbatim>\<open>Domain\<close>: \<^verbatim>\<open>domain.rs\<close>, the state as a record with the fields of the source, the bounded history and
    the run-time check \<^const>\<open>validate\<close>.
  \<^item> \<^verbatim>\<open>Protocol\<close>: \<^verbatim>\<open>protocol.rs\<close>, one definition per event, dispatched by \<^const>\<open>apply_event\<close>.
  \<^item> \<^verbatim>\<open>Protocol_Inv\<close>, \<^verbatim>\<open>Protocol_Reach\<close>: the inductive invariant, kept by every event, and the
    interpretation of the transition system. \<^verbatim>\<open>Protocol_Evolve\<close>, \<^verbatim>\<open>Protocol_Grant\<close>, \<^verbatim>\<open>Protocol_Switch\<close>: what a
    transition may change, when a grant is issued, how a switch succeeds. \<^verbatim>\<open>Protocol_Demo\<close> is a concrete
    scenario. \<^verbatim>\<open>Protocol_Props\<close>, \<^verbatim>\<open>Protocol_Ops\<close>, \<^verbatim>\<open>Protocol_Time\<close> state that a remote owner always has a
    verified display, that ownership moves only by a commit of a live grant, that every loss falls back
    to the server, and what passing deadlines do.
  \<^item> \<^verbatim>\<open>Display_Coordinator\<close> and \<^verbatim>\<open>Display_Coordinator_Props\<close>: \<^verbatim>\<open>coordinator.rs\<close>, the loop around the
    protocol with its effect queues; it refines the protocol whatever the queues do.

  \<^bold>\<open>Switching the input\<close> (\<^verbatim>\<open>lan-mouse/src\<close>).
  \<^item> \<^verbatim>\<open>Switch_Gate\<close>, \<^verbatim>\<open>Switch_Client\<close>, \<^verbatim>\<open>Switch_Props\<close>: \<^verbatim>\<open>switch.rs\<close>, the double tap at the edge, the lease of
    the input bundle, and the client of the controller, which accepts only timely answers for its own
    request and translates deadlines conservatively.
  \<^item> \<^verbatim>\<open>Client_Manager\<close>: \<^verbatim>\<open>client.rs\<close> with the types of \<^verbatim>\<open>lan-mouse-ipc/src/lib.rs\<close>. \<^verbatim>\<open>Notifier\<close>:
    \<^verbatim>\<open>notification.rs\<close> and the texts of the errors of \<^verbatim>\<open>switch.rs\<close>.
  \<^item> \<^verbatim>\<open>Service_State\<close>, \<^verbatim>\<open>Service_Switch\<close>, \<^verbatim>\<open>Service\<close>: \<^verbatim>\<open>service.rs\<close>, the task in the middle. Its state is the
    record \<^typ>\<open>Service\<close>; every handler is a function on it; the calls it makes to the other parts are
    recorded in order; \<^const>\<open>service_step\<close> is one round of the loop of \<^verbatim>\<open>run\<close>.
  \<^item> \<^verbatim>\<open>Service_Inv\<close>, \<^verbatim>\<open>Service_Clients\<close>, \<^verbatim>\<open>Service_Loop\<close>: a reservation is always served by the background
    operation that its phase needs, it ends only with its clean-up, and the barriers are those of the
    clients. \<^verbatim>\<open>Service_Total\<close>: the expectations in the code hold. \<^verbatim>\<open>Service_Props\<close> states this for all runs,
    and that the crossing, the grant and the commit lead to a renewed lease.
  \<^item> \<^verbatim>\<open>Connect_Task\<close>, \<^verbatim>\<open>Connect_Inv\<close>, \<^verbatim>\<open>Connect_Props\<close>: \<^verbatim>\<open>connect.rs\<close>, the outgoing connections as tasks that
    run in any order; every connection is watched, a silent peer is dropped, and its loss ends the
    reservation in the service.

  \<^bold>\<open>Input.\<close>
  \<^item> \<^verbatim>\<open>Input_Event\<close>, \<^verbatim>\<open>Scancode\<close>: the types of \<^verbatim>\<open>input-event/src/lib.rs\<close> and the key codes of \<^verbatim>\<open>scancode.rs\<close>
    with their round trip. \<^verbatim>\<open>Input_Proto\<close>, \<^verbatim>\<open>Input_Proto_Props\<close>: the datagrams of
    \<^verbatim>\<open>lan-mouse-proto/src/lib.rs\<close>, a round trip that never panics.
  \<^item> \<^verbatim>\<open>Event_Queue\<close>, \<^verbatim>\<open>Input_Capture\<close>: the queue and the front end of \<^verbatim>\<open>input-capture/src\<close>; the contract
    \<^verbatim>\<open>coalescing_queue\<close> is interpreted on the queue, which loses no critical event and no wake-up.
  \<^item> \<^verbatim>\<open>Capture_Task\<close>, \<^verbatim>\<open>Capture_Task_Props\<close>: \<^verbatim>\<open>capture.rs\<close>; control of a peer needs a permit and the consent
    of the service, and a release gives the input back before anything is sent.
  \<^item> \<^verbatim>\<open>Input_Emulation\<close>, \<^verbatim>\<open>Emulation_Task\<close> and their properties: \<^verbatim>\<open>input-emulation/src/lib.rs\<close> and the
    worker of \<^verbatim>\<open>emulation.rs\<close>; nothing stays pressed behind a session.
  \<^item> \<^verbatim>\<open>Listen_Task\<close>, \<^verbatim>\<open>Listen_Task_Props\<close>: the other half of \<^verbatim>\<open>emulation.rs\<close> and the connections of
    \<^verbatim>\<open>listen.rs\<close>; a peer enters after the own capture was released for it.

  \<^bold>\<open>Clipboard\<close> (\<^verbatim>\<open>lan-mouse-clipboard/src\<close>).
  \<^item> \<^verbatim>\<open>Clipboard_Types\<close>, \<^verbatim>\<open>Clipboard_Frame\<close>, \<^verbatim>\<open>Clipboard_Frame_Props\<close>: \<^verbatim>\<open>types.rs\<close> and \<^verbatim>\<open>frame.rs\<close>; the reader
    accepts exactly what the writer produces. The contract \<^verbatim>\<open>wire_codec\<close> is interpreted on every field.
  \<^item> \<^verbatim>\<open>Clipboard_Coordinator\<close>, \<^verbatim>\<open>Clipboard_Actor\<close> and their properties: \<^verbatim>\<open>coordinator.rs\<close> and \<^verbatim>\<open>actor.rs\<close>; a
    handoff is published once, and the native clipboard is written only with what was prepared.

  \<^bold>\<open>Loops and bounds.\<close> No definition uses fuel. The dispatch of effects has a termination proof by a
  weight of the pending effects; the capture of the clipboard recurses over its fixed number of retries;
  the polling of the controller recurses over the rounds that happen, and is undecided only while
  rounds are left to come. Endless loops are step functions, and their runs are lists of inputs.
  Counters keep the width of the source; where a counter can be exhausted the hypothesis that it is not
  is part of the statement.

  \<^bold>\<open>Arguments instead of definitions.\<close> The hash of a clipboard payload, the keys that the slab hands out
  (\<^const>\<open>slab_keys\<close> states that they are vacant), the iteration order of hash sets, clocks, random numbers,
  channel capacities, the native backends and the outcomes of network operations are arguments.

  \<^bold>\<open>Not modelled.\<close> The native backends of capture, emulation and clipboard, because they are calls of
  windowing systems. The TLS and DTLS sessions, the HTTP routes and the WebSocket session with the
  television, because they are calls of libraries; what they deliver is input of the models above. The
  runtime of the clipboard (\<^verbatim>\<open>clipboard.rs\<close>, \<^verbatim>\<open>clipboard_transport.rs\<close>), whose coordinator, actor and frames
  are modelled, and which the service model sees as a list of calls. Configuration files, command
  lines, keys, name resolution, logging, graphical and textual front ends: pure input and output. Text
  forms for logs are left out unless a user sees them.
\<close>

end
